(* ===== verification/Prelude.thy ===== *)
theory Prelude
  imports Main "HOL-Library.Word" "HOL-Library.AList" "HOL-Library.Sublist" "HOL-Library.Multiset"
begin

text \<open>
  What every component of the development shares: the fact collections, Rust's \<open>str\<close> as a
  list of UTF-8 bytes, decimal formatting, \<open>HashMap\<close> as an association list, and the bounded
  histories the detectors keep.

  A Rust string is modelled by its UTF-8 bytes (\<open>string\<close> is a list of 8-bit characters), so
  \<open>len()\<close> and byte offsets are \<open>length\<close> and list positions, and a Rust \<open>char\<close> is the group of
  bytes that encodes it (\<open>chars\<close>). The two Unicode tables the program reaches through
  the standard library are modelled as far as the program can see them: \<open>char::is_whitespace\<close>
  in full, \<open>to_lowercase\<close> on ASCII and on the two other scalars whose lower case is ASCII
  (U+0130 and U+212A); every other scalar keeps its bytes, which no ASCII pattern can observe.
\<close>

section \<open>Fact collections\<close>

named_theorems rust_str \<open>evaluation rules for the string operations\<close>
named_theorems hm_simps \<open>lookup rules for hash maps\<close>
named_theorems hist_simps \<open>bounded histories\<close>

section \<open>Bytes and literals\<close>

definition nl :: string where
  "nl = [CHR 0x0A]"

definition dquote :: char where
  "dquote = CHR 0x22"

definition squote :: char where
  "squote = CHR 0x27"

definition backslash :: char where
  "backslash = CHR 0x5C"

definition backquote :: char where
  "backquote = CHR 0x60"

text \<open>A literal outside ASCII is written as the hexadecimal digits of its UTF-8 bytes.\<close>

fun nibble :: "char \<Rightarrow> bool \<times> bool \<times> bool \<times> bool" where
  "nibble c =
    (if c = CHR ''0'' then (False, False, False, False)
     else if c = CHR ''1'' then (True, False, False, False)
     else if c = CHR ''2'' then (False, True, False, False)
     else if c = CHR ''3'' then (True, True, False, False)
     else if c = CHR ''4'' then (False, False, True, False)
     else if c = CHR ''5'' then (True, False, True, False)
     else if c = CHR ''6'' then (False, True, True, False)
     else if c = CHR ''7'' then (True, True, True, False)
     else if c = CHR ''8'' then (False, False, False, True)
     else if c = CHR ''9'' then (True, False, False, True)
     else if c = CHR ''A'' then (False, True, False, True)
     else if c = CHR ''B'' then (True, True, False, True)
     else if c = CHR ''C'' then (False, False, True, True)
     else if c = CHR ''D'' then (True, False, True, True)
     else if c = CHR ''E'' then (False, True, True, True)
     else (True, True, True, True))"

fun utf8x :: "string \<Rightarrow> string" where
  "utf8x (h # l # s) =
    (case nibble h of (b4, b5, b6, b7) \<Rightarrow>
       case nibble l of (b0, b1, b2, b3) \<Rightarrow> Char b0 b1 b2 b3 b4 b5 b6 b7 # utf8x s)"
| "utf8x s = []"

section \<open>Characters of a string\<close>

fun is_cont :: "char \<Rightarrow> bool" where
  "is_cont (Char b0 b1 b2 b3 b4 b5 b6 b7) = (b7 \<and> \<not> b6)"

text \<open>\<open>str::chars\<close>: every byte that is not a continuation byte opens a new character.\<close>

function chars :: "string \<Rightarrow> string list" where
  "chars [] = []"
| "chars (b # bs) = (b # takeWhile is_cont bs) # chars (dropWhile is_cont bs)"
  by pat_completeness auto
termination
  by (relation "measure length") (auto simp: le_imp_less_Suc length_dropWhile_le)

definition char_count :: "string \<Rightarrow> nat" where
  "char_count s = length (chars s)"

text \<open>\<open>s.chars().take(n).collect()\<close>\<close>

definition take_chars :: "nat \<Rightarrow> string \<Rightarrow> string" where
  "take_chars n s = concat (take n (chars s))"

lemma concat_chars [simp]: "concat (chars s) = s"
  by (induction s rule: chars.induct) auto

lemma chars_eq_Nil [simp]: "chars s = [] \<longleftrightarrow> s = []"
  by (cases s) auto

lemma chars_nonempty: "g \<in> set (chars s) \<Longrightarrow> g \<noteq> []"
  by (induction s rule: chars.induct) auto

lemma chars_group_append:
  assumes "\<forall>c \<in> set g. is_cont c" and "r = [] \<or> \<not> is_cont (hd r)"
  shows "chars (b # g @ r) = (b # g) # chars r"
proof -
  have "takeWhile is_cont (g @ r) = g"
    using assms by (cases r) (auto simp: takeWhile_append)
  moreover have "dropWhile is_cont (g @ r) = r"
    using assms by (cases r) (auto simp: dropWhile_append)
  ultimately show ?thesis by simp
qed

lemma hd_chars_cont:
  assumes "r = [] \<or> \<not> is_cont (hd r)"
  shows "concat (take n (chars r)) = [] \<or> \<not> is_cont (hd (concat (take n (chars r))))"
  using assms by (cases r; cases n) auto

lemma chars_take_chars: "chars (take_chars n s) = take n (chars s)"
  unfolding take_chars_def
proof (induction s arbitrary: n rule: chars.induct)
  case 1
  then show ?case by simp
next
  case (2 b bs)
  show ?case
  proof (cases n)
    case 0
    then show ?thesis by simp
  next
    case (Suc k)
    let ?r = "concat (take k (chars (dropWhile is_cont bs)))"
    have "dropWhile is_cont bs = [] \<or> \<not> is_cont (hd (dropWhile is_cont bs))"
      using hd_dropWhile by blast
    then have "?r = [] \<or> \<not> is_cont (hd ?r)"
      by (rule hd_chars_cont)
    then have "chars (b # takeWhile is_cont bs @ ?r) = (b # takeWhile is_cont bs) # chars ?r"
      by (intro chars_group_append) (auto dest: set_takeWhileD)
    with Suc 2 show ?thesis by simp
  qed
qed

lemma char_count_take_chars [simp]: "char_count (take_chars n s) = min n (char_count s)"
  by (simp add: char_count_def chars_take_chars min.commute)

lemma take_chars_prefix: "prefix (take_chars n s) s"
proof -
  have "s = take_chars n s @ concat (drop n (chars s))"
    unfolding take_chars_def by (metis append_take_drop_id concat_append concat_chars)
  then show ?thesis by (rule prefixI)
qed

lemma take_chars_le: "char_count s \<le> n \<Longrightarrow> take_chars n s = s"
  by (simp add: take_chars_def char_count_def)

lemma length_take_chars: "length (take_chars n s) \<le> length s"
  by (rule prefix_length_le [OF take_chars_prefix])

lemma char_count_le_length: "char_count s \<le> length s"
  unfolding char_count_def
proof (induction s rule: chars.induct)
  case (2 b bs)
  have "length (dropWhile is_cont bs) \<le> length bs"
    by (rule length_dropWhile_le)
  with 2 show ?case by simp
qed simp

text \<open>\<open>char::is_whitespace\<close>, the Unicode White_Space property.\<close>

definition white_space :: "string list" where
  "white_space =
    [[CHR 0x09], [CHR 0x0A], [CHR 0x0B], [CHR 0x0C], [CHR 0x0D], [CHR 0x20],
     utf8x ''C285'', utf8x ''C2A0'', utf8x ''E19A80'',
     utf8x ''E28080'', utf8x ''E28081'', utf8x ''E28082'', utf8x ''E28083'', utf8x ''E28084'',
     utf8x ''E28085'', utf8x ''E28086'', utf8x ''E28087'', utf8x ''E28088'', utf8x ''E28089'',
     utf8x ''E2808A'', utf8x ''E280A8'', utf8x ''E280A9'', utf8x ''E280AF'', utf8x ''E2819F'',
     utf8x ''E38080'']"

definition is_ws :: "string \<Rightarrow> bool" where
  "is_ws g = (g \<in> set white_space)"

definition trim_start :: "string \<Rightarrow> string" where
  "trim_start s = concat (dropWhile is_ws (chars s))"

definition trim_end :: "string \<Rightarrow> string" where
  "trim_end s = concat (rev (dropWhile is_ws (rev (chars s))))"

definition trim :: "string \<Rightarrow> string" where
  "trim s = trim_end (trim_start s)"

lemma length_trim_start: "length (trim_start s) \<le> length s"
proof -
  have "s = concat (takeWhile is_ws (chars s)) @ trim_start s"
    unfolding trim_start_def by (metis concat_append concat_chars takeWhile_dropWhile_id)
  then have "length s = length (concat (takeWhile is_ws (chars s))) + length (trim_start s)"
    by (metis length_append)
  then show ?thesis by simp
qed

section \<open>Searching\<close>

text \<open>\<open>str::find\<close> returns the byte offset of the first occurrence.\<close>

fun str_find :: "string \<Rightarrow> string \<Rightarrow> nat option" where
  "str_find [] p = (if p = [] then Some 0 else None)"
| "str_find (c # s) p = (if prefix p (c # s) then Some 0 else map_option Suc (str_find s p))"

definition str_contains :: "string \<Rightarrow> string \<Rightarrow> bool" where
  "str_contains s p = (str_find s p \<noteq> None)"

definition starts_with :: "string \<Rightarrow> string \<Rightarrow> bool" where
  "starts_with s p = prefix p s"

definition ends_with :: "string \<Rightarrow> string \<Rightarrow> bool" where
  "ends_with s p = prefix (rev p) (rev s)"

definition strip_prefix :: "string \<Rightarrow> string \<Rightarrow> string option" where
  "strip_prefix s p = (if prefix p s then Some (drop (length p) s) else None)"

definition strip_suffix :: "string \<Rightarrow> string \<Rightarrow> string option" where
  "strip_suffix s p = (if ends_with s p then Some (take (length s - length p) s) else None)"

text \<open>\<open>str::split_once\<close> at an ASCII character.\<close>

definition split_once :: "string \<Rightarrow> char \<Rightarrow> (string \<times> string) option" where
  "split_once s c =
    (case str_find s [c] of None \<Rightarrow> None | Some i \<Rightarrow> Some (take i s, drop (Suc i) s))"

lemma str_find_Some:
  "str_find s p = Some i \<Longrightarrow> i + length p \<le> length s \<and> take (length p) (drop i s) = p"
proof (induction s p arbitrary: i rule: str_find.induct)
  case (2 c s p)
  show ?case
  proof (cases "prefix p (c # s)")
    case True
    with "2.prems" have "i = 0" by simp
    moreover obtain r where "c # s = p @ r" using True by (auto simp: prefix_def)
    ultimately show ?thesis by (simp add: prefix_length_le [OF True])
  next
    case False
    with "2.prems" obtain j where "str_find s p = Some j" "i = Suc j" by auto
    with 2 False show ?thesis by simp
  qed
qed (auto split: if_splits)

lemma str_find_lt:
  assumes "str_find s p = Some i" and "p \<noteq> []"
  shows "i < length s"
  using str_find_Some [OF assms(1)] assms(2) by (cases p) auto

lemma str_find_decomp:
  assumes "str_find s p = Some i"
  shows "s = take i s @ p @ drop (i + length p) s"
proof -
  have h: "i + length p \<le> length s" "take (length p) (drop i s) = p"
    using str_find_Some [OF assms] by auto
  have "drop i s = p @ drop (i + length p) s"
    by (metis add.commute append_take_drop_id drop_drop h(2))
  then show ?thesis by (metis append_take_drop_id)
qed

lemma str_find_sublist: "str_find s p \<noteq> None \<longleftrightarrow> (\<exists>u v. s = u @ p @ v)"
proof
  assume "str_find s p \<noteq> None"
  then show "\<exists>u v. s = u @ p @ v" using str_find_decomp by blast
next
  assume "\<exists>u v. s = u @ p @ v"
  then obtain u v where "s = u @ p @ v" by blast
  then show "str_find s p \<noteq> None"
  proof (induction u arbitrary: s)
    case Nil
    then have "prefix p s" by (simp add: prefix_def)
    then show ?case by (cases s) auto
  next
    case (Cons a u)
    then show ?case by auto
  qed
qed

lemma str_contains_iff: "str_contains s p \<longleftrightarrow> (\<exists>u v. s = u @ p @ v)"
  unfolding str_contains_def by (rule str_find_sublist)

lemma str_contains_append: "str_contains s p \<Longrightarrow> str_contains (u @ s @ v) p"
  unfolding str_contains_iff by (metis append.assoc)

lemma str_find_char_append: "str_find s [c] = None \<Longrightarrow> str_find (s @ c # r) [c] = Some (length s)"
  by (induction s) (auto simp: option.map_disc_iff split: if_splits)

lemma str_find_append: "str_find s p = Some i \<Longrightarrow> str_find (s @ t) p = Some i"
proof (induction s p arbitrary: i rule: str_find.induct)
  case (1 p)
  then show ?case by (cases t) (auto split: if_splits)
next
  case (2 c s p)
  show ?case
  proof (cases "prefix p (c # s)")
    case True
    then have "prefix p ((c # s) @ t)" by (meson prefix_order.trans prefixI)
    with True 2 show ?thesis by simp
  next
    case False
    then obtain j where j: "str_find s p = Some j" "i = Suc j" using 2 by auto
    then have "length p \<le> length (c # s)" using str_find_Some by fastforce
    with False have "\<not> prefix p ((c # s) @ t)"
      by (metis prefix_length_prefix prefixI)
    with False j 2 show ?thesis by simp
  qed
qed

text \<open>The search from an offset \<open>s[i..].find(p)\<close> is \<open>str_find (drop i s) p\<close>.\<close>

section \<open>Case, lines, joining\<close>

fun lower_byte :: "char \<Rightarrow> char" where
  "lower_byte (Char b0 b1 b2 b3 b4 b5 b6 b7) =
    (if \<not> b7 \<and> b6 \<and> \<not> b5 \<and> (b0 \<or> b1 \<or> b2 \<or> b3 \<or> b4) \<and> \<not> (b4 \<and> b3 \<and> (b2 \<or> b1 \<and> b0))
     then Char b0 b1 b2 b3 b4 True b6 b7
     else Char b0 b1 b2 b3 b4 b5 b6 b7)"

definition lower_char :: "string \<Rightarrow> string" where
  "lower_char g =
    (if g = utf8x ''C4B0'' then utf8x ''69CC87''
     else if g = utf8x ''E284AA'' then ''k''
     else map lower_byte g)"

definition to_lowercase :: "string \<Rightarrow> string" where
  "to_lowercase s = concat (map lower_char (chars s))"

definition eq_ignore_ascii_case :: "string \<Rightarrow> string \<Rightarrow> bool" where
  "eq_ignore_ascii_case a b = (map lower_byte a = map lower_byte b)"

fun join :: "string \<Rightarrow> string list \<Rightarrow> string" where
  "join sep [] = []"
| "join sep [x] = x"
| "join sep (x # y # xs) = x @ sep @ join sep (y # xs)"

text \<open>\<open>str::split\<close> at the characters that satisfy a predicate on bytes (ASCII separators).\<close>

fun split_where :: "(char \<Rightarrow> bool) \<Rightarrow> string \<Rightarrow> string list" where
  "split_where p [] = [[]]"
| "split_where p (c # s) =
    (if p c then [] # split_where p s
     else (case split_where p s of [] \<Rightarrow> [[c]] | w # ws \<Rightarrow> (c # w) # ws))"

text \<open>\<open>str::lines\<close>: the separator is a line feed, with one carriage return before it dropped;
  a last empty line is not yielded.\<close>

definition strip_cr :: "string \<Rightarrow> string" where
  "strip_cr l = (if l \<noteq> [] \<and> last l = CHR 0x0D then butlast l else l)"

definition str_lines :: "string \<Rightarrow> string list" where
  "str_lines s =
    (let ps = split_where (\<lambda>c. c = CHR 0x0A) s
     in map strip_cr (butlast ps) @ (if last ps = [] then [] else [last ps]))"

text \<open>\<open>str::split_whitespace\<close>: the nonempty groups between white space.\<close>

fun words_of :: "string \<Rightarrow> string list \<Rightarrow> string list" where
  "words_of cur [] = (if cur = [] then [] else [cur])"
| "words_of cur (g # gs) =
    (if is_ws g then (if cur = [] then words_of [] gs else cur # words_of [] gs) else words_of (cur @ g) gs)"

definition split_whitespace :: "string \<Rightarrow> string list" where
  "split_whitespace s = words_of [] (chars s)"

text \<open>\<open>str::trim_matches\<close> for a set of ASCII characters.\<close>

definition trim_start_set :: "char set \<Rightarrow> string \<Rightarrow> string" where
  "trim_start_set cs s = dropWhile (\<lambda>c. c \<in> cs) s"

definition trim_end_set :: "char set \<Rightarrow> string \<Rightarrow> string" where
  "trim_end_set cs s = rev (dropWhile (\<lambda>c. c \<in> cs) (rev s))"

definition trim_set :: "char set \<Rightarrow> string \<Rightarrow> string" where
  "trim_set cs s = trim_end_set cs (trim_start_set cs s)"

lemma trim_set_id:
  assumes "s \<noteq> []" and "hd s \<notin> cs" and "last s \<notin> cs"
  shows "trim_set cs s = s"
proof -
  have "trim_start_set cs s = s" using assms by (cases s) (simp_all add: trim_start_set_def)
  moreover have "dropWhile (\<lambda>c. c \<in> cs) (rev s) = rev s"
    using assms by (cases "rev s") (auto simp: hd_rev [symmetric])
  ultimately show ?thesis by (simp add: trim_set_def trim_end_set_def)
qed

lemma split_where_nonempty [simp]: "split_where p s \<noteq> []"
  by (cases s) (auto split: list.splits)

lemma split_where_none: "\<forall>c \<in> set s. \<not> p c \<Longrightarrow> split_where p s = [s]"
  by (induction s) auto

lemma split_where_clean: "w \<in> set (split_where p s) \<Longrightarrow> c \<in> set w \<Longrightarrow> \<not> p c"
proof (induction s arbitrary: w)
  case Nil
  then show ?case by simp
next
  case (Cons a s)
  obtain v vs where v: "split_where p s = v # vs"
    by (cases "split_where p s") auto
  with Cons.IH [of v] Cons.IH [of w] Cons.prems show ?case by (cases "p a") auto
qed

section \<open>Numbers as text\<close>

definition digit_char :: "nat \<Rightarrow> char" where
  "digit_char d = ''0123456789abcdef'' ! d"

fun show_nat :: "nat \<Rightarrow> string" where
  "show_nat n = (if n < 10 then [digit_char n] else show_nat (n div 10) @ [digit_char (n mod 10)])"

declare show_nat.simps [simp del]

definition show_int :: "int \<Rightarrow> string" where
  "show_int i = (if i < 0 then ''-'' @ show_nat (nat (- i)) else show_nat (nat i))"

text \<open>\<open>format!("{:x}")\<close>\<close>

fun show_hex :: "nat \<Rightarrow> string" where
  "show_hex n = (if n < 16 then [digit_char n] else show_hex (n div 16) @ [digit_char (n mod 16)])"

declare show_hex.simps [simp del]

lemma show_nat_nonempty [simp]: "show_nat n \<noteq> []"
  by (subst show_nat.simps) simp

text \<open>\<open>str::parse::<usize>\<close>: an optional plus sign, then decimal digits only, at most \<open>u64::MAX\<close>.\<close>

definition digit_val :: "char \<Rightarrow> nat option" where
  "digit_val c = (if c \<in> set ''0123456789'' then Some (of_char c - 48) else None)"

fun digits_val :: "nat \<Rightarrow> string \<Rightarrow> nat option" where
  "digits_val acc [] = Some acc"
| "digits_val acc (c # s) =
    (case digit_val c of None \<Rightarrow> None | Some d \<Rightarrow> digits_val (10 * acc + d) s)"

definition parse_usize :: "string \<Rightarrow> nat option" where
  "parse_usize s =
    (let ds = (if s \<noteq> [] \<and> hd s = CHR ''+'' then tl s else s)
     in if ds = [] then None
        else case digits_val 0 ds of None \<Rightarrow> None
             | Some n \<Rightarrow> if n < 2 ^ 64 then Some n else None)"

lemma digit_val_char: "d < 10 \<Longrightarrow> digit_val (digit_char d) = Some d"
proof -
  assume "d < 10"
  then have "d \<in> {0, 1, 2, 3, 4, 5, 6, 7, 8, 9}" by auto
  then show ?thesis by (auto simp: digit_val_def digit_char_def)
qed

lemma digits_val_append:
  "digits_val acc (s @ t) = (case digits_val acc s of None \<Rightarrow> None | Some n \<Rightarrow> digits_val n t)"
  by (induction acc s rule: digits_val.induct) (auto split: option.split)

lemma digits_val_show_nat: "digits_val 0 (show_nat n) = Some n"
proof (induction n rule: less_induct)
  case (less n)
  show ?case
  proof (cases "n < 10")
    case True
    then show ?thesis by (subst show_nat.simps) (simp add: digit_val_char)
  next
    case False
    have "digits_val 0 (show_nat n) = digits_val 0 (show_nat (n div 10) @ [digit_char (n mod 10)])"
      using False by (subst show_nat.simps) simp
    also have "\<dots> = Some n" using False less by (simp add: digits_val_append digit_val_char)
    finally show ?thesis .
  qed
qed

lemma parse_usize_show_nat: "parse_usize (show_nat n) = (if n < 2 ^ 64 then Some n else None)"
proof -
  have "hd (show_nat n) \<noteq> CHR ''+''"
  proof
    assume "hd (show_nat n) = CHR ''+''"
    then obtain s where "show_nat n = CHR ''+'' # s" by (cases "show_nat n") auto
    then show False using digits_val_show_nat [of n] by (simp add: digit_val_def)
  qed
  then show ?thesis by (simp add: parse_usize_def Let_def digits_val_show_nat)
qed

text \<open>\<open>str::parse::<i64>\<close>\<close>

definition parse_i64 :: "string \<Rightarrow> int option" where
  "parse_i64 s =
    (let neg = (s \<noteq> [] \<and> hd s = CHR ''-'');
         ds = (if s \<noteq> [] \<and> (hd s = CHR ''+'' \<or> hd s = CHR ''-'') then tl s else s)
     in if ds = [] then None
        else case digits_val 0 ds of None \<Rightarrow> None
             | Some n \<Rightarrow>
                 let v = (if neg then - int n else int n)
                 in if - (2 ^ 63) \<le> v \<and> v < 2 ^ 63 then Some v else None)"

text \<open>\<open>{:?}\<close> of a string: quoted, with the escapes of \<open>str::escape_debug\<close>; scalars outside ASCII
  count as printable.\<close>

definition debug_byte :: "char \<Rightarrow> string" where
  "debug_byte c =
    (if c = dquote then [backslash, dquote]
     else if c = backslash then [backslash, backslash]
     else if c = CHR 0x09 then [backslash, CHR ''t'']
     else if c = CHR 0x0A then [backslash, CHR ''n'']
     else if c = CHR 0x0D then [backslash, CHR ''r'']
     else if c = CHR 0x00 then [backslash, CHR ''0'']
     else if of_char c < (32 :: nat) \<or> of_char c = (127 :: nat)
       then [backslash] @ ''u{'' @ show_hex (of_char c) @ ''}''
     else [c])"

definition debug_str :: "string \<Rightarrow> string" where
  "debug_str s = [dquote] @ concat (map debug_byte s) @ [dquote]"

section \<open>Hash maps\<close>

text \<open>
  A \<open>HashMap\<close> is an association list with distinct keys. Where the code iterates over one, the
  order is an argument of the model (std leaves it unspecified).
\<close>

type_synonym ('k, 'v) hashmap = "('k \<times> 'v) list"

abbreviation hm_get :: "('k, 'v) hashmap \<Rightarrow> 'k \<Rightarrow> 'v option" where
  "hm_get m k \<equiv> map_of m k"

abbreviation hm_insert :: "'k \<Rightarrow> 'v \<Rightarrow> ('k, 'v) hashmap \<Rightarrow> ('k, 'v) hashmap" where
  "hm_insert k v m \<equiv> AList.update k v m"

abbreviation hm_remove :: "'k \<Rightarrow> ('k, 'v) hashmap \<Rightarrow> ('k, 'v) hashmap" where
  "hm_remove k m \<equiv> AList.delete k m"

definition hm_wf :: "('k, 'v) hashmap \<Rightarrow> bool" where
  "hm_wf m = distinct (map fst m)"

text \<open>\<open>*m.entry(k).or_insert(0) += 1\<close>\<close>

definition hm_bump :: "'k \<Rightarrow> ('k, nat) hashmap \<Rightarrow> ('k, nat) hashmap" where
  "hm_bump k m = hm_insert k (Suc (case hm_get m k of None \<Rightarrow> 0 | Some n \<Rightarrow> n)) m"

lemma hm_get_insert [hm_simps]: "hm_get (hm_insert k v m) k' = (if k' = k then Some v else hm_get m k')"
  by (auto simp: update_conv')

lemma hm_get_remove [hm_simps]: "hm_get (hm_remove k m) k' = (if k' = k then None else hm_get m k')"
  by (auto simp: delete_conv')

lemma hm_wf_Nil [simp]: "hm_wf []"
  by (simp add: hm_wf_def)

lemma hm_wf_insert [simp]: "hm_wf m \<Longrightarrow> hm_wf (hm_insert k v m)"
  by (simp add: hm_wf_def distinct_update)

lemma hm_wf_remove [simp]: "hm_wf m \<Longrightarrow> hm_wf (hm_remove k m)"
  by (simp add: hm_wf_def distinct_delete)

lemma hm_wf_bump [simp]: "hm_wf m \<Longrightarrow> hm_wf (hm_bump k m)"
  by (simp add: hm_bump_def)

lemma hm_get_bump [hm_simps]:
  "hm_get (hm_bump k m) k' =
    (if k' = k then Some (Suc (case hm_get m k of None \<Rightarrow> 0 | Some n \<Rightarrow> n)) else hm_get m k')"
  by (simp add: hm_bump_def hm_get_insert)

text \<open>Counting the elements of a list into a map.\<close>

definition hm_count :: "'k list \<Rightarrow> ('k, nat) hashmap" where
  "hm_count ks = fold hm_bump ks []"

lemma fold_hm_bump_get:
  "hm_get (fold hm_bump ks m) k =
    (if k \<in> set ks then Some (count_list ks k + (case hm_get m k of None \<Rightarrow> 0 | Some n \<Rightarrow> n))
     else hm_get m k)"
  by (induction ks arbitrary: m) (auto simp: hm_simps split: option.splits)

lemma hm_get_count: "hm_get (hm_count ks) k = (if k \<in> set ks then Some (count_list ks k) else None)"
  by (simp add: hm_count_def fold_hm_bump_get)

lemma hm_wf_fold_bump: "hm_wf m \<Longrightarrow> hm_wf (fold hm_bump ks m)"
  by (induction ks arbitrary: m) auto

lemma hm_wf_count [simp]: "hm_wf (hm_count ks)"
  by (simp add: hm_count_def hm_wf_fold_bump)

lemma hm_keys_count: "set (map fst (hm_count ks)) = set ks"
proof -
  have "k \<in> set (map fst (hm_count ks)) \<longleftrightarrow> k \<in> set ks" for k
    using hm_get_count [of ks k] map_of_eq_None_iff [of "hm_count ks" k] by (auto split: if_splits)
  then show ?thesis by blast
qed

lemma hm_len_count: "length (hm_count ks) = card (set ks)"
proof -
  have "length (hm_count ks) = length (map fst (hm_count ks))" by simp
  also have "\<dots> = card (set (map fst (hm_count ks)))"
    using hm_wf_count [of ks] unfolding hm_wf_def by (rule distinct_card [symmetric])
  finally show ?thesis by (simp only: hm_keys_count)
qed

lemma hm_entry_count: "(k, n) \<in> set (hm_count ks) \<longleftrightarrow> k \<in> set ks \<and> n = count_list ks k"
proof -
  have "(k, n) \<in> set (hm_count ks) \<longleftrightarrow> hm_get (hm_count ks) k = Some n"
    using hm_wf_count [of ks] unfolding hm_wf_def by (metis map_of_eq_Some_iff)
  then show ?thesis by (auto simp: hm_get_count)
qed

text \<open>An order in which a hash map may be iterated.\<close>

definition iter_order :: "(('k, 'v) hashmap \<Rightarrow> ('k, 'v) hashmap) \<Rightarrow> bool" where
  "iter_order ord = (\<forall>m. mset (ord m) = mset m)"

lemma iter_order_set: "iter_order ord \<Longrightarrow> set (ord m) = set m"
  unfolding iter_order_def by (metis set_mset_mset)

lemma iter_order_length: "iter_order ord \<Longrightarrow> length (ord m) = length m"
  unfolding iter_order_def by (metis size_mset)

section \<open>Bounded histories\<close>

text \<open>The last \<open>n\<close> elements of a list: \<open>&xs[xs.len() - n..]\<close>.\<close>

definition last_n :: "nat \<Rightarrow> 'a list \<Rightarrow> 'a list" where
  "last_n n xs = drop (length xs - n) xs"

text \<open>\<open>xs.push(x); if xs.len() > cap { xs.remove(0); }\<close>\<close>

definition push_evict :: "nat \<Rightarrow> 'a \<Rightarrow> 'a list \<Rightarrow> 'a list" where
  "push_evict cap x xs = (let ys = xs @ [x] in if cap < length ys then tl ys else ys)"

lemma length_last_n [hist_simps]: "length (last_n n xs) = min n (length xs)"
  by (simp add: last_n_def)

lemma last_n_all [hist_simps]: "length xs \<le> n \<Longrightarrow> last_n n xs = xs"
  by (simp add: last_n_def)

lemma last_n_snoc: "last_n (Suc n) (xs @ [x]) = last_n n xs @ [x]"
  by (simp add: last_n_def)

lemma set_last_n: "set (last_n n xs) \<subseteq> set xs"
  by (simp add: last_n_def set_drop_subset)

lemma length_push_evict:
  "length xs \<le> cap \<Longrightarrow> length (push_evict cap x xs) \<le> cap"
  by (simp add: push_evict_def Let_def)

lemma push_evict_last_n:
  "push_evict cap x (last_n cap xs) = last_n cap (xs @ [x])"
proof (cases "length xs < cap")
  case True
  then show ?thesis by (simp add: push_evict_def last_n_def)
next
  case False
  then have "tl (drop (length xs - cap) xs @ [x]) = drop (Suc (length xs) - cap) (xs @ [x])"
    by (cases "cap = 0") (auto simp: Suc_diff_le drop_Suc tl_drop tl_append2)
  with False show ?thesis by (simp add: push_evict_def last_n_def)
qed

lemma last_n_last_n: "last_n m (last_n n xs) = last_n (min m n) xs"
proof -
  have "length xs - (length xs - n + m) + (length xs - n) = length xs - min m n"
    by arith
  then show ?thesis by (simp add: last_n_def)
qed

lemma last_n_absorb: "last_n n (last_n n xs @ [x]) = last_n n (xs @ [x])"
proof (cases n)
  case 0
  then show ?thesis by (simp add: last_n_def)
next
  case (Suc m)
  then show ?thesis by (simp add: last_n_snoc last_n_last_n)
qed

lemma push_evict_eq: "length xs \<le> cap \<Longrightarrow> push_evict cap x xs = last_n cap (xs @ [x])"
  using push_evict_last_n [of cap x xs] by (simp add: last_n_all)

lemma last_n_map: "last_n n (map f xs) = map f (last_n n xs)"
  by (simp add: last_n_def drop_map)


text \<open>All elements of a slice equal its first: \<open>s.iter().all(|a| a == &s[0])\<close>.\<close>

definition all_same :: "'a list \<Rightarrow> bool" where
  "all_same xs = (case xs of [] \<Rightarrow> True | x # _ \<Rightarrow> \<forall>y \<in> set xs. y = x)"

lemma all_same_iff: "all_same xs \<longleftrightarrow> (\<forall>x \<in> set xs. \<forall>y \<in> set xs. x = y)"
  unfolding all_same_def by (cases xs) (auto, metis)

end
