(* ===== verification/Interfaces.thy ===== *)
theory Interfaces
  imports Prelude "HOL-Library.State_Monad"
begin

text \<open>
  The contracts that several components of the program share, as locales. The operations a client
  calls are the parameters, the laws its provider keeps are the assumptions; what follows from them
  is proved here once. Every locale is interpreted on the model's own operations in the theory of
  the component that provides them.
\<close>

section \<open>Failures counted per key\<close>

text \<open>
  The circuit breaker counts failures per tool, the stuck guard per file: a failure adds one to its
  key's count, a success forgets the key, other keys are untouched. The stamp \<open>'t\<close> is the time of
  the failure, which the circuit breaker records and the stuck guard ignores.
\<close>

datatype ('t, 'k) outcome_event = Failed 't 'k | Succeeded 'k

fun event_key :: "('t, 'k) outcome_event \<Rightarrow> 'k" where
  "event_key (Failed t k) = k"
| "event_key (Succeeded k) = k"

fun is_failed :: "('t, 'k) outcome_event \<Rightarrow> bool" where
  "is_failed (Failed t k) = True"
| "is_failed (Succeeded k) = False"

text \<open>The failures of a key since its last success.\<close>

definition streak :: "'k \<Rightarrow> ('t, 'k) outcome_event list \<Rightarrow> nat" where
  "streak k es = length (takeWhile is_failed (rev (filter (\<lambda>e. event_key e = k) es)))"

lemma streak_Nil [simp]: "streak k [] = 0"
  by (simp add: streak_def)

lemma streak_snoc_Failed: "streak k (es @ [Failed t k']) = (if k' = k then Suc (streak k es) else streak k es)"
  by (simp add: streak_def)

lemma streak_snoc_Succeeded: "streak k (es @ [Succeeded k']) = (if k' = k then 0 else streak k es)"
  by (simp add: streak_def)

fun apply_event :: "('t \<Rightarrow> 'k \<Rightarrow> 's \<Rightarrow> 's) \<Rightarrow> ('k \<Rightarrow> 's \<Rightarrow> 's) \<Rightarrow> ('t, 'k) outcome_event \<Rightarrow> 's \<Rightarrow> 's" where
  "apply_event fail ok (Failed t k) s = fail t k s"
| "apply_event fail ok (Succeeded k) s = ok k s"

definition run_events :: "('t \<Rightarrow> 'k \<Rightarrow> 's \<Rightarrow> 's) \<Rightarrow> ('k \<Rightarrow> 's \<Rightarrow> 's) \<Rightarrow> ('t, 'k) outcome_event list \<Rightarrow> 's \<Rightarrow> 's" where
  "run_events fail ok es s = fold (apply_event fail ok) es s"

lemma run_events_snoc: "run_events fail ok (es @ [e]) s = apply_event fail ok e (run_events fail ok es s)"
  by (simp add: run_events_def)

lemma run_events_Nil [simp]: "run_events fail ok [] s = s"
  by (simp add: run_events_def)

locale failure_counter =
  fixes fail :: "'t \<Rightarrow> 'k \<Rightarrow> 's \<Rightarrow> 's"
    and ok :: "'k \<Rightarrow> 's \<Rightarrow> 's"
    and count :: "'s \<Rightarrow> 'k \<Rightarrow> nat"
  assumes count_fail: "count (fail t k s) k' = (if k' = k then Suc (count s k') else count s k')"
    and count_ok: "count (ok k s) k' = (if k' = k then 0 else count s k')"
begin

lemma count_is_streak:
  assumes "\<And>k. count s k = 0"
  shows "count (run_events fail ok es s) k = streak k es"
proof (induction es arbitrary: k rule: rev_induct)
  case Nil
  then show ?case by (simp add: assms)
next
  case (snoc e es)
  then show ?case
    by (cases e) (auto simp: run_events_snoc count_fail count_ok streak_snoc_Failed streak_snoc_Succeeded)
qed

end

section \<open>Histories with a bound\<close>

text \<open>
  Trial summaries, the loop detector's windows and the token budget's recent outputs all append to
  a list and drop the oldest entries over a cap.
\<close>

locale bounded_history =
  fixes push :: "'a \<Rightarrow> 's \<Rightarrow> 's"
    and hist :: "'s \<Rightarrow> 'b list"
    and view :: "'a \<Rightarrow> 'b"
    and cap :: "'s \<Rightarrow> nat"
  assumes hist_push: "length (hist s) \<le> cap s \<Longrightarrow> hist (push x s) = last_n (cap s) (hist s @ [view x])"
    and cap_push: "cap (push x s) = cap s"
begin

lemma cap_fold: "cap (fold push xs s) = cap s"
  by (induction xs arbitrary: s) (auto simp: cap_push)

lemma hist_fold:
  assumes "hist s = []"
  shows "hist (fold push xs s) = last_n (cap s) (map view xs)"
proof (induction xs rule: rev_induct)
  case Nil
  then show ?case by (simp add: assms last_n_def)
next
  case (snoc x xs)
  let ?s = "fold push xs s"
  have len: "length (hist ?s) \<le> cap ?s"
    by (simp add: snoc cap_fold length_last_n)
  have "hist (push x ?s) = last_n (cap s) (last_n (cap s) (map view xs) @ [view x])"
    using hist_push [OF len, of x] by (simp add: snoc cap_fold)
  also have "\<dots> = last_n (cap s) (map view xs @ [view x])"
    by (rule last_n_absorb)
  finally show ?case by simp
qed

lemma hist_bounded: "hist s = [] \<Longrightarrow> length (hist (fold push xs s)) \<le> cap s"
  by (simp add: hist_fold length_last_n)

end

section \<open>Caches that forget\<close>

text \<open>
  A cache answers with the value last put under a key, until an invalidation the key belongs to. The
  tool results are cached per call and dropped per tool.
\<close>

datatype ('k, 'v, 't) cache_op = Put 'k 'v | Drop 't

fun cached_value :: "('t \<Rightarrow> 'k \<Rightarrow> bool) \<Rightarrow> ('k, 'v, 't) cache_op list \<Rightarrow> 'k \<Rightarrow> 'v option" where
  "cached_value belongs [] k = None"
| "cached_value belongs (Put k' v # older) k = (if k' = k then Some v else cached_value belongs older k)"
| "cached_value belongs (Drop t # older) k = (if belongs t k then None else cached_value belongs older k)"

fun apply_cache_op :: "('k \<Rightarrow> 'v \<Rightarrow> 'c \<Rightarrow> 'c) \<Rightarrow> ('t \<Rightarrow> 'c \<Rightarrow> 'c) \<Rightarrow> ('k, 'v, 't) cache_op \<Rightarrow> 'c \<Rightarrow> 'c" where
  "apply_cache_op put forget (Put k v) c = put k v c"
| "apply_cache_op put forget (Drop t) c = forget t c"

locale forgetting_cache =
  fixes lookup :: "'c \<Rightarrow> 'k \<Rightarrow> 'v option"
    and put :: "'k \<Rightarrow> 'v \<Rightarrow> 'c \<Rightarrow> 'c"
    and forget :: "'t \<Rightarrow> 'c \<Rightarrow> 'c"
    and belongs :: "'t \<Rightarrow> 'k \<Rightarrow> bool"
  assumes lookup_put: "lookup (put k v c) k' = (if k = k' then Some v else lookup c k')"
    and lookup_forget: "lookup (forget t c) k' = (if belongs t k' then None else lookup c k')"
begin

lemma lookup_run:
  assumes "\<And>k. lookup c k = None"
  shows "lookup (fold (apply_cache_op put forget) ops c) k = cached_value belongs (rev ops) k"
proof (induction ops arbitrary: k rule: rev_induct)
  case Nil
  then show ?case by (simp add: assms)
next
  case (snoc p ops)
  then show ?case by (cases p) (simp_all add: lookup_put lookup_forget)
qed

end

section \<open>Relations that every step keeps\<close>

text \<open>
  The agent is a state monad. A reflexive and transitive relation between the state before and the
  state after that holds for the primitive steps holds for everything composed of them.
\<close>

locale step_relation =
  fixes R :: "'s \<Rightarrow> 's \<Rightarrow> bool"
  assumes R_refl: "R s s"
    and R_trans: "R s t \<Longrightarrow> R t u \<Longrightarrow> R s u"
begin

lemma return_keeps: "state_io_rel R (State_Monad.return x)"
  by (simp add: state_io_rel_def R_refl)

lemma get_keeps: "state_io_rel R State_Monad.get"
  by (simp add: state_io_rel_def R_refl)

lemma bind_keeps:
  assumes "state_io_rel R m" and "\<And>x. state_io_rel R (f x)"
  shows "state_io_rel R (State_Monad.bind m f)"
  using assms by (auto simp: state_io_rel_def split: prod.split intro: R_trans)

text \<open>The rest of a step may rely on what is known of the result so far.\<close>

lemma bind_pred_keeps:
  assumes "state_io_rel R m" and "pred_state Q m" and "\<And>x. Q x \<Longrightarrow> state_io_rel R (f x)"
  shows "state_io_rel R (State_Monad.bind m f)"
proof -
  have "R s u" if "run_state m s = (x, t)" and "run_state (f x) t = (y, u)" for s t u x y
  proof -
    have "R s t" using assms(1) that(1) by (metis state_io_rel_def snd_conv)
    moreover have "Q x" using pred_state_run_state [OF assms(2), of s] that(1) by simp
    then have "state_io_rel R (f x)" by (rule assms(3))
    then have "R t u" using that(2) by (metis state_io_rel_def snd_conv)
    ultimately show ?thesis by (rule R_trans)
  qed
  then show ?thesis
    by (auto simp: state_io_rel_def split: prod.split) (metis prod.collapse)
qed

lemma traverse_keeps:
  assumes "\<And>x. state_io_rel R (f x)"
  shows "state_io_rel R (State_Monad.traverse_list f xs)"
  by (induction xs) (auto intro!: bind_keeps return_keeps assms)

lemma update_keeps:
  assumes "\<And>s. R s (f s)"
  shows "state_io_rel R (State_Monad.update f)"
  by (simp add: state_io_rel_def State_Monad.update_def assms)

lemma if_keeps:
  "(b \<Longrightarrow> state_io_rel R m) \<Longrightarrow> (\<not> b \<Longrightarrow> state_io_rel R n) \<Longrightarrow> state_io_rel R (if b then m else n)"
  by simp

lemma option_keeps:
  "(x = None \<Longrightarrow> state_io_rel R m) \<Longrightarrow> (\<And>y. x = Some y \<Longrightarrow> state_io_rel R (f y))
    \<Longrightarrow> state_io_rel R (case x of None \<Rightarrow> m | Some y \<Rightarrow> f y)"
  by (cases x) auto

lemma sum_keeps:
  "(\<And>a. x = Inl a \<Longrightarrow> state_io_rel R (f a)) \<Longrightarrow> (\<And>b. x = Inr b \<Longrightarrow> state_io_rel R (g b))
    \<Longrightarrow> state_io_rel R (case x of Inl a \<Rightarrow> f a | Inr b \<Rightarrow> g b)"
  by (cases x) auto

lemma prod_keeps:
  "(\<And>a b. x = (a, b) \<Longrightarrow> state_io_rel R (f a b)) \<Longrightarrow> state_io_rel R (case x of (a, b) \<Rightarrow> f a b)"
  by (cases x) auto

lemma let_keeps: "state_io_rel R (f x) \<Longrightarrow> state_io_rel R (Let x f)"
  by simp

lemmas keeps = return_keeps get_keeps bind_keeps traverse_keeps if_keeps option_keeps sum_keeps
  prod_keeps let_keeps

end

text \<open>A field that is a list and only grows, by elements that satisfy \<open>P\<close>.\<close>

definition grows :: "('s \<Rightarrow> 'a list) \<Rightarrow> ('a \<Rightarrow> bool) \<Rightarrow> 's \<Rightarrow> 's \<Rightarrow> bool" where
  "grows f P s t \<longleftrightarrow> (\<exists>xs. f t = f s @ xs \<and> list_all P xs)"

lemma grows_same: "f t = f s \<Longrightarrow> grows f P s t"
  by (simp add: grows_def)

lemma grows_one: "f t = f s @ [x] \<Longrightarrow> P x \<Longrightarrow> grows f P s t"
  by (simp add: grows_def)

lemma grows_weaken: "grows f P s t \<Longrightarrow> (\<And>x. P x \<Longrightarrow> Q x) \<Longrightarrow> grows f Q s t"
  unfolding grows_def by (blast intro: list.pred_mono_strong)

lemma grows_none: "grows f (\<lambda>_. False) s t \<longleftrightarrow> f t = f s"
  by (auto simp: grows_def list_all_iff)

end
