(* ===== verification/Std_Path.thy ===== *)
theory Std_Path
  imports Prelude
begin

text \<open>
  The part of \<open>std::path\<close> the program uses, on Unix: a path is compared and traversed by its
  components, so a path value is its list of components. \<open>path_components\<close> is
  \<open>Path::components\<close> of a path's text, \<open>path_push\<close> and \<open>path_pop\<close> are \<open>PathBuf::push\<close> and
  \<open>PathBuf::pop\<close> on component lists.
\<close>

datatype component = RootDir | CurDir | ParentDir | Normal string

definition slash :: "char \<Rightarrow> bool" where
  "slash c = (c = CHR ''/'')"

fun part_component :: "string \<Rightarrow> component list" where
  "part_component p =
    (if p = [] \<or> p = ''.'' then [] else if p = ''..'' then [ParentDir] else [Normal p])"

text \<open>Empty parts and inner dots vanish; a leading dot of a relative path stays.\<close>

definition path_components :: "string \<Rightarrow> component list" where
  "path_components s =
    (if s = [] then []
     else if hd s = CHR ''/'' then RootDir # concat (map part_component (split_where slash s))
     else (case split_where slash s of
             [] \<Rightarrow> []
           | p # ps \<Rightarrow> (if p = ''.'' then [CurDir] else part_component p)
                       @ concat (map part_component ps)))"

definition is_absolute :: "component list \<Rightarrow> bool" where
  "is_absolute p = (p \<noteq> [] \<and> hd p = RootDir)"

text \<open>\<open>Path::file_name\<close>: the last component if it is a normal one.\<close>

definition file_name :: "component list \<Rightarrow> string option" where
  "file_name p = (if p = [] then None else case last p of Normal n \<Rightarrow> Some n | _ \<Rightarrow> None)"

definition path_push :: "component list \<Rightarrow> component \<Rightarrow> component list" where
  "path_push p c = (if c = RootDir then [RootDir] else p @ [c])"

definition path_pop :: "component list \<Rightarrow> component list" where
  "path_pop p = (if p = [] \<or> last p = RootDir then p else butlast p)"

text \<open>\<open>Path::join\<close>: an absolute right operand replaces the left one; a leading \<open>.\<close> of a relative
  one is an inner dot of the result.\<close>

definition path_join :: "component list \<Rightarrow> component list \<Rightarrow> component list" where
  "path_join p q =
    (if is_absolute q then q
     else if p = [] then q
     else p @ (if q \<noteq> [] \<and> hd q = CurDir then tl q else q))"

definition path_starts_with :: "component list \<Rightarrow> component list \<Rightarrow> bool" where
  "path_starts_with p q = prefix q p"

lemma path_starts_with_refl [simp]: "path_starts_with p p"
  by (simp add: path_starts_with_def)

lemma path_starts_with_append: "path_starts_with (p @ q) p"
  by (simp add: path_starts_with_def)

end
