(* ===== verification/Error_Recovery.thy ===== *)
theory Error_Recovery
  imports Interfaces Messages Std_Path "HOL-Library.Char_ord" "HOL-Library.List_Lexorder"
begin

text \<open>
  \<open>src/agent/error_recovery.rs\<close>: the failure modes and the recovery chosen for them, the staged
  escalation of \<open>ContinueSite\<close>, the trial summary, the circuit breaker, the file stuck guard, the
  loop detector and the detector of alternating file edits.

  A mutable struct is a record and a method that takes \<open>&mut self\<close> returns the new record. The
  clock is an argument: a time is a number of nanoseconds. \<open>DefaultHasher\<close> and the JSON parser of
  \<open>serde_json\<close> are arguments (\<open>H\<close>, \<open>top_keys\<close>), and so is the order in which a hash map is
  iterated. \<open>StructuredFeedback\<close> is not modelled here.
\<close>

section \<open>Failure modes and recovery hints\<close>

datatype parse_error_detail = InvalidJson | MissingField string | UnexpectedFormat

datatype tool_error_detail =
    PermissionDenied
  | CommandNotFound
  | Timeout
  | InvalidArguments string
  | ExitCodeNonZero int
  | UnknownError string

datatype failure_mode =
    ParseError parse_error_detail
  | ToolExecError tool_error_detail
  | ReasoningError
  | LoopDetected
  | ContextOverflow
  | RateLimited
  | NetworkError
  | ServerDisconnect

record recovery_hint =
  retryable :: bool
  should_compress :: bool
  backoff_secs :: nat
  wait_and_retry :: bool

fun hint_for_failure :: "failure_mode \<Rightarrow> recovery_hint" where
  "hint_for_failure (ParseError _) =
     \<lparr>retryable = True, should_compress = False, backoff_secs = 0, wait_and_retry = False\<rparr>"
| "hint_for_failure (ToolExecError _) =
     \<lparr>retryable = True, should_compress = False, backoff_secs = 0, wait_and_retry = False\<rparr>"
| "hint_for_failure ReasoningError =
     \<lparr>retryable = True, should_compress = False, backoff_secs = 0, wait_and_retry = False\<rparr>"
| "hint_for_failure LoopDetected =
     \<lparr>retryable = False, should_compress = False, backoff_secs = 0, wait_and_retry = False\<rparr>"
| "hint_for_failure ContextOverflow =
     \<lparr>retryable = True, should_compress = True, backoff_secs = 0, wait_and_retry = False\<rparr>"
| "hint_for_failure RateLimited =
     \<lparr>retryable = True, should_compress = False, backoff_secs = 15, wait_and_retry = True\<rparr>"
| "hint_for_failure NetworkError =
     \<lparr>retryable = True, should_compress = False, backoff_secs = 5, wait_and_retry = True\<rparr>"
| "hint_for_failure ServerDisconnect =
     \<lparr>retryable = True, should_compress = False, backoff_secs = 10, wait_and_retry = True\<rparr>"

datatype recovery_action =
    RetryWithFix string
  | RetryWithTemperatureDelta
  | SuggestAlternative string
  | Abort string
  | ExplainAndStop string
  | Replan string

text \<open>The \<open>Debug\<close> rendering of a failure mode, as derived.\<close>

fun debug_parse_detail :: "parse_error_detail \<Rightarrow> string" where
  "debug_parse_detail InvalidJson = ''InvalidJson''"
| "debug_parse_detail (MissingField f) = ''MissingField('' @ debug_str f @ '')''"
| "debug_parse_detail UnexpectedFormat = ''UnexpectedFormat''"

fun debug_tool_detail :: "tool_error_detail \<Rightarrow> string" where
  "debug_tool_detail PermissionDenied = ''PermissionDenied''"
| "debug_tool_detail CommandNotFound = ''CommandNotFound''"
| "debug_tool_detail Timeout = ''Timeout''"
| "debug_tool_detail (InvalidArguments m) = ''InvalidArguments('' @ debug_str m @ '')''"
| "debug_tool_detail (ExitCodeNonZero c) = ''ExitCodeNonZero('' @ show_int c @ '')''"
| "debug_tool_detail (UnknownError m) = ''Unknown('' @ debug_str m @ '')''"

fun debug_failure_mode :: "failure_mode \<Rightarrow> string" where
  "debug_failure_mode (ParseError d) = ''ParseError('' @ debug_parse_detail d @ '')''"
| "debug_failure_mode (ToolExecError d) = ''ToolExecError('' @ debug_tool_detail d @ '')''"
| "debug_failure_mode ReasoningError = ''ReasoningError''"
| "debug_failure_mode LoopDetected = ''LoopDetected''"
| "debug_failure_mode ContextOverflow = ''ContextOverflow''"
| "debug_failure_mode RateLimited = ''RateLimited''"
| "debug_failure_mode NetworkError = ''NetworkError''"
| "debug_failure_mode ServerDisconnect = ''ServerDisconnect''"

section \<open>Choosing a recovery\<close>

fun recovery_of_mode :: "failure_mode \<Rightarrow> recovery_action" where
  "recovery_of_mode (ParseError InvalidJson) = RetryWithFix m_fix_json"
| "recovery_of_mode (ParseError (MissingField f)) = RetryWithFix (m_fix_field_1 @ f @ m_fix_field_2)"
| "recovery_of_mode (ParseError UnexpectedFormat) = RetryWithTemperatureDelta"
| "recovery_of_mode (ToolExecError PermissionDenied) = SuggestAlternative m_alt_permission"
| "recovery_of_mode (ToolExecError CommandNotFound) = SuggestAlternative m_alt_command"
| "recovery_of_mode (ToolExecError Timeout) = RetryWithFix m_fix_timeout"
| "recovery_of_mode (ToolExecError (InvalidArguments m)) =
     RetryWithFix (m_fix_args_1 @ m @ m_fix_args_2)"
| "recovery_of_mode (ToolExecError (ExitCodeNonZero c)) =
     RetryWithFix (m_fix_exit_1 @ show_int c @ m_fix_exit_2)"
| "recovery_of_mode (ToolExecError (UnknownError m)) =
     RetryWithFix (m_fix_unknown_1 @ m @ m_fix_unknown_2)"
| "recovery_of_mode ReasoningError = RetryWithTemperatureDelta"
| "recovery_of_mode LoopDetected = Abort m_loop_abort"
| "recovery_of_mode ContextOverflow = Replan m_replan_context"
| "recovery_of_mode RateLimited = RetryWithFix m_fix_rate"
| "recovery_of_mode NetworkError = RetryWithFix m_fix_network"
| "recovery_of_mode ServerDisconnect = RetryWithFix m_fix_server"

definition decide_recovery :: "failure_mode \<Rightarrow> nat \<Rightarrow> nat \<Rightarrow> recovery_action" where
  "decide_recovery mode attempt max_retries =
    (if mode = LoopDetected then Abort m_loop_abort
     else if attempt \<ge> max_retries then
       ExplainAndStop (show_nat max_retries @ m_retries_stop_1 @ debug_failure_mode mode)
     else recovery_of_mode mode)"

definition is_stop :: "recovery_action \<Rightarrow> bool" where
  "is_stop a = (case a of Abort _ \<Rightarrow> True | ExplainAndStop _ \<Rightarrow> True | _ \<Rightarrow> False)"

definition is_replan :: "recovery_action \<Rightarrow> bool" where
  "is_replan a = (case a of Replan _ \<Rightarrow> True | _ \<Rightarrow> False)"

lemma is_stop_simps [simp]:
  "is_stop (Abort m)" "is_stop (ExplainAndStop m)" "\<not> is_stop (RetryWithFix m)"
  "\<not> is_stop RetryWithTemperatureDelta" "\<not> is_stop (SuggestAlternative m)" "\<not> is_stop (Replan m)"
  by (simp_all add: is_stop_def)

lemma is_replan_simps [simp]:
  "is_replan (Replan m)" "\<not> is_replan (ExplainAndStop m)" "\<not> is_replan (RetryWithFix m)"
  "\<not> is_replan RetryWithTemperatureDelta" "\<not> is_replan (SuggestAlternative m)" "\<not> is_replan (Abort m)"
  by (simp_all add: is_replan_def)

lemma recovery_of_mode_stop: "is_stop (recovery_of_mode m) \<longleftrightarrow> m = LoopDetected"
  by (cases m rule: recovery_of_mode.cases) auto

lemma recovery_of_mode_replan: "is_replan (recovery_of_mode m) \<longleftrightarrow> m = ContextOverflow"
  by (cases m rule: recovery_of_mode.cases) auto

lemma decide_recovery_stops:
  "is_stop (decide_recovery m n k) \<longleftrightarrow> m = LoopDetected \<or> k \<le> n"
  by (simp add: decide_recovery_def recovery_of_mode_stop)

text \<open>The hints and the decision agree: retryable is "not stopped", compressing is "replan".\<close>

lemma hint_retryable_iff: "retryable (hint_for_failure m) \<longleftrightarrow> m \<noteq> LoopDetected"
  by (cases m) auto

lemma hint_compress_iff: "should_compress (hint_for_failure m) \<longleftrightarrow> m = ContextOverflow"
  by (cases m) auto

section \<open>Continue sites\<close>

definition max_consecutive_failures :: nat where
  "max_consecutive_failures = 3"

record continue_site =
  cs_consecutive_failures :: nat
  cs_last_failure_mode :: "failure_mode option"

definition cs_new :: continue_site where
  "cs_new = \<lparr>cs_consecutive_failures = 0, cs_last_failure_mode = None\<rparr>"

definition cs_record_success :: "continue_site \<Rightarrow> continue_site" where
  "cs_record_success c = c\<lparr>cs_consecutive_failures := 0, cs_last_failure_mode := None\<rparr>"

definition cs_record_failure :: "failure_mode \<Rightarrow> continue_site \<Rightarrow> continue_site" where
  "cs_record_failure m c =
    c\<lparr>cs_consecutive_failures := cs_consecutive_failures c + 1, cs_last_failure_mode := Some m\<rparr>"

definition decide_escalated_recovery :: "continue_site \<Rightarrow> nat \<Rightarrow> recovery_action" where
  "decide_escalated_recovery c max_retries =
    (let mode = (case cs_last_failure_mode c of None \<Rightarrow> ReasoningError | Some m \<Rightarrow> m);
         n = cs_consecutive_failures c
     in if n > max_consecutive_failures then
          ExplainAndStop (show_nat n @ m_escalated_stop_1 @ debug_failure_mode mode)
        else if n \<ge> max_consecutive_failures then Replan m_escalated_replan
        else decide_recovery mode (n - 1) max_retries)"

text \<open>The events of one continue site: \<open>Inl m\<close> is a failure in mode \<open>m\<close>, \<open>Inr ()\<close> a success.\<close>

fun cs_step :: "continue_site \<Rightarrow> failure_mode + unit \<Rightarrow> continue_site" where
  "cs_step c (Inl m) = cs_record_failure m c"
| "cs_step c (Inr u) = cs_record_success c"

definition cs_run :: "(failure_mode + unit) list \<Rightarrow> continue_site" where
  "cs_run es = foldl cs_step cs_new es"

definition failures_in_row :: "(failure_mode + unit) list \<Rightarrow> nat" where
  "failures_in_row es = length (takeWhile isl (rev es))"

lemma cs_run_snoc: "cs_run (es @ [e]) = cs_step (cs_run es) e"
  by (simp add: cs_run_def)

lemma cs_run_failures: "cs_consecutive_failures (cs_run es) = failures_in_row es"
proof (induction es rule: rev_induct)
  case Nil
  then show ?case by (simp add: cs_run_def cs_new_def failures_in_row_def)
next
  case (snoc e es)
  then show ?case
    by (cases e) (simp_all add: cs_run_snoc failures_in_row_def cs_record_failure_def cs_record_success_def)
qed

lemma cs_run_last_failure: "cs_last_failure_mode (cs_run (es @ [Inl m])) = Some m"
  by (simp add: cs_run_snoc cs_record_failure_def)

section \<open>Trial summary\<close>

record trial_entry =
  te_tool_name :: string
  te_args_summary :: string
  te_error_summary :: string
  te_timestamp :: nat

record trial_summary =
  ts_entries :: "trial_entry list"
  ts_max_entries :: nat

definition ts_new :: "nat \<Rightarrow> trial_summary" where
  "ts_new m = \<lparr>ts_entries = [], ts_max_entries = m\<rparr>"

definition ts_default :: trial_summary where
  "ts_default = ts_new 10"

text \<open>\<open>while self.entries.len() > self.max_entries { self.entries.remove(0); }\<close>\<close>

fun evict_front :: "nat \<Rightarrow> 'a list \<Rightarrow> 'a list" where
  "evict_front m [] = []"
| "evict_front m (x # xs) = (if m < length (x # xs) then evict_front m xs else x # xs)"

definition make_trial :: "string \<times> string \<times> string \<times> nat \<Rightarrow> trial_entry" where
  "make_trial t =
    (case t of (tool, args, err, it) \<Rightarrow>
      \<lparr>te_tool_name = tool, te_args_summary = take_chars 80 args,
       te_error_summary = take_chars 100 err, te_timestamp = it\<rparr>)"

definition ts_record_failure :: "string \<times> string \<times> string \<times> nat \<Rightarrow> trial_summary \<Rightarrow> trial_summary" where
  "ts_record_failure t s =
    s\<lparr>ts_entries := evict_front (ts_max_entries s) (ts_entries s @ [make_trial t])\<rparr>"

definition ts_line :: "nat \<Rightarrow> trial_entry \<Rightarrow> string" where
  "ts_line i e =
    show_nat (i + 1) @ ''. [iter '' @ show_nat (te_timestamp e) @ ''] '' @ te_tool_name e @ ''('' @
    te_args_summary e @ m_trials_arrow @ te_error_summary e"

definition format_for_replan :: "trial_summary \<Rightarrow> string" where
  "format_for_replan s =
    (if ts_entries s = [] then []
     else join nl (m_trials_head # map (\<lambda>(i, e). ts_line i e) (enumerate 0 (ts_entries s))))"

definition ts_clear :: "trial_summary \<Rightarrow> trial_summary" where
  "ts_clear s = s\<lparr>ts_entries := []\<rparr>"

lemma evict_front_last_n: "evict_front m xs = last_n m xs"
proof (induction m xs rule: evict_front.induct)
  case (1 m)
  then show ?case by (simp add: last_n_def)
next
  case (2 m x xs)
  then show ?case by (cases "m \<le> length xs") (simp_all add: last_n_def Suc_diff_le)
qed

interpretation trials: bounded_history ts_record_failure ts_entries make_trial ts_max_entries
  by unfold_locales (simp_all add: ts_record_failure_def evict_front_last_n)

section \<open>Environment failures\<close>

definition classify_environment_failure :: "string \<Rightarrow> failure_mode option" where
  "classify_environment_failure error_output =
    (let lower = to_lowercase error_output
     in if str_contains lower ''connection refused'' \<or> str_contains lower ''timeout''
           \<or> str_contains lower ''503'' \<or> str_contains lower ''502''
           \<or> str_contains lower ''server'' then Some ServerDisconnect
        else if str_contains lower ''network'' \<or> str_contains lower ''dns''
           \<or> str_contains lower ''econnreset'' then Some NetworkError
        else None)"

section \<open>Circuit breaker\<close>

record circuit_breaker =
  cb_failure_counts :: "(string, nat \<times> nat) hashmap"
  cb_threshold :: nat
  cb_cooldown :: nat

definition cb_new :: "nat \<Rightarrow> nat \<Rightarrow> circuit_breaker" where
  "cb_new t c = \<lparr>cb_failure_counts = [], cb_threshold = t, cb_cooldown = c\<rparr>"

text \<open>\<open>now\<close> is the clock reading; \<open>Instant::elapsed\<close> saturates at zero.\<close>

definition cb_is_available :: "nat \<Rightarrow> circuit_breaker \<Rightarrow> string \<Rightarrow> bool" where
  "cb_is_available now b tool =
    (case hm_get (cb_failure_counts b) tool of
       None \<Rightarrow> True
     | Some (failures, last_failure) \<Rightarrow>
         if failures \<ge> cb_threshold b then (if now - last_failure \<ge> cb_cooldown b then True else False)
         else True)"

definition cb_record_failure :: "nat \<Rightarrow> string \<Rightarrow> circuit_breaker \<Rightarrow> circuit_breaker" where
  "cb_record_failure now tool b =
    (let (failures, last_failure) =
       (case hm_get (cb_failure_counts b) tool of None \<Rightarrow> (0, now) | Some e \<Rightarrow> e)
     in b\<lparr>cb_failure_counts := hm_insert tool (failures + 1, now) (cb_failure_counts b)\<rparr>)"

definition cb_record_success :: "string \<Rightarrow> circuit_breaker \<Rightarrow> circuit_breaker" where
  "cb_record_success tool b = b\<lparr>cb_failure_counts := hm_remove tool (cb_failure_counts b)\<rparr>"

definition cb_failure_count :: "circuit_breaker \<Rightarrow> string \<Rightarrow> nat" where
  "cb_failure_count b tool =
    (case hm_get (cb_failure_counts b) tool of None \<Rightarrow> 0 | Some (c, t) \<Rightarrow> c)"

definition cb_default :: circuit_breaker where
  "cb_default = cb_new 5 (300 * 10 ^ 9)"

interpretation breaker: failure_counter cb_record_failure cb_record_success cb_failure_count
  by unfold_locales
    (auto simp: cb_record_failure_def cb_record_success_def cb_failure_count_def hm_simps
      split: option.splits prod.splits)

lemma cb_threshold_run: "cb_threshold (run_events cb_record_failure cb_record_success es b) = cb_threshold b"
proof (induction es rule: rev_induct)
  case (snoc e es)
  then show ?case
    by (cases e) (simp_all add: run_events_snoc cb_record_failure_def cb_record_success_def split: prod.splits option.splits)
qed simp

lemma cb_cooldown_run: "cb_cooldown (run_events cb_record_failure cb_record_success es b) = cb_cooldown b"
proof (induction es rule: rev_induct)
  case (snoc e es)
  then show ?case
    by (cases e) (simp_all add: run_events_snoc cb_record_failure_def cb_record_success_def split: prod.splits option.splits)
qed simp

text \<open>The time of the last failure of a tool in a run.\<close>

definition last_failure_time :: "string \<Rightarrow> (nat, string) outcome_event list \<Rightarrow> nat option" where
  "last_failure_time tool es =
    (case rev (filter (\<lambda>e. event_key e = tool) es) of
       Failed t k # _ \<Rightarrow> Some t | _ \<Rightarrow> None)"

lemma last_failure_time_snoc:
  "last_failure_time k (es @ [Failed t k']) = (if k' = k then Some t else last_failure_time k es)"
  "last_failure_time k (es @ [Succeeded k']) = (if k' = k then None else last_failure_time k es)"
  by (simp_all add: last_failure_time_def)

lemma last_failure_time_None: "last_failure_time k es = None \<Longrightarrow> streak k es = 0"
  by (auto simp: last_failure_time_def streak_def split: list.splits outcome_event.splits)

lemma cb_entry_record_failure:
  "hm_get (cb_failure_counts (cb_record_failure t k b)) tool =
    (if tool = k then Some (Suc (cb_failure_count b k), t) else hm_get (cb_failure_counts b) tool)"
  by (auto simp: cb_record_failure_def cb_failure_count_def hm_simps split: option.splits prod.splits)

lemma cb_entry_record_success:
  "hm_get (cb_failure_counts (cb_record_success k b)) tool =
    (if tool = k then None else hm_get (cb_failure_counts b) tool)"
  by (simp add: cb_record_success_def hm_simps)

lemma cb_failure_count_run:
  "cb_failure_count (run_events cb_record_failure cb_record_success es (cb_new th cd)) tool = streak tool es"
  by (rule breaker.count_is_streak) (simp add: cb_failure_count_def cb_new_def)

lemma cb_entry_run:
  "hm_get (cb_failure_counts (run_events cb_record_failure cb_record_success es (cb_new th cd))) tool =
    map_option (\<lambda>t. (streak tool es, t)) (last_failure_time tool es)"
proof (induction es arbitrary: tool rule: rev_induct)
  case Nil
  then show ?case by (simp add: last_failure_time_def cb_new_def)
next
  case (snoc e es)
  then show ?case
    by (cases e)
      (simp_all add: run_events_snoc cb_entry_record_failure cb_entry_record_success
        cb_failure_count_run last_failure_time_snoc streak_snoc_Failed streak_snoc_Succeeded)
qed

section \<open>File stuck guard\<close>

record file_stuck_guard =
  fg_failure_counts :: "(string, nat) hashmap"
  fg_nudge_threshold :: nat
  fg_give_up_threshold :: nat

datatype file_stuck_action = Nudge string | GiveUp string

definition fg_new :: "nat \<Rightarrow> nat \<Rightarrow> file_stuck_guard" where
  "fg_new nudge give_up =
    \<lparr>fg_failure_counts = [], fg_nudge_threshold = nudge, fg_give_up_threshold = give_up\<rparr>"

definition fg_record_file_failure :: "string \<Rightarrow> file_stuck_guard \<Rightarrow> file_stuck_guard" where
  "fg_record_file_failure path g = g\<lparr>fg_failure_counts := hm_bump path (fg_failure_counts g)\<rparr>"

definition fg_record_file_success :: "string \<Rightarrow> file_stuck_guard \<Rightarrow> file_stuck_guard" where
  "fg_record_file_success path g = g\<lparr>fg_failure_counts := hm_remove path (fg_failure_counts g)\<rparr>"

definition fg_count :: "file_stuck_guard \<Rightarrow> string \<Rightarrow> nat" where
  "fg_count g path = (case hm_get (fg_failure_counts g) path of None \<Rightarrow> 0 | Some n \<Rightarrow> n)"

definition fg_check_stuck :: "file_stuck_guard \<Rightarrow> string \<Rightarrow> file_stuck_action option" where
  "fg_check_stuck g path =
    (let n = fg_count g path
     in if n \<ge> fg_give_up_threshold g then
          Some (GiveUp (m_stuck_1 @ path @ m_give_up_2 @ show_nat n @ m_give_up_3))
        else if n \<ge> fg_nudge_threshold g then
          Some (Nudge (m_stuck_1 @ path @ m_give_up_2 @ show_nat n @ m_nudge_3))
        else None)"

definition fg_tracked_files :: "file_stuck_guard \<Rightarrow> nat" where
  "fg_tracked_files g = length (fg_failure_counts g)"

definition fg_default :: file_stuck_guard where
  "fg_default = fg_new 3 6"

definition fg_fail :: "unit \<Rightarrow> string \<Rightarrow> file_stuck_guard \<Rightarrow> file_stuck_guard" where
  "fg_fail u path g = fg_record_file_failure path g"

interpretation stuck: failure_counter fg_fail fg_record_file_success fg_count
  by unfold_locales
    (auto simp: fg_fail_def fg_record_file_failure_def fg_record_file_success_def fg_count_def hm_simps
      split: option.splits)

lemma fg_thresholds_run:
  "fg_nudge_threshold (run_events fg_fail fg_record_file_success es g) = fg_nudge_threshold g"
  "fg_give_up_threshold (run_events fg_fail fg_record_file_success es g) = fg_give_up_threshold g"
proof (induction es rule: rev_induct)
  case (snoc e es)
  case 1
  show ?case using snoc
    by (cases e) (simp_all add: run_events_snoc fg_fail_def fg_record_file_failure_def fg_record_file_success_def)
  case 2
  show ?case using snoc
    by (cases e) (simp_all add: run_events_snoc fg_fail_def fg_record_file_failure_def fg_record_file_success_def)
qed simp_all

section \<open>Loop detector\<close>

text \<open>
  \<open>top_keys args\<close> is what \<open>serde_json::from_str\<close> makes of the arguments: the keys of the object,
  or \<open>None\<close> for a text that is no JSON or a value that is no object.
\<close>

type_synonym key_parser = "string \<Rightarrow> string list option"
type_synonym hasher = "string \<Rightarrow> 64 word"

definition salient_form :: "key_parser \<Rightarrow> string \<Rightarrow> string" where
  "salient_form top_keys action =
    (case split_once action (CHR '':'') of
       Some (tool, args) \<Rightarrow>
         (case top_keys args of
            Some keys \<Rightarrow> tool @ '':'' @ join '','' (sort keys)
          | None \<Rightarrow> tool)
     | None \<Rightarrow> action)"

definition salient_hash :: "hasher \<Rightarrow> key_parser \<Rightarrow> string \<Rightarrow> 64 word" where
  "salient_hash H top_keys action = H (salient_form top_keys action)"

record loop_detector =
  ld_recent_actions :: "string list"
  ld_recent_hashes :: "64 word list"
  ld_action_frequency :: "(64 word, nat) hashmap"
  ld_max_history :: nat
  ld_repeat_threshold :: nat
  ld_frequency_threshold :: nat

definition ld_new :: "nat \<Rightarrow> nat \<Rightarrow> loop_detector" where
  "ld_new max_history repeat_threshold =
    \<lparr>ld_recent_actions = [], ld_recent_hashes = [], ld_action_frequency = [],
     ld_max_history = max_history, ld_repeat_threshold = repeat_threshold,
     ld_frequency_threshold = 30\<rparr>"

definition ld_with_frequency_threshold :: "nat \<Rightarrow> loop_detector \<Rightarrow> loop_detector" where
  "ld_with_frequency_threshold t d = d\<lparr>ld_frequency_threshold := t\<rparr>"

definition detect_cycle :: "64 word list \<Rightarrow> bool" where
  "detect_cycle hs =
    (let n = length hs
     in if n < 4 then False
        else (let last4 = drop (n - 4) hs
              in last4 ! 0 = last4 ! 2 \<and> last4 ! 1 = last4 ! 3 \<and> last4 ! 0 \<noteq> last4 ! 1))"

definition ld_record_and_check ::
    "hasher \<Rightarrow> key_parser \<Rightarrow> string \<Rightarrow> loop_detector \<Rightarrow> loop_detector \<times> bool" where
  "ld_record_and_check H top_keys action d =
    (let actions = push_evict (ld_max_history d) action (ld_recent_actions d);
         h = salient_hash H top_keys action;
         hashes = push_evict (ld_max_history d) h (ld_recent_hashes d);
         frequency = hm_bump h (ld_action_frequency d);
         freq_count = (case hm_get frequency h of None \<Rightarrow> 0 | Some n \<Rightarrow> n);
         d' = d\<lparr>ld_recent_actions := actions, ld_recent_hashes := hashes,
                ld_action_frequency := frequency\<rparr>;
         r = ld_repeat_threshold d
     in (d',
         if length actions \<ge> r \<and> all_same (drop (length actions - r) actions) then True
         else if length hashes \<ge> r \<and> all_same (drop (length hashes - r) hashes) then True
         else if detect_cycle hashes then True
         else if freq_count \<ge> ld_frequency_threshold d then True
         else False))"

definition ld_reset :: "loop_detector \<Rightarrow> loop_detector" where
  "ld_reset d = d\<lparr>ld_recent_actions := [], ld_recent_hashes := [], ld_action_frequency := []\<rparr>"

definition ld_default :: loop_detector where
  "ld_default = ld_new 10 3"

subsection \<open>What the detector decides\<close>

text \<open>
  The abstract detector sees the whole history of salient hashes since the last reset: a loop is
  the last \<open>r\<close> hashes equal, the pattern a b a b at the end, both inside the last \<open>m\<close> entries,
  or \<open>f\<close> occurrences of the newest hash in the whole history.
\<close>

definition loop_spec :: "nat \<Rightarrow> nat \<Rightarrow> nat \<Rightarrow> 64 word list \<Rightarrow> bool" where
  "loop_spec m r f hs \<longleftrightarrow>
    (r \<le> min m (length hs) \<and> all_same (last_n r hs))
    \<or> (4 \<le> m \<and> (\<exists>us a b. hs = us @ [a, b, a, b] \<and> a \<noteq> b))
    \<or> f \<le> count_list hs (last hs)"

definition ld_rel :: "hasher \<Rightarrow> key_parser \<Rightarrow> nat \<Rightarrow> nat \<Rightarrow> nat \<Rightarrow> string list \<Rightarrow> loop_detector \<Rightarrow> bool" where
  "ld_rel H tk m r f hist d \<longleftrightarrow>
    ld_max_history d = m \<and> ld_repeat_threshold d = r \<and> ld_frequency_threshold d = f
    \<and> ld_recent_actions d = last_n m hist
    \<and> ld_recent_hashes d = last_n m (map (salient_hash H tk) hist)
    \<and> (\<forall>h. (case hm_get (ld_action_frequency d) h of None \<Rightarrow> 0 | Some n \<Rightarrow> n)
            = count_list (map (salient_hash H tk) hist) h)"

definition ld_run :: "hasher \<Rightarrow> key_parser \<Rightarrow> string list \<Rightarrow> loop_detector \<Rightarrow> loop_detector" where
  "ld_run H tk actions d = foldl (\<lambda>d a. fst (ld_record_and_check H tk a d)) d actions"

lemma ld_rel_new: "ld_rel H tk m r f [] (ld_with_frequency_threshold f (ld_new m r))"
  by (simp add: ld_rel_def ld_with_frequency_threshold_def ld_new_def last_n_def)

lemma push_evict_rel: "xs = last_n m ys \<Longrightarrow> push_evict m x xs = last_n m (ys @ [x])"
  by (simp add: push_evict_last_n)

lemma ld_rel_step:
  assumes "ld_rel H tk m r f hist d"
  shows "ld_rel H tk m r f (hist @ [a]) (fst (ld_record_and_check H tk a d))"
  using assms
  by (simp add: ld_rel_def ld_record_and_check_def Let_def push_evict_last_n hm_simps)

lemma list_of_four:
  assumes "length xs = 4"
  obtains a b c e where "xs = [a, b, c, e]"
  using assms by (auto simp: numeral_eq_Suc length_Suc_conv)

lemma detect_cycle_iff:
  "detect_cycle hs \<longleftrightarrow> (\<exists>us a b. hs = us @ [a, b, a, b] \<and> a \<noteq> b)"
proof (cases "length hs < 4")
  case True
  then show ?thesis by (auto simp: detect_cycle_def)
next
  case False
  then have "length (drop (length hs - 4) hs) = 4" by simp
  then obtain a b c e where four: "drop (length hs - 4) hs = [a, b, c, e]"
    by (rule list_of_four)
  have split: "hs = take (length hs - 4) hs @ [a, b, c, e]"
    using append_take_drop_id [of "length hs - 4" hs] four by simp
  have "detect_cycle hs \<longleftrightarrow> a = c \<and> b = e \<and> a \<noteq> b"
    using False by (simp add: detect_cycle_def four)
  also have "\<dots> \<longleftrightarrow> (\<exists>us a b. hs = us @ [a, b, a, b] \<and> a \<noteq> b)"
  proof
    assume "a = c \<and> b = e \<and> a \<noteq> b"
    with split show "\<exists>us a b. hs = us @ [a, b, a, b] \<and> a \<noteq> b" by metis
  next
    assume "\<exists>us a b. hs = us @ [a, b, a, b] \<and> a \<noteq> b"
    then obtain us x y where "hs = us @ [x, y, x, y]" and "x \<noteq> y" by blast
    with four show "a = c \<and> b = e \<and> a \<noteq> b" by auto
  qed
  finally show ?thesis .
qed

lemma detect_cycle_last_n:
  "detect_cycle (last_n m hs) \<longleftrightarrow> 4 \<le> m \<and> (\<exists>us a b. hs = us @ [a, b, a, b] \<and> a \<noteq> b)"
proof -
  have "drop (length (last_n m hs) - 4) (last_n m hs) = last_n 4 (last_n m hs)"
    by (simp add: last_n_def)
  then have same: "4 \<le> m \<Longrightarrow> drop (length (last_n m hs) - 4) (last_n m hs) = drop (length hs - 4) hs"
    by (simp add: last_n_last_n min_def) (simp add: last_n_def)
  have "detect_cycle (last_n m hs) \<longleftrightarrow> 4 \<le> m \<and> detect_cycle hs"
  proof (cases "4 \<le> m")
    case True
    have "length (last_n m hs) < 4 \<longleftrightarrow> length hs < 4"
      using True by (auto simp: length_last_n)
    with True show ?thesis by (simp only: detect_cycle_def Let_def same simp_thms)
  next
    case False
    then have "length (last_n m hs) < 4" by (simp add: length_last_n)
    with False show ?thesis by (simp add: detect_cycle_def)
  qed
  then show ?thesis by (simp only: detect_cycle_iff)
qed

lemma all_same_map: "all_same xs \<Longrightarrow> all_same (map f xs)"
  by (force simp: all_same_iff)

lemma ld_check_spec:
  assumes rel: "ld_rel H tk m r f hist d"
  shows "snd (ld_record_and_check H tk a d)
    \<longleftrightarrow> loop_spec m r f (map (salient_hash H tk) (hist @ [a]))"
proof -
  let ?h = "salient_hash H tk"
  let ?as = "last_n m (hist @ [a])"
  let ?hs = "last_n m (map ?h (hist @ [a]))"
  have as: "push_evict m a (ld_recent_actions d) = ?as"
    and hs: "push_evict m (?h a) (ld_recent_hashes d) = ?hs"
    using rel by (simp_all add: ld_rel_def push_evict_last_n)
  have params: "ld_max_history d = m" "ld_repeat_threshold d = r" "ld_frequency_threshold d = f"
    using rel by (simp_all add: ld_rel_def)
  have freq: "(case hm_get (hm_bump (?h a) (ld_action_frequency d)) (?h a) of None \<Rightarrow> 0 | Some n \<Rightarrow> n)
      = count_list (map ?h (hist @ [a])) (?h a)"
    using rel by (simp add: ld_rel_def hm_simps)
  have len: "length ?hs = length ?as" by (simp add: length_last_n)
  have drop_as: "drop (length ?as - r) ?as = last_n r ?as"
    and drop_hs: "drop (length ?hs - r) ?hs = last_n r ?hs"
    by (simp_all add: last_n_def)
  have image: "last_n r ?hs = map ?h (last_n r ?as)"
    by (simp only: last_n_map)
  have layer1: "all_same (last_n r ?as) \<Longrightarrow> all_same (last_n r ?hs)"
    unfolding image by (rule all_same_map)
  have rep: "r \<le> length ?hs \<and> all_same (last_n r ?hs)
      \<longleftrightarrow> r \<le> min m (length (hist @ [a])) \<and> all_same (last_n r (map ?h (hist @ [a])))"
    by (auto simp: length_last_n last_n_last_n min_def)
  have "snd (ld_record_and_check H tk a d) \<longleftrightarrow>
      (r \<le> length ?hs \<and> all_same (last_n r ?hs)) \<or> detect_cycle ?hs
      \<or> f \<le> count_list (map ?h (hist @ [a])) (?h a)"
    unfolding ld_record_and_check_def Let_def params as hs freq drop_as drop_hs snd_conv
    using layer1 len by auto
  then show ?thesis
    unfolding loop_spec_def rep detect_cycle_last_n by simp
qed

lemma ld_run_snoc: "ld_run H tk (as @ [a]) d = fst (ld_record_and_check H tk a (ld_run H tk as d))"
  by (simp add: ld_run_def)

lemma ld_run_rel: "ld_rel H tk m r f as (ld_run H tk as (ld_with_frequency_threshold f (ld_new m r)))"
proof (induction as rule: rev_induct)
  case Nil
  then show ?case using ld_rel_new by (simp add: ld_run_def)
next
  case (snoc a as)
  then show ?case by (simp add: ld_run_snoc ld_rel_step)
qed

section \<open>Alternating file edits\<close>

record edit_cycle_detector =
  ec_recent_paths :: "string list"
  ec_window :: nat
  ec_min_files :: nat
  ec_max_files :: nat
  ec_nudge_fire_count :: nat

definition ec_new :: "nat \<Rightarrow> edit_cycle_detector" where
  "ec_new window =
    \<lparr>ec_recent_paths = [], ec_window = window, ec_min_files = 2, ec_max_files = 3,
     ec_nudge_fire_count = 0\<rparr>"

definition short_name :: "string \<Rightarrow> string" where
  "short_name p = (case file_name (path_components p) of Some n \<Rightarrow> n | None \<Rightarrow> p)"

text \<open>\<open>ord\<close> is the order in which the map of counts is iterated for the names in the message.\<close>

definition ec_record_and_check ::
    "((string, nat) hashmap \<Rightarrow> (string, nat) hashmap) \<Rightarrow> string \<Rightarrow> edit_cycle_detector
     \<Rightarrow> edit_cycle_detector \<times> string option" where
  "ec_record_and_check ord path d =
    (let paths = push_evict (ec_window d) path (ec_recent_paths d);
         d1 = d\<lparr>ec_recent_paths := paths\<rparr>
     in if length paths < 4 then (d1, None)
        else (let counts = hm_count paths; unique = length counts
              in if unique < ec_min_files d \<or> unique > ec_max_files d then (d1, None)
                 else if \<not> (\<forall>c \<in> set (map snd counts). c \<ge> 2) then (d1, None)
                 else (let names = map (\<lambda>(p, n). short_name p) (ord counts);
                           nudge = m_cycle_1 @ join '', '' names @ m_cycle_2
                       in (d1\<lparr>ec_recent_paths := [],
                              ec_nudge_fire_count := ec_nudge_fire_count d + 1\<rparr>, Some nudge))))"

definition ec_reset :: "edit_cycle_detector \<Rightarrow> edit_cycle_detector" where
  "ec_reset d = d\<lparr>ec_recent_paths := []\<rparr>"

definition ec_default :: edit_cycle_detector where
  "ec_default = ec_new 6"

text \<open>The condition on the window after the push, over sets and multiplicities.\<close>

definition alternating :: "nat \<Rightarrow> nat \<Rightarrow> string list \<Rightarrow> bool" where
  "alternating lo hi ps \<longleftrightarrow>
    4 \<le> length ps \<and> lo \<le> card (set ps) \<and> card (set ps) \<le> hi
    \<and> (\<forall>p \<in> set ps. 2 \<le> count_list ps p)"

lemma ec_counts_ok:
  "(\<forall>c \<in> set (map snd (hm_count ps)). c \<ge> 2) \<longleftrightarrow> (\<forall>p \<in> set ps. 2 \<le> count_list ps p)"
proof -
  have "set (map snd (hm_count ps)) = count_list ps ` set ps"
    by (auto simp: hm_entry_count image_iff) (metis hm_entry_count snd_conv)
  then show ?thesis by simp
qed

lemma ec_fires_iff:
  "snd (ec_record_and_check ord p d) \<noteq> None
    \<longleftrightarrow> alternating (ec_min_files d) (ec_max_files d) (push_evict (ec_window d) p (ec_recent_paths d))"
  unfolding ec_record_and_check_def Let_def alternating_def ec_counts_ok hm_len_count
  by (simp add: not_less)

lemma ec_fire_count:
  "ec_nudge_fire_count (fst (ec_record_and_check ord p d))
    = ec_nudge_fire_count d + (if snd (ec_record_and_check ord p d) \<noteq> None then 1 else 0)"
  by (simp add: ec_record_and_check_def Let_def)

lemma ec_paths_after:
  "ec_recent_paths (fst (ec_record_and_check ord p d))
    = (if snd (ec_record_and_check ord p d) \<noteq> None then []
       else push_evict (ec_window d) p (ec_recent_paths d))"
  by (simp add: ec_record_and_check_def Let_def)

lemma ec_params_after [simp]:
  "ec_window (fst (ec_record_and_check ord p d)) = ec_window d"
  "ec_min_files (fst (ec_record_and_check ord p d)) = ec_min_files d"
  "ec_max_files (fst (ec_record_and_check ord p d)) = ec_max_files d"
  by (simp_all add: ec_record_and_check_def Let_def)

text \<open>A run of edits and the nudges it gives.\<close>

fun ec_run ::
    "((string, nat) hashmap \<Rightarrow> (string, nat) hashmap) \<Rightarrow> string list \<Rightarrow> edit_cycle_detector
     \<Rightarrow> edit_cycle_detector \<times> string option list" where
  "ec_run ord [] d = (d, [])"
| "ec_run ord (p # ps) d =
    (let (d1, r) = ec_record_and_check ord p d; (d2, rs) = ec_run ord ps d1 in (d2, r # rs))"

lemma ec_run_fire_count:
  "ec_nudge_fire_count (fst (ec_run ord ps d))
    = ec_nudge_fire_count d + length (filter (\<lambda>r. r \<noteq> None) (snd (ec_run ord ps d)))"
proof (induction ps arbitrary: d)
  case Nil
  then show ?case by simp
next
  case (Cons p ps)
  obtain d1 r where step: "ec_record_and_check ord p d = (d1, r)" by fastforce
  obtain d2 rs where run: "ec_run ord ps d1 = (d2, rs)" by fastforce
  from ec_fire_count [of ord p d] Cons [of d1] step run show ?case by simp
qed

lemma ec_quiet_when_short:
  assumes "length (ec_recent_paths d) + length ps < 4"
  shows "set (snd (ec_run ord ps d)) \<subseteq> {None}"
  using assms
proof (induction ps arbitrary: d)
  case Nil
  then show ?case by simp
next
  case (Cons p ps)
  obtain d1 r where step: "ec_record_and_check ord p d = (d1, r)" by fastforce
  have "length (push_evict (ec_window d) p (ec_recent_paths d)) \<le> Suc (length (ec_recent_paths d))"
    by (simp add: push_evict_def Let_def)
  then have short: "length (push_evict (ec_window d) p (ec_recent_paths d)) + length ps < 4"
    using Cons.prems by simp
  then have "r = None"
    using ec_fires_iff [of ord p d] step by (auto simp: alternating_def)
  moreover have "length (ec_recent_paths d1) + length ps < 4"
    using ec_paths_after [of ord p d] step short by (auto split: if_splits)
  moreover obtain d2 rs where "ec_run ord ps d1 = (d2, rs)" by fastforce
  ultimately show ?case
    using Cons.IH [of d1] step by simp
qed

section \<open>Properties\<close>

text \<open>
  C35. Over any sequence of recorded actions the loop detector, which keeps two windows and a
  frequency table, answers what \<open>loop_spec\<close> says of the complete history of salient forms: the
  newest \<open>r\<close> alike within the window, or a b a b at the end of a window of at least four, or the
  newest one seen \<open>f\<close> times since the start. The exact comparison of action texts (the first
  layer) never decides alone: equal texts have equal salient forms.
\<close>

theorem loop_detector_refines_history:
  "snd (ld_record_and_check H tk a (ld_run H tk as (ld_with_frequency_threshold f (ld_new m r))))
    \<longleftrightarrow> loop_spec m r f (map (salient_hash H tk) (as @ [a]))"
  by (rule ld_check_spec [OF ld_run_rel])

lemma salient_form_keys:
  assumes "str_find tool '':'' = None" and "tk a1 = Some ks" and "tk a2 = Some ks"
  shows "salient_form tk (tool @ '':'' @ a1) = salient_form tk (tool @ '':'' @ a2)"
proof -
  have "split_once (tool @ '':'' @ a) (CHR '':'') = Some (tool, a)" for a
    using str_find_char_append [OF assms(1), of a] by (simp add: split_once_def)
  with assms(2,3) show ?thesis by (simp add: salient_form_def)
qed

text \<open>
  The default detector takes three calls in a row of one tool for a loop as soon as their
  arguments are objects with the same keys, whatever the values: reading three different files
  one after the other is reported, whatever hash is used and whatever happened before.
\<close>

theorem loop_detector_ignores_values:
  assumes "str_find tool '':'' = None"
    and "tk a1 = Some ks" and "tk a2 = Some ks" and "tk a3 = Some ks"
  shows "snd (ld_record_and_check H tk (tool @ '':'' @ a3)
           (ld_run H tk (before @ [tool @ '':'' @ a1, tool @ '':'' @ a2]) ld_default))"
proof -
  let ?h = "salient_hash H tk"
  let ?x = "tool @ '':'' @ a3"
  have same: "?h (tool @ '':'' @ a1) = ?h ?x" "?h (tool @ '':'' @ a2) = ?h ?x"
    unfolding salient_hash_def
    using salient_form_keys [OF assms(1,2,4)] salient_form_keys [OF assms(1,3,4)] by argo+
  have "last_n 3 (map ?h (before @ [tool @ '':'' @ a1, tool @ '':'' @ a2]) @ [?h ?x])
      = [?h ?x, ?h ?x, ?h ?x]"
    using same by (simp add: last_n_def)
  then have "loop_spec 10 3 30 (map ?h ((before @ [tool @ '':'' @ a1, tool @ '':'' @ a2]) @ [?x]))"
    by (simp add: loop_spec_def all_same_def)
  moreover have "ld_default = ld_with_frequency_threshold 30 (ld_new 10 3)"
    by (simp add: ld_default_def ld_new_def ld_with_frequency_threshold_def)
  ultimately show ?thesis
    using ld_check_spec [OF ld_run_rel, of H tk ?x "before @ [tool @ '':'' @ a1, tool @ '':'' @ a2]" 30 10 3]
    by simp
qed

theorem loop_detector_ignores_values_witness:
  "snd (ld_record_and_check (\<lambda>s. of_nat (length s)) (\<lambda>a. Some [''path''])
     (''file_read'' @ '':'' @ ''c'')
     (ld_run (\<lambda>s. of_nat (length s)) (\<lambda>a. Some [''path''])
        ([] @ [''file_read'' @ '':'' @ ''a'', ''file_read'' @ '':'' @ ''b'']) ld_default))"
  by (rule loop_detector_ignores_values
      [of "''file_read''" "\<lambda>a. Some [''path'']" "''a''" "[''path'']" "''b''" "''c''" _ "[]"])
    simp_all

text \<open>
  The edit-cycle detector speaks exactly when the window after the push holds at least four
  edits of two or three files, each edited at least twice; it then starts afresh, and the next
  three edits of a run never speak.
\<close>

theorem edit_cycle_fires_then_rests:
  assumes "d' = fst (ec_record_and_check ord p d)"
    and "alternating (ec_min_files d) (ec_max_files d) (push_evict (ec_window d) p (ec_recent_paths d))"
    and "length ps \<le> 3"
  shows "snd (ec_record_and_check ord p d) \<noteq> None
    \<and> ec_nudge_fire_count d' = ec_nudge_fire_count d + 1
    \<and> set (snd (ec_run ord ps d')) \<subseteq> {None}"
proof -
  have fires: "snd (ec_record_and_check ord p d) \<noteq> None"
    using assms(2) by (simp only: ec_fires_iff)
  then have "ec_recent_paths d' = []"
    using ec_paths_after [of ord p d] assms(1) by simp
  with assms(3) have "set (snd (ec_run ord ps d')) \<subseteq> {None}"
    by (intro ec_quiet_when_short) simp
  with fires ec_fire_count [of ord p d] assms(1) show ?thesis by simp
qed

theorem edit_cycle_fires_then_rests_witness:
  "snd (ec_record_and_check (\<lambda>m. m) ''b'' (ec_default\<lparr>ec_recent_paths := [''a'', ''a'', ''b'']\<rparr>)) \<noteq> None
   \<and> ec_nudge_fire_count (fst (ec_record_and_check (\<lambda>m. m) ''b''
       (ec_default\<lparr>ec_recent_paths := [''a'', ''a'', ''b'']\<rparr>)))
     = ec_nudge_fire_count (ec_default\<lparr>ec_recent_paths := [''a'', ''a'', ''b'']\<rparr>) + 1
   \<and> set (snd (ec_run (\<lambda>m. m) [''a'', ''b'', ''a''] (fst (ec_record_and_check (\<lambda>m. m) ''b''
       (ec_default\<lparr>ec_recent_paths := [''a'', ''a'', ''b'']\<rparr>))))) \<subseteq> {None}"
  by (rule edit_cycle_fires_then_rests [OF refl])
    (simp_all add: alternating_def ec_default_def ec_new_def push_evict_def)

text \<open>
  C36. After any run of failures and successes of tools, a tool is available exactly when it failed
  fewer times in a row than the threshold or its cooldown since the last failure has passed: other
  tools do not matter, and one success restores it.
\<close>

theorem circuit_breaker_availability:
  "cb_is_available now (run_events cb_record_failure cb_record_success es (cb_new th cd)) tool
    \<longleftrightarrow> (case last_failure_time tool es of
          None \<Rightarrow> True
        | Some t \<Rightarrow> streak tool es < th \<or> cd \<le> now - t)"
proof -
  have "cb_threshold (cb_new th cd) = th" and "cb_cooldown (cb_new th cd) = cd"
    by (simp_all add: cb_new_def)
  then show ?thesis
    by (simp add: cb_is_available_def cb_entry_run cb_threshold_run cb_cooldown_run not_le
        split: option.splits) (auto simp: not_le)
qed

text \<open>
  C13. The staged escalation over any run of failures and successes, \<open>n\<close> being the failures in a
  row: the first two are handled by \<open>decide_recovery\<close> for the newest mode with attempt \<open>n - 1\<close>, the
  third asks for a new plan whatever its mode (a detected loop included), later ones stop.
\<close>

theorem continue_site_escalation:
  "decide_escalated_recovery (cs_run (es @ [Inl m])) k =
    (let n = failures_in_row (es @ [Inl m])
     in if n < 3 then decide_recovery m (n - 1) k
        else if n = 3 then Replan m_escalated_replan
        else ExplainAndStop (show_nat n @ m_escalated_stop_1 @ debug_failure_mode m))
  \<and> (is_stop (decide_escalated_recovery (cs_run (es @ [Inl m])) k)
      \<longleftrightarrow> 3 < failures_in_row (es @ [Inl m])
        \<or> failures_in_row (es @ [Inl m]) < 3
          \<and> (m = LoopDetected \<or> k \<le> failures_in_row (es @ [Inl m]) - 1))"
proof -
  have n: "cs_consecutive_failures (cs_run (es @ [Inl m])) = failures_in_row (es @ [Inl m])"
    by (rule cs_run_failures)
  show ?thesis
    by (auto simp: decide_escalated_recovery_def Let_def n cs_run_last_failure
        max_consecutive_failures_def decide_recovery_stops)
qed

text \<open>
  The recovery chosen for a failure agrees with its hint: with attempts left, a mode is stopped
  exactly when its hint says it is not retryable, and the plan is redone exactly when its hint asks
  for compression; with no attempts left everything stops.
\<close>

theorem decide_recovery_follows_hints:
  "((\<not> is_stop (decide_recovery m n k)) = (retryable (hint_for_failure m) \<and> n < k))
   \<and> (is_replan (decide_recovery m n k) \<longleftrightarrow> should_compress (hint_for_failure m) \<and> n < k)
   \<and> (wait_and_retry (hint_for_failure m) \<longleftrightarrow> 0 < backoff_secs (hint_for_failure m))"
proof (intro conjI)
  show "(\<not> is_stop (decide_recovery m n k)) = (retryable (hint_for_failure m) \<and> n < k)"
    by (auto simp add: decide_recovery_stops hint_retryable_iff)
  show "is_replan (decide_recovery m n k) \<longleftrightarrow> should_compress (hint_for_failure m) \<and> n < k"
    by (auto simp: decide_recovery_def recovery_of_mode_replan hint_compress_iff)
  show "wait_and_retry (hint_for_failure m) \<longleftrightarrow> 0 < backoff_secs (hint_for_failure m)"
    by (cases m) auto
qed

text \<open>
  C15. After any run of failures and successes of files, the guard gives up on a file with at least
  \<open>b\<close> failures in a row, nudges from \<open>a\<close> on, and is silent otherwise; the count it prints is that
  number.
\<close>

theorem stuck_guard_stages:
  "fg_check_stuck (run_events fg_fail fg_record_file_success es (fg_new a b)) path =
    (let n = streak path es
     in if b \<le> n then Some (GiveUp (m_stuck_1 @ path @ m_give_up_2 @ show_nat n @ m_give_up_3))
        else if a \<le> n then Some (Nudge (m_stuck_1 @ path @ m_give_up_2 @ show_nat n @ m_nudge_3))
        else None)"
proof -
  have "fg_count (run_events fg_fail fg_record_file_success es (fg_new a b)) path = streak path es"
    by (rule stuck.count_is_streak) (simp add: fg_count_def fg_new_def)
  then show ?thesis
    by (simp add: fg_check_stuck_def Let_def fg_thresholds_run) (simp add: fg_new_def)
qed

text \<open>
  C16. The trial summary keeps the newest \<open>m\<close> failures, in order, each with at most 80 characters of
  arguments and 100 of error, cut on character boundaries.
\<close>

theorem trial_summary_keeps_newest:
  "ts_entries (fold ts_record_failure ts (ts_new m)) = last_n m (map make_trial ts)
   \<and> list_all (\<lambda>e. char_count (te_args_summary e) \<le> 80 \<and> char_count (te_error_summary e) \<le> 100)
        (ts_entries (fold ts_record_failure ts (ts_new m)))"
proof
  show kept: "ts_entries (fold ts_record_failure ts (ts_new m)) = last_n m (map make_trial ts)"
    using trials.hist_fold [of "ts_new m" ts] by (simp add: ts_new_def)
  have "char_count (te_args_summary (make_trial t)) \<le> 80
      \<and> char_count (te_error_summary (make_trial t)) \<le> 100" for t
    by (cases t) (simp add: make_trial_def)
  then show "list_all (\<lambda>e. char_count (te_args_summary e) \<le> 80 \<and> char_count (te_error_summary e) \<le> 100)
        (ts_entries (fold ts_record_failure ts (ts_new m)))"
    using set_last_n [of m "map make_trial ts"] by (auto simp: kept list_all_iff)
qed

end
