(* ===== verification/Soft_Float.thy ===== *)
theory Soft_Float
  imports Complex_Main Prelude "HOL-Library.Log_Nat"
begin

text \<open>
  Rust's \<open>f32\<close> and \<open>f64\<close>, as far as the program computes with them. A finite float is the
  rational it denotes, and an operation is the exact operation followed by rounding to the nearest
  multiple with \<open>p\<close> significant bits, ties to even (\<open>p = 24\<close> and \<open>p = 53\<close>). The exponent is
  unbounded: the program's quantities are counts, ratios and percentages, far from overflow and
  from the subnormal range. \<open>as usize\<close> truncates towards zero and saturates at zero from below.
\<close>

definition round_half_even :: "rat \<Rightarrow> int" where
  "round_half_even x =
    (let f = \<lfloor>x\<rfloor>; r = x - of_int f
     in if r < 1 / 2 then f else if r > 1 / 2 then f + 1 else if even f then f else f + 1)"

definition pow2i :: "int \<Rightarrow> rat" where
  "pow2i e = (if 0 \<le> e then 2 ^ nat e else 1 / 2 ^ nat (- e))"

text \<open>The exponent that gives a positive \<open>x\<close> exactly \<open>p\<close> bits before the point.\<close>

definition scale :: "nat \<Rightarrow> rat \<Rightarrow> int" where
  "scale p x =
    (let (a, b) = quotient_of x; k = bitlen a - bitlen b - int p
     in if x / pow2i k \<ge> 2 ^ p then k + 1 else k)"

definition fl_pos :: "nat \<Rightarrow> rat \<Rightarrow> rat" where
  "fl_pos p x = of_int (round_half_even (x / pow2i (scale p x))) * pow2i (scale p x)"

definition fl :: "nat \<Rightarrow> rat \<Rightarrow> rat" where
  "fl p x = (if x = 0 then 0 else if 0 < x then fl_pos p x else - fl_pos p (- x))"

abbreviation fl32 :: "rat \<Rightarrow> rat" where
  "fl32 \<equiv> fl 24"

abbreviation fl64 :: "rat \<Rightarrow> rat" where
  "fl64 \<equiv> fl 53"

text \<open>\<open>n as f64\<close> and \<open>x as usize\<close>.\<close>

definition trunc_usize :: "rat \<Rightarrow> nat" where
  "trunc_usize x = nat \<lfloor>x\<rfloor>"

section \<open>Rounding\<close>

lemma round_half_even_mono:
  assumes "x \<le> y"
  shows "round_half_even x \<le> round_half_even y"
proof (cases "\<lfloor>x\<rfloor> = \<lfloor>y\<rfloor>")
  case True
  then show ?thesis using assms by (auto simp: round_half_even_def Let_def)
next
  case False
  then have "\<lfloor>x\<rfloor> + 1 \<le> \<lfloor>y\<rfloor>" using floor_mono [OF assms] by simp
  moreover have "round_half_even x \<le> \<lfloor>x\<rfloor> + 1" by (simp add: round_half_even_def Let_def)
  moreover have "\<lfloor>y\<rfloor> \<le> round_half_even y" by (simp add: round_half_even_def Let_def)
  ultimately show ?thesis by linarith
qed

lemma round_half_even_int [simp]: "round_half_even (of_int n) = n"
  by (simp add: round_half_even_def)

lemma round_half_even_between:
  assumes "of_int m \<le> x" and "x \<le> of_int n"
  shows "m \<le> round_half_even x" and "round_half_even x \<le> n"
  using round_half_even_mono [OF assms(1)] round_half_even_mono [OF assms(2)] by simp_all

section \<open>Scaling\<close>

lemma pow2i_pos [simp]: "0 < pow2i e"
  by (simp add: pow2i_def)

lemma pow2i_nonzero [simp]: "pow2i e \<noteq> 0"
  using pow2i_pos [of e] by linarith

lemma pow2i_0 [simp]: "pow2i 0 = 1"
  by (simp add: pow2i_def)

lemma pow2i_powi: "pow2i e = 2 powi e"
  by (simp add: pow2i_def power_int_def field_simps)

lemma pow2i_add: "pow2i (a + b) = pow2i a * pow2i b"
  by (simp add: pow2i_powi power_int_add)

lemma pow2i_nat: "pow2i (int n) = 2 ^ n"
  by (simp add: pow2i_def)

lemma pow2i_mono: "a \<le> b \<Longrightarrow> pow2i a \<le> pow2i b"
  by (simp add: pow2i_powi power_int_increasing)

lemma bitlen_rat_bounds:
  assumes "0 < a"
  shows "pow2i (bitlen a - 1) \<le> of_int a" and "of_int a < pow2i (bitlen a)"
proof -
  have n: "0 < bitlen a" using assms bitlen_eq_zero_iff [of a] bitlen_nonneg [of a] by linarith
  from bitlen_bounds [OF assms] have "2 ^ nat (bitlen a - 1) \<le> a" and "a < 2 ^ nat (bitlen a)"
    by auto
  then have "(of_int (2 ^ nat (bitlen a - 1)) :: rat) \<le> of_int a"
    and "(of_int a :: rat) < of_int (2 ^ nat (bitlen a))"
    by (simp_all only: of_int_le_iff of_int_less_iff)
  with n show "pow2i (bitlen a - 1) \<le> of_int a" and "of_int a < pow2i (bitlen a)"
    by (simp_all add: pow2i_def)
qed

lemma scale_bounds:
  assumes "0 < x" and "0 < p"
  shows "2 ^ (p - 1) \<le> x / pow2i (scale p x)" and "x / pow2i (scale p x) < 2 ^ p"
proof -
  obtain a b where q: "quotient_of x = (a, b)" by fastforce
  have b: "0 < b" using quotient_of_denom_pos [OF q] .
  have x: "x = of_int a / of_int b" using quotient_of_div [OF q] .
  then have a: "0 < a" using assms b by (simp add: zero_less_divide_iff)
  define k where "k = bitlen a - bitlen b - int p"
  have P: "pow2i (bitlen b + k + int p) = pow2i (bitlen a)" by (simp add: k_def)
  have upper: "x < pow2i k * (2 * 2 ^ p)"
  proof -
    have "of_int a < pow2i (bitlen a)" using bitlen_rat_bounds [OF a] by simp
    also have "pow2i (bitlen a) = pow2i (bitlen b - 1) * (pow2i k * (2 * 2 ^ p))"
    proof -
      have "bitlen a = (bitlen b - 1) + (k + (1 + int p))" by (simp add: k_def)
      then have "pow2i (bitlen a) = pow2i (bitlen b - 1) * (pow2i k * (pow2i 1 * pow2i (int p)))"
        by (metis pow2i_add)
      then show ?thesis by (simp add: pow2i_nat) (simp add: pow2i_def)
    qed
    also have "\<dots> \<le> of_int b * (pow2i k * (2 * 2 ^ p))"
      using bitlen_rat_bounds [OF b] by (intro mult_right_mono) (simp_all add: less_imp_le)
    finally show ?thesis using b by (simp add: x divide_less_eq mult.commute)
  qed
  have lower: "pow2i k * 2 ^ (p - 1) \<le> x"
  proof -
    have "of_int b * (pow2i k * 2 ^ (p - 1)) \<le> pow2i (bitlen b) * (pow2i k * 2 ^ (p - 1))"
      using bitlen_rat_bounds [OF b] by (intro mult_right_mono) (simp_all add: less_imp_le)
    also have "\<dots> = pow2i (bitlen a - 1)"
    proof -
      have "bitlen a - 1 = bitlen b + (k + int (p - 1))" using assms(2) by (simp add: k_def)
      then show ?thesis by (metis pow2i_add pow2i_nat)
    qed
    also have "\<dots> \<le> of_int a" using bitlen_rat_bounds [OF a] by simp
    finally show ?thesis using b by (simp add: x le_divide_eq mult.commute)
  qed
  have S: "scale p x = (if x / pow2i k \<ge> 2 ^ p then k + 1 else k)"
    by (simp add: scale_def q k_def)
  have two: "pow2i (k + 1) = 2 * pow2i k" by (simp add: pow2i_add) (simp add: pow2i_def)
  have pp: "(2 :: rat) ^ p = 2 * 2 ^ (p - 1)" using assms(2) by (cases p) auto
  have pos: "0 < pow2i k" by simp
  show "2 ^ (p - 1) \<le> x / pow2i (scale p x)"
    using S two lower pos pp by (auto simp: field_simps)
  show "x / pow2i (scale p x) < 2 ^ p"
    using S two upper pos by (auto simp: field_simps)
qed

lemma scale_mono:
  assumes "0 < x" and "x \<le> y" and "0 < p"
  shows "scale p x \<le> scale p y"
proof (rule ccontr)
  assume "\<not> scale p x \<le> scale p y"
  then have "scale p y + 1 \<le> scale p x" by simp
  then have step: "pow2i (scale p y) * 2 \<le> pow2i (scale p x)"
    using pow2i_mono [of "scale p y + 1" "scale p x"] by (simp add: pow2i_add) (simp add: pow2i_def)
  have "y < 2 ^ p * pow2i (scale p y)"
    using scale_bounds(2) [of y p] assms by (simp add: divide_less_eq)
  also have "\<dots> = 2 ^ (p - 1) * (pow2i (scale p y) * 2)"
    using assms(3) by (cases p) auto
  also have "\<dots> \<le> 2 ^ (p - 1) * pow2i (scale p x)"
    using step by (intro mult_left_mono) auto
  also have "\<dots> \<le> x"
    using scale_bounds(1) [of x p] assms by (simp add: le_divide_eq)
  finally show False using assms(2) by simp
qed

lemma fl_pos_bounds:
  assumes "0 < x" and "0 < p"
  shows "2 ^ (p - 1) * pow2i (scale p x) \<le> fl_pos p x" and "fl_pos p x \<le> 2 ^ p * pow2i (scale p x)"
proof -
  have "of_int (2 ^ (p - 1)) \<le> x / pow2i (scale p x)" and "x / pow2i (scale p x) \<le> of_int (2 ^ p)"
    using scale_bounds [OF assms] by simp_all
  from round_half_even_between [OF this]
  have "(of_int (2 ^ (p - 1)) :: rat) \<le> of_int (round_half_even (x / pow2i (scale p x)))"
    and "(of_int (round_half_even (x / pow2i (scale p x))) :: rat) \<le> of_int (2 ^ p)"
    by (simp_all only: of_int_le_iff)
  then show "2 ^ (p - 1) * pow2i (scale p x) \<le> fl_pos p x"
    and "fl_pos p x \<le> 2 ^ p * pow2i (scale p x)"
    unfolding fl_pos_def by (simp_all add: less_imp_le)
qed

lemma fl_pos_pos: "0 < x \<Longrightarrow> 0 < p \<Longrightarrow> 0 < fl_pos p x"
  by (rule less_le_trans [OF _ fl_pos_bounds(1)]) auto

lemma fl_pos_mono:
  assumes "0 < x" and "x \<le> y" and "0 < p"
  shows "fl_pos p x \<le> fl_pos p y"
proof (cases "scale p x = scale p y")
  case True
  have "x / pow2i (scale p y) \<le> y / pow2i (scale p y)"
    using assms by (simp add: divide_right_mono less_imp_le)
  from round_half_even_mono [OF this] True show ?thesis
    unfolding fl_pos_def by (simp add: mult_right_mono less_imp_le)
next
  case False
  then have "scale p x + 1 \<le> scale p y" using scale_mono [OF assms] by simp
  then have step: "2 * pow2i (scale p x) \<le> pow2i (scale p y)"
    using pow2i_mono [of "scale p x + 1" "scale p y"] by (simp add: pow2i_add) (simp add: pow2i_def)
  have "fl_pos p x \<le> 2 ^ p * pow2i (scale p x)" using fl_pos_bounds assms by blast
  also have "\<dots> = 2 ^ (p - 1) * (2 * pow2i (scale p x))" using assms(3) by (cases p) auto
  also have "\<dots> \<le> 2 ^ (p - 1) * pow2i (scale p y)" using step by (intro mult_left_mono) auto
  also have "\<dots> \<le> fl_pos p y" using fl_pos_bounds assms by (meson less_le_trans)
  finally show ?thesis .
qed

lemma fl_mono:
  assumes "x \<le> y" and "0 < p"
  shows "fl p x \<le> fl p y"
proof -
  consider "0 < x" | "x = 0" | "x < 0" "0 \<le> y" | "x < 0" "y < 0" by linarith
  then show ?thesis
  proof cases
    case 1
    then show ?thesis using assms fl_pos_mono by (simp add: fl_def)
  next
    case 2
    then show ?thesis using assms fl_pos_pos [of y p] by (cases "y = 0") (auto simp: fl_def)
  next
    case 3
    then show ?thesis
      using assms fl_pos_pos [of "- x" p] fl_pos_pos [of y p] by (auto simp: fl_def)
  next
    case 4
    then show ?thesis using assms fl_pos_mono [of "- y" "- x" p] by (auto simp: fl_def)
  qed
qed

lemma fl_0 [simp]: "fl p 0 = 0"
  by (simp add: fl_def)

lemma fl_nonneg: "0 \<le> x \<Longrightarrow> 0 < p \<Longrightarrow> 0 \<le> fl p x"
  using fl_mono [of 0 x p] by simp

text \<open>Numbers with at most \<open>p\<close> bits are kept exactly.\<close>

lemma fl_exact:
  assumes "x = of_int m * pow2i e" and "0 < m" and "m < 2 ^ p" and "0 < p"
  shows "fl p x = x"
proof -
  have x: "0 < x" using assms by simp
  have "scale p x \<le> e"
  proof (rule ccontr)
    assume "\<not> scale p x \<le> e"
    then have "pow2i (e + 1) \<le> pow2i (scale p x)" by (intro pow2i_mono) simp
    then have step: "2 * pow2i e \<le> pow2i (scale p x)" by (simp add: pow2i_add) (simp add: pow2i_def)
    have "x < of_int (2 ^ p) * pow2i e"
      unfolding assms(1) using assms(3) by (intro mult_strict_right_mono) (simp_all only: of_int_less_iff pow2i_pos)
    also have "\<dots> = 2 ^ (p - 1) * (2 * pow2i e)" using assms(4) by (cases p) auto
    also have "\<dots> \<le> 2 ^ (p - 1) * pow2i (scale p x)" using step by (intro mult_left_mono) auto
    also have "\<dots> \<le> x" using scale_bounds(1) [OF x assms(4)] by (simp add: le_divide_eq)
    finally show False by simp
  qed
  then have e: "pow2i e = pow2i (scale p x) * 2 ^ nat (e - scale p x)"
    using pow2i_add [of "scale p x" "e - scale p x"] by (simp add: pow2i_def)
  define s k where "s = pow2i (scale p x)" and "k = nat (e - scale p x)"
  have "x = of_int m * (s * 2 ^ k)" using assms(1) e by (simp add: s_def k_def)
  moreover have "0 < s" by (simp add: s_def)
  ultimately have "x / s = of_int (m * 2 ^ k)" by simp
  then have q: "x / pow2i (scale p x) = of_int (m * 2 ^ nat (e - scale p x))"
    by (simp only: s_def k_def)
  have "fl_pos p x = x / pow2i (scale p x) * pow2i (scale p x)"
    unfolding fl_pos_def q round_half_even_int ..
  also have "\<dots> = x" using pow2i_pos [of "scale p x"] by simp
  finally show ?thesis using x by (simp add: fl_def)
qed

lemma fl_of_nat:
  assumes "n < 2 ^ p" and "0 < p"
  shows "fl p (of_nat n) = of_nat n"
proof (cases "n = 0")
  case False
  have "int n < 2 ^ p" using assms(1) by (metis of_nat_less_iff of_nat_numeral of_nat_power)
  with False assms show ?thesis
    by (intro fl_exact [of _ "int n" 0]) auto
qed simp

lemma fl_1 [simp]: "0 < p \<Longrightarrow> fl p 1 = 1"
proof -
  assume "0 < p"
  then have "(1 :: int) < 2 ^ p" by (simp add: one_less_power)
  with \<open>0 < p\<close> show ?thesis by (intro fl_exact [of 1 1 0]) auto
qed

text \<open>The rounding error is at most half a unit in the last place.\<close>

lemma round_half_even_error: "\<bar>of_int (round_half_even x) - x\<bar> \<le> 1 / 2"
proof -
  have "of_int \<lfloor>x\<rfloor> \<le> x" and "x < of_int \<lfloor>x\<rfloor> + 1" by linarith+
  then show ?thesis by (auto simp: round_half_even_def Let_def abs_le_iff)
qed

lemma fl_pos_error:
  assumes "0 < x" and "0 < p"
  shows "\<bar>fl_pos p x - x\<bar> \<le> x / 2 ^ p"
proof -
  let ?s = "pow2i (scale p x)"
  have s: "0 < ?s" by simp
  have "fl_pos p x - x = (of_int (round_half_even (x / ?s)) - x / ?s) * ?s"
    by (simp add: fl_pos_def algebra_simps)
  then have "\<bar>fl_pos p x - x\<bar> = \<bar>of_int (round_half_even (x / ?s)) - x / ?s\<bar> * ?s"
    by (simp add: abs_mult abs_of_pos [OF s])
  also have "\<dots> \<le> 1 / 2 * ?s"
    using round_half_even_error s by (intro mult_right_mono) (simp_all add: less_imp_le)
  also have "\<dots> \<le> x / 2 ^ p"
  proof -
    have "2 ^ (p - 1) * ?s \<le> x"
      using scale_bounds(1) [OF assms] s by (simp add: le_divide_eq)
    moreover have "(2 :: rat) ^ p = 2 * 2 ^ (p - 1)" using assms(2) by (cases p) auto
    ultimately show ?thesis by (simp add: field_simps)
  qed
  finally show ?thesis .
qed

lemma fl_error:
  assumes "0 < p"
  shows "\<bar>fl p x - x\<bar> \<le> \<bar>x\<bar> / 2 ^ p"
  using fl_pos_error [of x p] fl_pos_error [of "- x" p] assms
  by (cases "x = 0"; cases "0 < x") (auto simp: fl_def abs_minus_commute)

section \<open>Parsing\<close>

text \<open>
  \<open>str::parse::<f64>\<close>: an optional sign, then \<open>inf\<close>, \<open>infinity\<close> or \<open>nan\<close> in any case, or decimal
  digits with an optional point (at least one digit on one side) and an optional exponent. The value
  is the exact decimal, rounded once; from \<open>2^128\<close> (\<open>2^1024\<close>) on it is infinite.
\<close>

datatype float_value = Finite rat | Infinite bool | NaN

definition is_digit :: "char \<Rightarrow> bool" where
  "is_digit c = (c \<in> set ''0123456789'')"

definition nat_of_digits :: "string \<Rightarrow> nat" where
  "nat_of_digits s = (case digits_val 0 s of Some n \<Rightarrow> n | None \<Rightarrow> 0)"

definition parse_sign :: "string \<Rightarrow> bool \<times> string" where
  "parse_sign s = (if s \<noteq> [] \<and> hd s = CHR ''-'' then (True, tl s)
                   else if s \<noteq> [] \<and> hd s = CHR ''+'' then (False, tl s) else (False, s))"

definition ten_to :: "int \<Rightarrow> rat" where
  "ten_to e = (if 0 \<le> e then 10 ^ nat e else 1 / 10 ^ nat (- e))"

definition parse_exponent :: "string \<Rightarrow> int option" where
  "parse_exponent s =
    (if s = [] then Some 0
     else if hd s = CHR ''e'' \<or> hd s = CHR ''E'' then
       (let (neg, ds) = parse_sign (tl s)
        in if ds = [] \<or> \<not> list_all is_digit ds then None
           else Some (if neg then - int (nat_of_digits ds) else int (nat_of_digits ds)))
     else None)"

definition parse_float :: "nat \<Rightarrow> string \<Rightarrow> float_value option" where
  "parse_float p s =
    (let (neg, body) = parse_sign s; low = map lower_byte body
     in if low = ''inf'' \<or> low = ''infinity'' then Some (Infinite neg)
        else if low = ''nan'' then Some NaN
        else
          (let ip = takeWhile is_digit body; r1 = dropWhile is_digit body;
               (fp, r2) = (if r1 \<noteq> [] \<and> hd r1 = CHR ''.''
                           then (takeWhile is_digit (tl r1), dropWhile is_digit (tl r1)) else ([], r1))
           in if ip = [] \<and> fp = [] then None
              else (case parse_exponent r2 of None \<Rightarrow> None
                    | Some e \<Rightarrow>
                        let v = fl p (of_nat (nat_of_digits (ip @ fp)) * ten_to (e - int (length fp)))
                        in if v \<ge> 2 ^ (if p = 24 then 128 else 1024) then Some (Infinite neg)
                           else Some (Finite (if neg then - v else v)))))"

end
