(* ===== verification/Structured_Feedback.thy ===== *)
theory Structured_Feedback
  imports Error_Recovery Soft_Float
begin

text \<open>
  \<open>StructuredFeedback\<close> of \<open>src/agent/error_recovery.rs\<close>: the note injected before a new plan, with a
  confidence computed in \<open>f64\<close>. \<open>ord\<close> is the order in which the map of tool counts is iterated.
\<close>

record structured_feedback =
  sf_evaluation :: string
  sf_missing_steps :: "string list"
  sf_suggestions :: "string list"
  sf_confidence :: rat

definition confidence_after :: "nat \<Rightarrow> rat" where
  "confidence_after n = max (fl64 (1 - fl64 (fl64 (15 / 100) * fl64 (of_nat n)))) 0"

definition from_trial_summary ::
    "((string, nat) hashmap \<Rightarrow> (string, nat) hashmap) \<Rightarrow> trial_summary \<Rightarrow> string
     \<Rightarrow> structured_feedback" where
  "from_trial_summary ord trials task =
    (let es = ts_entries trials
     in if es = [] then
          \<lparr>sf_evaluation = [], sf_missing_steps = [], sf_suggestions = [], sf_confidence = 1\<rparr>
        else
          (let counts = ord (hm_count (map te_tool_name es));
               tool_list = map (\<lambda>(name, n). name @ ''('' @ show_nat n @ m_feedback_times) counts;
               le = last es;
               found = List.map_filter (\<lambda>(tool, n).
                   if n \<ge> 2 then Some (tool @ m_feedback_in_row_1 @ show_nat n @ m_feedback_in_row_2)
                   else None) counts
           in \<lparr>sf_evaluation = m_feedback_task_1 @ task @ m_feedback_task_2 @ show_nat (length es)
                 @ m_feedback_task_3 @ join '', '' tool_list,
               sf_missing_steps = [m_feedback_last_1 @ te_tool_name le @ ''('' @ te_args_summary le
                 @ m_feedback_last_2 @ te_error_summary le],
               sf_suggestions = (if found = [] then [m_feedback_other] else found),
               sf_confidence = confidence_after (length es)\<rparr>))"

definition format_for_injection :: "structured_feedback \<Rightarrow> string" where
  "format_for_injection f =
    (if sf_confidence f \<ge> 1 \<and> sf_missing_steps f = [] then []
     else ''<structured-feedback>'' @ nl
       @ join (nl @ nl)
          ([''[EVALUATION]'' @ nl @ sf_evaluation f]
           @ (if sf_missing_steps f = [] then []
              else [''[MISSING STEPS]'' @ nl @ join nl (map (\<lambda>(i, s). show_nat (i + 1) @ ''. '' @ s)
                      (enumerate 0 (sf_missing_steps f)))])
           @ (if sf_suggestions f = [] then []
              else [''[SUGGESTIONS]'' @ nl @ join nl (map (\<lambda>s. ''- '' @ s) (sf_suggestions f))]))
       @ nl @ ''</structured-feedback>'')"

section \<open>Confidence\<close>

lemma confidence_antimono:
  assumes "m \<le> n"
  shows "confidence_after n \<le> confidence_after m"
proof -
  have "fl64 (of_nat m) \<le> fl64 (of_nat n)" using assms by (intro fl_mono) simp_all
  moreover have "0 \<le> fl64 (15 / 100)" by (rule fl_nonneg) simp_all
  ultimately have "fl64 (15 / 100) * fl64 (of_nat m) \<le> fl64 (15 / 100) * fl64 (of_nat n)"
    by (rule mult_left_mono)
  then have "fl64 (fl64 (15 / 100) * fl64 (of_nat m)) \<le> fl64 (fl64 (15 / 100) * fl64 (of_nat n))"
    by (rule fl_mono) simp
  then have "fl64 (1 - fl64 (fl64 (15 / 100) * fl64 (of_nat n)))
      \<le> fl64 (1 - fl64 (fl64 (15 / 100) * fl64 (of_nat m)))"
    by (intro fl_mono) simp_all
  then show ?thesis by (simp add: confidence_after_def max.coboundedI1 max.mono)
qed

lemma confidence_one: "confidence_after 1 < 1"
  by code_simp

lemma confidence_seven: "confidence_after 7 = 0"
  by code_simp

lemma confidence_pos: "0 \<le> confidence_after n"
  by (simp add: confidence_after_def)

lemma from_trial_summary_confidence:
  "sf_confidence (from_trial_summary ord s t)
    = (if ts_entries s = [] then 1 else confidence_after (length (ts_entries s)))"
  by (simp add: from_trial_summary_def Let_def)

lemma join_nonempty: "x \<noteq> [] \<Longrightarrow> join sep (x # xs) \<noteq> []"
  by (cases xs) auto

section \<open>Properties\<close>

text \<open>
  The confidence lies between 0 and 1 and never grows with more recorded failures; it is 1
  only without failures and exactly 0 from the seventh on.
\<close>

theorem feedback_confidence_decays:
  assumes "length (ts_entries s) \<le> length (ts_entries s')"
  shows "sf_confidence (from_trial_summary ord s' t') \<le> sf_confidence (from_trial_summary ord s t)
    \<and> 0 \<le> sf_confidence (from_trial_summary ord s t)
    \<and> (sf_confidence (from_trial_summary ord s t) = 1 \<longleftrightarrow> ts_entries s = [])
    \<and> (7 \<le> length (ts_entries s) \<longrightarrow> sf_confidence (from_trial_summary ord s t) = 0)"
proof -
  have lt: "confidence_after n < 1" if "1 \<le> n" for n
    using confidence_antimono [OF that] confidence_one by simp
  have zero: "confidence_after n = 0" if "7 \<le> n" for n
    using confidence_antimono [OF that] confidence_seven confidence_pos [of n] by simp
  define n n' where "n = length (ts_entries s)" and "n' = length (ts_entries s')"
  have c: "sf_confidence (from_trial_summary ord u v)
      = (if length (ts_entries u) = 0 then 1 else confidence_after (length (ts_entries u)))" for u v
    by (simp add: from_trial_summary_confidence)
  have "n \<le> n'" using assms by (simp add: n_def n'_def)
  then have "(if n' = 0 then 1 else confidence_after n') \<le> (if n = 0 then 1 else confidence_after n)"
    using confidence_antimono [of n n'] lt [of n'] by (cases "n' = 0"; cases "n = 0") (auto simp: less_imp_le)
  moreover have "0 \<le> (if n = 0 then 1 else confidence_after n)" using confidence_pos by simp
  moreover have "(if n = 0 then 1 else confidence_after n) = 1 \<longleftrightarrow> n = 0" using lt [of n] by auto
  moreover have "7 \<le> n \<longrightarrow> (if n = 0 then 1 else confidence_after n) = 0" using zero by simp
  ultimately show ?thesis
    unfolding c n_def [symmetric] n'_def [symmetric] by (simp add: n_def)
qed

theorem feedback_confidence_decays_witness:
  "sf_confidence (from_trial_summary (\<lambda>m. m)
      (foldl (\<lambda>s k. ts_record_failure (''shell'', [], [], k) s) (ts_new 8) [1, 2, 3, 4, 5, 6, 7]) []) = 0
   \<and> sf_confidence (from_trial_summary (\<lambda>m. m) (ts_new 8) []) = 1"
  (is "sf_confidence (from_trial_summary _ ?s []) = 0 \<and> _")
proof -
  have n: "length (ts_entries ?s) = 7" by (simp add: ts_record_failure_def ts_new_def)
  then have "length (ts_entries (ts_new 8)) \<le> length (ts_entries ?s)" by (simp add: ts_new_def)
  from feedback_confidence_decays [OF this, of "\<lambda>m. m" "[]" "[]"]
    feedback_confidence_decays [of ?s ?s "\<lambda>m. m" "[]" "[]"] n
  show ?thesis by (simp add: ts_new_def)
qed

end
