(* ===== verification/Conversation.thy ===== *)
theory Conversation
  imports Complex_Main Prelude
begin

text \<open>
  \<open>src/domain/conversation.rs\<close>: roles, messages, tool calls, the parsed output of the model and the
  session. \<open>json\<close> stands for \<open>serde_json::Value\<close>, whose objects are kept with sorted keys. A
  time is a number; the clock and the random id of a new session are arguments.
\<close>

section \<open>JSON values\<close>

datatype json_number = PosInt nat | NegInt int | Float rat

datatype json =
    JNull
  | JBool bool
  | JNum json_number
  | JStr string
  | JArr "json list"
  | JObj "(string \<times> json) list"

fun json_get :: "json \<Rightarrow> string \<Rightarrow> json option" where
  "json_get (JObj kvs) k = map_of kvs k"
| "json_get _ k = None"

fun as_str :: "json \<Rightarrow> string option" where
  "as_str (JStr s) = Some s"
| "as_str _ = None"

fun as_bool :: "json \<Rightarrow> bool option" where
  "as_bool (JBool b) = Some b"
| "as_bool _ = None"

fun as_u64 :: "json \<Rightarrow> nat option" where
  "as_u64 (JNum (PosInt n)) = Some n"
| "as_u64 _ = None"

section \<open>Messages\<close>

datatype role = System | User | Assistant | Tool

datatype attachment = Image "8 word list"

record message =
  msg_role :: role
  msg_content :: string
  msg_attachments :: "attachment list"
  msg_tool_call_id :: "string option"

definition msg_system :: "string \<Rightarrow> message" where
  "msg_system c = \<lparr>msg_role = System, msg_content = c, msg_attachments = [], msg_tool_call_id = None\<rparr>"

definition msg_user :: "string \<Rightarrow> message" where
  "msg_user c = \<lparr>msg_role = User, msg_content = c, msg_attachments = [], msg_tool_call_id = None\<rparr>"

definition msg_assistant :: "string \<Rightarrow> message" where
  "msg_assistant c =
    \<lparr>msg_role = Assistant, msg_content = c, msg_attachments = [], msg_tool_call_id = None\<rparr>"

definition msg_tool :: "string \<Rightarrow> string \<Rightarrow> message" where
  "msg_tool c i =
    \<lparr>msg_role = Tool, msg_content = c, msg_attachments = [], msg_tool_call_id = Some i\<rparr>"

definition has_image :: "message \<Rightarrow> bool" where
  "has_image m = list_ex (\<lambda>a. case a of Image d \<Rightarrow> True) (msg_attachments m)"

lemma msg_simps [simp]:
  "msg_role (msg_system c) = System" "msg_content (msg_system c) = c"
  "msg_role (msg_user c) = User" "msg_content (msg_user c) = c"
  "msg_role (msg_assistant c) = Assistant" "msg_content (msg_assistant c) = c"
  "msg_role (msg_tool c i) = Tool" "msg_content (msg_tool c i) = c"
  "msg_tool_call_id (msg_tool c i) = Some i"
  by (simp_all add: msg_system_def msg_user_def msg_assistant_def msg_tool_def)

section \<open>Tool calls and sessions\<close>

record tool_call =
  tc_name :: string
  tc_arguments :: json

record parsed_output =
  po_thinking :: "string option"
  po_tool_calls :: "tool_call list"
  po_text :: "string option"

record session =
  se_id :: string
  se_messages :: "message list"
  se_created_at :: nat
  se_updated_at :: nat
  se_summary :: "string option"

definition session_new :: "string \<Rightarrow> nat \<Rightarrow> session" where
  "session_new sid now =
    \<lparr>se_id = sid, se_messages = [], se_created_at = now, se_updated_at = now, se_summary = None\<rparr>"

definition add_message :: "nat \<Rightarrow> message \<Rightarrow> session \<Rightarrow> session" where
  "add_message now m s = s\<lparr>se_messages := se_messages s @ [m], se_updated_at := now\<rparr>"

lemma add_message_simps [simp]:
  "se_messages (add_message now m s) = se_messages s @ [m]"
  "se_id (add_message now m s) = se_id s"
  by (simp_all add: add_message_def)

end
