(* ===== verification/Compaction.thy ===== *)
theory Compaction
  imports Conversation Soft_Float Messages "HOL-Library.Product_Lexorder"
begin

text \<open>
  \<open>src/agent/compaction.rs\<close>: the four levels by which a conversation is shortened when its estimated
  tokens exceed the budget, and the budget split over four memory kinds.

  A message list that the code mutates in place is returned. \<open>DefaultHasher\<close> is the argument \<open>H\<close>,
  the file system of level 0 the argument \<open>wr\<close> (does writing this text to this path succeed?), and
  \<open>ord\<close> the order in which the map of tool counts is iterated. The environment variables are an
  argument \<open>env\<close>. Floats are those of \<open>Soft_Float\<close>. The embedding scorer, the parsing of
  ratios from the environment and the flush into the memory store are not modelled.
\<close>

section \<open>Configuration\<close>

record budget_ratios =
  br_recent_buffer :: rat
  br_conversation_summary :: rat
  br_relevant_entities :: rat
  br_knowledge_graph :: rat

record compaction_config =
  large_output_threshold :: nat
  placeholder_keep_recent :: nat
  summary_max_chars :: nat
  emergency_keep :: nat
  max_context_tokens :: nat
  prune_minimum_chars :: nat
  prune_protect_tokens :: nat
  cc_budget_ratios :: "budget_ratios option"

definition cc_default :: compaction_config where
  "cc_default =
    \<lparr>large_output_threshold = 5000, placeholder_keep_recent = 6, summary_max_chars = 200,
     emergency_keep = 4, max_context_tokens = 14000, prune_minimum_chars = 50,
     prune_protect_tokens = 4000, cc_budget_ratios = None\<rparr>"

text \<open>A product of 32-bit numbers and 70 never saturates a 64-bit \<open>usize\<close>.\<close>

definition from_n_ctx_budget :: "nat option \<Rightarrow> compaction_config" where
  "from_n_ctx_budget n_ctx_budget =
    (let config = cc_default
     in case n_ctx_budget of
          None \<Rightarrow> config
        | Some n_ctx \<Rightarrow>
            if n_ctx = 0 then config
            else (let derived = min (n_ctx * 70) (2 ^ 64 - 1) div 100;
                      m = max derived (emergency_keep config)
                  in config\<lparr>max_context_tokens := m,
                            prune_protect_tokens := min (prune_protect_tokens config) (m div 2)\<rparr>))"

type_synonym environment = "string \<Rightarrow> string option"

definition env_truthy :: "environment \<Rightarrow> string \<Rightarrow> bool" where
  "env_truthy env k =
    (case env k of None \<Rightarrow> False
     | Some v \<Rightarrow> v = ''1'' \<or> v = ''true'' \<or> v = ''TRUE'' \<or> v = ''yes'' \<or> v = ''YES'')"

definition is_dynamic_budget_enabled :: "environment \<Rightarrow> bool" where
  "is_dynamic_budget_enabled env = env_truthy env ''BONSAI_DYNAMIC_BUDGET''"

definition is_lab_smoke_mode :: "environment \<Rightarrow> bool" where
  "is_lab_smoke_mode env = env_truthy env ''BONSAI_LAB_SMOKE''"

definition lab_max_ctx_from_env :: "environment \<Rightarrow> nat option" where
  "lab_max_ctx_from_env env =
    (case env ''BONSAI_LAB_MAX_CTX'' of None \<Rightarrow> None
     | Some v \<Rightarrow>
        (case parse_usize (trim v) of None \<Rightarrow> None
         | Some n \<Rightarrow> if 1 \<le> n \<and> n \<le> 14000 then Some n else None))"

definition smoke_default_max_ctx :: nat where
  "smoke_default_max_ctx = 6000"

definition with_smoke_or_env_override :: "environment \<Rightarrow> compaction_config \<Rightarrow> compaction_config" where
  "with_smoke_or_env_override env config =
    (let m = (case lab_max_ctx_from_env env of Some n \<Rightarrow> n
              | None \<Rightarrow> if is_lab_smoke_mode env then smoke_default_max_ctx
                        else max_context_tokens config)
     in config\<lparr>max_context_tokens := m,
               prune_protect_tokens := min (prune_protect_tokens config) (m div 2)\<rparr>)"

section \<open>The dynamic budget\<close>

definition br_default :: budget_ratios where
  "br_default =
    \<lparr>br_recent_buffer = fl32 (3 / 10), br_conversation_summary = fl32 (3 / 10),
     br_relevant_entities = fl32 (15 / 100), br_knowledge_graph = fl32 (1 / 4)\<rparr>"

record allocated_budget =
  ab_total :: nat
  ab_buffer :: nat
  ab_summary :: nat
  ab_entities :: nat
  ab_kg :: nat

text \<open>One axis: \<open>(t * ratio) as usize\<close> in \<open>f32\<close>.\<close>

definition share :: "nat \<Rightarrow> rat \<Rightarrow> nat" where
  "share tot ratio = trunc_usize (fl32 (fl32 (of_nat tot) * ratio))"

definition allocate :: "budget_ratios \<Rightarrow> nat \<Rightarrow> allocated_budget" where
  "allocate r tot =
    (let buffer = share tot (br_recent_buffer r);
         summary = share tot (br_conversation_summary r);
         entities = share tot (br_relevant_entities r);
         kg = share tot (br_knowledge_graph r);
         remainder = tot - (buffer + summary + entities + kg)
     in \<lparr>ab_total = tot, ab_buffer = buffer + remainder, ab_summary = summary,
         ab_entities = entities, ab_kg = kg\<rparr>)"

definition is_normalized :: "budget_ratios \<Rightarrow> bool" where
  "is_normalized r =
    (let parts = [br_recent_buffer r, br_conversation_summary r, br_relevant_entities r,
                  br_knowledge_graph r]
     in if \<not> list_all (\<lambda>p. 0 \<le> p) parts then False
        else \<bar>fl32 (foldl (\<lambda>s p. fl32 (s + p)) 0 parts - 1)\<bar> < fl32 (1 / 1000))"

record memory_relevance =
  mr_buffer :: rat
  mr_summary :: rat
  mr_entities :: rat
  mr_kg :: rat

definition mr_default :: memory_relevance where
  "mr_default = \<lparr>mr_buffer = 1, mr_summary = 1 / 2, mr_entities = 1 / 2, mr_kg = 1 / 2\<rparr>"

text \<open>\<open>alpha\<close> is the value of \<open>dynamic_budget_alpha()\<close>.\<close>

definition adjust_ratio :: "rat \<Rightarrow> rat \<Rightarrow> rat \<Rightarrow> rat" where
  "adjust_ratio alpha base rel = fl32 (base * fl32 (1 + fl32 (fl32 (rel - 1 / 2) * alpha)))"

definition adjusted :: "rat \<Rightarrow> memory_relevance \<Rightarrow> budget_ratios \<Rightarrow> budget_ratios" where
  "adjusted alpha rel r =
    (let nb = adjust_ratio alpha (br_recent_buffer r) (mr_buffer rel);
         ns = adjust_ratio alpha (br_conversation_summary r) (mr_summary rel);
         ne = adjust_ratio alpha (br_relevant_entities r) (mr_entities rel);
         nk = adjust_ratio alpha (br_knowledge_graph r) (mr_kg rel);
         s = fl32 (fl32 (fl32 (nb + ns) + ne) + nk)
     in if s \<le> 0 then r
        else \<lparr>br_recent_buffer = fl32 (nb / s), br_conversation_summary = fl32 (ns / s),
              br_relevant_entities = fl32 (ne / s), br_knowledge_graph = fl32 (nk / s)\<rparr>)"

text \<open>A part of the variable that is infinite or not a number makes the sum invalid.\<close>

definition finite_value :: "float_value \<Rightarrow> rat option" where
  "finite_value v = (case v of Finite x \<Rightarrow> Some x | _ \<Rightarrow> None)"

definition dynamic_budget_ratios_from_env :: "environment \<Rightarrow> budget_ratios option" where
  "dynamic_budget_ratios_from_env env =
    (case env ''BONSAI_DYNAMIC_BUDGET_RATIOS'' of None \<Rightarrow> None
     | Some v \<Rightarrow>
        (case map finite_value
                (List.map_filter (\<lambda>s. parse_float 24 (trim s)) (split_where (\<lambda>c. c = CHR '','') v)) of
           [Some a, Some b, Some c, Some d] \<Rightarrow>
             (let r = \<lparr>br_recent_buffer = a, br_conversation_summary = b, br_relevant_entities = c,
                       br_knowledge_graph = d\<rparr>
              in if is_normalized r then Some r else None)
         | _ \<Rightarrow> None))"

definition dynamic_budget_alpha :: "environment \<Rightarrow> rat" where
  "dynamic_budget_alpha env =
    (case env ''BONSAI_DYNAMIC_BUDGET_ALPHA'' of None \<Rightarrow> fl32 (1 / 5)
     | Some v \<Rightarrow>
        (case parse_float 24 v of
           Some (Finite a) \<Rightarrow> if 0 \<le> a \<and> a \<le> 1 then a else fl32 (1 / 5)
         | _ \<Rightarrow> fl32 (1 / 5)))"

definition with_dynamic_budget_from_env :: "environment \<Rightarrow> compaction_config \<Rightarrow> compaction_config" where
  "with_dynamic_budget_from_env env config =
    (if is_dynamic_budget_enabled env
     then config\<lparr>cc_budget_ratios := Some (case dynamic_budget_ratios_from_env env of
            Some r \<Rightarrow> r | None \<Rightarrow> br_default)\<rparr>
     else config)"

definition dynamic_budget_for_compaction :: "compaction_config \<Rightarrow> allocated_budget option" where
  "dynamic_budget_for_compaction config =
    map_option (\<lambda>r. allocate r (max_context_tokens config)) (cc_budget_ratios config)"

section \<open>Estimates and extraction\<close>

definition div_ceil :: "nat \<Rightarrow> nat \<Rightarrow> nat" where
  "div_ceil a b = (if a mod b = 0 then a div b else a div b + 1)"

definition estimate_message_tokens :: "string \<Rightarrow> nat" where
  "estimate_message_tokens content =
    (let by_chars = div_ceil (char_count content) 3;
         by_utf8 = div_ceil (length content * 4) 10
     in max (max by_chars by_utf8) 1)"

definition estimate_tokens :: "message list \<Rightarrow> nat" where
  "estimate_tokens ms = sum_list (map (\<lambda>m. estimate_message_tokens (msg_content m)) ms)"

definition find_ai_tool_pairs :: "message list \<Rightarrow> (nat \<times> nat) list" where
  "find_ai_tool_pairs ms =
    [(i, i + 1). i \<leftarrow> [0..<length ms - 1],
                 msg_role (ms ! i) = Assistant \<and> msg_role (ms ! (i + 1)) = Tool]"

definition extract_name_from_json :: "string \<Rightarrow> string option" where
  "extract_name_from_json s =
    (case str_find s ([dquote] @ ''name'' @ [dquote]) of None \<Rightarrow> None
     | Some name_key \<Rightarrow>
        let after_key = drop (name_key + 6) s
        in case str_find after_key '':'' of None \<Rightarrow> None
           | Some colon \<Rightarrow>
              let after_colon = trim_start (drop (colon + 1) after_key)
              in if \<not> starts_with after_colon [dquote] then None
                 else let value_start = drop 1 after_colon
                      in case str_find value_start [dquote] of None \<Rightarrow> None
                         | Some e \<Rightarrow> Some (take e value_start))"

text \<open>
  The blocks between an opening and a closing tag, in order; the loops of
  \<open>summarize_tool_usage\<close> and \<open>extract_thinking_summary\<close> both walk them, stopping at an unclosed tag
  (the tags are never empty; the test for it only serves the termination proof).
\<close>

function tag_blocks :: "string \<Rightarrow> string \<Rightarrow> string \<Rightarrow> string list" where
  "tag_blocks op cl s =
    (case str_find s op of
       None \<Rightarrow> []
     | Some start \<Rightarrow>
        let after_tag = drop (start + length op) s
        in case str_find after_tag cl of
             None \<Rightarrow> []
           | Some e \<Rightarrow>
              if op = [] then [] else take e after_tag # tag_blocks op cl (drop (e + length cl) after_tag))"
  by pat_completeness auto
termination
  by (relation "measure (\<lambda>(op, cl, s). length s)")
    (auto dest!: str_find_Some simp flip: length_greater_0_conv)

declare tag_blocks.simps [simp del]

definition summarize_tool_usage :: "message list \<Rightarrow> (string, nat) hashmap" where
  "summarize_tool_usage ms =
    fold hm_bump
      (concat (map (\<lambda>m. List.map_filter extract_name_from_json
                          (tag_blocks ''<tool_call>'' ''</tool_call>'' (msg_content m)))
                   (filter (\<lambda>m. msg_role m = Assistant) ms)))
      []"

definition extract_last_sentence :: "string \<Rightarrow> string" where
  "extract_last_sentence block =
    (let ls = filter (\<lambda>l. trim l \<noteq> []) (str_lines block)
     in if ls \<noteq> [] then trim (last ls) else trim block)"

text \<open>The summary one block yields, if any.\<close>

definition block_summary :: "string \<Rightarrow> string option" where
  "block_summary b =
    (let block = trim b
     in if block = [] then None
        else (let s = extract_last_sentence block in if s = [] then None else Some (take_chars 200 s)))"

definition extract_thinking_summary :: "message list \<Rightarrow> string list" where
  "extract_thinking_summary ms =
    take 3 (concat (map (\<lambda>m. List.map_filter block_summary
                               (tag_blocks ''<think>'' ''</think>'' (msg_content m)))
                        (filter (\<lambda>m. msg_role m = Assistant) ms)))"

function strip_think_tags :: "string \<Rightarrow> string" where
  "strip_think_tags s =
    (case str_find s ''<think>'' of
       None \<Rightarrow> s
     | Some start \<Rightarrow>
        (case str_find (drop start s) ''</think>'' of
           None \<Rightarrow> take start s
         | Some e \<Rightarrow> take start s @ strip_think_tags (drop (start + e + 8) s)))"
  by pat_completeness auto
termination
  by (relation "measure length") (auto dest!: str_find_Some)

declare strip_think_tags.simps [simp del]

definition last_with_role :: "role \<Rightarrow> message list \<Rightarrow> message option" where
  "last_with_role r ms = List.find (\<lambda>m. msg_role m = r) (rev ms)"

definition outcome_text :: "string \<Rightarrow> string option" where
  "outcome_text s = (let t = trim s in if t = [] then None else Some (take_chars 200 t))"

definition extract_last_outcome :: "message list \<Rightarrow> string option" where
  "extract_last_outcome ms =
    (let from_tool = (case last_with_role Tool ms of None \<Rightarrow> None
                      | Some m \<Rightarrow> outcome_text (msg_content m))
     in case last_with_role Assistant ms of
          None \<Rightarrow> from_tool
        | Some m \<Rightarrow> (case outcome_text (strip_think_tags (msg_content m)) of
                       Some t \<Rightarrow> Some t | None \<Rightarrow> from_tool))"

definition is_tool_error_message :: "string \<Rightarrow> bool" where
  "is_tool_error_message content =
    (let t = trim_start content
     in starts_with t m_tool_error \<or> starts_with t ''Error:'' \<or> starts_with t ''[Tool error]'')"

definition score_message_importance :: "message \<Rightarrow> rat" where
  "score_message_importance m =
    (case msg_role m of
       User \<Rightarrow> 1
     | System \<Rightarrow> if str_contains (msg_content m) ''<context'' \<or> str_contains (msg_content m) ''<memory-context''
                then fl64 (3 / 10) else fl64 (9 / 10)
     | Assistant \<Rightarrow> if str_contains (msg_content m) ''<tool_call>'' then fl64 (7 / 10) else fl64 (4 / 10)
     | Tool \<Rightarrow> if is_tool_error_message (msg_content m) then fl64 (2 / 10) else 1 / 2)"

text \<open>The loop of \<open>collect_unresolved\<close>, from the newest message backwards, at most three.\<close>

fun collect_errors :: "message list \<Rightarrow> string list \<Rightarrow> string list" where
  "collect_errors [] errors = errors"
| "collect_errors (m # ms) errors =
    (if msg_role m = Tool \<and> is_tool_error_message (msg_content m)
     then (let preview = take_chars 100 (msg_content m);
               errors' = (if preview \<in> set errors then errors else errors @ [preview])
           in if length errors' \<ge> 3 then errors' else collect_errors ms errors')
     else collect_errors ms errors)"

definition collect_unresolved :: "message list \<Rightarrow> nat \<Rightarrow> string list" where
  "collect_unresolved ms boundary = rev (collect_errors (rev (take boundary ms)) [])"

section \<open>Level 0: large tool outputs go to a file\<close>

definition offload_path :: "(string \<Rightarrow> 64 word) \<Rightarrow> string \<Rightarrow> string" where
  "offload_path H c = ''/tmp/bonsai-out-'' @ show_hex (unat (H c)) @ ''.txt''"

text \<open>One message: its new version and, when it was written, the path.\<close>

definition offload ::
    "(string \<Rightarrow> 64 word) \<Rightarrow> (string \<Rightarrow> string \<Rightarrow> bool) \<Rightarrow> compaction_config \<Rightarrow> message
     \<Rightarrow> message \<times> string option" where
  "offload H wr config m =
    (if msg_role m = Tool \<and> length (msg_content m) > large_output_threshold config then
       (let p = offload_path H (msg_content m)
        in if wr p (msg_content m) then
             (m\<lparr>msg_content := take_chars 200 (msg_content m) @ ''...'' @ nl @ ''[saved:'' @ p @ ''(''
                  @ show_nat (length (msg_content m)) @ ''c)]''\<rparr>, Some p)
           else (m, None))
     else (m, None))"

definition compact_level0 ::
    "(string \<Rightarrow> 64 word) \<Rightarrow> (string \<Rightarrow> string \<Rightarrow> bool) \<Rightarrow> compaction_config \<Rightarrow> message list
     \<Rightarrow> message list \<times> string list" where
  "compact_level0 H wr config ms =
    (let rs = map (offload H wr config) ms in (map fst rs, List.map_filter snd rs))"

section \<open>Memory kinds and their budgets\<close>

datatype memory_kind = Buffer | Summary | Entities | Kg | Unclassified

record axis_usage =
  au_buffer :: nat
  au_summary :: nat
  au_entities :: nat
  au_kg :: nat
  au_unclassified :: nat

definition classify_memory_kind :: "message \<Rightarrow> nat \<Rightarrow> nat \<Rightarrow> nat \<Rightarrow> memory_kind" where
  "classify_memory_kind m idx n keep_recent =
    (let c = msg_content m
     in if idx \<ge> n - keep_recent \<and> (msg_role m = User \<or> msg_role m = Assistant) then Buffer
        else if msg_role m = Assistant
                \<and> (str_contains c ''[Preserved Thinking]'' \<or> str_contains c ''...[summarized]'')
          then Summary
        else if msg_role m = Tool then
          (let by_content = (if starts_with c ''[entities:'' then Entities else Unclassified)
           in case msg_tool_call_id m of
                None \<Rightarrow> by_content
              | Some i \<Rightarrow>
                  if starts_with i ''agenther_'' then Entities
                  else if starts_with i ''memory_search'' \<or> starts_with i ''kg_query''
                          \<or> starts_with i ''graph_search'' then Kg
                  else by_content)
        else Unclassified)"

fun add_usage :: "memory_kind \<Rightarrow> nat \<Rightarrow> axis_usage \<Rightarrow> axis_usage" where
  "add_usage Buffer tok u = u\<lparr>au_buffer := au_buffer u + tok\<rparr>"
| "add_usage Summary tok u = u\<lparr>au_summary := au_summary u + tok\<rparr>"
| "add_usage Entities tok u = u\<lparr>au_entities := au_entities u + tok\<rparr>"
| "add_usage Kg tok u = u\<lparr>au_kg := au_kg u + tok\<rparr>"
| "add_usage Unclassified tok u = u\<lparr>au_unclassified := au_unclassified u + tok\<rparr>"

definition measure_axis_usage :: "message list \<Rightarrow> nat \<Rightarrow> axis_usage" where
  "measure_axis_usage ms keep_recent =
    fold (\<lambda>(idx, m). add_usage (classify_memory_kind m idx (length ms) keep_recent)
                         (div_ceil (length (msg_content m)) 4))
      (enumerate 0 ms)
      \<lparr>au_buffer = 0, au_summary = 0, au_entities = 0, au_kg = 0, au_unclassified = 0\<rparr>"

definition overflow_tolerance :: "nat \<Rightarrow> nat" where
  "overflow_tolerance n = max (n div 1000) 1"

definition overflow_axes :: "axis_usage \<Rightarrow> allocated_budget \<Rightarrow> (memory_kind \<times> nat) list" where
  "overflow_axes u a =
    (let tol = overflow_tolerance (ab_total a);
         over = (\<lambda>k used given. if used > given + tol then [(k, used - given)] else [])
     in rev (sort_key snd (rev
          (over Buffer (au_buffer u) (ab_buffer a) @ over Summary (au_summary u) (ab_summary a)
           @ over Entities (au_entities u) (ab_entities a) @ over Kg (au_kg u) (ab_kg a)))))"

section \<open>Level 1: old tool outputs become placeholders\<close>

text \<open>The loop over the messages from the newest: how many fit in the protected tokens.\<close>

fun keep_by_tokens :: "nat \<Rightarrow> nat \<Rightarrow> message list \<Rightarrow> nat" where
  "keep_by_tokens protect acc [] = 0"
| "keep_by_tokens protect acc (m # ms) =
    (let acc' = acc + div_ceil (length (msg_content m)) 4
     in if acc' > protect then 0 else Suc (keep_by_tokens protect acc' ms))"

definition level1_boundary :: "compaction_config \<Rightarrow> message list \<Rightarrow> nat" where
  "level1_boundary config ms =
    length ms - max (placeholder_keep_recent config) (keep_by_tokens (prune_protect_tokens config) 0 (rev ms))"

definition protected_indices :: "message list \<Rightarrow> nat \<Rightarrow> nat list" where
  "protected_indices ms boundary =
    concat (map (\<lambda>(a, b). if a \<ge> boundary \<or> b \<ge> boundary then [a, b] else []) (find_ai_tool_pairs ms))"

definition first_index :: "('a \<Rightarrow> bool) \<Rightarrow> 'a list \<Rightarrow> nat option" where
  "first_index P xs = List.find (\<lambda>i. P (xs ! i)) [0..<length xs]"

definition last_index :: "('a \<Rightarrow> bool) \<Rightarrow> 'a list \<Rightarrow> nat option" where
  "last_index P xs = List.find (\<lambda>i. P (xs ! i)) (rev [0..<length xs])"

definition level1_candidates :: "message list \<Rightarrow> nat \<Rightarrow> nat list" where
  "level1_candidates ms boundary =
    (let protected = protected_indices ms boundary;
         first_user = first_index (\<lambda>m. msg_role m = User) (take boundary ms);
         last_user = last_index (\<lambda>m. msg_role m = User) (take boundary ms)
     in filter (\<lambda>i. i \<notin> set protected \<and> Some i \<noteq> first_user \<and> Some i \<noteq> last_user) [0..<boundary])"

definition prune_message :: "compaction_config \<Rightarrow> message \<Rightarrow> message" where
  "prune_message config m =
    (if msg_role m = Tool \<and> length (msg_content m) > prune_minimum_chars config
     then m\<lparr>msg_content := ''[prev:'' @ (case msg_tool_call_id m of None \<Rightarrow> ''?'' | Some i \<Rightarrow> i) @ '']''\<rparr>
     else m)"

definition prune_at :: "compaction_config \<Rightarrow> nat \<Rightarrow> message list \<Rightarrow> message list" where
  "prune_at config i ms = ms[i := prune_message config (ms ! i)]"

text \<open>Overflowing kinds first, then the lower scores; the sort is stable.\<close>

definition level1_order ::
    "compaction_config \<Rightarrow> message list \<Rightarrow> memory_kind list \<Rightarrow> nat list \<Rightarrow> nat list" where
  "level1_order config ms overflow_kinds cands =
    sort_key (\<lambda>i. (classify_memory_kind (ms ! i) i (length ms) (placeholder_keep_recent config)
                      \<notin> set overflow_kinds,
                    score_message_importance (ms ! i))) cands"

definition compact_level1_with_budget ::
    "compaction_config \<Rightarrow> allocated_budget option \<Rightarrow> message list \<Rightarrow> message list" where
  "compact_level1_with_budget config allocated ms =
    (if length ms \<le> placeholder_keep_recent config then ms
     else (let boundary = level1_boundary config ms
           in if boundary = 0 then ms
              else (let overflow_kinds =
                          (case allocated of None \<Rightarrow> []
                           | Some a \<Rightarrow> map fst (overflow_axes
                               (measure_axis_usage (take boundary ms) (placeholder_keep_recent config)) a));
                        candidates = level1_order config ms overflow_kinds (level1_candidates ms boundary)
                    in fold (prune_at config) candidates ms)))"

definition compact_level1 :: "compaction_config \<Rightarrow> message list \<Rightarrow> message list" where
  "compact_level1 config ms = compact_level1_with_budget config None ms"

section \<open>Level 2: old answers are cut, their conclusions kept\<close>

definition level2_summary_max :: "compaction_config \<Rightarrow> allocated_budget option \<Rightarrow> message list \<Rightarrow> nat" where
  "level2_summary_max config allocated ms =
    (let overflow =
       (case allocated of None \<Rightarrow> False
        | Some a \<Rightarrow> au_summary (measure_axis_usage ms (placeholder_keep_recent config))
                     > ab_summary a + overflow_tolerance (ab_total a))
     in if overflow
        then max (trunc_usize (fl64 (fl64 (of_nat (summary_max_chars config)) * fl64 (7 / 10)))) 1
        else summary_max_chars config)"

definition summarize_message :: "nat \<Rightarrow> message \<Rightarrow> message" where
  "summarize_message summary_max m =
    (if msg_role m = Assistant \<and> \<not> str_contains (msg_content m) ''...[summarized]''
        \<and> char_count (msg_content m) > summary_max
     then m\<lparr>msg_content := take_chars summary_max (msg_content m) @ ''...[summarized]''\<rparr>
     else m)"

definition thinking_note :: "string list \<Rightarrow> string" where
  "thinking_note ts = nl @ ''[Preserved Thinking]'' @ nl @ join nl (map (\<lambda>s. ''- '' @ s) ts)"

definition append_content :: "string \<Rightarrow> message \<Rightarrow> message" where
  "append_content s m = m\<lparr>msg_content := msg_content m @ s\<rparr>"

definition compact_level2_with_budget ::
    "compaction_config \<Rightarrow> allocated_budget option \<Rightarrow> message list \<Rightarrow> message list" where
  "compact_level2_with_budget config allocated ms =
    (if length ms \<le> placeholder_keep_recent config then ms
     else (let boundary = length ms - placeholder_keep_recent config;
               summary_max = level2_summary_max config allocated ms;
               thinking = extract_thinking_summary (take boundary ms);
               old = map (summarize_message summary_max) (take boundary ms);
               old' = (if thinking = [] then old
                       else case last_index (\<lambda>m. msg_role m = Assistant) old of
                              None \<Rightarrow> old
                            | Some i \<Rightarrow> old[i := append_content (thinking_note thinking) (old ! i)])
           in old' @ drop boundary ms))"

definition compact_level2 :: "compaction_config \<Rightarrow> message list \<Rightarrow> message list" where
  "compact_level2 config ms = compact_level2_with_budget config None ms"

section \<open>Level 3: a handoff note and the newest messages\<close>

definition tool_stats_text ::
    "((string, nat) hashmap \<Rightarrow> (string, nat) hashmap) \<Rightarrow> message list \<Rightarrow> string" where
  "tool_stats_text ord compressed =
    (let stats = summarize_tool_usage compressed
     in if stats = [] then []
        else nl @ ''Tool stats: ''
             @ join '', '' (map (\<lambda>(name, n). name @ '':'' @ show_nat n)
                             (take 8 (sort_key (\<lambda>(name, n). - int n) (ord stats)))))"

definition build_handoff_summary ::
    "((string, nat) hashmap \<Rightarrow> (string, nat) hashmap) \<Rightarrow> compaction_config \<Rightarrow> message list
     \<Rightarrow> message option" where
  "build_handoff_summary ord config ms =
    (let boundary = length ms - emergency_keep config
     in if boundary < 2 then None
        else (let compressed = take boundary ms;
                  resolved = map (\<lambda>m. take_chars 80 (msg_content m))
                               (filter (\<lambda>m. msg_role m = Assistant \<and> length (msg_content m) > 20) compressed);
                  resolved_text = join nl (map (\<lambda>r. ''- '' @ r) (take 3 resolved));
                  outcome = (case extract_last_outcome compressed of
                               None \<Rightarrow> [] | Some t \<Rightarrow> nl @ ''Last outcome: '' @ t);
                  unresolved = collect_unresolved ms boundary;
                  unresolved_text = (if unresolved = [] then []
                    else nl @ ''Unresolved issues:'' @ nl @ join nl (map (\<lambda>e. ''- '' @ e) unresolved))
              in if resolved = [] then None
                 else Some (msg_system (m_handoff_1 @ resolved_text @ tool_stats_text ord compressed
                              @ outcome @ unresolved_text @ m_handoff_2))))"

definition compact_level3 ::
    "((string, nat) hashmap \<Rightarrow> (string, nat) hashmap) \<Rightarrow> compaction_config \<Rightarrow> message list
     \<Rightarrow> message list" where
  "compact_level3 ord config ms =
    (if length ms \<le> emergency_keep config + 1 then ms
     else filter (\<lambda>m. msg_role m = System) ms
          @ (case build_handoff_summary ord config ms of None \<Rightarrow> [] | Some h \<Rightarrow> [h])
          @ last_n (emergency_keep config) ms)"

section \<open>The cascade\<close>

definition compact_if_needed ::
    "((string, nat) hashmap \<Rightarrow> (string, nat) hashmap) \<Rightarrow> (string \<Rightarrow> 64 word)
     \<Rightarrow> (string \<Rightarrow> string \<Rightarrow> bool) \<Rightarrow> compaction_config \<Rightarrow> message list
     \<Rightarrow> message list \<times> nat \<times> string list" where
  "compact_if_needed ord H wr config ms =
    (let allocated = dynamic_budget_for_compaction config;
         (ms0, off) = compact_level0 H wr config ms;
         (ms1, lv1) = (if estimate_tokens ms0 > max_context_tokens config * 3 div 4
                       then (compact_level1_with_budget config allocated ms0, 1) else (ms0, 0));
         (ms2, lv2) = (if estimate_tokens ms1 > max_context_tokens config * 9 div 10
                       then (compact_level2_with_budget config allocated ms1, 2) else (ms1, lv1));
         (ms3, lv3) = (if estimate_tokens ms2 > max_context_tokens config
                       then (compact_level3 ord config ms2, 3) else (ms2, lv2))
     in (ms3, lv3, off))"

definition memory_relevance_from_messages :: "message list \<Rightarrow> nat \<Rightarrow> memory_relevance" where
  "memory_relevance_from_messages ms keep_recent =
    (let u = measure_axis_usage ms keep_recent;
         t = fl32 (of_nat (max (au_buffer u + au_summary u + au_entities u + au_kg u) 1));
         part = (\<lambda>n. max 0 (min 1 (fl32 (fl32 (of_nat n) / t))))
     in \<lparr>mr_buffer = 1, mr_summary = part (au_summary u), mr_entities = part (au_entities u),
         mr_kg = part (au_kg u)\<rparr>)"

end
