(* ===== verification/Model_Router.thy ===== *)
theory Model_Router
  imports Conversation Soft_Float Messages
begin

text \<open>
  \<open>src/runtime/model_router.rs\<close> without the fallback chain: the choice of the model, the advisor with
  its budget and its cache, the wait for the command-line advisor, and the critic's configuration
  from the environment.

  The HTTP client and the external process are arguments: \<open>post\<close> answers a request with an error
  text or a JSON value, \<open>cli\<close> runs a prompt. \<open>H\<close> is \<open>DefaultHasher\<close> over the bytes fed to it (a
  string feeds its bytes and 0xFF). \<open>ram\<close> is the free memory.
\<close>

section \<open>Advisor configuration\<close>

datatype advisor_role = Verification | ReplanRole

datatype advisor_backend = Local | Http | ClaudeCode

definition parse_backend :: "string \<Rightarrow> advisor_backend" where
  "parse_backend s =
    (let l = to_lowercase s
     in if l = ''http'' \<or> l = ''api'' then Http
        else if l = ''claude-code'' \<or> l = ''claude_code'' \<or> l = ''claude'' then ClaudeCode
        else Local)"

record retry_policy =
  rp_max_retries :: nat
  rp_base_delay_ms :: nat

definition rp_default :: retry_policy where
  "rp_default = \<lparr>rp_max_retries = 2, rp_base_delay_ms = 500\<rparr>"

datatype retry_error_kind = Retryable | AuthFailure | OtherError

definition classify_advisor_error :: "string \<Rightarrow> retry_error_kind" where
  "classify_advisor_error error_msg =
    (let lower = to_lowercase error_msg
     in if str_contains lower ''timeout'' \<or> str_contains lower ''429'' \<or> str_contains lower ''503''
           \<or> str_contains lower ''rate limit'' \<or> str_contains lower ''too many'' then Retryable
        else if str_contains lower ''401'' \<or> str_contains lower ''403'' \<or> str_contains lower ''auth''
           \<or> str_contains lower ''unauthorized'' \<or> str_contains lower ''forbidden'' then AuthFailure
        else OtherError)"

record advisor_config =
  ad_max_uses :: nat
  ad_calls_used :: nat
  ad_max_advisor_tokens :: nat
  ad_api_endpoint :: "string option"
  ad_api_key :: "string option"
  ad_api_model :: "string option"
  ad_timeout_secs :: nat
  ad_verification_prompt :: string
  ad_replan_prompt :: string
  ad_backend :: advisor_backend
  ad_retry_policy :: retry_policy
  ad_cache :: "(64 word, string) hashmap"
  ad_dynamic_skip_threshold :: rat
  ad_min_samples_for_skip :: nat

definition ad_default :: advisor_config where
  "ad_default =
    \<lparr>ad_max_uses = 3, ad_calls_used = 0, ad_max_advisor_tokens = 700, ad_api_endpoint = None,
     ad_api_key = None, ad_api_model = None, ad_timeout_secs = 10,
     ad_verification_prompt = m_default_verification, ad_replan_prompt = m_default_replan,
     ad_backend = Local, ad_retry_policy = rp_default, ad_cache = [],
     ad_dynamic_skip_threshold = 0, ad_min_samples_for_skip = 5\<rparr>"

definition can_advise :: "advisor_config \<Rightarrow> bool" where
  "can_advise c = (ad_calls_used c < ad_max_uses c)"

definition ad_record_call :: "advisor_config \<Rightarrow> advisor_config" where
  "ad_record_call c = c\<lparr>ad_calls_used := ad_calls_used c + 1\<rparr>"

definition ad_remaining :: "advisor_config \<Rightarrow> nat" where
  "ad_remaining c = ad_max_uses c - ad_calls_used c"

definition local_prompt_for :: "advisor_config \<Rightarrow> advisor_role \<Rightarrow> string \<Rightarrow> string" where
  "local_prompt_for c role task_context =
    (case role of Verification \<Rightarrow> ad_verification_prompt c | ReplanRole \<Rightarrow> ad_replan_prompt c)"

definition system_prompt :: "advisor_role \<Rightarrow> string" where
  "system_prompt role =
    (case role of Verification \<Rightarrow> m_advisor_verification | ReplanRole \<Rightarrow> m_advisor_replan)"

definition user_prompt :: "advisor_role \<Rightarrow> string \<Rightarrow> string" where
  "user_prompt role task_context =
    (case role of Verification \<Rightarrow> m_task @ task_context @ m_user_verification
     | ReplanRole \<Rightarrow> m_task @ task_context @ m_user_replan)"

section \<open>Cached advice\<close>

type_synonym byte_hasher = "string \<Rightarrow> 64 word"
type_synonym http_post = "string \<Rightarrow> string option \<Rightarrow> nat \<Rightarrow> json \<Rightarrow> string + json"

definition key_discriminant_role :: "64 word" where
  "key_discriminant_role = 0x726F6C652D6B6579"

definition key_discriminant_prompt :: "64 word" where
  "key_discriminant_prompt = 0x70726F6D70742D6B"

definition str_end :: char where
  "str_end = CHR 0xFF"

definition role_byte :: "advisor_role \<Rightarrow> char" where
  "role_byte role = (case role of Verification \<Rightarrow> CHR 0x00 | ReplanRole \<Rightarrow> CHR 0x01)"

definition cache_key :: "byte_hasher \<Rightarrow> advisor_role \<Rightarrow> string \<Rightarrow> 64 word" where
  "cache_key H role task_context =
    Bit_Operations.xor (H (role_byte role # task_context @ [str_end])) key_discriminant_role"

definition cache_key_for_prompt :: "byte_hasher \<Rightarrow> string \<Rightarrow> string \<Rightarrow> 64 word" where
  "cache_key_for_prompt H system user =
    Bit_Operations.xor (H (system @ [str_end] @ [CHR 0x00, str_end] @ user @ [str_end]))
      key_discriminant_prompt"

definition chat_body :: "advisor_config \<Rightarrow> string \<Rightarrow> string \<Rightarrow> json" where
  "chat_body c system user =
    JObj [(''max_tokens'', JNum (PosInt (ad_max_advisor_tokens c))),
          (''messages'', JArr
            [JObj [(''content'', JStr system), (''role'', JStr ''system'')],
             JObj [(''content'', JStr user), (''role'', JStr ''user'')]]),
          (''model'', JStr (case ad_api_model c of None \<Rightarrow> ''gpt-4o-mini'' | Some m \<Rightarrow> m)),
          (''temperature'', JNum (Float (fl64 (3 / 10))))]"

text \<open>\<open>resp["choices"][0]["message"]["content"].as_str().unwrap_or("")\<close>: indexing what is absent
  gives null.\<close>

definition json_field :: "json \<Rightarrow> string \<Rightarrow> json" where
  "json_field v k = (case json_get v k of None \<Rightarrow> JNull | Some x \<Rightarrow> x)"

definition json_item :: "json \<Rightarrow> nat \<Rightarrow> json" where
  "json_item v i = (case v of JArr xs \<Rightarrow> if i < length xs then xs ! i else JNull | _ \<Rightarrow> JNull)"

definition chat_content :: "json \<Rightarrow> string" where
  "chat_content resp =
    (case as_str (json_field (json_field (json_item (json_field resp ''choices'') 0) ''message'') ''content'')
     of None \<Rightarrow> [] | Some s \<Rightarrow> s)"

text \<open>The common part: answer from the cache, or ask and remember what was answered.\<close>

definition cached_or_ask ::
    "64 word \<Rightarrow> (unit \<Rightarrow> string + string) \<Rightarrow> advisor_config \<Rightarrow> advisor_config \<times> (string + string option)" where
  "cached_or_ask key ask c =
    (case hm_get (ad_cache c) key of
       Some cached \<Rightarrow> (c, Inr (Some cached))
     | None \<Rightarrow>
        (case ask () of
           Inl e \<Rightarrow> (c, Inl e)
         | Inr content \<Rightarrow> (c\<lparr>ad_cache := hm_insert key content (ad_cache c)\<rparr>, Inr (Some content))))"

definition ask_http :: "http_post \<Rightarrow> string \<Rightarrow> advisor_config \<Rightarrow> string \<Rightarrow> string \<Rightarrow> string + string" where
  "ask_http post endpoint c system user =
    (case post endpoint (ad_api_key c) (ad_timeout_secs c) (chat_body c system user) of
       Inl e \<Rightarrow> Inl e
     | Inr resp \<Rightarrow> (let content = chat_content resp
                    in if content = [] then Inl m_advisor_empty else Inr content))"

definition try_remote_advice ::
    "byte_hasher \<Rightarrow> http_post \<Rightarrow> advisor_role \<Rightarrow> string \<Rightarrow> advisor_config
     \<Rightarrow> advisor_config \<times> (string + string option)" where
  "try_remote_advice H post role task_context c =
    (case ad_api_endpoint c of
       None \<Rightarrow> (c, Inr None)
     | Some endpoint \<Rightarrow>
        cached_or_ask (cache_key H role task_context)
          (\<lambda>_. ask_http post endpoint c (system_prompt role) (user_prompt role task_context)) c)"

definition try_remote_with_prompt ::
    "byte_hasher \<Rightarrow> http_post \<Rightarrow> string \<Rightarrow> string \<Rightarrow> advisor_config
     \<Rightarrow> advisor_config \<times> (string + string option)" where
  "try_remote_with_prompt H post system user c =
    (case ad_api_endpoint c of
       None \<Rightarrow> (c, Inr None)
     | Some endpoint \<Rightarrow>
        cached_or_ask (cache_key_for_prompt H system user) (\<lambda>_. ask_http post endpoint c system user) c)"

definition try_claude_code_advice ::
    "byte_hasher \<Rightarrow> (string \<Rightarrow> string + string) \<Rightarrow> advisor_role \<Rightarrow> string \<Rightarrow> advisor_config
     \<Rightarrow> advisor_config \<times> (string + string option)" where
  "try_claude_code_advice H cli role task_context c =
    (if ad_backend c \<noteq> ClaudeCode then (c, Inr None)
     else cached_or_ask (cache_key H role task_context)
            (\<lambda>_. cli (system_prompt role @ nl @ nl @ user_prompt role task_context @ m_claude_constraint)) c)"

definition try_claude_code_with_prompt ::
    "byte_hasher \<Rightarrow> (string \<Rightarrow> string + string) \<Rightarrow> string \<Rightarrow> string \<Rightarrow> advisor_config
     \<Rightarrow> advisor_config \<times> (string + string option)" where
  "try_claude_code_with_prompt H cli system user c =
    (if ad_backend c \<noteq> ClaudeCode then (c, Inr None)
     else cached_or_ask (cache_key_for_prompt H system user) (\<lambda>_. cli (system @ nl @ nl @ user)) c)"

section \<open>Waiting for the external process\<close>

text \<open>
  What one turn of the loop of \<open>exec_claude_cli\<close> sees: the cancellation flag, the answer of
  \<open>try_wait\<close> (an error, still running, or an exit code, \<open>None\<close> for a signal) and the elapsed
  milliseconds. The list of turns is the run of the outside world; the loop has not ended while the
  list is used up (\<open>None\<close>).
\<close>

record poll =
  pl_cancelled :: bool
  pl_wait :: "string + int option option"
  pl_elapsed :: nat

datatype cli_end = CliCancelled | CliTimedOut | CliWaitError string | CliExited "int option"

fun cli_wait :: "nat \<Rightarrow> poll list \<Rightarrow> cli_end option" where
  "cli_wait timeout [] = None"
| "cli_wait timeout (p # ps) =
    (if pl_cancelled p then Some CliCancelled
     else case pl_wait p of
            Inl e \<Rightarrow> Some (CliWaitError e)
          | Inr (Some status) \<Rightarrow> Some (CliExited status)
          | Inr None \<Rightarrow> if pl_elapsed p \<ge> timeout then Some CliTimedOut else cli_wait timeout ps)"

text \<open>The end of \<open>exec_claude_cli\<close>, given how the wait ended and what was read from the output
  (already decoded from UTF-8, lossily).\<close>

definition debug_code :: "int option \<Rightarrow> string" where
  "debug_code c = (case c of None \<Rightarrow> ''None'' | Some i \<Rightarrow> ''Some('' @ show_int i @ '')'')"

definition cli_result :: "nat \<Rightarrow> cli_end \<Rightarrow> string \<Rightarrow> string + string" where
  "cli_result timeout_secs e stdout =
    (case e of
       CliCancelled \<Rightarrow> Inl m_claude_cancelled
     | CliTimedOut \<Rightarrow> Inl (m_claude_timeout_1 @ show_nat timeout_secs @ ''s)'')
     | CliWaitError err \<Rightarrow> Inl err
     | CliExited status \<Rightarrow>
        if status \<noteq> Some 0 then Inl (m_claude_exit @ debug_code status)
        else (let content = trim stdout in if content = [] then Inl m_claude_empty else Inr content))"

section \<open>Critic\<close>

datatype critic_mode = SamePromptDifferentTemperature | DifferentSystemPrompt | SeparateBackend

definition critic_mode_str :: "critic_mode \<Rightarrow> string" where
  "critic_mode_str m =
    (case m of SamePromptDifferentTemperature \<Rightarrow> ''same_temp''
     | DifferentSystemPrompt \<Rightarrow> ''different_prompt'' | SeparateBackend \<Rightarrow> ''separate_backend'')"

datatype critic_hook = AfterStepOutcome | BeforeToolCall

datatype critic_disagreement_action = InjectAsSystemMessage | LogOnly | ForceReplan

datatype critic_outcome =
    Agree string
  | Disagree string "string option"
  | Uncertain string
  | Skipped string
  | BackendError string

definition critic_outcome_str :: "critic_outcome \<Rightarrow> string" where
  "critic_outcome_str out =
    (case out of Agree _ \<Rightarrow> ''agree'' | Disagree _ _ \<Rightarrow> ''disagree'' | Uncertain _ \<Rightarrow> ''uncertain''
     | Skipped _ \<Rightarrow> ''skipped'' | BackendError _ \<Rightarrow> ''error'')"

definition raw_response :: "critic_outcome \<Rightarrow> string option" where
  "raw_response out =
    (case out of Agree r \<Rightarrow> Some r | Disagree r _ \<Rightarrow> Some r | Uncertain r \<Rightarrow> Some r
     | Skipped _ \<Rightarrow> None | BackendError _ \<Rightarrow> None)"

record critic_config =
  cr_enabled :: bool
  cr_mode :: critic_mode
  cr_max_critic_uses :: nat
  cr_calls_used :: nat
  cr_system_prompt :: string
  cr_temperature :: rat
  cr_max_critic_tokens :: nat
  cr_hook :: critic_hook
  cr_on_disagreement :: critic_disagreement_action

text \<open>\<open>prompt\<close> is the text of \<open>prompts/critic.txt\<close>, included at compile time.\<close>

definition cr_default :: "string \<Rightarrow> critic_config" where
  "cr_default prompt =
    \<lparr>cr_enabled = False, cr_mode = SamePromptDifferentTemperature, cr_max_critic_uses = 3,
     cr_calls_used = 0, cr_system_prompt = prompt, cr_temperature = fl64 (7 / 10),
     cr_max_critic_tokens = 400, cr_hook = AfterStepOutcome,
     cr_on_disagreement = InjectAsSystemMessage\<rparr>"

definition can_critique :: "critic_config \<Rightarrow> bool" where
  "can_critique c = (cr_enabled c \<and> cr_calls_used c < cr_max_critic_uses c)"

definition cr_record_call :: "critic_config \<Rightarrow> critic_config" where
  "cr_record_call c = c\<lparr>cr_calls_used := cr_calls_used c + 1\<rparr>"

definition critic_from_env :: "string \<Rightarrow> (string \<Rightarrow> string option) \<Rightarrow> critic_config" where
  "critic_from_env prompt env =
    (let config = cr_default prompt;
         enabled = (case env ''BONSAI_CRITIC_ENABLED'' of None \<Rightarrow> False
                    | Some v \<Rightarrow> v = ''1'' \<or> eq_ignore_ascii_case v ''true'')
     in if \<not> enabled then config
        else config\<lparr>
          cr_enabled := True,
          cr_mode := (case env ''BONSAI_CRITIC_MODE'' of None \<Rightarrow> cr_mode config
                      | Some m \<Rightarrow> if m = ''different_prompt'' then DifferentSystemPrompt
                                  else SamePromptDifferentTemperature),
          cr_temperature := (case env ''BONSAI_CRITIC_TEMPERATURE'' of None \<Rightarrow> cr_temperature config
                             | Some s \<Rightarrow> (case parse_float 53 s of
                                            Some (Finite x) \<Rightarrow> x | _ \<Rightarrow> cr_temperature config)),
          cr_max_critic_uses := (case env ''BONSAI_CRITIC_MAX_USES'' of None \<Rightarrow> cr_max_critic_uses config
                                 | Some s \<Rightarrow> (case parse_usize s of
                                                Some n \<Rightarrow> n | None \<Rightarrow> cr_max_critic_uses config)),
          cr_hook := (case env ''BONSAI_CRITIC_HOOK'' of None \<Rightarrow> cr_hook config
                      | Some h \<Rightarrow> AfterStepOutcome),
          cr_on_disagreement := (case env ''BONSAI_CRITIC_DISAGREEMENT'' of
                        None \<Rightarrow> cr_on_disagreement config
                      | Some a \<Rightarrow> if a = ''log_only'' then LogOnly else InjectAsSystemMessage)\<rparr>)"

section \<open>Choosing the model\<close>

datatype model_selection = Bonsai | Gemma4E2B | Gemma4E4B

datatype pipeline_stage = Explore | Plan | Execute | Verify | Advise

record task_context =
  tx_has_image :: bool
  tx_estimated_tokens :: nat
  tx_is_daemon :: bool

definition task_context_from_messages :: "message list \<Rightarrow> bool \<Rightarrow> task_context" where
  "task_context_from_messages ms is_daemon =
    \<lparr>tx_has_image = list_ex has_image ms,
     tx_estimated_tokens = sum_list (map (\<lambda>m. length (msg_content m) div 4) ms),
     tx_is_daemon = is_daemon\<rparr>"

record router_config =
  ro_enabled :: bool
  ro_min_free_ram_e4b :: nat
  ro_min_free_ram_e2b :: nat
  ro_prefer_bonsai_for_tools :: bool

definition router_default :: router_config where
  "router_default =
    \<lparr>ro_enabled = True, ro_min_free_ram_e4b = 8 * 1024 * 1024 * 1024,
     ro_min_free_ram_e2b = 6 * 1024 * 1024 * 1024, ro_prefer_bonsai_for_tools = True\<rparr>"

definition select_model :: "nat \<Rightarrow> task_context \<Rightarrow> router_config \<Rightarrow> model_selection" where
  "select_model ram ctx config =
    (if \<not> ro_enabled config then Bonsai
     else if tx_is_daemon ctx then Bonsai
     else if tx_has_image ctx \<and> ram \<ge> ro_min_free_ram_e4b config then Gemma4E4B
     else if tx_has_image ctx \<and> ram \<ge> ro_min_free_ram_e2b config then Gemma4E2B
     else Bonsai)"

text \<open>
  Reading \<open>vm_stat\<close>. \<open>out\<close> is the decoded output, if the command could be run. Pages and bytes are
  \<open>u64\<close>; on a real machine they stay far below the bound.
\<close>

definition trim_end_dots :: "string \<Rightarrow> string" where
  "trim_end_dots s = rev (dropWhile (\<lambda>c. c = CHR ''.'') (rev s))"

definition parse_vm_stat_value :: "string \<Rightarrow> nat" where
  "parse_vm_stat_value s = (case parse_usize (trim_end_dots (trim s)) of None \<Rightarrow> 0 | Some n \<Rightarrow> n)"

definition parse_vm_stat_page_size :: "string \<Rightarrow> nat option" where
  "parse_vm_stat_page_size text =
    (case str_find text ''page size of '' of None \<Rightarrow> None
     | Some i \<Rightarrow>
        let rest = drop (i + 13) text
        in case str_find rest '' '' of None \<Rightarrow> None
           | Some e \<Rightarrow> parse_usize (take e rest))"

text \<open>Free, inactive and purgeable pages; a later line of a kind replaces an earlier one.\<close>

definition vm_stat_line :: "string \<Rightarrow> nat \<times> nat \<times> nat \<Rightarrow> nat \<times> nat \<times> nat" where
  "vm_stat_line line acc =
    (case acc of (free, inactive, purgeable) \<Rightarrow>
      (case strip_prefix line ''Pages free:'' of
         Some v \<Rightarrow> (parse_vm_stat_value v, inactive, purgeable)
       | None \<Rightarrow>
        (case strip_prefix line ''Pages inactive:'' of
           Some v \<Rightarrow> (free, parse_vm_stat_value v, purgeable)
         | None \<Rightarrow>
          (case strip_prefix line ''Pages purgeable:'' of
             Some v \<Rightarrow> (free, inactive, parse_vm_stat_value v)
           | None \<Rightarrow> (free, inactive, purgeable)))))"

definition available_ram_macos :: "nat \<Rightarrow> string option \<Rightarrow> nat" where
  "available_ram_macos total_ram out =
    (let fallback = total_ram * 60 div 100
     in case out of None \<Rightarrow> fallback
        | Some text \<Rightarrow>
           (let page_size = (case parse_vm_stat_page_size text of None \<Rightarrow> 16384 | Some n \<Rightarrow> n);
                (free, inactive, purgeable) = fold vm_stat_line (str_lines text) (0, 0, 0);
                available = (free + inactive + purgeable) * page_size
            in if available > 0 then available else fallback))"

end
