(* ===== verification/Magi.thy ===== *)
theory Magi
  imports Conversation Messages Soft_Float
begin

text \<open>
  \<open>src/agent/magi\<close> and \<open>src/memory/consistency.rs\<close>: the panel of judges that looks at final answers
  and at calls of writing tools. The regular expressions of the values judge are arguments, one
  predicate per pattern (\<open>values_patterns\<close>). \<open>similar\<close> is the lookup of similar experiences in the
  memory store, absent when there is no store; it may fail. \<open>checks\<close> tells whether
  \<open>BONSAI_GOODHART_CHECK\<close> is set to 1.
\<close>

section \<open>Consistency of metrics\<close>

record metric_snapshot =
  mt_timestamp :: nat
  mt_heuristic_mean_score :: rat
  mt_decay_fidelity_mean :: rat
  mt_retrieval_alpha :: rat
  mt_retrieval_beta :: rat

datatype goodhart_risk = Acceptable | Suspicious string | Critical string

record metric_checker =
  mc_snapshots :: "metric_snapshot list"
  mc_window_size :: nat

definition mc_new :: "nat \<Rightarrow> metric_checker" where
  "mc_new w = \<lparr>mc_snapshots = [], mc_window_size = w\<rparr>"

definition mc_record :: "metric_snapshot \<Rightarrow> metric_checker \<Rightarrow> metric_checker" where
  "mc_record s c = c\<lparr>mc_snapshots := last_n (mc_window_size c) (mc_snapshots c @ [s])\<rparr>"

fun strictly_increasing :: "rat list \<Rightarrow> bool" where
  "strictly_increasing (x # y # zs) = (x < y \<and> strictly_increasing (y # zs))"
| "strictly_increasing _ = True"

fun all_equal :: "rat list \<Rightarrow> bool" where
  "all_equal (x # y # zs) = (x = y \<and> all_equal (y # zs))"
| "all_equal _ = True"

definition detect_goodhart_pattern :: "bool \<Rightarrow> metric_checker \<Rightarrow> goodhart_risk" where
  "detect_goodhart_pattern checks c =
    (if \<not> checks then Acceptable
     else if length (mc_snapshots c) < mc_window_size c then Acceptable
     else if strictly_increasing (map mt_heuristic_mean_score (mc_snapshots c))
          \<and> strictly_increasing (map mt_decay_fidelity_mean (mc_snapshots c))
          \<and> all_equal (map mt_retrieval_alpha (mc_snapshots c))
       then Suspicious (m_goodhart_1 @ show_nat (mc_window_size c) @ m_goodhart_2)
     else Acceptable)"

section \<open>Judges\<close>

datatype experience_type = Success | Failure | Insight

record response_context =
  rc_task_description :: string
  rc_user_input :: string
  rc_proposed :: string
  rc_trajectory :: "string list"
  rc_similar :: "(string \<Rightarrow> string + experience_type list) option"

datatype judge_verdict = Clear | Concern string | Block string

datatype decision_outcome = Proceed | Warn "judge_verdict list" | Halt "judge_verdict list"

type_synonym judge = "response_context \<Rightarrow> judge_verdict"

definition goodhart_judge :: "bool \<Rightarrow> metric_checker \<Rightarrow> judge" where
  "goodhart_judge checks c ctx =
    (case detect_goodhart_pattern checks c of
       Acceptable \<Rightarrow> Clear | Suspicious r \<Rightarrow> Concern r | Critical r \<Rightarrow> Block r)"

record values_patterns =
  vp_destructive :: "(string \<Rightarrow> bool) list"
  vp_overconfidence :: "(string \<Rightarrow> bool) list"
  vp_dependency :: "(string \<Rightarrow> bool) list"
  vp_abandonment :: "(string \<Rightarrow> bool) list"
  vp_degradation :: "(string \<Rightarrow> bool) list"

definition matches :: "(string \<Rightarrow> bool) list \<Rightarrow> string \<Rightarrow> bool" where
  "matches ps s = list_ex (\<lambda>p. p s) ps"

definition values_judge :: "values_patterns \<Rightarrow> judge" where
  "values_judge v ctx =
    (if list_ex (\<lambda>p. p (rc_proposed ctx) \<or> p (rc_user_input ctx)) (vp_destructive v)
       then Block m_values_destructive
     else if matches (vp_dependency v) (rc_proposed ctx) then Concern m_values_dependency
     else if matches (vp_overconfidence v) (rc_proposed ctx) then Concern m_values_overconfidence
     else if matches (vp_abandonment v) (trim (rc_proposed ctx)) then Concern m_values_abandonment
     else if matches (vp_degradation v) (rc_proposed ctx) then Concern m_values_degradation
     else Clear)"

definition check_memory_contradictions ::
    "(string \<Rightarrow> string + experience_type list) \<Rightarrow> response_context \<Rightarrow> string + string option" where
  "check_memory_contradictions find_similar ctx =
    (let query = (if rc_task_description ctx \<noteq> [] then rc_task_description ctx else rc_user_input ctx)
     in if query = [] then Inr None
        else (case find_similar query of
                Inl e \<Rightarrow> Inl e
              | Inr exps \<Rightarrow>
                  (let recent_failure = list_ex (\<lambda>e. e = Failure) exps;
                       claims = list_ex (str_contains (rc_proposed ctx))
                         [k_claim_done, k_claim_no_error, k_claim_success, k_claim_no_problem]
                   in Inr (if recent_failure \<and> claims then Some m_judge_memory else None))))"

definition failed_tool_text :: "string \<Rightarrow> bool" where
  "failed_tool_text t =
    (let lower = to_lowercase t
     in str_contains lower ''fail'' \<or> str_contains lower ''error''
        \<or> str_contains t k_error \<or> str_contains t k_failure)"

definition consistency_judge :: judge where
  "consistency_judge ctx =
    (if trim (rc_proposed ctx) = [] then Block m_judge_empty
     else if list_ex failed_tool_text (rc_trajectory ctx)
          \<and> list_ex (str_contains (rc_proposed ctx)) [k_claim_done, k_claim_no_error, k_claim_success]
       then Concern m_judge_false_success
     else (case rc_similar ctx of
             None \<Rightarrow> Clear
           | Some find_similar \<Rightarrow>
               (case check_memory_contradictions find_similar ctx of
                  Inr (Some m) \<Rightarrow> Concern m | _ \<Rightarrow> Clear)))"

section \<open>Panel\<close>

fun is_block :: "judge_verdict \<Rightarrow> bool" where
  "is_block (Block _) = True"
| "is_block _ = False"

definition decide_with_verdicts ::
    "judge list \<Rightarrow> response_context \<Rightarrow> decision_outcome \<times> judge_verdict list" where
  "decide_with_verdicts judges ctx =
    (if judges = [] then (Proceed, [])
     else (let verdicts = map (\<lambda>j. j ctx) judges;
               blocks = length (filter is_block verdicts);
               concerns_or_blocks = length (filter (\<lambda>v. v \<noteq> Clear) verdicts)
           in (if blocks \<ge> 1 then Halt verdicts
               else if concerns_or_blocks \<ge> 1 then Warn verdicts
               else Proceed, verdicts)))"

definition decide :: "judge list \<Rightarrow> response_context \<Rightarrow> decision_outcome" where
  "decide judges ctx = fst (decide_with_verdicts judges ctx)"

definition default_panel :: "bool \<Rightarrow> values_patterns \<Rightarrow> judge list" where
  "default_panel checks v = [goodhart_judge checks (mc_new 5), values_judge v, consistency_judge]"

definition evaluate_tool_safety :: "judge list \<Rightarrow> string \<Rightarrow> string \<Rightarrow> decision_outcome" where
  "evaluate_tool_safety judges tool_name args_json =
    decide judges
      \<lparr>rc_task_description = ''tool invocation safety check'', rc_user_input = [],
       rc_proposed = tool_name @ '': '' @ args_json, rc_trajectory = [], rc_similar = None\<rparr>"

definition evaluate_final_answer_full ::
    "judge list \<Rightarrow> string \<Rightarrow> string \<Rightarrow> string list \<Rightarrow> (string \<Rightarrow> string + experience_type list) option
     \<Rightarrow> decision_outcome \<times> judge_verdict list" where
  "evaluate_final_answer_full judges answer task trajectory similar =
    decide_with_verdicts judges
      \<lparr>rc_task_description = task, rc_user_input = task, rc_proposed = answer,
       rc_trajectory = trajectory, rc_similar = similar\<rparr>"

definition block_reasons :: "judge_verdict list \<Rightarrow> string list" where
  "block_reasons vs = List.map_filter (\<lambda>v. case v of Block m \<Rightarrow> Some m | _ \<Rightarrow> None) vs"

definition concern_reasons :: "judge_verdict list \<Rightarrow> string list" where
  "concern_reasons vs = List.map_filter (\<lambda>v. case v of Concern m \<Rightarrow> Some m | _ \<Rightarrow> None) vs"

section \<open>Facts\<close>

definition is_halt :: "decision_outcome \<Rightarrow> bool" where
  "is_halt d = (case d of Halt _ \<Rightarrow> True | _ \<Rightarrow> False)"

lemma is_block_iff: "is_block v \<longleftrightarrow> (\<exists>m. v = Block m)"
  by (cases v) auto

lemma halt_iff: "is_halt (fst (decide_with_verdicts js ctx)) \<longleftrightarrow> list_ex (\<lambda>j. is_block (j ctx)) js"
  by (auto simp: decide_with_verdicts_def Let_def is_halt_def list_ex_iff filter_empty_conv
      Suc_le_eq split: if_splits)

lemma proceed_iff: "fst (decide_with_verdicts js ctx) = Proceed \<longleftrightarrow> list_all (\<lambda>j. j ctx = Clear) js"
  by (auto simp: decide_with_verdicts_def Let_def list_all_iff filter_empty_conv is_block_iff Suc_le_eq
      split: if_splits)

lemma fresh_goodhart_clear [simp]: "goodhart_judge checks (mc_new 5) ctx = Clear"
  by (simp add: goodhart_judge_def detect_goodhart_pattern_def mc_new_def)

lemma values_blocks:
  "is_block (values_judge v ctx) \<longleftrightarrow>
    matches (vp_destructive v) (rc_proposed ctx) \<or> matches (vp_destructive v) (rc_user_input ctx)"
proof -
  have "is_block (values_judge v ctx)
      \<longleftrightarrow> list_ex (\<lambda>p. p (rc_proposed ctx) \<or> p (rc_user_input ctx)) (vp_destructive v)"
    by (simp only: values_judge_def is_block.simps split: if_split) simp
  then show ?thesis by (simp add: matches_def list_ex_iff bex_disj_distrib)
qed

lemma consistency_blocks: "is_block (consistency_judge ctx) \<longleftrightarrow> trim (rc_proposed ctx) = []"
  by (auto simp: consistency_judge_def split: option.splits sum.splits)

lemma default_panel_halt:
  "is_halt (fst (decide_with_verdicts (default_panel checks v) ctx))
    = (matches (vp_destructive v) (rc_proposed ctx) \<or> matches (vp_destructive v) (rc_user_input ctx)
       \<or> trim (rc_proposed ctx) = [])"
  by (simp add: halt_iff default_panel_def values_blocks consistency_blocks)

lemma default_panel_proceed:
  "fst (decide_with_verdicts (default_panel checks v) ctx) = Proceed
    \<longleftrightarrow> fst (decide_with_verdicts [values_judge v, consistency_judge] ctx) = Proceed"
  by (simp add: proceed_iff default_panel_def)

section \<open>Property\<close>

text \<open>
  The default panel stops an answer exactly when a destructive pattern matches the answer or
  the request, or the answer is blank. Its first judge works on a checker that was just created and
  is empty, so it never objects, whatever the environment says: the panel decides as the two others.
\<close>

theorem default_panel_halts_iff:
  "is_halt (fst (evaluate_final_answer_full (default_panel checks v) answer task trajectory similar))
     = (matches (vp_destructive v) answer \<or> matches (vp_destructive v) task \<or> trim answer = [])
   \<and> (fst (evaluate_final_answer_full (default_panel checks v) answer task trajectory similar) = Proceed
      \<longleftrightarrow> fst (evaluate_final_answer_full [values_judge v, consistency_judge] answer task trajectory similar)
           = Proceed)"
  unfolding evaluate_final_answer_full_def
  by (intro conjI default_panel_proceed) (simp add: default_panel_halt)

end
