(* ===== verification/Parse.thy ===== *)
theory Parse
  imports Conversation Soft_Float Messages
begin

text \<open>
  \<open>src/agent/parse.rs\<close> and \<open>src/agent/xml_toolcall.rs\<close>: the model's raw output becomes thinking, tool
  calls and text, in the tagged JSON form, in FunctionGemma's form and in MiniCPM5's XML form.

  The \<open>regex\<close> crate's replacement that normalises spaced tags is the argument \<open>nrm\<close>, and
  \<open>dec\<close> is \<open>serde_json::from_str::<ToolCall>\<close>, which gives an error text or the call. A failure
  is a \<open>parse_failure\<close>: an error the function returns, or a panic where a slice has its end before
  its start.
\<close>

datatype parse_failure = ParseErr string | Panic

section \<open>Cleaning the JSON of a call\<close>

definition normalize_special_tags :: "(string \<Rightarrow> string) \<Rightarrow> string \<Rightarrow> string" where
  "normalize_special_tags nrm raw = (if \<not> str_contains raw ''<'' then raw else nrm raw)"

definition fence :: string where
  "fence = [backquote, backquote, backquote]"

definition strip_fences :: "string \<Rightarrow> string" where
  "strip_fences raw =
    (let s = trim raw;
         s1 = (case strip_prefix s (fence @ ''json'') of
                 Some rest \<Rightarrow> trim_start rest
               | None \<Rightarrow> (case strip_prefix s fence of Some rest \<Rightarrow> trim_start rest | None \<Rightarrow> s))
     in case strip_suffix s1 fence of Some rest \<Rightarrow> trim_end rest | None \<Rightarrow> s1)"

definition closes :: "string list \<Rightarrow> bool" where
  "closes cs = (case dropWhile is_ws cs of [] \<Rightarrow> False | c # _ \<Rightarrow> c = ''}'' \<or> c = '']'')"

text \<open>The loop over the characters; outside a string a comma before a closing bracket is dropped.\<close>

fun drop_commas :: "bool \<Rightarrow> bool \<Rightarrow> string list \<Rightarrow> string list" where
  "drop_commas in_string esc [] = []"
| "drop_commas in_string esc (c # cs) =
    (if in_string then
       c # (if esc then drop_commas True False cs
            else if c = [backslash] then drop_commas True True cs
            else if c = [dquote] then drop_commas False False cs
            else drop_commas True False cs)
     else if c = [dquote] then c # drop_commas True esc cs
     else if c = '','' \<and> closes cs then drop_commas False esc cs
     else c # drop_commas False esc cs)"

definition sanitize_tool_call_json :: "string \<Rightarrow> string" where
  "sanitize_tool_call_json raw = concat (drop_commas False False (chars (strip_fences raw)))"

section \<open>The tagged form\<close>

text \<open>\<open>if !s.is_empty() { text_parts.push(s) }\<close> on the trimmed text.\<close>

definition push_text :: "string list \<Rightarrow> string \<Rightarrow> string list" where
  "push_text parts s = (let t = trim s in if t = [] then parts else parts @ [t])"

definition finish :: "string option \<Rightarrow> tool_call list \<Rightarrow> string list \<Rightarrow> parsed_output" where
  "finish thinking calls parts =
    \<lparr>po_thinking = thinking, po_tool_calls = calls,
     po_text = (if parts = [] then None else Some (join nl parts))\<rparr>"

function parse_loop ::
    "(string \<Rightarrow> string + tool_call) \<Rightarrow> string \<Rightarrow> string option \<Rightarrow> tool_call list \<Rightarrow> string list
     \<Rightarrow> parse_failure + parsed_output" where
  "parse_loop dec s thinking calls parts =
    (if s = [] then Inr (finish thinking calls parts)
     else case str_find s ''<think>'' of
       Some ts \<Rightarrow>
         (let parts' = push_text parts (take ts s)
          in case str_find (drop ts s) ''</think>'' of
               Some te \<Rightarrow> parse_loop dec (drop (ts + te + 8) s)
                           (Some (trim (take (te - 7) (drop (ts + 7) s)))) calls parts'
             | None \<Rightarrow>
                (case str_find (drop (ts + 7) s) ''<tool_call>'' of
                   Some off \<Rightarrow> parse_loop dec (drop (ts + 7 + off) s)
                                (Some (trim (take off (drop (ts + 7) s)))) calls parts'
                 | None \<Rightarrow> Inr (finish (Some (trim (drop (ts + 7) s))) calls parts')))
     | None \<Rightarrow>
        (case str_find s ''<tool_call>'' of
           Some cs \<Rightarrow>
             (let parts' = push_text parts (take cs s)
              in case str_find (drop cs s) ''</tool_call>'' of
                   Some ce \<Rightarrow>
                     (let content = take (ce - 11) (drop (cs + 11) s)
                      in case dec (sanitize_tool_call_json content) of
                           Inr call \<Rightarrow> parse_loop dec (drop (cs + ce + 12) s) thinking (calls @ [call]) parts'
                         | Inl e \<Rightarrow> Inl (ParseErr (m_json_failed_1 @ e @ m_content_is @ trim content)))
                 | None \<Rightarrow> Inl (ParseErr m_no_close_tool_call))
         | None \<Rightarrow> Inr (finish thinking calls (push_text parts s))))"
  by pat_completeness auto
termination
  by (relation "measure (\<lambda>(dec, s, _). length s)") (auto dest!: str_find_Some)

declare parse_loop.simps [simp del]

section \<open>FunctionGemma\<close>

text \<open>\<open>split_fg_params\<close>: each occurrence of the mark toggles; a comma outside splits. Marks and commas
  are ASCII, so bytes can be walked instead of characters.\<close>

fun split_fg :: "bool \<Rightarrow> string \<Rightarrow> string \<Rightarrow> string list" where
  "split_fg in_escape cur [] = (if cur = [] then [] else [rev cur])"
| "split_fg in_escape cur (c # s) =
    (let in_escape' = (if prefix ''<escape>'' (c # s) then \<not> in_escape else in_escape)
     in if c = CHR '','' \<and> \<not> in_escape' then rev cur # split_fg in_escape' [] s
        else split_fg in_escape' (c # cur) s)"

definition split_fg_params :: "string \<Rightarrow> string list" where
  "split_fg_params s = split_fg False [] s"

definition unescape_fg :: "string \<Rightarrow> string" where
  "unescape_fg v =
    (let v1 = (case strip_prefix v ''<escape>'' of Some r \<Rightarrow> r | None \<Rightarrow> v)
     in case strip_suffix v1 ''<escape>'' of Some r \<Rightarrow> r | None \<Rightarrow> v1)"

text \<open>\<open>Map::insert\<close> of \<open>serde_json\<close>: a later value of a key replaces the earlier one.\<close>

definition obj_insert :: "string \<times> json \<Rightarrow> (string \<times> json) list \<Rightarrow> (string \<times> json) list" where
  "obj_insert kv m = AList.update (fst kv) (snd kv) m"

definition parse_fg_call :: "string \<Rightarrow> string + tool_call" where
  "parse_fg_call content0 =
    (let content = (case strip_prefix content0 ''call:'' of Some r \<Rightarrow> r | None \<Rightarrow> content0)
     in case str_find content ''{'' of
          None \<Rightarrow> Inl m_fg_no_brace
        | Some idx \<Rightarrow>
            (let args_str = drop idx content;
                 inner = (case strip_prefix args_str ''{'' of None \<Rightarrow> []
                          | Some r \<Rightarrow> (case strip_suffix r ''}'' of None \<Rightarrow> [] | Some q \<Rightarrow> q));
                 kvs = List.map_filter (\<lambda>pair. case split_once pair (CHR '':'') of None \<Rightarrow> None
                         | Some (k, v) \<Rightarrow> Some (k, JStr (unescape_fg v))) (split_fg_params inner)
             in Inr \<lparr>tc_name = take idx content, tc_arguments = JObj (fold obj_insert kvs [])\<rparr>))"

function fg_loop :: "string \<Rightarrow> tool_call list \<Rightarrow> string list \<Rightarrow> parse_failure + parsed_output" where
  "fg_loop s calls parts =
    (if s = [] then Inr (finish None calls parts)
     else case str_find s ''<start_function_call>'' of
       Some fs \<Rightarrow>
         (let parts' = push_text parts (take fs s)
          in case str_find (drop fs s) ''<end_function_call>'' of
               Some fe \<Rightarrow>
                 (let content = take (fe - 21) (drop (fs + 21) s)
                  in case parse_fg_call (trim content) of
                       Inr call \<Rightarrow> fg_loop (drop (fs + fe + 19) s) (calls @ [call]) parts'
                     | Inl e \<Rightarrow> Inl (ParseErr (m_fg_failed_1 @ e @ m_content_is @ trim content)))
             | None \<Rightarrow> Inl (ParseErr m_no_close_fg))
     | None \<Rightarrow> Inr (finish None calls (push_text parts s)))"
  by pat_completeness auto
termination
  by (relation "measure (\<lambda>(s, _). length s)") (auto dest!: str_find_Some)

declare fg_loop.simps [simp del]

definition parse_functiongemma_output :: "string \<Rightarrow> parse_failure + parsed_output" where
  "parse_functiongemma_output raw = fg_loop raw [] []"

section \<open>Native XML\<close>

definition is_xml_toolcall_fallback_enabled :: "(string \<Rightarrow> string option) \<Rightarrow> bool" where
  "is_xml_toolcall_fallback_enabled env =
    (case env ''BONSAI_XML_TOOLCALL_FALLBACK'' of None \<Rightarrow> False
     | Some v \<Rightarrow> v = ''1'' \<or> eq_ignore_ascii_case v ''true'')"

definition extract_xml_attr :: "string \<Rightarrow> string \<Rightarrow> string option" where
  "extract_xml_attr tag attr =
    (let pattern = attr @ ''='' @ [dquote]
     in case str_find tag pattern of None \<Rightarrow> None
        | Some i \<Rightarrow>
            let rest = drop (i + length pattern) tag
            in case str_find rest [dquote] of None \<Rightarrow> None | Some e \<Rightarrow> Some (take e rest))"

definition cdata_start :: string where
  "cdata_start = ''<![CDATA[''"

definition cdata_end :: string where
  "cdata_end = '']]>''"

definition strip_cdata :: "string \<Rightarrow> string" where
  "strip_cdata v =
    (case strip_prefix v cdata_start of None \<Rightarrow> v
     | Some r \<Rightarrow> (case strip_suffix r cdata_end of None \<Rightarrow> v | Some q \<Rightarrow> q))"

text \<open>Both searches return an offset into the whole text; they are written on the rest of it.\<close>

function find_function_tag_start :: "string \<Rightarrow> nat option" where
  "find_function_tag_start s =
    (case str_find s ''<function'' of
       None \<Rightarrow> None
     | Some idx \<Rightarrow>
        (let rest = drop (idx + 9) s
         in if rest \<noteq> [] \<and> (hd rest = CHR '' '' \<or> hd rest = CHR ''>'') then Some idx
            else map_option (\<lambda>i. idx + 9 + i) (find_function_tag_start rest)))"
  by pat_completeness auto
termination
  by (relation "measure length") (auto dest!: str_find_Some)

declare find_function_tag_start.simps [simp del]

definition contains_function_tag :: "string \<Rightarrow> bool" where
  "contains_function_tag s = (find_function_tag_start s \<noteq> None)"

function find_outside_cdata :: "string \<Rightarrow> string \<Rightarrow> nat option" where
  "find_outside_cdata s needle =
    (case str_find s needle of
       None \<Rightarrow> None
     | Some ni \<Rightarrow>
        (case str_find s cdata_start of
           None \<Rightarrow> Some ni
         | Some ci \<Rightarrow>
            if ci < ni then
              (let body = drop (ci + length cdata_start) s;
                   after = (case str_find body cdata_end of
                              Some e \<Rightarrow> ci + length cdata_start + e + length cdata_end
                            | None \<Rightarrow> length s)
               in map_option (\<lambda>i. after + i) (find_outside_cdata (drop after s) needle))
            else Some ni))"
  by pat_completeness auto
termination
  by (relation "measure (\<lambda>(s, _). length s)")
    (auto simp: cdata_start_def cdata_end_def dest!: str_find_Some split: option.splits)

declare find_outside_cdata.simps [simp del]

function xml_params :: "string \<Rightarrow> (string \<times> json) list \<Rightarrow> string + (string \<times> json) list" where
  "xml_params s m =
    (case str_find s ''<param'' of
       None \<Rightarrow> Inr m
     | Some ps \<Rightarrow>
        (case str_find (drop ps s) ''>'' of
           None \<Rightarrow> Inl m_xml_bad_param
         | Some g \<Rightarrow>
            (let open_tag = take g (drop ps s)
             in case extract_xml_attr open_tag ''name'' of
                  None \<Rightarrow> Inl (m_xml_param_no_name_1 @ open_tag @ ''>'')
                | Some name \<Rightarrow>
                   (let body = drop (ps + g + 1) s
                    in case find_outside_cdata body ''</param>'' of
                         None \<Rightarrow> Inl (m_xml_no_close_param_1 @ name @ m_close_paren)
                       | Some e \<Rightarrow>
                           xml_params (drop (e + 8) body)
                             (obj_insert (name, JStr (strip_cdata (trim (take e body)))) m)))))"
  by pat_completeness auto
termination
  by (relation "measure (\<lambda>(s, _). length s)") (auto dest!: str_find_Some)

declare xml_params.simps [simp del]

definition parse_xml_function_call :: "string \<Rightarrow> parse_failure + tool_call" where
  "parse_xml_function_call block =
    (case str_find block ''>'' of
       None \<Rightarrow> Inl (ParseErr m_xml_bad_function)
     | Some tag_end \<Rightarrow>
        (let open_tag = take tag_end block
         in case extract_xml_attr open_tag ''name'' of
              None \<Rightarrow> Inl (ParseErr (m_xml_no_name_1 @ open_tag @ ''>''))
            | Some name \<Rightarrow>
               (case find_outside_cdata block ''</function>'' of
                  None \<Rightarrow> Inl (ParseErr m_no_close_function)
                | Some body_end \<Rightarrow>
                   if body_end < tag_end + 1 then Inl Panic
                   else (case xml_params (take (body_end - (tag_end + 1)) (drop (tag_end + 1) block)) [] of
                           Inl e \<Rightarrow> Inl (ParseErr e)
                         | Inr m \<Rightarrow> Inr \<lparr>tc_name = name, tc_arguments = JObj m\<rparr>))))"

lemma after_sep_shorter:
  assumes "0 < length s"
  shows "length (case strip_prefix (trim_start (drop (a + b + 11) s)) p of
      None \<Rightarrow> trim_start (drop (a + b + 11) s) | Some r \<Rightarrow> r) < length s"
proof -
  have "length (case strip_prefix u p of None \<Rightarrow> u | Some r \<Rightarrow> r) \<le> length u" for u
    by (simp add: strip_prefix_def)
  also have "length (trim_start (drop (a + b + 11) s)) \<le> length (drop (a + b + 11) s)"
    by (rule length_trim_start)
  also have "\<dots> < length s" using assms by simp
  finally show ?thesis .
qed

function xml_loop ::
    "string \<Rightarrow> string option \<Rightarrow> tool_call list \<Rightarrow> string list \<Rightarrow> parse_failure + parsed_output" where
  "xml_loop s thinking calls parts =
    (if s = [] then Inr (finish thinking calls parts)
     else case str_find s ''<think>'' of
       Some ts \<Rightarrow>
         (let parts' = push_text parts (take ts s)
          in case str_find (drop ts s) ''</think>'' of
               Some te \<Rightarrow> xml_loop (drop (ts + te + 8) s)
                           (Some (trim (take (te - 7) (drop (ts + 7) s)))) calls parts'
             | None \<Rightarrow> Inr (finish (Some (trim (drop (ts + 7) s))) calls parts'))
     | None \<Rightarrow>
        (case find_function_tag_start s of
           Some fs \<Rightarrow>
             (let parts' = push_text parts (take fs s)
              in case find_outside_cdata (drop fs s) ''</function>'' of
                   Some fe \<Rightarrow>
                     (case parse_xml_function_call (take (fe + 11) (drop fs s)) of
                        Inl e \<Rightarrow> Inl e
                      | Inr call \<Rightarrow>
                          (let rest = trim_start (drop (fs + fe + 11) s);
                               rest' = (case strip_prefix rest ''<tool_sep>'' of Some r \<Rightarrow> r | None \<Rightarrow> rest)
                           in xml_loop rest' thinking (calls @ [call]) parts'))
                 | None \<Rightarrow> Inl (ParseErr m_no_close_function))
         | None \<Rightarrow> Inr (finish thinking calls (push_text parts s))))"
  by pat_completeness auto
termination
  by (relation "measure (\<lambda>(s, _). length s)")
    (auto dest!: str_find_Some intro: after_sep_shorter simp flip: length_greater_0_conv)

declare xml_loop.simps [simp del]

definition parse_xml_function_output :: "string \<Rightarrow> parse_failure + parsed_output" where
  "parse_xml_function_output normalized = xml_loop normalized None [] []"

section \<open>The entry point\<close>

definition parse_assistant_output ::
    "(string \<Rightarrow> string) \<Rightarrow> (string \<Rightarrow> string + tool_call) \<Rightarrow> (string \<Rightarrow> string option) \<Rightarrow> string
     \<Rightarrow> parse_failure + parsed_output" where
  "parse_assistant_output nrm dec env raw =
    (let normalized = normalize_special_tags nrm raw
     in if is_xml_toolcall_fallback_enabled env \<and> \<not> str_contains normalized ''<tool_call>''
           \<and> contains_function_tag normalized
        then parse_xml_function_output normalized
        else parse_loop dec normalized None [] [])"

section \<open>Coercing arguments\<close>

definition coerce_value :: "json \<Rightarrow> json" where
  "coerce_value v =
    (case v of
       JStr s \<Rightarrow>
         (if s = ''true'' then JBool True
          else if s = ''false'' then JBool False
          else case parse_i64 s of
                 Some n \<Rightarrow> JNum (if 0 \<le> n then PosInt (nat n) else NegInt n)
               | None \<Rightarrow>
                  (case parse_float 53 s of
                     None \<Rightarrow> v
                   | Some f \<Rightarrow> if str_contains s ''.''
                       then (case f of Finite x \<Rightarrow> JNum (Float x) | _ \<Rightarrow> JNull) else v))
     | _ \<Rightarrow> v)"

definition coerce_tool_arguments :: "json \<Rightarrow> json" where
  "coerce_tool_arguments args =
    (case args of JObj m \<Rightarrow> JObj (map (\<lambda>(k, v). (k, coerce_value v)) m) | _ \<Rightarrow> args)"

section \<open>Declaring tools to FunctionGemma\<close>

record tool_schema =
  sc_name :: string
  sc_description :: string
  sc_parameters :: json

definition upper_byte :: "char \<Rightarrow> char" where
  "upper_byte c = (case c of Char b0 b1 b2 b3 b4 b5 b6 b7 \<Rightarrow>
     let l = Char b0 b1 b2 b3 b4 False b6 b7
     in if b5 \<and> lower_byte l = c \<and> l \<noteq> c then l else c)"

definition fg_property :: "string \<times> json \<Rightarrow> string" where
  "fg_property kv =
    (let desc = (case json_get (snd kv) ''description'' of None \<Rightarrow> []
                 | Some d \<Rightarrow> (case as_str d of None \<Rightarrow> [] | Some s \<Rightarrow> s));
         typ = (case json_get (snd kv) ''type'' of None \<Rightarrow> ''string''
                | Some t \<Rightarrow> (case as_str t of None \<Rightarrow> ''string'' | Some s \<Rightarrow> s))
     in fst kv @ '':{description:<escape>'' @ desc @ ''<escape>,type:<escape>'' @ map upper_byte typ
        @ ''<escape>}'')"

text \<open>\<open>None\<close> is the panic of \<open>props.as_object().unwrap()\<close>.\<close>

definition format_functiongemma_declaration :: "tool_schema \<Rightarrow> string option" where
  "format_functiongemma_declaration schema =
    (let head = ''<start_function_declaration>declaration:'' @ sc_name schema @ ''{description:<escape>''
           @ sc_description schema @ ''<escape>'';
         closing = ''}<end_function_declaration>'';
         required = (case json_get (sc_parameters schema) ''required'' of
             Some (JArr arr) \<Rightarrow> '',required:['' @ join '',''
                 (map (\<lambda>s. ''<escape>'' @ s @ ''<escape>'') (List.map_filter as_str arr)) @ '']''
           | _ \<Rightarrow> [])
     in case json_get (sc_parameters schema) ''properties'' of
          None \<Rightarrow> Some (head @ closing)
        | Some (JObj obj) \<Rightarrow>
            Some (head @ '',parameters:{properties:{'' @ join '','' (map fg_property obj) @ ''}''
                  @ required @ '',type:<escape>OBJECT<escape>}'' @ closing)
        | Some _ \<Rightarrow> None)"

fun concat_options :: "'a list option list \<Rightarrow> 'a list option" where
  "concat_options [] = Some []"
| "concat_options (x # xs) =
    (case x of None \<Rightarrow> None | Some s \<Rightarrow> map_option (\<lambda>r. s @ r) (concat_options xs))"

definition format_functiongemma_system_prompt :: "tool_schema list \<Rightarrow> string option" where
  "format_functiongemma_system_prompt schemas =
    map_option (\<lambda>d. ''You are a model that can do function calling with the following functions'' @ d)
      (concat_options (map format_functiongemma_declaration schemas))"

end
