(* ===== verification/Safety.thy ===== *)
theory Safety
  imports Conversation Messages
begin

text \<open>
  The small guards: \<open>src/safety/network.rs\<close> (which URLs may be fetched), \<open>src/safety/autonomy.rs\<close>,
  \<open>src/safety/boot_guard.rs\<close>, \<open>src/safety/sensor_filter.rs\<close>, \<open>src/tools/permission.rs\<close> and
  \<open>src/tools/whitelist.rs\<close>.

  The URL parser of \<open>reqwest\<close>, the parser of IP addresses and the resolver are arguments. Addresses
  are their octets and 16-bit segments, as machine words. The environment is a function.
\<close>

section \<open>Addresses\<close>

datatype ip_addr =
    V4 "8 word" "8 word" "8 word" "8 word"
  | V6 "16 word" "16 word" "16 word" "16 word" "16 word" "16 word" "16 word" "16 word"

text \<open>The predicates of \<open>Ipv4Addr\<close>.\<close>

fun v4_is_loopback :: "8 word \<Rightarrow> bool" where
  "v4_is_loopback a = (a = 127)"

fun v4_is_private :: "8 word \<Rightarrow> 8 word \<Rightarrow> bool" where
  "v4_is_private a b = (a = 10 \<or> (a = 172 \<and> 16 \<le> b \<and> b \<le> 31) \<or> (a = 192 \<and> b = 168))"

fun v4_is_link_local :: "8 word \<Rightarrow> 8 word \<Rightarrow> bool" where
  "v4_is_link_local a b = (a = 169 \<and> b = 254)"

fun v4_restricted :: "8 word \<Rightarrow> 8 word \<Rightarrow> 8 word \<Rightarrow> 8 word \<Rightarrow> bool" where
  "v4_restricted a b c d \<longleftrightarrow>
    v4_is_loopback a \<or> v4_is_private a b \<or> v4_is_link_local a b
    \<or> (a = 255 \<and> b = 255 \<and> c = 255 \<and> d = 255) \<or> (a = 0 \<and> b = 0 \<and> c = 0 \<and> d = 0)
    \<or> (a = 169 \<and> b = 254) \<or> (a = 100 \<and> Bit_Operations.and b 0xC0 = 64)
    \<or> (a = 192 \<and> b = 0 \<and> c = 0)"

text \<open>\<open>to_ipv4_mapped\<close>: the octets of \<open>::ffff:a.b.c.d\<close>.\<close>

definition high_octet :: "16 word \<Rightarrow> 8 word" where
  "high_octet s = ucast (drop_bit 8 s)"

definition low_octet :: "16 word \<Rightarrow> 8 word" where
  "low_octet s = ucast s"

fun is_private_or_restricted_ip :: "ip_addr \<Rightarrow> bool" where
  "is_private_or_restricted_ip (V4 a b c d) = v4_restricted a b c d"
| "is_private_or_restricted_ip (V6 s0 s1 s2 s3 s4 s5 s6 s7) \<longleftrightarrow>
     (s0 = 0 \<and> s1 = 0 \<and> s2 = 0 \<and> s3 = 0 \<and> s4 = 0 \<and> s5 = 0 \<and> s6 = 0 \<and> s7 = 1)
     \<or> (s0 = 0 \<and> s1 = 0 \<and> s2 = 0 \<and> s3 = 0 \<and> s4 = 0 \<and> s5 = 0 \<and> s6 = 0 \<and> s7 = 0)
     \<or> Bit_Operations.and s0 0xFE00 = 0xFC00
     \<or> Bit_Operations.and s0 0xFFC0 = 0xFE80
     \<or> (s0 = 0 \<and> s1 = 0 \<and> s2 = 0 \<and> s3 = 0 \<and> s4 = 0 \<and> s5 = 0xFFFF
        \<and> v4_restricted (high_octet s6) (low_octet s6) (high_octet s7) (low_octet s7))"

section \<open>Domains\<close>

record network_filter =
  nf_allowed_domains :: "string list"
  nf_block_by_default :: bool

definition nf_allow_all :: network_filter where
  "nf_allow_all = \<lparr>nf_allowed_domains = [], nf_block_by_default = False\<rparr>"

definition nf_strict :: "string list \<Rightarrow> network_filter" where
  "nf_strict domains = \<lparr>nf_allowed_domains = remdups domains, nf_block_by_default = True\<rparr>"

text \<open>The trimmed, nonempty parts of a comma separated list.\<close>

definition comma_list :: "string \<Rightarrow> string list" where
  "comma_list s = filter (\<lambda>p. p \<noteq> []) (map trim (split_where (\<lambda>c. c = CHR '','') s))"

definition nf_from_env :: "(string \<Rightarrow> string option) \<Rightarrow> network_filter" where
  "nf_from_env env =
    (case env ''BONSAI_ALLOWED_DOMAINS'' of None \<Rightarrow> nf_allow_all
     | Some s \<Rightarrow> if comma_list s \<noteq> [] then nf_strict (comma_list s) else nf_allow_all)"

record parsed_url =
  pu_scheme :: string
  pu_host :: "string option"
  pu_port :: "nat option"

type_synonym url_parser = "string \<Rightarrow> string + parsed_url"

definition extract_domain :: "url_parser \<Rightarrow> string \<Rightarrow> string" where
  "extract_domain parse url =
    (let host = (\<lambda>u. case parse u of Inl e \<Rightarrow> None | Inr p \<Rightarrow> pu_host p)
     in case host url of Some h \<Rightarrow> to_lowercase h
        | None \<Rightarrow> (case host (''http://'' @ url) of Some h \<Rightarrow> to_lowercase h | None \<Rightarrow> []))"

definition nf_is_allowed :: "url_parser \<Rightarrow> network_filter \<Rightarrow> string \<Rightarrow> bool" where
  "nf_is_allowed parse f url =
    (if \<not> nf_block_by_default f then True
     else (let domain = extract_domain parse url
           in list_ex (\<lambda>d. domain = d \<or> ends_with domain (''.'' @ d)) (nf_allowed_domains f)))"

definition local_name :: "string \<Rightarrow> bool" where
  "local_name h \<longleftrightarrow> h = ''localhost'' \<or> ends_with h ''.localhost'' \<or> ends_with h ''.local''
     \<or> ends_with h ''.internal''"

definition clean_ip :: "string \<Rightarrow> string" where
  "clean_ip host = trim_end_set {CHR '']''} (trim_start_set {CHR ''[''} host)"

text \<open>The loop over the resolved addresses stops at the first restricted one.\<close>

definition validate_fetch_url_with_resolver ::
    "url_parser \<Rightarrow> (string \<Rightarrow> ip_addr option) \<Rightarrow> (ip_addr \<Rightarrow> string) \<Rightarrow> network_filter
     \<Rightarrow> (string \<Rightarrow> nat \<Rightarrow> string + ip_addr list) \<Rightarrow> string \<Rightarrow> string + unit" where
  "validate_fetch_url_with_resolver parse parse_ip show_ip f resolve url =
    (case parse url of
       Inl e \<Rightarrow> Inl (m_net_bad_url @ e)
     | Inr p \<Rightarrow>
        if pu_scheme p \<noteq> ''http'' \<and> pu_scheme p \<noteq> ''https''
        then Inl (m_net_scheme_1 @ pu_scheme p @ m_net_scheme_2)
        else (case pu_host p of
          None \<Rightarrow> Inl m_net_no_host
        | Some host \<Rightarrow>
            (let port = (case pu_port p of Some n \<Rightarrow> n
                         | None \<Rightarrow> if pu_scheme p = ''https'' then 443 else 80)
             in if local_name (to_lowercase host) then Inl (m_net_local_1 @ host @ [squote])
                else if \<not> nf_is_allowed parse f url then Inl (m_net_filtered_1 @ host @ [squote])
                else (case parse_ip (clean_ip host) of
                  Some ip \<Rightarrow>
                    if is_private_or_restricted_ip ip then Inl (m_net_private_1 @ show_ip ip) else Inr ()
                | None \<Rightarrow>
                    (case resolve host port of
                       Inl e \<Rightarrow> Inl (m_net_host_1 @ host @ m_net_resolve_2 @ e)
                     | Inr ips \<Rightarrow>
                        if ips = [] then Inl (m_net_host_1 @ host @ m_net_empty_2)
                        else (case List.find is_private_or_restricted_ip ips of
                          Some ip \<Rightarrow> Inl (m_net_resolved_1 @ show_ip ip @ m_net_resolved_2 @ host @ '')'')
                        | None \<Rightarrow> Inr ()))))))"

section \<open>Permission and autonomy\<close>

datatype permission = Auto | Confirm | Deny

datatype daemon_policy = AutoOnly | QueueForHuman

datatype permission_decision = Allow | NeedConfirmation | QueueForLater | Denied

definition check_permission :: "permission \<Rightarrow> bool \<Rightarrow> daemon_policy \<Rightarrow> permission_decision" where
  "check_permission p is_daemon policy =
    (case p of
       Auto \<Rightarrow> Allow
     | Confirm \<Rightarrow> if is_daemon then (case policy of AutoOnly \<Rightarrow> Denied | QueueForHuman \<Rightarrow> QueueForLater)
                  else NeedConfirmation
     | Deny \<Rightarrow> Denied)"

datatype autonomy_level = ReadOnly | Supervised | Full

definition can_write :: "autonomy_level \<Rightarrow> bool" where
  "can_write l = (l \<noteq> ReadOnly)"

definition needs_confirmation :: "autonomy_level \<Rightarrow> bool \<Rightarrow> bool" where
  "needs_confirmation l is_destructive =
    (case l of ReadOnly \<Rightarrow> True | Supervised \<Rightarrow> is_destructive | Full \<Rightarrow> False)"

definition autonomy_from_str :: "string \<Rightarrow> string + autonomy_level" where
  "autonomy_from_str s =
    (let l = map lower_byte (trim s)
     in if l = ''readonly'' \<or> l = ''read_only'' \<or> l = ''read-only'' then Inr ReadOnly
        else if l = ''supervised'' then Inr Supervised
        else if l = ''full'' then Inr Full
        else Inl (''Unknown autonomy level: '' @ [squote] @ l @ [squote]
                  @ ''. Valid options: readonly, supervised, full''))"

section \<open>Boot guard\<close>

text \<open>
  The state file is the argument and result \<open>file\<close> (\<open>None\<close> when it does not exist); \<open>ok\<close> says whether
  writing succeeds, and \<open>from_json\<close> is the JSON parser. The counter is a \<open>u32\<close> and wraps (a debug
  build would panic instead).
\<close>

record boot_guard =
  bg_failure_count :: "32 word"
  bg_threshold :: "32 word"

definition bg_load_count :: "(string \<Rightarrow> json option) \<Rightarrow> string option \<Rightarrow> 32 word" where
  "bg_load_count from_json file =
    (case file of None \<Rightarrow> 0
     | Some s \<Rightarrow> (case from_json s of None \<Rightarrow> 0
        | Some v \<Rightarrow> (case json_get v ''failures'' of None \<Rightarrow> 0
           | Some f \<Rightarrow> (case as_u64 f of None \<Rightarrow> 0 | Some n \<Rightarrow> of_nat n))))"

definition bg_with_state_file :: "(string \<Rightarrow> json option) \<Rightarrow> 32 word \<Rightarrow> string option \<Rightarrow> boot_guard" where
  "bg_with_state_file from_json threshold file =
    \<lparr>bg_failure_count = bg_load_count from_json file, bg_threshold = threshold\<rparr>"

definition bg_should_safe_mode :: "boot_guard \<Rightarrow> bool" where
  "bg_should_safe_mode g = (bg_failure_count g \<ge> bg_threshold g)"

definition bg_save :: "bool \<Rightarrow> boot_guard \<Rightarrow> string option \<Rightarrow> string option" where
  "bg_save ok g file =
    (if ok then Some (''{'' @ [dquote] @ ''failures'' @ [dquote] @ '':'' @ show_nat (unat (bg_failure_count g)) @ ''}'')
     else file)"

definition bg_record_success :: "bool \<Rightarrow> boot_guard \<times> string option \<Rightarrow> boot_guard \<times> string option" where
  "bg_record_success ok s =
    (let g = (fst s)\<lparr>bg_failure_count := 0\<rparr> in (g, bg_save ok g (snd s)))"

definition bg_record_failure :: "bool \<Rightarrow> boot_guard \<times> string option \<Rightarrow> boot_guard \<times> string option" where
  "bg_record_failure ok s =
    (let g = (fst s)\<lparr>bg_failure_count := bg_failure_count (fst s) + 1\<rparr> in (g, bg_save ok g (snd s)))"

section \<open>Privacy of the sensors\<close>

definition blocked_path_keywords :: "string list" where
  "blocked_path_keywords = [''.env'', ''.ssh'', ''.gnupg'', ''id_rsa'', ''id_ed25519'', ''credentials'',
     ''secrets'', ''keychain'', ''token'', ''password'']"

definition blocked_title_keywords :: "string list" where
  "blocked_title_keywords = [''1password'', ''bitwarden'', ''keychain'', ''keepass'', ''login'', ''signin'',
     ''bank'', ''password'']"

definition is_path_safe :: "string \<Rightarrow> bool" where
  "is_path_safe path = list_all (\<lambda>k. \<not> str_contains (to_lowercase path) k) blocked_path_keywords"

definition is_window_title_safe :: "string \<Rightarrow> bool" where
  "is_window_title_safe title = list_all (\<lambda>k. \<not> str_contains (to_lowercase title) k) blocked_title_keywords"

definition app_denylist :: "string list \<Rightarrow> string list" where
  "app_denylist custom =
    fold (\<lambda>item list. let lower = to_lowercase (trim item)
                     in if lower \<noteq> [] \<and> lower \<notin> set list then list @ [lower] else list)
      custom
      [''1password'', ''bitwarden'', ''keychain'', ''keepass'', ''bank'', ''com.agilebits.onepassword'',
       ''com.bitwarden.desktop'', ''com.apple.keychainaccess'']"

definition app_is_blocked :: "string list \<Rightarrow> string \<Rightarrow> bool" where
  "app_is_blocked blocked app = list_ex (\<lambda>b. str_contains (to_lowercase (trim app)) b) blocked"

section \<open>Tool whitelist\<close>

definition readonly_tool_whitelist :: "string list" where
  "readonly_tool_whitelist = [''file_read'', ''repo_map'', ''recall'', ''web_fetch'', ''web_search'', ''arxiv_search'']"

definition is_lab_smoke :: "(string \<Rightarrow> string option) \<Rightarrow> bool" where
  "is_lab_smoke env =
    (case env ''BONSAI_LAB_SMOKE'' of None \<Rightarrow> False
     | Some v \<Rightarrow> v = ''1'' \<or> v = ''true'' \<or> v = ''TRUE'' \<or> v = ''yes'' \<or> v = ''YES'')"

definition parse_enabled_tools_env :: "(string \<Rightarrow> string option) \<Rightarrow> string list option" where
  "parse_enabled_tools_env env =
    (case env ''BONSAI_ENABLED_TOOLS'' of None \<Rightarrow> None
     | Some raw \<Rightarrow> let l = comma_list raw in if l = [] then None else Some l)"

definition is_tool_whitelist_enabled :: "(string \<Rightarrow> string option) \<Rightarrow> bool" where
  "is_tool_whitelist_enabled env = (parse_enabled_tools_env env \<noteq> None \<or> is_lab_smoke env)"

definition effective_tool_whitelist :: "(string \<Rightarrow> string option) \<Rightarrow> string list option" where
  "effective_tool_whitelist env =
    (case parse_enabled_tools_env env of
       Some l \<Rightarrow> Some l
     | None \<Rightarrow> if is_lab_smoke env then Some readonly_tool_whitelist else None)"

section \<open>Facts\<close>

lemma find_none:
  "(case List.find P xs of None \<Rightarrow> Inr () | Some x \<Rightarrow> Inl (g x)) = Inr () \<longleftrightarrow> (\<forall>x \<in> set xs. \<not> P x)"
  by (induction xs) auto

lemma v6_mapped:
  "is_private_or_restricted_ip (V6 0 0 0 0 0 0xFFFF s6 s7)
    \<longleftrightarrow> v4_restricted (high_octet s6) (low_octet s6) (high_octet s7) (low_octet s7)"
  by simp

definition upper_ascii :: "char \<Rightarrow> bool" where
  "upper_ascii c = (lower_byte c \<noteq> c)"

lemma lower_byte_idem [simp]: "lower_byte (lower_byte c) = lower_byte c"
  by (cases c) auto

lemma lower_char_no_upper: "c \<in> set (lower_char g) \<Longrightarrow> \<not> upper_ascii c"
  by (auto simp: lower_char_def upper_ascii_def split: if_splits)

lemma to_lowercase_no_upper: "c \<in> set (to_lowercase s) \<Longrightarrow> \<not> upper_ascii c"
  by (auto simp: to_lowercase_def dest: lower_char_no_upper)

lemma extract_domain_no_upper: "c \<in> set (extract_domain parse url) \<Longrightarrow> \<not> upper_ascii c"
  by (auto simp: extract_domain_def Let_def dest: to_lowercase_no_upper split: option.splits)

lemma ends_with_set: "ends_with s p \<Longrightarrow> set p \<subseteq> set s"
  unfolding ends_with_def by (metis set_mono_prefix set_rev)

lemma effective_whitelist_iff: "effective_tool_whitelist env \<noteq> None \<longleftrightarrow> is_tool_whitelist_enabled env"
  by (cases "parse_enabled_tools_env env") (auto simp: effective_tool_whitelist_def is_tool_whitelist_enabled_def)

section \<open>Properties\<close>

text \<open>
  A URL passes exactly when it parses as http or https with a host that is no local name, the
  filter allows it, and the address it names, or every address of a nonempty resolution, is public.
  A failing resolver refuses.
\<close>

theorem fetch_allowed_iff:
  "validate_fetch_url_with_resolver parse parse_ip show_ip f resolve url = Inr ()
    \<longleftrightarrow> (\<exists>p host. parse url = Inr p \<and> pu_scheme p \<in> {''http'', ''https''} \<and> pu_host p = Some host
        \<and> \<not> local_name (to_lowercase host) \<and> nf_is_allowed parse f url
        \<and> (case parse_ip (clean_ip host) of
             Some ip \<Rightarrow> \<not> is_private_or_restricted_ip ip
           | None \<Rightarrow> (\<exists>ips. resolve host (case pu_port p of Some n \<Rightarrow> n
                              | None \<Rightarrow> if pu_scheme p = ''https'' then 443 else 80) = Inr ips
                       \<and> ips \<noteq> [] \<and> list_all (\<lambda>ip. \<not> is_private_or_restricted_ip ip) ips)))"
proof (cases "parse url")
  case (Inl e)
  then show ?thesis by (simp add: validate_fetch_url_with_resolver_def)
next
  case (Inr p)
  show ?thesis
  proof (cases "pu_scheme p = ''http'' \<or> pu_scheme p = ''https''")
    case False
    with Inr show ?thesis by (auto simp: validate_fetch_url_with_resolver_def)
  next
    case scheme: True
    show ?thesis
    proof (cases "pu_host p")
      case None
      with Inr scheme show ?thesis by (auto simp: validate_fetch_url_with_resolver_def)
    next
      case (Some host)
      let ?port = "case pu_port p of Some n \<Rightarrow> n | None \<Rightarrow> if pu_scheme p = ''https'' then 443 else 80"
      have r: "validate_fetch_url_with_resolver parse parse_ip show_ip f resolve url = Inr ()
          \<longleftrightarrow> \<not> local_name (to_lowercase host) \<and> nf_is_allowed parse f url
            \<and> (case parse_ip (clean_ip host) of
                 Some ip \<Rightarrow> \<not> is_private_or_restricted_ip ip
               | None \<Rightarrow> (\<exists>ips. resolve host ?port = Inr ips \<and> ips \<noteq> []
                          \<and> list_all (\<lambda>ip. \<not> is_private_or_restricted_ip ip) ips))"
        using Inr scheme Some
        by (cases "parse_ip (clean_ip host)"; cases "resolve host ?port")
          (simp_all add: validate_fetch_url_with_resolver_def Let_def find_none list_all_iff del: not_None_eq,
            blast?)
      show ?thesis unfolding r using Inr scheme Some by simp
    qed
  qed
qed

text \<open>
  Writing an IPv4 address in its IPv6-mapped form does not get around the check.
\<close>

theorem mapped_address_not_bypassed:
  "is_private_or_restricted_ip (V6 0 0 0 0 0 0xFFFF (word_cat a b) (word_cat c d))
    \<longleftrightarrow> is_private_or_restricted_ip (V4 a b c d)"
proof -
  have h: "high_octet (word_cat x y) = x" and l: "low_octet (word_cat x y) = y" for x y :: "8 word"
  proof -
    show "high_octet (word_cat x y) = x"
      unfolding high_octet_def
      by (rule bit_word_eqI) (auto simp: bit_simps bit_word_cat_iff)
    show "low_octet (word_cat x y) = y"
      unfolding low_octet_def
      by (rule bit_word_eqI) (auto simp: bit_simps bit_word_cat_iff)
  qed
  show ?thesis unfolding v6_mapped by (simp only: h l is_private_or_restricted_ip.simps(1))
qed

text \<open>
  An allowed domain that is configured with an upper-case letter never allows anything: the
  domain of a URL is lower-cased before it is compared, the configured one is not.
\<close>

theorem upper_case_domain_never_allows:
  assumes "list_ex upper_ascii d"
  shows "\<not> nf_is_allowed parse (nf_strict [d]) url"
proof -
  obtain c where c: "c \<in> set d" "upper_ascii c" using assms by (auto simp: list_ex_iff)
  then have "c \<notin> set (extract_domain parse url)" using extract_domain_no_upper by blast
  with c(1) have "extract_domain parse url \<noteq> d" and "\<not> ends_with (extract_domain parse url) (''.'' @ d)"
    using ends_with_set by fastforce+
  then show ?thesis by (simp add: nf_is_allowed_def nf_strict_def Let_def)
qed

theorem upper_case_domain_never_allows_witness:
  "\<not> nf_is_allowed (\<lambda>u. Inr \<lparr>pu_scheme = ''https'', pu_host = Some ''GitHub.com'', pu_port = None\<rparr>)
       (nf_strict [''GitHub.com'']) ''https://GitHub.com/''"
  by (rule upper_case_domain_never_allows) code_simp

end
