(* ===== verification/Tool_Registry.thy ===== *)
theory Tool_Registry
  imports Interfaces Conversation Messages Parse Safety Soft_Float
    "HOL-Library.Char_ord" "HOL-Library.List_Lexorder"
begin

text \<open>
  \<open>src/tools/mod.rs\<close>: task types, the registry of tools and the choice of those shown to the model,
  and the cache of tool results. A registered tool is a record of what its trait methods return; its
  \<open>call\<close> is an argument where it is needed. The registry is the list of its tools in the order in
  which the hash map is iterated, with distinct names. \<open>sim\<close> is the cosine similarity of the query
  and a tool's description as the embedder computes it, and \<open>None\<close> means that the embedder failed.
\<close>

section \<open>Tools\<close>

record tool_info =
  ti_name :: string
  ti_description :: string
  ti_parameters :: json
  ti_permission :: permission
  ti_read_only :: bool

record tool_result =
  tr_output :: string
  tr_success :: bool
  tr_cancelled :: bool

definition tool_schema_of :: "tool_info \<Rightarrow> tool_schema" where
  "tool_schema_of t =
    \<lparr>sc_name = ti_name t, sc_description = ti_description t, sc_parameters = ti_parameters t\<rparr>"

type_synonym registry = "tool_info list"

definition registry_get :: "registry \<Rightarrow> string \<Rightarrow> tool_info option" where
  "registry_get r name = find (\<lambda>t. ti_name t = name) r"

definition registry_register :: "tool_info \<Rightarrow> registry \<Rightarrow> registry" where
  "registry_register t r = filter (\<lambda>u. ti_name u \<noteq> ti_name t) r @ [t]"

definition apply_whitelist :: "string list \<Rightarrow> registry \<Rightarrow> registry" where
  "apply_whitelist whitelist r =
    (if whitelist = [] then r else filter (\<lambda>t. ti_name t \<in> set whitelist) r)"

definition known_names :: "registry \<Rightarrow> string list" where
  "known_names r = map ti_name r"

definition sorted_names :: "registry \<Rightarrow> string list" where
  "sorted_names r = sort (known_names r)"

section \<open>Task types\<close>

datatype task_type = FileOperation | CodeExecution | Research | Memory | General

datatype model_capability = FullCapability | EditFocused | ReadExecute

definition capability_from_backend :: "string \<Rightarrow> model_capability" where
  "capability_from_backend backend = (if backend = ''bitnet'' then ReadExecute else FullCapability)"

definition capability_tools :: "model_capability \<Rightarrow> string list option" where
  "capability_tools c =
    (case c of
       FullCapability \<Rightarrow> None
     | EditFocused \<Rightarrow> Some [''file_read'', ''file_write'', ''multi_edit'', ''repo_map'', ''shell'']
     | ReadExecute \<Rightarrow> Some [''file_read'', ''repo_map'', ''shell'', ''git''])"

definition select_for_capability :: "model_capability \<Rightarrow> registry \<Rightarrow> registry" where
  "select_for_capability c r =
    (case capability_tools c of
       Some allowed \<Rightarrow> filter (\<lambda>t. ti_name t \<in> set allowed) r
     | None \<Rightarrow> r)"

text \<open>\<open>q.contains(a) || q.contains(b) || ..\<close>\<close>

definition contains_any :: "string list \<Rightarrow> string \<Rightarrow> bool" where
  "contains_any ks q = list_ex (str_contains q) ks"

definition memory_false_positive :: "string \<Rightarrow> bool" where
  "memory_false_positive q =
    contains_any [k_memory_ram, k_memory_area, k_memory_capacity, k_memory_story] q"

definition memory_words :: "string list" where
  "memory_words = [k_memorize, k_memory, k_recollect, k_memo, ''remember'', ''recall'']"

definition detect_task_type :: "string \<Rightarrow> task_type" where
  "detect_task_type query =
    (let q = to_lowercase query
     in if \<not> memory_false_positive q \<and> contains_any memory_words q then Memory
        else if contains_any [k_file, k_read, k_write, k_edit] q then FileOperation
        else if contains_any [k_run, k_build, k_test, k_command] q then CodeExecution
        else if contains_any [k_search, k_look_up, k_paper, ''url''] q then Research
        else General)"

definition memory_directive :: "task_type \<Rightarrow> string option" where
  "memory_directive t = (case t of Memory \<Rightarrow> Some m_memory_directive | _ \<Rightarrow> None)"

definition allowed_prefixes :: "task_type \<Rightarrow> string list option" where
  "allowed_prefixes t =
    (case t of
       FileOperation \<Rightarrow> Some [''file_read'', ''file_write'', ''multi_edit'', ''repo_map'']
     | CodeExecution \<Rightarrow> Some [''shell'', ''git'']
     | Research \<Rightarrow> Some [''web_search'', ''web_fetch'', ''arxiv_search'']
     | Memory \<Rightarrow> Some [''remember'', ''recall'']
     | General \<Rightarrow> None)"

section \<open>Ranking\<close>

text \<open>
  The order of every selection: higher scores first, equal scores by name. As an order on a type of
  its own, sorting by it is the library's \<open>sort_key\<close>, which is stable like \<open>sort_by\<close>.
\<close>

datatype 'a rank = Rank (rank_score: 'a) (rank_name: string)

instantiation rank :: (linorder) linorder
begin

definition less_eq_rank :: "'a rank \<Rightarrow> 'a rank \<Rightarrow> bool" where
  "less_eq_rank a b \<longleftrightarrow>
    rank_score b < rank_score a \<or> rank_score a = rank_score b \<and> rank_name a \<le> rank_name b"

definition less_rank :: "'a rank \<Rightarrow> 'a rank \<Rightarrow> bool" where
  "less_rank a b \<longleftrightarrow>
    rank_score b < rank_score a \<or> rank_score a = rank_score b \<and> rank_name a < rank_name b"

instance
  by standard
    (auto simp: less_eq_rank_def less_rank_def intro: rank.expand)

end

definition take_best :: "nat \<Rightarrow> (tool_info \<Rightarrow> 'a::linorder) \<Rightarrow> registry \<Rightarrow> registry" where
  "take_best m score r = take m (sort_key (\<lambda>t. Rank (score t) (ti_name t)) r)"

lemma set_take_best: "set (take_best m score r) \<subseteq> set r"
  by (auto simp: take_best_def dest: in_set_takeD)

lemma length_take_best: "length (take_best m score r) = min m (length r)"
  by (simp add: take_best_def)

lemma sorted_take_drop:
  "sorted xs \<Longrightarrow> x \<in> set (take n xs) \<Longrightarrow> y \<in> set (drop n xs) \<Longrightarrow> x \<le> y"
  by (metis append_take_drop_id sorted_append)

lemma take_best_is_best:
  assumes "t \<in> set (take_best m score r)" and "u \<in> set r" and "u \<notin> set (take_best m score r)"
  shows "Rank (score t) (ti_name t) \<le> Rank (score u) (ti_name u)"
proof -
  define f where "f = (\<lambda>t. Rank (score t) (ti_name t))"
  let ?s = "sort_key f r"
  have t: "t \<in> set (take m ?s)" using assms(1) by (simp add: take_best_def f_def)
  have "u \<in> set ?s" using assms(2) by simp
  moreover have "set ?s = set (take m ?s) \<union> set (drop m ?s)"
    by (metis append_take_drop_id set_append)
  ultimately have u: "u \<in> set (drop m ?s)" using assms(3) by (auto simp: take_best_def f_def)
  have "f t \<le> f u"
    by (rule sorted_take_drop [of "map f ?s" _ m]) (use t u in \<open>auto simp: take_map drop_map\<close>)
  then show ?thesis by (simp add: f_def)
qed

section \<open>Selecting tools\<close>

definition detect_task_boost :: "string \<Rightarrow> string list" where
  "detect_task_boost query =
    (if contains_any [k_file, k_read, k_write] query then [''file''] else [])
    @ (if contains_any [k_command, k_run, k_build] query then [''shell''] else [])
    @ (if contains_any [''git'', k_commit] query then [''git''] else [])
    @ (if contains_any [k_search, k_seek] query then [''web'', ''file''] else [])
    @ (if \<not> memory_false_positive query \<and> contains_any memory_words query
       then [''remember'', ''recall''] else [])"

definition keyword_matches :: "string \<Rightarrow> tool_info \<Rightarrow> nat" where
  "keyword_matches query t =
    (let name = to_lowercase (ti_name t); desc = to_lowercase (ti_description t)
     in length (filter (\<lambda>w. str_contains name w \<or> str_contains desc w)
                  (split_whitespace (to_lowercase query))))"

definition boosted :: "string \<Rightarrow> tool_info \<Rightarrow> bool" where
  "boosted query t = contains_any (detect_task_boost (to_lowercase query)) (to_lowercase (ti_name t))"

definition keyword_score :: "string \<Rightarrow> tool_info \<Rightarrow> nat" where
  "keyword_score query t = keyword_matches query t + (if boosted query t then 2 else 0)"

definition is_name_in_allowlist :: "string list option \<Rightarrow> string \<Rightarrow> bool" where
  "is_name_in_allowlist allowed name =
    (case allowed of None \<Rightarrow> True | Some names \<Rightarrow> list_ex (\<lambda>n. n = name) names)"

definition is_mcp :: "tool_info \<Rightarrow> bool" where
  "is_mcp t = (CHR '':'' \<in> set (ti_name t))"

definition select_relevant :: "registry \<Rightarrow> string \<Rightarrow> nat \<Rightarrow> registry" where
  "select_relevant r query m = take_best m (keyword_score query) r"

definition select_relevant_with_type :: "registry \<Rightarrow> string \<Rightarrow> nat \<Rightarrow> registry" where
  "select_relevant_with_type r query m =
    take_best m (keyword_score query)
      (filter (\<lambda>t. case allowed_prefixes (detect_task_type query) of
                     None \<Rightarrow> True | Some ps \<Rightarrow> list_ex (\<lambda>p. ti_name t = p) ps) r)"

text \<open>The part that the keyword and the semantic selection share: filter, split, rank, cut.\<close>

definition split_by ::
    "(tool_info \<Rightarrow> 'a::linorder) \<Rightarrow> registry \<Rightarrow> nat \<Rightarrow> nat \<Rightarrow> string list option \<Rightarrow> registry" where
  "split_by score r builtin_max mcp_max allowed =
    (let candidates = filter (\<lambda>t. is_name_in_allowlist allowed (ti_name t)) r
     in take_best builtin_max score (filter (\<lambda>t. \<not> is_mcp t) candidates)
        @ take_best mcp_max score (filter is_mcp candidates))"

definition select_relevant_split ::
    "registry \<Rightarrow> string \<Rightarrow> nat \<Rightarrow> nat \<Rightarrow> string list option \<Rightarrow> registry" where
  "select_relevant_split r query builtin_max mcp_max allowed =
    split_by (keyword_score query) r builtin_max mcp_max allowed"

text \<open>\<open>0.7 * similarity + 0.3 * keyword share\<close>, in \<open>f32\<close>.\<close>

definition hybrid_score :: "(string \<Rightarrow> rat) \<Rightarrow> string \<Rightarrow> tool_info \<Rightarrow> rat" where
  "hybrid_score sim query t =
    (let sem = max (sim (ti_name t)) 0;
         words = length (split_whitespace (to_lowercase query));
         top = fl32 (fl32 (of_nat (max words 1)) + 2);
         matches = fl32 (of_nat (keyword_matches query t));
         kw_raw = (if boosted query t then fl32 (matches + 2) else matches);
         kw = min (max (fl32 (kw_raw / top)) 0) 1
     in fl32 (fl32 (fl32 (7 / 10) * sem) + fl32 (fl32 (3 / 10) * kw)))"

definition select_relevant_split_semantic ::
    "(string \<Rightarrow> rat) option \<Rightarrow> registry \<Rightarrow> string \<Rightarrow> nat \<Rightarrow> nat \<Rightarrow> string list option \<Rightarrow> registry" where
  "select_relevant_split_semantic sim r query builtin_max mcp_max allowed =
    (case sim of
       None \<Rightarrow> select_relevant_split r query builtin_max mcp_max allowed
     | Some f \<Rightarrow> split_by (hybrid_score f query) r builtin_max mcp_max allowed)"

section \<open>Listing tools\<close>

definition format_schemas_compact :: "tool_info list \<Rightarrow> string" where
  "format_schemas_compact ts =
    (if ts = [] then []
     else m_tools_head @ nl @ nl
          @ concat (map (\<lambda>t. ''- **'' @ ti_name t @ ''**: '' @ ti_description t @ nl) ts))"

definition tool_summary :: "string \<Rightarrow> string" where
  "tool_summary desc =
    (if char_count desc \<le> 40 then desc else take_chars 40 desc @ m_ellipsis)"

text \<open>\<open>pretty\<close> is \<open>serde_json::to_string_pretty\<close>.\<close>

definition format_schemas_progressive ::
    "(json \<Rightarrow> string) \<Rightarrow> tool_info list \<Rightarrow> string list \<Rightarrow> string" where
  "format_schemas_progressive pretty ts expanded_names =
    (if ts = [] then []
     else m_tools_head @ nl @ nl
          @ concat (map (\<lambda>t.
              if ti_name t \<in> set expanded_names then
                ''## '' @ ti_name t @ nl @ ti_description t @ nl
                @ m_tools_params @ pretty (ti_parameters t) @ nl @ nl
              else ''- **'' @ ti_name t @ ''**: '' @ tool_summary (ti_description t) @ nl) ts))"

section \<open>Cache of tool results\<close>

text \<open>\<open>enc\<close> is the \<open>Display\<close> of a JSON value.\<close>

record tool_result_cache =
  tc_cache :: "(string, tool_result) hashmap"
  tc_hits :: nat
  tc_misses :: nat

definition cache_new :: tool_result_cache where
  "cache_new = \<lparr>tc_cache = [], tc_hits = 0, tc_misses = 0\<rparr>"

definition make_key :: "(json \<Rightarrow> string) \<Rightarrow> string \<Rightarrow> json \<Rightarrow> string" where
  "make_key enc tool args = tool @ '':'' @ enc args"

definition cache_get ::
    "(json \<Rightarrow> string) \<Rightarrow> string \<Rightarrow> json \<Rightarrow> tool_result_cache \<Rightarrow> tool_result option \<times> tool_result_cache" where
  "cache_get enc tool args c =
    (case hm_get (tc_cache c) (make_key enc tool args) of
       Some r \<Rightarrow> (Some r, c\<lparr>tc_hits := tc_hits c + 1\<rparr>)
     | None \<Rightarrow> (None, c\<lparr>tc_misses := tc_misses c + 1\<rparr>))"

definition cache_put ::
    "(json \<Rightarrow> string) \<Rightarrow> string \<Rightarrow> json \<Rightarrow> tool_result \<Rightarrow> tool_result_cache \<Rightarrow> tool_result_cache" where
  "cache_put enc tool args r c = c\<lparr>tc_cache := hm_insert (make_key enc tool args) r (tc_cache c)\<rparr>"

definition cache_invalidate :: "string \<Rightarrow> tool_result_cache \<Rightarrow> tool_result_cache" where
  "cache_invalidate tool c =
    c\<lparr>tc_cache := filter (\<lambda>(k, v). \<not> starts_with k (tool @ '':'')) (tc_cache c)\<rparr>"

definition cache_clear :: "tool_result_cache \<Rightarrow> tool_result_cache" where
  "cache_clear c = c\<lparr>tc_cache := []\<rparr>"

definition belongs_to :: "string \<Rightarrow> string \<Rightarrow> bool" where
  "belongs_to tool key = starts_with key (tool @ '':'')"

lemma hm_get_filter_keys:
  "hm_get (filter (\<lambda>(k, v). P k) m) k' = (if P k' then hm_get m k' else None)"
  by (induction m) auto

text \<open>The cache as a store that forgets, under the keys \<open>make_key\<close> builds.\<close>

definition cache_lookup :: "tool_result_cache \<Rightarrow> string \<Rightarrow> tool_result option" where
  "cache_lookup c key = hm_get (tc_cache c) key"

definition cache_store :: "string \<Rightarrow> tool_result \<Rightarrow> tool_result_cache \<Rightarrow> tool_result_cache" where
  "cache_store key r c = c\<lparr>tc_cache := hm_insert key r (tc_cache c)\<rparr>"

interpretation results: forgetting_cache cache_lookup cache_store cache_invalidate belongs_to
proof unfold_locales
  fix k k' :: string and v c
  show "cache_lookup (cache_store k v c) k' = (if k = k' then Some v else cache_lookup c k')"
    by (simp add: cache_lookup_def cache_store_def hm_simps)
next
  fix t k' :: string and c
  show "cache_lookup (cache_invalidate t c) k' = (if belongs_to t k' then None else cache_lookup c k')"
    by (simp add: cache_lookup_def cache_invalidate_def belongs_to_def hm_get_filter_keys)
qed

lemma cache_put_store: "cache_put enc tool args r = cache_store (make_key enc tool args) r"
  by (auto simp: cache_put_def cache_store_def)

lemma fst_cache_get: "fst (cache_get enc tool args c) = cache_lookup c (make_key enc tool args)"
  by (simp add: cache_get_def cache_lookup_def split: option.split)

lemma cache_lookup_get: "cache_lookup (snd (cache_get enc tool args c)) = cache_lookup c"
  by (auto simp: cache_get_def cache_lookup_def fun_eq_iff split: option.split)

lemma cache_lookup_new [simp]: "cache_lookup cache_new k = None"
  by (simp add: cache_lookup_def cache_new_def)

text \<open>What the agent does with the cache.\<close>

datatype cache_use = Stored string json tool_result | Invalidated string

fun use_cache :: "(json \<Rightarrow> string) \<Rightarrow> cache_use \<Rightarrow> tool_result_cache \<Rightarrow> tool_result_cache" where
  "use_cache enc (Stored tool args r) c = cache_put enc tool args r c"
| "use_cache enc (Invalidated tool) c = cache_invalidate tool c"

fun use_op :: "(json \<Rightarrow> string) \<Rightarrow> cache_use \<Rightarrow> (string, tool_result, string) cache_op" where
  "use_op enc (Stored tool args r) = Put (make_key enc tool args) r"
| "use_op enc (Invalidated tool) = Drop tool"

lemma use_cache_op: "use_cache enc u = apply_cache_op cache_store cache_invalidate (use_op enc u)"
  by (cases u) (auto simp: cache_put_store)

lemma fold_use_cache:
  "fold (use_cache enc) us c = fold (apply_cache_op cache_store cache_invalidate) (map (use_op enc) us) c"
  by (induction us arbitrary: c) (simp_all add: use_cache_op)

text \<open>
  The same without keys: the results by the name of the tool and the text of the arguments. What is
  remembered of a call is the result stored last for the same tool and the same text; invalidating a
  tool also forgets the tools whose names extend it after a colon. The newest use comes first.
\<close>

fun remembered :: "(json \<Rightarrow> string) \<Rightarrow> cache_use list \<Rightarrow> string \<Rightarrow> json \<Rightarrow> tool_result option" where
  "remembered enc [] tool args = None"
| "remembered enc (Stored tool' args' r # older) tool args =
    (if tool' = tool \<and> enc args' = enc args then Some r else remembered enc older tool args)"
| "remembered enc (Invalidated tool' # older) tool args =
    (if tool = tool' \<or> starts_with tool (tool' @ '':'') then None else remembered enc older tool args)"

fun use_tool :: "cache_use \<Rightarrow> string" where
  "use_tool (Stored tool args r) = tool"
| "use_tool (Invalidated tool) = tool"

text \<open>In a JSON text a colon stands inside a string or after the key of a member: a quotation mark comes first.\<close>

definition json_text :: "(json \<Rightarrow> string) \<Rightarrow> bool" where
  "json_text enc \<longleftrightarrow> (\<forall>a x y. enc a = x @ CHR '':'' # y \<longrightarrow> dquote \<in> set x)"

lemma colon_split:
  assumes "json_text enc" and "dquote \<notin> set tool'" and "tool @ CHR '':'' # enc a = tool' @ CHR '':'' # y"
  shows "length tool' \<le> length tool"
proof (rule ccontr)
  assume "\<not> length tool' \<le> length tool"
  then obtain zs where z: "tool' = tool @ zs" "CHR '':'' # enc a = zs @ CHR '':'' # y" "zs \<noteq> []"
    using assms(3) by (auto simp: append_eq_append_conv2)
  then obtain x where x: "zs = CHR '':'' # x" "enc a = x @ CHR '':'' # y" by (cases zs) auto
  then have "dquote \<in> set x" using assms(1) by (auto simp: json_text_def)
  then show False using assms(2) z(1) x(1) by simp
qed

lemma make_key_same:
  assumes "json_text enc" and "dquote \<notin> set tool" and "dquote \<notin> set tool'"
  shows "make_key enc tool args = make_key enc tool' args' \<longleftrightarrow> tool = tool' \<and> enc args = enc args'"
proof
  assume "make_key enc tool args = make_key enc tool' args'"
  then have eq: "tool @ CHR '':'' # enc args = tool' @ CHR '':'' # enc args'" by (simp add: make_key_def)
  have "length tool = length tool'"
    using colon_split [OF assms(1,3) eq] colon_split [OF assms(1,2) eq [symmetric]] by simp
  then show "tool = tool' \<and> enc args = enc args'" using eq by simp
qed (simp add: make_key_def)

lemma belongs_to_key:
  assumes "json_text enc" and "dquote \<notin> set tool'"
  shows "belongs_to tool' (make_key enc tool args) \<longleftrightarrow> tool = tool' \<or> starts_with tool (tool' @ '':'')"
proof
  assume "belongs_to tool' (make_key enc tool args)"
  then have p: "prefix (tool' @ '':'') (tool @ CHR '':'' # enc args)"
    by (simp add: belongs_to_def make_key_def starts_with_def)
  then obtain y where y: "tool @ CHR '':'' # enc args = tool' @ CHR '':'' # y" by (auto elim: prefixE)
  from colon_split [OF assms this] consider "length tool = length tool'" | "length (tool' @ '':'') \<le> length tool"
    by fastforce
  then show "tool = tool' \<or> starts_with tool (tool' @ '':'')"
  proof cases
    case 2
    then have "prefix (tool' @ '':'') tool" by (rule prefix_length_prefix [OF p, of tool, rotated]) simp
    then show ?thesis by (simp add: starts_with_def)
  qed (use y in simp)
qed (auto simp: belongs_to_def make_key_def starts_with_def)

lemma cached_remembered:
  assumes "json_text enc" and "dquote \<notin> set tool" and "list_all (\<lambda>u. dquote \<notin> set (use_tool u)) us"
  shows "cached_value belongs_to (map (use_op enc) us) (make_key enc tool args) = remembered enc us tool args"
  using assms(3)
proof (induction us)
  case (Cons u us)
  then show ?case using assms(1,2) by (cases u) (simp_all add: make_key_same belongs_to_key)
qed simp

section \<open>Facts about the selection\<close>

text \<open>The score and the rank that the selection goes by, whether the embedder works or not.\<close>

definition selection_score :: "(string \<Rightarrow> rat) option \<Rightarrow> string \<Rightarrow> tool_info \<Rightarrow> rat" where
  "selection_score sim query t =
    (case sim of None \<Rightarrow> of_nat (keyword_score query t) | Some f \<Rightarrow> hybrid_score f query t)"

definition selection_rank :: "(string \<Rightarrow> rat) option \<Rightarrow> string \<Rightarrow> tool_info \<Rightarrow> rat rank" where
  "selection_rank sim query t = Rank (selection_score sim query t) (ti_name t)"

text \<open>The tools that may be shown: those of the allowlist, of one kind.\<close>

definition allowed_of_kind :: "registry \<Rightarrow> string list option \<Rightarrow> bool \<Rightarrow> registry" where
  "allowed_of_kind r allowed mcp = filter (\<lambda>t. is_name_in_allowlist allowed (ti_name t) \<and> is_mcp t = mcp) r"

lemma sort_key_same_order:
  assumes "\<And>x y. f x \<le> f y \<longleftrightarrow> g x \<le> g y"
  shows "sort_key f xs = sort_key g xs"
proof -
  have "insort_key f x ys = insort_key g x ys" for x ys
    by (induction ys) (simp_all add: assms)
  then show ?thesis by (induction xs) simp_all
qed

lemma take_best_rank: "take_best n (selection_score sim q) r = take n (sort_key (selection_rank sim q) r)"
  by (simp add: take_best_def selection_rank_def [abs_def])

lemma selection_split: "select_relevant_split_semantic sim r q b m allowed =
    take b (sort_key (selection_rank sim q) (allowed_of_kind r allowed False))
    @ take m (sort_key (selection_rank sim q) (allowed_of_kind r allowed True))"
proof -
  have "take_best n (keyword_score q) xs = take_best n (selection_score None q) xs" for n xs
    unfolding take_best_def
    by (rule arg_cong [OF sort_key_same_order]) (simp add: selection_score_def less_eq_rank_def)
  moreover have "take_best n (hybrid_score f q) xs = take_best n (selection_score (Some f) q) xs" for n f xs
    by (simp add: selection_score_def [abs_def])
  ultimately show ?thesis
    by (simp add: select_relevant_split_semantic_def select_relevant_split_def split_by_def allowed_of_kind_def conj_commute
        take_best_rank split: option.split)
qed

lemma selection_kinds:
  "filter (\<lambda>t. is_mcp t = mcp) (select_relevant_split_semantic sim r q b m allowed)
    = take (if mcp then m else b) (sort_key (selection_rank sim q) (allowed_of_kind r allowed mcp))"
proof -
  have kind: "is_mcp t = k" if "t \<in> set (take n (sort_key f (allowed_of_kind r allowed k)))" for t n k
    and f :: "tool_info \<Rightarrow> rat rank"
    using in_set_takeD [OF that] by (simp add: allowed_of_kind_def)
  have "filter (\<lambda>t. is_mcp t = mcp) (take n (sort_key (selection_rank sim q) (allowed_of_kind r allowed k)))
      = (if mcp = k then take n (sort_key (selection_rank sim q) (allowed_of_kind r allowed k)) else [])" for n k
    using kind by (auto simp: filter_empty_conv intro!: filter_True)
  then show ?thesis by (simp add: selection_split)
qed

text \<open>The first \<open>n\<close> of the tools when they are sorted by rank.\<close>

lemma best_ranked:
  fixes f :: "tool_info \<Rightarrow> 'a::linorder"
  shows "mset (take n (sort_key f xs)) \<subseteq># mset xs" "length (take n (sort_key f xs)) = min n (length xs)"
    "sorted (map f (take n (sort_key f xs)))"
    "u \<in> set xs \<Longrightarrow> u \<in> set (take n (sort_key f xs)) \<or> (\<forall>t \<in> set (take n (sort_key f xs)). f t \<le> f u)"
proof -
  have split: "take n (sort_key f xs) @ drop n (sort_key f xs) = sort_key f xs" by simp
  have "mset (take n (sort_key f xs)) + mset (drop n (sort_key f xs)) = mset xs"
    unfolding mset_append [symmetric] split by simp
  then show "mset (take n (sort_key f xs)) \<subseteq># mset xs" by (metis mset_subset_eq_add_left)
  show "length (take n (sort_key f xs)) = min n (length xs)" by (simp add: min.commute)
  have s: "sorted (map f (take n (sort_key f xs)) @ map f (drop n (sort_key f xs)))"
    by (simp flip: map_append)
  then show "sorted (map f (take n (sort_key f xs)))" by (simp add: sorted_append)
  assume "u \<in> set xs"
  then have "u \<in> set (take n (sort_key f xs)) \<union> set (drop n (sort_key f xs))"
    unfolding set_append [symmetric] split by simp
  then show "u \<in> set (take n (sort_key f xs)) \<or> (\<forall>t \<in> set (take n (sort_key f xs)). f t \<le> f u)"
    using s by (auto simp: sorted_append)
qed

section \<open>Properties\<close>

text \<open>
  C28. After any sequence of stores and invalidations, a lookup of a call answers the result stored last
  for the same tool and the same arguments, unless its tool was invalidated since: the results of
  different tools or different arguments never mix, although both are put into one key. Arguments
  are the same when they are printed the same. It rests on the syntax of JSON, and on names of tools
  having no quotation mark. Invalidating a tool also invalidates the tools named after it with a colon.
\<close>

theorem tool_cache_answers_last_store:
  assumes "json_text enc" and "dquote \<notin> set tool" and "list_all (\<lambda>u. dquote \<notin> set (use_tool u)) us"
  shows "fst (cache_get enc tool args (fold (use_cache enc) us cache_new)) = remembered enc (rev us) tool args"
proof -
  have "fst (cache_get enc tool args (fold (use_cache enc) us cache_new))
      = cached_value belongs_to (rev (map (use_op enc) us)) (make_key enc tool args)"
    by (simp only: fst_cache_get fold_use_cache) (rule results.lookup_run, simp)
  then show ?thesis using cached_remembered [of enc tool "rev us" args] assms by (simp add: rev_map)
qed

definition two_texts :: "json \<Rightarrow> string" where
  "two_texts j = (if j = JNull then ''null'' else ''{}'')"

theorem tool_cache_answers_last_store_witness:
  "fst (cache_get two_texts ''ls'' JNull (fold (use_cache two_texts)
      [Stored ''ls'' JNull \<lparr>tr_output = ''one'', tr_success = True, tr_cancelled = False\<rparr>,
       Stored ''ls'' (JObj []) \<lparr>tr_output = ''two'', tr_success = True, tr_cancelled = False\<rparr>,
       Invalidated ''file_read''] cache_new))
    = Some \<lparr>tr_output = ''one'', tr_success = True, tr_cancelled = False\<rparr>"
proof -
  have "CHR '':'' \<notin> set (two_texts j)" for j by (simp add: two_texts_def)
  then have j: "json_text two_texts" unfolding json_text_def by (metis in_set_conv_decomp)
  show ?thesis
    by (subst tool_cache_answers_last_store [OF j]) (simp_all add: dquote_def starts_with_def two_texts_def)
qed

text \<open>
  C29. What the model is shown, whether the embedder works or not: the built-in tools, then the MCP tools.
  Of each kind it is as many of the tools on the allowlist as the quota has room for, every one once;
  they come in the order of their rank, and no tool of the allowlist that is left out ranks before one
  that is shown.
\<close>

theorem selection_keeps_best_allowed:
  "let shown = select_relevant_split_semantic sim r q b m allowed in
    shown = filter (\<lambda>t. is_mcp t = False) shown @ filter (\<lambda>t. is_mcp t = True) shown
    \<and> list_all (\<lambda>(mcp, quota).
        let chosen = filter (\<lambda>t. is_mcp t = mcp) shown;
            all = filter (\<lambda>t. is_name_in_allowlist allowed (ti_name t) \<and> is_mcp t = mcp) r in
        length chosen = min quota (length all) \<and> mset chosen \<subseteq># mset all
        \<and> sorted (map (selection_rank sim q) chosen)
        \<and> list_all (\<lambda>u. u \<in> set chosen
            \<or> list_all (\<lambda>t. selection_rank sim q t \<le> selection_rank sim q u) chosen) all)
      [(False, b), (True, m)]"
proof -
  define shown where "shown = select_relevant_split_semantic sim r q b m allowed"
  have kinds: "filter (\<lambda>t. is_mcp t = mcp) shown
      = take (if mcp then m else b) (sort_key (selection_rank sim q) (allowed_of_kind r allowed mcp))" for mcp
    unfolding shown_def by (rule selection_kinds)
  have "shown = filter (\<lambda>t. is_mcp t = False) shown @ filter (\<lambda>t. is_mcp t = True) shown"
    unfolding kinds by (simp add: shown_def selection_split)
  moreover have "list_all (\<lambda>u. u \<in> set (take n (sort_key (selection_rank sim q) xs))
      \<or> list_all (\<lambda>t. selection_rank sim q t \<le> selection_rank sim q u) (take n (sort_key (selection_rank sim q) xs))) xs"
    for n xs using best_ranked(4) [of _ xs n "selection_rank sim q"] by (simp add: list_all_iff)
  ultimately show ?thesis
    unfolding Let_def shown_def [symmetric] allowed_of_kind_def [symmetric] list.pred_inject prod.case kinds
    by (simp add: best_ranked min.commute)
qed

end
