(* ===== verification/Path_Guard.thy ===== *)
theory Path_Guard
  imports Std_Path
begin

text \<open>
  \<open>src/safety/path_guard.rs\<close>: which paths are denied, and which words of a shell command are taken
  for paths. What the operating system answers is a record: the home directory, the current
  directory and \<open>canonicalize\<close>, which gives the real path of one that exists. A path is the list of
  its components; shell syntax is ASCII, so a command is walked by bytes.
\<close>

record os_view =
  os_home :: "string option"
  os_cwd :: "component list option"
  os_canonicalize :: "component list \<Rightarrow> component list option"

section \<open>Denied paths\<close>

type_synonym path_guard = "string list"

definition default_deny_list :: path_guard where
  "default_deny_list =
    [''~/.ssh'', ''~/.gnupg'', ''~/.aws'', ''/etc/shadow'', ''/etc/passwd'', ''.env'', ''.env.local'',
     ''.env.production'', ''id_rsa'', ''id_ed25519'']"

definition expand_tilde :: "os_view \<Rightarrow> string \<Rightarrow> string" where
  "expand_tilde os p =
    (if p = ''~'' \<or> starts_with p ''~/'' then
       (case os_home os of None \<Rightarrow> p
        | Some home \<Rightarrow> if p = ''~'' then home else home @ drop 1 p)
     else p)"

fun normalize_step :: "component list \<Rightarrow> component \<Rightarrow> component list" where
  "normalize_step acc RootDir = path_push acc RootDir"
| "normalize_step acc CurDir = acc"
| "normalize_step acc ParentDir = path_pop acc"
| "normalize_step acc (Normal c) = path_push acc (Normal c)"

definition normalize_path :: "component list \<Rightarrow> component list" where
  "normalize_path p = foldl normalize_step [] p"

text \<open>The candidates of one entry: its logical path and, if it exists, its real one.\<close>

definition entry_candidates :: "os_view \<Rightarrow> string \<Rightarrow> component list list" where
  "entry_candidates os deny =
    (let p = path_components (expand_tilde os deny)
     in normalize_path p # (case os_canonicalize os p of None \<Rightarrow> [] | Some c \<Rightarrow> [c]))"

definition candidate_matches :: "string \<Rightarrow> component list \<Rightarrow> component list \<Rightarrow> bool" where
  "candidate_matches deny check cand \<longleftrightarrow>
    path_starts_with check cand \<or> check = cand
    \<or> (case (file_name cand, file_name check) of
         (Some d, Some c) \<Rightarrow> d = c \<and> (\<not> str_contains deny ''/'' \<or> check = cand)
       | _ \<Rightarrow> False)"

definition matches_denied_resolved :: "os_view \<Rightarrow> path_guard \<Rightarrow> component list \<Rightarrow> bool" where
  "matches_denied_resolved os g check =
    list_ex (\<lambda>deny. list_ex (candidate_matches deny check) (entry_candidates os deny)) g"

definition resolves_denied :: "os_view \<Rightarrow> path_guard \<Rightarrow> component list \<Rightarrow> bool" where
  "resolves_denied os g p =
    (case os_canonicalize os p of None \<Rightarrow> False | Some c \<Rightarrow> matches_denied_resolved os g c)"

definition name_denied :: "path_guard \<Rightarrow> component list \<Rightarrow> bool" where
  "name_denied g p =
    (case file_name p of None \<Rightarrow> False
     | Some n \<Rightarrow> list_ex (\<lambda>deny. \<not> str_contains deny ''/'' \<and> n = deny
                      \<or> starts_with deny ''.env'' \<and> starts_with n ''.env'') g)"

definition is_denied :: "os_view \<Rightarrow> path_guard \<Rightarrow> string \<Rightarrow> bool" where
  "is_denied os g path_str =
    (let p = path_components (expand_tilde os path_str);
         absolute = (if is_absolute p then p
                     else case os_cwd os of Some cwd \<Rightarrow> path_join cwd p | None \<Rightarrow> p)
     in if resolves_denied os g p then True
        else if resolves_denied os g absolute then True
        else if matches_denied_resolved os g (normalize_path absolute) then True
        else if matches_denied_resolved os g (normalize_path p) then True
        else name_denied g p)"

section \<open>Words of a command\<close>

definition flush :: "string \<Rightarrow> string list \<Rightarrow> string list" where
  "flush cur rest = (if cur = [] then rest else rev cur # rest)"

definition separators :: "char set" where
  "separators = {CHR '' '', CHR 0x09, CHR 0x0D, CHR 0x0A, CHR ''|'', CHR '';'', CHR ''&'', CHR ''('',
                 CHR '')'', backquote}"

function shell_tokens :: "bool \<Rightarrow> bool \<Rightarrow> string \<Rightarrow> string \<Rightarrow> string list" where
  "shell_tokens sq dq cur [] = flush cur []"
| "shell_tokens sq dq cur (c # s) =
    (if c = squote \<and> \<not> dq then shell_tokens (\<not> sq) dq cur s
     else if c = dquote \<and> \<not> sq then shell_tokens sq (\<not> dq) cur s
     else if sq \<or> dq then shell_tokens sq dq (c # cur) s
     else if c \<in> separators then flush cur (shell_tokens sq dq [] s)
     else if c = CHR ''>'' \<or> c = CHR ''<'' then
       flush cur (shell_tokens sq dq [] (if s \<noteq> [] \<and> hd s = CHR ''>'' then tl s else s))
     else shell_tokens sq dq (c # cur) s)"
  by pat_completeness auto
termination
  by (relation "measure (\<lambda>(sq, dq, cur, s). length s)") auto

definition extract_shell_tokens :: "string \<Rightarrow> string list" where
  "extract_shell_tokens command = shell_tokens False False [] command"

text \<open>\<open>byte as char\<close>: the scalar of that number, in UTF-8.\<close>

definition latin1 :: "nat \<Rightarrow> string" where
  "latin1 n = (if n < 128 then [char_of n] else [char_of (192 + n div 64), char_of (128 + n mod 64)])"

definition hex_digit :: "char \<Rightarrow> bool" where
  "hex_digit c = (c \<in> set ''0123456789abcdefABCDEF'')"

definition hex_val :: "char \<Rightarrow> nat" where
  "hex_val c = (let n = of_char c :: nat in if n < 58 then n - 48 else if n < 71 then n - 55 else n - 87)"

definition octal_digit :: "char \<Rightarrow> bool" where
  "octal_digit c = (c \<in> set ''01234567'')"

definition radix_val :: "nat \<Rightarrow> string \<Rightarrow> nat option" where
  "radix_val b ds =
    (if ds = [] then None
     else let n = foldl (\<lambda>acc c. acc * b + hex_val c) 0 ds in if n < 256 then Some n else None)"

definition push_byte :: "nat option \<Rightarrow> string" where
  "push_byte v = (case v of None \<Rightarrow> [] | Some n \<Rightarrow> latin1 n)"

function unescape_ansic :: "string \<Rightarrow> string" where
  "unescape_ansic [] = []"
| "unescape_ansic (c # s) =
    (if c \<noteq> backslash then c # unescape_ansic s
     else case s of [] \<Rightarrow> [backslash]
       | e # r \<Rightarrow>
          if e = CHR ''a'' then CHR 0x07 # unescape_ansic r
          else if e = CHR ''b'' then CHR 0x08 # unescape_ansic r
          else if e = CHR ''e'' \<or> e = CHR ''E'' then CHR 0x1B # unescape_ansic r
          else if e = CHR ''f'' then CHR 0x0C # unescape_ansic r
          else if e = CHR ''n'' then CHR 0x0A # unescape_ansic r
          else if e = CHR ''r'' then CHR 0x0D # unescape_ansic r
          else if e = CHR ''t'' then CHR 0x09 # unescape_ansic r
          else if e = CHR ''v'' then CHR 0x0B # unescape_ansic r
          else if e = CHR ''x'' then
            (let ds = takeWhile hex_digit (take 2 r)
             in push_byte (radix_val 16 ds) @ unescape_ansic (drop (length ds) r))
          else if octal_digit e then
            (let ds = e # takeWhile octal_digit (take 2 r)
             in push_byte (radix_val 8 ds) @ unescape_ansic (drop (length ds - 1) r))
          else e # unescape_ansic r)"
  by pat_completeness auto
termination
  by (relation "measure length") auto

declare unescape_ansic.simps [simp del]

definition trim_chars :: "char set" where
  "trim_chars = {squote, dquote, CHR ''('', CHR '')'', CHR ''['', CHR '']'', CHR ''{'', CHR ''}'',
                 CHR '';'', CHR '','', backquote}"

definition quotes :: "char set" where
  "quotes = {squote, dquote, backquote}"

definition add_cand :: "string \<Rightarrow> string list \<Rightarrow> string list" where
  "add_cand c cs = (if c = [] \<or> c \<in> set cs then cs else cs @ [c])"

definition strip_dollar :: "string \<Rightarrow> string" where
  "strip_dollar w = trim_set quotes (trim_start_set {CHR ''$''} w)"

text \<open>A word behind a dollar sign, without and with the escapes of an ANSI-C string.\<close>

definition add_dollar :: "string \<Rightarrow> string list \<Rightarrow> string list" where
  "add_dollar w cs = (if starts_with w ''$'' then add_cand (strip_dollar w) cs else cs)"

definition add_dollar_unescaped :: "string \<Rightarrow> string list \<Rightarrow> string list" where
  "add_dollar_unescaped w cs =
    (if \<not> starts_with w ''$'' then cs
     else (let stripped = strip_dollar w; cs1 = add_cand stripped cs
           in if stripped \<noteq> [] \<and> backslash \<in> set stripped then add_cand (unescape_ansic stripped) cs1
              else cs1))"

definition add_word :: "string \<Rightarrow> string list \<Rightarrow> string list" where
  "add_word w cs = (let v = trim_set trim_chars w in add_dollar v (add_cand v cs))"

definition extract_candidates_from_token :: "string \<Rightarrow> string list" where
  "extract_candidates_from_token token =
    (let cleaned = trim_set trim_chars token;
         c1 = add_dollar_unescaped cleaned (add_cand cleaned []);
         c2 = (case split_once cleaned (CHR ''='') of None \<Rightarrow> c1
               | Some (k, val) \<Rightarrow> let v = trim_set trim_chars val in add_dollar_unescaped v (add_cand v c1));
         c3 = (if CHR '' '' \<in> set token \<or> CHR 0x09 \<in> set token
               then fold add_word (split_whitespace token) c2 else c2);
         c4 = (if set token \<inter> quotes \<noteq> {} then fold add_word (split_where (\<lambda>c. c \<in> quotes) token) c3
               else c3)
     in c4)"

definition find_denied_paths_in_command :: "os_view \<Rightarrow> path_guard \<Rightarrow> string \<Rightarrow> string list" where
  "find_denied_paths_in_command os g command =
    fold (\<lambda>cand denied. if is_denied os g cand \<and> cand \<notin> set denied then denied @ [cand] else denied)
      (concat (map extract_candidates_from_token (extract_shell_tokens command))) []"

section \<open>Normal form\<close>

lemma normalize_step_clean:
  "list_all (\<lambda>c. c \<noteq> CurDir \<and> c \<noteq> ParentDir) acc
    \<Longrightarrow> list_all (\<lambda>c. c \<noteq> CurDir \<and> c \<noteq> ParentDir) (normalize_step acc c)"
  by (cases c) (auto simp: path_push_def path_pop_def list_all_iff dest: in_set_butlastD)

lemma normalize_path_clean: "list_all (\<lambda>c. c \<noteq> CurDir \<and> c \<noteq> ParentDir) (normalize_path p)"
proof -
  have "list_all (\<lambda>c. c \<noteq> CurDir \<and> c \<noteq> ParentDir) acc
      \<Longrightarrow> list_all (\<lambda>c. c \<noteq> CurDir \<and> c \<noteq> ParentDir) (foldl normalize_step acc p)" for acc
    by (induction p arbitrary: acc) (auto simp: normalize_step_clean)
  then show ?thesis by (simp add: normalize_path_def)
qed

lemma normalize_step_rooted:
  "acc \<noteq> [] \<Longrightarrow> hd acc = RootDir \<Longrightarrow> RootDir \<notin> set (tl acc) \<Longrightarrow> c \<noteq> RootDir
    \<Longrightarrow> normalize_step acc c \<noteq> [] \<and> hd (normalize_step acc c) = RootDir
        \<and> RootDir \<notin> set (tl (normalize_step acc c))"
  by (cases c; cases acc) (auto simp: path_push_def path_pop_def dest: in_set_butlastD)

lemma normalize_keeps_clean:
  assumes "list_all (\<lambda>c. c \<noteq> CurDir \<and> c \<noteq> ParentDir \<and> c \<noteq> RootDir) q"
  shows "foldl normalize_step acc q = acc @ q"
  using assms
proof (induction q arbitrary: acc)
  case (Cons c q)
  then show ?case by (cases c) (auto simp: path_push_def)
qed simp

section \<open>Matching\<close>

lemma matches_logical:
  assumes "d \<in> set g"
    and "path_starts_with q (normalize_path (path_components (expand_tilde os d)))"
  shows "matches_denied_resolved os g q"
  using assms unfolding matches_denied_resolved_def list_ex_iff
  by (intro bexI [of _ d]) (auto simp: entry_candidates_def Let_def candidate_matches_def)

lemma add_cand_mono: "set cs \<subseteq> set (add_cand c cs)"
  by (auto simp: add_cand_def)

lemma add_cand_in: "c \<noteq> [] \<Longrightarrow> c \<in> set (add_cand c cs)"
  by (auto simp: add_cand_def)

lemma add_dollar_mono: "set cs \<subseteq> set (add_dollar w cs)"
  using add_cand_mono by (auto simp: add_dollar_def)

lemma add_dollar_unescaped_mono: "set cs \<subseteq> set (add_dollar_unescaped w cs)"
  using add_cand_mono [of cs "strip_dollar w"]
    add_cand_mono [of "add_cand (strip_dollar w) cs" "unescape_ansic (strip_dollar w)"]
  by (auto simp: add_dollar_unescaped_def Let_def)

lemma add_word_mono: "set cs \<subseteq> set (add_word w cs)"
  using add_cand_mono add_dollar_mono by (fastforce simp: add_word_def Let_def)

lemma fold_add_word_mono: "set cs \<subseteq> set (fold add_word ws cs)"
proof (induction ws arbitrary: cs)
  case (Cons w ws)
  then show ?case using add_word_mono [of cs w] by fastforce
qed simp

lemma cleaned_is_candidate:
  assumes "trim_set trim_chars token \<noteq> []"
  shows "trim_set trim_chars token \<in> set (extract_candidates_from_token token)"
proof -
  let ?c = "trim_set trim_chars token"
  let ?c1 = "add_dollar_unescaped ?c (add_cand ?c [])"
  have "?c \<in> set (add_cand ?c [])" using assms by (rule add_cand_in)
  then have c1: "?c \<in> set ?c1" using add_dollar_unescaped_mono by blast
  define c2 where "c2 = (case split_once ?c (CHR ''='') of None \<Rightarrow> ?c1
     | Some (k, val) \<Rightarrow> let v = trim_set trim_chars val in add_dollar_unescaped v (add_cand v ?c1))"
  have "set ?c1 \<subseteq> set c2"
    using add_dollar_unescaped_mono add_cand_mono
    by (fastforce simp: c2_def Let_def split: option.splits)
  with c1 have c2: "?c \<in> set c2" by blast
  define c3 where "c3 = (if CHR '' '' \<in> set token \<or> CHR 0x09 \<in> set token
      then fold add_word (split_whitespace token) c2 else c2)"
  have c3: "?c \<in> set c3" using c2 fold_add_word_mono by (auto simp: c3_def)
  have "extract_candidates_from_token token
      = (if set token \<inter> quotes \<noteq> {} then fold add_word (split_where (\<lambda>c. c \<in> quotes) token) c3 else c3)"
    by (simp only: extract_candidates_from_token_def c3_def c2_def Let_def)
  then show ?thesis using c3 fold_add_word_mono by auto
qed

lemma fold_denied:
  "set (fold (\<lambda>cand denied. if is_denied os g cand \<and> cand \<notin> set denied then denied @ [cand] else denied) cs acc)
    = set acc \<union> {c \<in> set cs. is_denied os g c}"
  by (induction cs arbitrary: acc) auto

lemma find_denied_set:
  "set (find_denied_paths_in_command os g command)
    = {c. (\<exists>t \<in> set (extract_shell_tokens command). c \<in> set (extract_candidates_from_token t)) \<and> is_denied os g c}"
  by (auto simp: find_denied_paths_in_command_def fold_denied)

text \<open>A word without shell syntax.\<close>

definition plain_char :: "char \<Rightarrow> bool" where
  "plain_char c = (c \<noteq> squote \<and> c \<noteq> dquote \<and> c \<notin> separators \<and> c \<noteq> CHR ''>'' \<and> c \<noteq> CHR ''<'')"

lemma tokens_of_word:
  assumes "list_all plain_char w"
  shows "shell_tokens False False cur (w @ s) = shell_tokens False False (rev w @ cur) s"
  using assms by (induction w arbitrary: cur) (auto simp: plain_char_def)

lemma tokens_of_words:
  assumes "list_all (\<lambda>w. w \<noteq> [] \<and> list_all plain_char w) ws"
  shows "extract_shell_tokens (join '' '' ws) = ws"
  using assms unfolding extract_shell_tokens_def
proof (induction "'' ''" ws rule: join.induct)
  case 1
  then show ?case by (simp add: flush_def)
next
  case (2 x)
  then show ?case using tokens_of_word [of x "[]" "[]"] by (simp add: flush_def)
next
  case (3 x y xs)
  have "shell_tokens False False [] (x @ '' '' @ join '' '' (y # xs))
      = flush (rev x) (shell_tokens False False [] (join '' '' (y # xs)))"
    using tokens_of_word [of x "[]" "'' '' @ join '' '' (y # xs)"] 3
    by (simp add: squote_def dquote_def separators_def)
  with 3 show ?case by (simp add: flush_def)
qed

section \<open>Properties\<close>

text \<open>
  C40. Whatever the file system answers, an absolute path that leads under a denied entry once its
  dots are resolved is denied: no sequence of \<open>.\<close> and \<open>..\<close> escapes the guard.
\<close>

theorem denied_under_dots:
  assumes "d \<in> set g" and "is_absolute (path_components (expand_tilde os p))"
    and "path_starts_with (normalize_path (path_components (expand_tilde os p)))
           (normalize_path (path_components (expand_tilde os d)))"
  shows "is_denied os g p"
  using matches_logical [OF assms(1,3)] assms(2) by (simp add: is_denied_def Let_def)

theorem denied_under_dots_witness:
  "is_denied \<lparr>os_home = Some ''/home/u'', os_cwd = None, os_canonicalize = (\<lambda>p. None)\<rparr> default_deny_list
     ''/tmp/../etc/./shadow''"
  by (rule denied_under_dots [of "''/etc/shadow''"]) code_simp+

text \<open>
  Every denied path that stands in a command as a plain word is found: in a command of words
  without shell syntax, a word that the guard denies and that no bracket or quote surrounds is in
  the result.
\<close>

theorem denied_words_are_found:
  assumes "list_all (\<lambda>w. w \<noteq> [] \<and> list_all plain_char w) ws" and "w \<in> set ws"
    and "hd w \<notin> trim_chars" and "last w \<notin> trim_chars" and "is_denied os g w"
  shows "w \<in> set (find_denied_paths_in_command os g (join '' '' ws))"
proof -
  have "w \<noteq> []" using assms(1,2) by (auto simp: list_all_iff)
  then have "trim_set trim_chars w = w" using assms(3,4) by (rule trim_set_id)
  then have "w \<in> set (extract_candidates_from_token w)"
    using cleaned_is_candidate [of w] \<open>w \<noteq> []\<close> by simp
  then show ?thesis
    using assms(2,5) by (auto simp: find_denied_set tokens_of_words [OF assms(1)])
qed

theorem denied_words_are_found_witness:
  "''/etc/passwd'' \<in> set (find_denied_paths_in_command
     \<lparr>os_home = None, os_cwd = None, os_canonicalize = (\<lambda>p. None)\<rparr> default_deny_list
     (join '' '' [''cat'', ''/etc/passwd'']))"
  by (rule denied_words_are_found) code_simp+

definition home_os :: os_view where
  "home_os = \<lparr>os_home = Some ''/home/u'', os_cwd = Some [RootDir, Normal ''work''],
    os_canonicalize = (\<lambda>p. if p = path_components ''/home/u/.ssh'' then Some p else None)\<rparr>"

text \<open>
  C34. The guard does not expand variables: with the home directory \<open>/home/u\<close>, reading a key through
  \<open>$HOME/.ssh\<close> reports nothing, although the same file through \<open>~/.ssh\<close> is denied.
\<close>

theorem home_variable_is_missed:
  "find_denied_paths_in_command home_os default_deny_list ''cat $HOME/.ssh/config'' = []
   \<and> find_denied_paths_in_command home_os default_deny_list ''cat ~/.ssh/config'' = [''~/.ssh/config'']"
  by code_simp

end
