(* ===== verification/Validate.thy ===== *)
theory Validate
  imports Conversation Path_Guard Messages
begin

text \<open>
  \<open>src/agent/validate.rs\<close>: a tool call is checked before it runs. The compiled regular expressions of
  the \<open>regex\<close> crate are the argument \<open>patterns\<close>, a list of tests; the order in which the set of known
  tools is iterated is the order of the list \<open>known\<close>.
\<close>

datatype severity = Block | Warn

record validation_issue =
  vi_severity :: severity
  vi_message :: string

record validation_result =
  vr_is_valid :: bool
  vr_issues :: "validation_issue list"

section \<open>Edit distance\<close>

definition cell_set :: "nat \<Rightarrow> nat \<Rightarrow> nat \<Rightarrow> nat list list \<Rightarrow> nat list list" where
  "cell_set i j v dp = dp[i := (dp ! i)[j := v]]"

definition edit_cell :: "'a list \<Rightarrow> 'a list \<Rightarrow> nat \<Rightarrow> nat \<Rightarrow> nat list list \<Rightarrow> nat list list" where
  "edit_cell a b i j dp =
    (let cost = (if a ! (i - 1) = b ! (j - 1) then 0 else 1)
     in cell_set i j (min (min (dp ! (i - 1) ! j + 1) (dp ! i ! (j - 1) + 1)) (dp ! (i - 1) ! (j - 1) + cost)) dp)"

definition edit_row :: "'a list \<Rightarrow> 'a list \<Rightarrow> nat \<Rightarrow> nat list list \<Rightarrow> nat list list" where
  "edit_row a b i dp = fold (edit_cell a b i) [1..<length b + 1] dp"

definition edit_init :: "nat \<Rightarrow> nat \<Rightarrow> nat list list" where
  "edit_init m n =
    fold (\<lambda>j. cell_set 0 j j) [0..<n + 1]
      (fold (\<lambda>i. cell_set i 0 i) [0..<m + 1] (replicate (m + 1) (replicate (n + 1) 0)))"

definition edit_distance :: "string \<Rightarrow> string \<Rightarrow> nat" where
  "edit_distance s t =
    (let a = chars s; b = chars t; m = length a; n = length b
     in fold (edit_row a b) [1..<m + 1] (edit_init m n) ! m ! n)"

text \<open>The reference: the distance of the first \<open>i\<close> and the first \<open>j\<close> characters.\<close>

fun lev :: "'a list \<Rightarrow> 'a list \<Rightarrow> nat \<Rightarrow> nat \<Rightarrow> nat" where
  "lev a b 0 j = j"
| "lev a b (Suc i) 0 = Suc i"
| "lev a b (Suc i) (Suc j) =
    min (min (lev a b i (Suc j) + 1) (lev a b (Suc i) j + 1))
        (lev a b i j + (if a ! i = b ! j then 0 else 1))"

definition table_shape :: "nat \<Rightarrow> nat \<Rightarrow> nat list list \<Rightarrow> bool" where
  "table_shape m n dp \<longleftrightarrow> length dp = m + 1 \<and> (\<forall>i \<le> m. length (dp ! i) = n + 1)"

lemma cell_set_shape: "table_shape m n dp \<Longrightarrow> table_shape m n (cell_set i j v dp)"
proof -
  assume s: "table_shape m n dp"
  have "length (dp[i := (dp ! i)[j := v]] ! k) = length (dp ! k)" for k
    by (cases "k = i \<and> i < length dp") (auto simp: list_update_beyond)
  then show ?thesis using s by (simp add: table_shape_def cell_set_def)
qed

lemma cell_set_get:
  assumes "table_shape m n dp" and "i \<le> m" and "j \<le> n"
  shows "cell_set i j v dp ! i' ! j' = (if i' = i \<and> j' = j then v else dp ! i' ! j')"
  using assms by (auto simp: table_shape_def cell_set_def nth_list_update)

lemma init_rows:
  assumes "table_shape m n dp" and "k \<le> m + 1"
  shows "table_shape m n (fold (\<lambda>i. cell_set i 0 i) [0..<k] dp)
    \<and> (\<forall>i j. fold (\<lambda>i. cell_set i 0 i) [0..<k] dp ! i ! j = (if i < k \<and> j = 0 then i else dp ! i ! j))"
  using assms(2)
proof (induction k)
  case 0
  then show ?case using assms(1) by simp
next
  case (Suc k)
  let ?d = "fold (\<lambda>i. cell_set i 0 i) [0..<k] dp"
  have s: "table_shape m n ?d" and g: "\<And>i j. ?d ! i ! j = (if i < k \<and> j = 0 then i else dp ! i ! j)"
    using Suc by auto
  have "k \<le> m" using Suc.prems by simp
  then show ?case
    using cell_set_shape [OF s] cell_set_get [OF s, of k 0] g by (auto simp: less_Suc_eq)
qed

lemma init_cols:
  assumes "table_shape m n dp" and "k \<le> n + 1"
  shows "table_shape m n (fold (\<lambda>j. cell_set 0 j j) [0..<k] dp)
    \<and> (\<forall>i j. fold (\<lambda>j. cell_set 0 j j) [0..<k] dp ! i ! j = (if i = 0 \<and> j < k then j else dp ! i ! j))"
  using assms(2)
proof (induction k)
  case 0
  then show ?case using assms(1) by simp
next
  case (Suc k)
  let ?d = "fold (\<lambda>j. cell_set 0 j j) [0..<k] dp"
  have s: "table_shape m n ?d" and g: "\<And>i j. ?d ! i ! j = (if i = 0 \<and> j < k then j else dp ! i ! j)"
    using Suc by auto
  have "k \<le> n" using Suc.prems by simp
  then show ?case
    using cell_set_shape [OF s] cell_set_get [OF s, of 0 k] g by (auto simp: less_Suc_eq)
qed

text \<open>Rows before \<open>i\<close> are final, row \<open>i\<close> up to column \<open>j\<close>, and the first column everywhere.\<close>

definition table_upto :: "'a list \<Rightarrow> 'a list \<Rightarrow> nat \<Rightarrow> nat \<Rightarrow> nat list list \<Rightarrow> bool" where
  "table_upto a b i j dp \<longleftrightarrow>
    table_shape (length a) (length b) dp
    \<and> (\<forall>i' j'. i' \<le> length a \<longrightarrow> j' \<le> length b \<longrightarrow> (i' < i \<or> (i' = i \<and> j' \<le> j) \<or> j' = 0)
          \<longrightarrow> dp ! i' ! j' = lev a b i' j')"

lemma table_uptoD:
  assumes "table_upto a b i j dp" and "i' \<le> length a" and "j' \<le> length b"
    and "i' < i \<or> (i' = i \<and> j' \<le> j) \<or> j' = 0"
  shows "dp ! i' ! j' = lev a b i' j'"
  using assms unfolding table_upto_def by blast

lemma table_upto_weaken:
  assumes "table_upto a b i (length b) dp"
  shows "table_upto a b (Suc i) 0 dp"
  unfolding table_upto_def
proof (intro conjI allI impI)
  show "table_shape (length a) (length b) dp" using assms by (simp add: table_upto_def)
  fix i' j'
  assume "i' \<le> length a" "j' \<le> length b" "i' < Suc i \<or> (i' = Suc i \<and> j' \<le> 0) \<or> j' = 0"
  then show "dp ! i' ! j' = lev a b i' j'"
    by (intro table_uptoD [OF assms]) auto
qed

lemma lev_0 [simp]: "lev a b i 0 = i"
  by (cases i) auto

lemma edit_init_upto: "table_upto a b 0 (length b) (edit_init (length a) (length b))"
proof -
  let ?m = "length a" and ?n = "length b"
  have s0: "table_shape ?m ?n (replicate (?m + 1) (replicate (?n + 1) 0))"
    by (simp add: table_shape_def nth_Cons split: nat.splits)
  define d1 where "d1 = fold (\<lambda>i. cell_set i 0 i) [0..<?m + 1] (replicate (?m + 1) (replicate (?n + 1) 0))"
  have s1: "table_shape ?m ?n d1" and g1: "\<And>i. i \<le> ?m \<Longrightarrow> d1 ! i ! 0 = i"
    using init_rows [OF s0, of "?m + 1"] by (auto simp: d1_def)
  define d2 where "d2 = fold (\<lambda>j. cell_set 0 j j) [0..<?n + 1] d1"
  have s2: "table_shape ?m ?n d2"
    and g2: "\<And>i j. d2 ! i ! j = (if i = 0 \<and> j < ?n + 1 then j else d1 ! i ! j)"
    using init_cols [OF s1, of "?n + 1"] by (auto simp: d2_def)
  have e: "edit_init ?m ?n = d2" by (simp add: edit_init_def d1_def d2_def)
  show ?thesis
    unfolding e table_upto_def
  proof (intro conjI allI impI)
    show "table_shape ?m ?n d2" by (rule s2)
    fix i j
    assume "i \<le> ?m" "j \<le> ?n" "i < 0 \<or> (i = 0 \<and> j \<le> ?n) \<or> j = 0"
    then show "d2 ! i ! j = lev a b i j" using g2 [of i j] g1 [of i] by auto
  qed
qed

lemma edit_cell_upto:
  assumes "table_upto a b (Suc i) j dp" and "Suc i \<le> length a" and "Suc j \<le> length b"
  shows "table_upto a b (Suc i) (Suc j) (edit_cell a b (Suc i) (Suc j) dp)"
proof -
  have s: "table_shape (length a) (length b) dp"
    and g: "\<And>i' j'. i' \<le> length a \<Longrightarrow> j' \<le> length b \<Longrightarrow> i' < Suc i \<or> (i' = Suc i \<and> j' \<le> j) \<or> j' = 0
        \<Longrightarrow> dp ! i' ! j' = lev a b i' j'"
    using assms(1) table_uptoD [OF assms(1)] by (simp_all add: table_upto_def)
  have c: "edit_cell a b (Suc i) (Suc j) dp = cell_set (Suc i) (Suc j) (lev a b (Suc i) (Suc j)) dp"
    using g [of i "Suc j"] g [of "Suc i" j] g [of i j] assms(2,3) by (simp add: edit_cell_def)
  show ?thesis
    unfolding c table_upto_def
  proof (intro conjI allI impI)
    show "table_shape (length a) (length b) (cell_set (Suc i) (Suc j) (lev a b (Suc i) (Suc j)) dp)"
      by (rule cell_set_shape [OF s])
    fix i' j'
    assume "i' \<le> length a" "j' \<le> length b"
      "i' < Suc i \<or> (i' = Suc i \<and> j' \<le> Suc j) \<or> j' = 0"
    then show "cell_set (Suc i) (Suc j) (lev a b (Suc i) (Suc j)) dp ! i' ! j' = lev a b i' j'"
      using cell_set_get [OF s assms(2,3), of "lev a b (Suc i) (Suc j)" i' j'] g [of i' j']
      by (cases "i' = Suc i \<and> j' = Suc j") (auto simp: le_Suc_eq)
  qed
qed

lemma edit_row_upto:
  assumes "table_upto a b i (length b) dp" and "Suc i \<le> length a"
  shows "table_upto a b (Suc i) (length b) (edit_row a b (Suc i) dp)"
proof -
  have "j \<le> length b \<Longrightarrow> table_upto a b (Suc i) j (fold (edit_cell a b (Suc i)) [1..<j + 1] dp)" for j
  proof (induction j)
    case 0
    then show ?case using table_upto_weaken [OF assms(1)] by simp
  next
    case (Suc j)
    then show ?case using edit_cell_upto [of a b i j] assms(2) by simp
  qed
  from this [of "length b"] show ?thesis by (simp add: edit_row_def)
qed

lemma edit_rows_upto:
  "i \<le> length a \<Longrightarrow> table_upto a b i (length b) (fold (edit_row a b) [1..<i + 1] (edit_init (length a) (length b)))"
proof (induction i)
  case 0
  then show ?case using edit_init_upto by simp
next
  case (Suc i)
  then show ?case using edit_row_upto [of a b i] by simp
qed

lemma edit_distance_lev:
  "edit_distance s t = lev (chars s) (chars t) (char_count s) (char_count t)"
proof -
  let ?a = "chars s" and ?b = "chars t"
  define dp where "dp = fold (edit_row ?a ?b) [1..<length ?a + 1] (edit_init (length ?a) (length ?b))"
  have "table_upto ?a ?b (length ?a) (length ?b) dp"
    unfolding dp_def by (rule edit_rows_upto) simp
  then have "dp ! length ?a ! length ?b = lev ?a ?b (length ?a) (length ?b)"
    by (rule table_uptoD) simp_all
  moreover have "edit_distance s t = dp ! length ?a ! length ?b"
    by (simp only: edit_distance_def Let_def dp_def)
  ultimately show ?thesis by (simp only: char_count_def)
qed

lemma lev_same: "i \<le> length a \<Longrightarrow> lev a a i i = 0"
proof (induction i)
  case (Suc i)
  then show ?case by simp
qed simp

section \<open>Suggesting a tool\<close>

definition better :: "string \<Rightarrow> string \<Rightarrow> (string \<times> nat) option \<Rightarrow> (string \<times> nat) option" where
  "better name tool best =
    (let dist = edit_distance name tool
     in if dist \<le> length name div 2 + 1 \<and> (case best of None \<Rightarrow> True | Some (_, d) \<Rightarrow> dist < d)
        then Some (tool, dist) else best)"

definition suggest_similar_tool :: "string \<Rightarrow> string list \<Rightarrow> string option" where
  "suggest_similar_tool name known = map_option fst (fold (better name) known None)"

lemma fold_better:
  assumes "fold (better name) known best = Some (tool, d)"
    and "\<And>t d. best = Some (t, d) \<Longrightarrow> d = edit_distance name t \<and> d \<le> length name div 2 + 1"
  shows "d = edit_distance name tool \<and> d \<le> length name div 2 + 1
    \<and> (tool \<in> set known \<or> best = Some (tool, d))
    \<and> (\<forall>t \<in> set known. d \<le> edit_distance name t)
    \<and> (case best of None \<Rightarrow> True | Some (t, e) \<Rightarrow> d \<le> e)"
  using assms
proof (induction known arbitrary: best)
  case Nil
  then show ?case by auto
next
  case (Cons k known)
  have inv: "\<And>t d. better name k best = Some (t, d) \<Longrightarrow> d = edit_distance name t \<and> d \<le> length name div 2 + 1"
    using Cons.prems(2) by (auto simp: better_def Let_def split: if_splits)
  note IH = Cons.IH [of "better name k best", OF _ inv]
  have step: "fold (better name) known (better name k best) = Some (tool, d)" using Cons.prems(1) by simp
  have "d \<le> edit_distance name k"
  proof (cases "better name k best")
    case None
    then have far: "length name div 2 + 1 < edit_distance name k"
      by (auto simp: better_def Let_def split: if_splits option.splits)
    then show ?thesis using IH [OF step] by simp
  next
    case (Some td)
    then obtain t e where te: "better name k best = Some (t, e)" by (cases td) auto
    then have "d \<le> e" using IH [OF step] by simp
    moreover have "e \<le> edit_distance name k"
      using te inv [OF te] Cons.prems(2)
      by (auto simp: better_def Let_def not_le not_less split: if_splits option.splits)
    ultimately show ?thesis by simp
  qed
  moreover have "case best of None \<Rightarrow> True | Some (t, e) \<Rightarrow> d \<le> e"
    using IH [OF step] Cons.prems(2)
    by (auto simp: better_def Let_def split: option.splits if_splits)
  moreover have "tool \<in> set (k # known) \<or> best = Some (tool, d)"
    using IH [OF step] by (auto simp: better_def Let_def split: if_splits)
  moreover have "d = edit_distance name tool \<and> d \<le> length name div 2 + 1
      \<and> (\<forall>t \<in> set known. d \<le> edit_distance name t)"
    using IH [OF step] by blast
  ultimately show ?case unfolding set_simps ball_simps by blast
qed

section \<open>Validating a call\<close>

definition block :: "string \<Rightarrow> validation_issue" where
  "block m = \<lparr>vi_severity = Block, vi_message = m\<rparr>"

fun check_paths_in_value :: "os_view \<Rightarrow> path_guard \<Rightarrow> json \<Rightarrow> validation_issue list" where
  "check_paths_in_value os g (JStr s) =
    (if (starts_with s ''/'' \<or> starts_with s ''~/'') \<and> is_denied os g s
     then [block (m_denied_path_1 @ s @ [squote])] else [])"
| "check_paths_in_value os g (JObj kvs) = concat (map (\<lambda>kv. check_paths_in_value os g (snd kv)) kvs)"
| "check_paths_in_value os g (JArr vs) = concat (map (check_paths_in_value os g) vs)"
| "check_paths_in_value os g v = []"

fun check_dangerous_patterns :: "(string \<Rightarrow> bool) list \<Rightarrow> json \<Rightarrow> validation_issue list" where
  "check_dangerous_patterns ps (JStr s) =
    map (\<lambda>p. block (m_dangerous_1 @ s @ [squote])) (filter (\<lambda>p. p s) ps)"
| "check_dangerous_patterns ps (JObj kvs) = concat (map (\<lambda>kv. check_dangerous_patterns ps (snd kv)) kvs)"
| "check_dangerous_patterns ps (JArr vs) = concat (map (check_dangerous_patterns ps) vs)"
| "check_dangerous_patterns ps v = []"

definition validate_tool_call ::
    "os_view \<Rightarrow> path_guard \<Rightarrow> (string \<Rightarrow> bool) list \<Rightarrow> string list \<Rightarrow> tool_call \<Rightarrow> validation_result" where
  "validate_tool_call os g patterns known call =
    (let unknown = (if tc_name call \<in> set known then []
           else [block (m_unknown_tool_1 @ tc_name call
                  @ (case suggest_similar_tool (tc_name call) known of
                       Some s \<Rightarrow> m_unknown_tool_2 @ s @ [squote] | None \<Rightarrow> [squote]))]);
         paths = check_paths_in_value os g (tc_arguments call);
         shell = (if tc_name call = ''shell''
           then (case json_get (tc_arguments call) ''command'' of None \<Rightarrow> []
                 | Some c \<Rightarrow> (case as_str c of None \<Rightarrow> []
                    | Some cmd \<Rightarrow> map (\<lambda>p. block (m_denied_shell_1 @ p @ [squote]))
                                    (find_denied_paths_in_command os g cmd)))
           else []);
         issues = unknown @ paths @ shell @ check_dangerous_patterns patterns (tc_arguments call)
     in \<lparr>vr_is_valid = \<not> list_ex (\<lambda>i. vi_severity i = Block) issues, vr_issues = issues\<rparr>)"

text \<open>Every string anywhere in a value.\<close>

fun strings_in :: "json \<Rightarrow> string list" where
  "strings_in (JStr s) = [s]"
| "strings_in (JObj kvs) = concat (map (\<lambda>kv. strings_in (snd kv)) kvs)"
| "strings_in (JArr vs) = concat (map strings_in vs)"
| "strings_in v = []"

definition rooted :: "string \<Rightarrow> bool" where
  "rooted s \<longleftrightarrow> starts_with s ''/'' \<or> starts_with s ''~/''"

lemma paths_empty_iff:
  "check_paths_in_value os g v = [] \<longleftrightarrow> (\<forall>s \<in> set (strings_in v). \<not> (rooted s \<and> is_denied os g s))"
  by (induction v rule: strings_in.induct) (auto simp: rooted_def)

lemma patterns_empty_iff:
  "check_dangerous_patterns ps v = [] \<longleftrightarrow> (\<forall>s \<in> set (strings_in v). \<forall>p \<in> set ps. \<not> p s)"
  by (induction v rule: strings_in.induct) (auto simp: filter_empty_conv)

lemma all_blocks:
  "i \<in> set (check_paths_in_value os g v) \<Longrightarrow> vi_severity i = Block"
  "i \<in> set (check_dangerous_patterns ps v) \<Longrightarrow> vi_severity i = Block"
  by (induction v rule: strings_in.induct) (auto simp: block_def split: if_splits)

lemma list_ex_all: "(\<And>i. i \<in> set xs \<Longrightarrow> P i) \<Longrightarrow> list_ex P xs \<longleftrightarrow> xs \<noteq> []"
  by (cases xs) auto

text \<open>The shell command of a call and the denied paths in it.\<close>

definition shell_denied :: "os_view \<Rightarrow> path_guard \<Rightarrow> tool_call \<Rightarrow> string list" where
  "shell_denied os g call =
    (if tc_name call \<noteq> ''shell'' then []
     else case json_get (tc_arguments call) ''command'' of
            Some (JStr cmd) \<Rightarrow> find_denied_paths_in_command os g cmd | _ \<Rightarrow> [])"

section \<open>Properties\<close>

text \<open>
  The distance computed by filling the table in place is the Levenshtein distance of its
  recursive definition, on characters; it is 0 for equal names.
\<close>

theorem edit_distance_is_levenshtein:
  "edit_distance s t = lev (chars s) (chars t) (char_count s) (char_count t) \<and> edit_distance s s = 0"
  using lev_same [of "char_count s" "chars s"] by (simp add: edit_distance_lev char_count_def)

text \<open>
  A call is valid exactly when its tool is known, no string anywhere in its arguments is a
  denied rooted path or matches a dangerous pattern, and its shell command names no denied path.
\<close>

theorem call_valid_iff:
  "vr_is_valid (validate_tool_call os g patterns known call) \<longleftrightarrow>
    tc_name call \<in> set known
    \<and> list_all (\<lambda>s. (rooted s \<and> is_denied os g s) = False \<and> list_all (\<lambda>p. p s = False) patterns)
        (strings_in (tc_arguments call))
    \<and> shell_denied os g call = []"
proof -
  let ?paths = "check_paths_in_value os g (tc_arguments call)"
  let ?dang = "check_dangerous_patterns patterns (tc_arguments call)"
  have shell: "(if tc_name call = ''shell''
      then (case json_get (tc_arguments call) ''command'' of None \<Rightarrow> []
            | Some c \<Rightarrow> (case as_str c of None \<Rightarrow> []
               | Some cmd \<Rightarrow> map (\<lambda>p. block (m_denied_shell_1 @ p @ [squote]))
                               (find_denied_paths_in_command os g cmd)))
      else []) = map (\<lambda>p. block (m_denied_shell_1 @ p @ [squote])) (shell_denied os g call)"
    by (auto simp: shell_denied_def split: option.splits json.splits)
  define unknown where "unknown = (if tc_name call \<in> set known then []
      else [block (m_unknown_tool_1 @ tc_name call
             @ (case suggest_similar_tool (tc_name call) known of
                  Some s \<Rightarrow> m_unknown_tool_2 @ s @ [squote] | None \<Rightarrow> [squote]))])"
  define issues where "issues = unknown @ ?paths
      @ map (\<lambda>p. block (m_denied_shell_1 @ p @ [squote])) (shell_denied os g call) @ ?dang"
  have "list_ex (\<lambda>i. vi_severity i = Block) issues \<longleftrightarrow> issues \<noteq> []"
  proof (rule list_ex_all)
    fix i
    assume "i \<in> set issues"
    then show "vi_severity i = Block"
      using all_blocks [of i] by (auto simp: issues_def unknown_def block_def split: if_splits)
  qed
  moreover have "vr_is_valid (validate_tool_call os g patterns known call)
      = (\<not> list_ex (\<lambda>i. vi_severity i = Block) issues)"
    unfolding validate_tool_call_def Let_def shell issues_def unknown_def by simp
  ultimately have "vr_is_valid (validate_tool_call os g patterns known call) \<longleftrightarrow>
      tc_name call \<in> set known \<and> ?paths = [] \<and> shell_denied os g call = [] \<and> ?dang = []"
    by (auto simp: issues_def unknown_def)
  then show ?thesis
    unfolding paths_empty_iff patterns_empty_iff by (auto simp: list_all_iff)
qed

end
