(* ===== verification/Agent_State.thy ===== *)
theory Agent_State
  imports Error_Recovery Structured_Feedback Compaction Model_Router Magi Tool_Registry Validate
    "HOL-Library.State_Monad"
begin

text \<open>
  The state of the agent loop and the world it runs in: \<open>src/agent/agent_loop/state.rs\<close>,
  \<open>config.rs\<close> and \<open>support.rs\<close>. The loop is a program in the state monad over the record \<open>agent\<close>,
  which holds \<open>LoopState\<close>, the messages of the session, what was written to the memory store
  (\<open>ag_log\<close>, newest last) and the state of the outside world (\<open>ag_world\<close>). The session's time
  stamps are left out: the loop never reads them. The field \<open>ag_trace\<close> is history only, read by no
  operation: what the model was asked and what it answered, the tools called with their arguments, and
  the consultations of the advisor, oldest first.

  The record \<open>env\<close> holds what the loop is called with and what the outside world answers: the model,
  the tools, the clock, the cancellation flag, the user's confirmation, the spill files, the external
  advisor and the queries of the store. An answer may change the world, so that no two answers need
  to agree.
\<close>

section \<open>Token budget\<close>

record token_budget =
  tb_total_tokens :: nat
  tb_budget :: nat
  tb_recent_outputs :: "nat list"
  tb_low_output_threshold :: nat
  tb_diminishing_window :: nat

definition tb_new :: "nat \<Rightarrow> token_budget" where
  "tb_new b =
    \<lparr>tb_total_tokens = 0, tb_budget = b, tb_recent_outputs = [], tb_low_output_threshold = 100,
     tb_diminishing_window = 5\<rparr>"

definition tb_default :: token_budget where
  "tb_default = tb_new 8000"

definition tb_record :: "nat \<Rightarrow> token_budget \<Rightarrow> token_budget" where
  "tb_record tokens b =
    b\<lparr>tb_total_tokens := tb_total_tokens b + tokens,
      tb_recent_outputs := push_evict (tb_diminishing_window b * 2) tokens (tb_recent_outputs b)\<rparr>"

definition usage_ratio :: "token_budget \<Rightarrow> rat" where
  "usage_ratio b = fl64 (fl64 (of_nat (tb_total_tokens b)) / fl64 (of_nat (tb_budget b)))"

definition is_diminishing :: "token_budget \<Rightarrow> bool" where
  "is_diminishing b =
    (if length (tb_recent_outputs b) < tb_diminishing_window b then False
     else list_all (\<lambda>t. t < tb_low_output_threshold b)
            (drop (length (tb_recent_outputs b) - tb_diminishing_window b) (tb_recent_outputs b)))"

definition tb_check :: "token_budget \<Rightarrow> string option" where
  "tb_check b =
    (if usage_ratio b \<ge> 1 then Some m_budget_reached
     else if is_diminishing b then Some m_budget_diminishing
     else if usage_ratio b \<ge> fl64 (9 / 10) then Some m_budget_90
     else None)"

section \<open>Stall detector\<close>

record stall_detector =
  sd_no_progress_count :: nat
  sd_stall_threshold :: nat
  sd_last_output_hash :: "64 word"

definition sd_new :: "nat \<Rightarrow> stall_detector" where
  "sd_new t = \<lparr>sd_no_progress_count = 0, sd_stall_threshold = t, sd_last_output_hash = 0\<rparr>"

definition sd_default :: stall_detector where
  "sd_default = sd_new 3"

definition sd_record_step :: "bool \<Rightarrow> 64 word \<Rightarrow> stall_detector \<Rightarrow> bool \<times> stall_detector" where
  "sd_record_step tools_succeeded h d =
    (let n = (if \<not> tools_succeeded \<or> h = sd_last_output_hash d then sd_no_progress_count d + 1 else 0)
     in (n \<ge> sd_stall_threshold d, d\<lparr>sd_no_progress_count := n, sd_last_output_hash := h\<rparr>))"

definition sd_reset :: "stall_detector \<Rightarrow> stall_detector" where
  "sd_reset d = d\<lparr>sd_no_progress_count := 0\<rparr>"

section \<open>Configuration\<close>

record inference_params =
  ip_temperature :: rat
  ip_top_p :: rat
  ip_top_k :: nat
  ip_min_p :: rat
  ip_max_tokens :: nat
  ip_repeat_penalty :: rat

definition inference_for_task :: "task_type \<Rightarrow> inference_params \<Rightarrow> inference_params" where
  "inference_for_task t base =
    (case t of
       FileOperation \<Rightarrow> base\<lparr>ip_temperature := fl64 (3 / 10)\<rparr>
     | CodeExecution \<Rightarrow> base\<lparr>ip_temperature := fl64 (3 / 10)\<rparr>
     | Memory \<Rightarrow> base\<lparr>ip_temperature := fl64 (3 / 10)\<rparr>
     | Research \<Rightarrow> base\<lparr>ip_temperature := fl64 (6 / 10)\<rparr>
     | General \<Rightarrow> base)"

definition is_tool_allowed :: "string list option \<Rightarrow> string \<Rightarrow> bool" where
  "is_tool_allowed allowed name =
    (case allowed of None \<Rightarrow> True | Some names \<Rightarrow> list_ex (\<lambda>t. t = name) names)"

record agent_config =
  ac_max_iterations :: nat
  ac_max_retries :: nat
  ac_system_prompt :: string
  ac_advisor :: advisor_config
  ac_auto_checkpoint :: bool
  ac_max_tools_in_context :: nat
  ac_max_mcp_tools_in_context :: nat
  ac_allowed_tools :: "string list option"
  ac_base_inference :: inference_params
  ac_task_timeout :: "nat option"
  ac_n_ctx_budget :: "nat option"
  ac_autonomy :: autonomy_level
  ac_is_daemon :: bool
  ac_daemon_policy :: daemon_policy

section \<open>What is written to the store\<close>

datatype event_type =
    SessionStart | UserMessage | AssistantMessage | ToolCallStart | ToolCallEnd
  | PlanGenerated | StepCompleted | SessionEnd | MagiHalt | MagiWarn

text \<open>The data of an event is the JSON value that is serialised. Durations are milliseconds.\<close>

datatype store_op =
    Append_Event string event_type json "nat option"
  | Audit_Step_Outcome string nat string nat "string list" nat
  | Audit_Tool_Call string string string bool string
  | Audit_Multi_File_Nudge string "string list" nat nat
  | Audit_Advisor_Call string string string nat nat
  | Audit_Advisor_Skip string string rat rat
  | Audit_Critic_Call string string string nat nat nat
  | Audit_Task_Complete string nat rat nat
  | Save_Session string "message list"
  | Record_Experience experience_type string string string "string option" "string option"
  | Promote_Skills nat
  | Heuristic_Outcome int bool
  | Graph_Error_Pattern string string string
  | Graph_Tool_Usage string string
  | Purge_Expired

section \<open>State and environment\<close>

datatype middleware =
    Audit_Middleware
  | Tool_Tracking_Middleware "string list"
  | Stall_Middleware stall_detector
  | Compaction_Middleware compaction_config
  | Token_Budget_Middleware token_budget

text \<open>Who asks the model: a step of the agent, or the critic.\<close>

datatype asker = By_Step | By_Critic

datatype exchange =
    Asked asker "message list" "string + string"
  | Called tool_info json
  | Consulted

record 'w agent =
  ag_world :: 'w
  ag_log :: "store_op list"
  ag_trace :: "exchange list"
  ag_messages :: "message list"
  ag_breaker :: circuit_breaker
  ag_loop :: loop_detector
  ag_stall :: stall_detector
  ag_advisor :: advisor_config
  ag_critic :: critic_config
  ag_all_tools :: "string list"
  ag_consecutive_failures :: nat
  ag_iteration :: nat
  ag_chain :: "middleware list"
  ag_cache :: tool_result_cache
  ag_trials :: trial_summary
  ag_cycle :: edit_cycle_detector
  ag_continue_site :: continue_site
  ag_stuck :: file_stuck_guard
  ag_heuristic_ids :: "int list"

text \<open>
  What the files and stores answer when a session starts: the contents of the candidates for
  \<open>SOUL.md\<close> and of the configured memory blocks (\<open>None\<close> where a file cannot be read), the best
  heuristics with their freshness, the rules and documents of the vault, similar memories,
  experiences, skills, and the related part of the knowledge graph. A failing query answers nothing.
\<close>

record knowledge =
  kn_soul :: "string option list"
  kn_blocks :: "(string \<times> string option) list"
  kn_heuristics :: "(int \<times> string \<times> rat) list"
  kn_rules :: "string list"
  kn_docs :: "string list"
  kn_memories :: "string list"
  kn_experiences :: "(experience_type \<times> string \<times> string) list"
  kn_skills :: "(string \<times> string \<times> string) list"
  kn_graph :: string

text \<open>
  \<open>en_touched\<close> is the world after the advisor was asked or files were offloaded, \<open>en_checkpoint\<close>
  the world after a checkpoint. Clock readings and the time limit of a task are nanoseconds.
\<close>

record 'w env =
  en_session_id :: string
  en_has_store :: bool
  en_config :: agent_config
  en_environ :: environment
  en_tools :: registry
  en_os :: os_view
  en_guard :: path_guard
  en_dangerous :: "(string \<Rightarrow> bool) list"
  en_values :: values_patterns
  en_critic_prompt :: string
  en_critic_regex :: "string \<Rightarrow> string \<Rightarrow> bool"
  en_critic_revision :: "string \<Rightarrow> string option"
  en_redact :: "string \<Rightarrow> string"
  en_encode :: "json \<Rightarrow> string"
  en_decode :: "string \<Rightarrow> json option"
  en_decode_call :: "string \<Rightarrow> string + tool_call"
  en_normalize :: "string \<Rightarrow> string"
  en_hash :: byte_hasher
  en_order :: "(string, nat) hashmap \<Rightarrow> (string, nat) hashmap"
  en_similarity :: "string \<Rightarrow> 'w \<Rightarrow> (string \<Rightarrow> rat) option"
  en_now :: "'w \<Rightarrow> nat \<times> 'w"
  en_cancelled :: "'w \<Rightarrow> bool \<times> 'w"
  en_generate :: "message list \<Rightarrow> tool_schema list \<Rightarrow> inference_params \<Rightarrow> 'w \<Rightarrow> (string + string) \<times> 'w"
  en_call :: "string \<Rightarrow> json \<Rightarrow> 'w \<Rightarrow> (string + tool_result) \<times> 'w"
  en_confirm :: "(string \<Rightarrow> string \<Rightarrow> 'w \<Rightarrow> bool \<times> 'w) option"
  en_schedule :: "nat \<Rightarrow> 'w \<Rightarrow> nat list"
  en_spill :: "64 word \<Rightarrow> string \<Rightarrow> 'w \<Rightarrow> string option \<times> 'w"
  en_offload :: "'w \<Rightarrow> string \<Rightarrow> string \<Rightarrow> bool"
  en_http :: "'w \<Rightarrow> http_post"
  en_cli :: "'w \<Rightarrow> string \<Rightarrow> string + string"
  en_touched :: "'w \<Rightarrow> 'w"
  en_recall :: "string \<Rightarrow> store_op list \<Rightarrow> 'w \<Rightarrow> knowledge \<times> 'w"
  en_checkpoint :: "string \<Rightarrow> 'w \<Rightarrow> 'w"
  en_success_rate :: "store_op list \<Rightarrow> 'w \<Rightarrow> string \<Rightarrow> nat \<Rightarrow> rat option"
  en_similar :: "store_op list \<Rightarrow> 'w \<Rightarrow> string \<Rightarrow> string + experience_type list"

type_synonym ('w, 'a) step = "('w agent, 'a) state"

definition asks :: "('w agent \<Rightarrow> 'a) \<Rightarrow> ('w, 'a) step" where
  "asks f = State (\<lambda>s. (f s, s))"

definition outside :: "('w \<Rightarrow> 'a \<times> 'w) \<Rightarrow> ('w, 'a) step" where
  "outside f = State (\<lambda>s. case f (ag_world s) of (x, w) \<Rightarrow> (x, s\<lparr>ag_world := w\<rparr>))"

definition store :: "'w env \<Rightarrow> store_op \<Rightarrow> ('w, unit) step" where
  "store e p =
    State (\<lambda>s. ((), if en_has_store e then s\<lparr>ag_log := ag_log s @ [p]\<rparr> else s))"

definition say :: "message \<Rightarrow> ('w, unit) step" where
  "say m = State (\<lambda>s. ((), s\<lparr>ag_messages := ag_messages s @ [m]\<rparr>))"

definition emit_event :: "'w env \<Rightarrow> event_type \<Rightarrow> json \<Rightarrow> nat option \<Rightarrow> ('w, unit) step" where
  "emit_event e t d i = store e (Append_Event (en_session_id e) t d i)"

definition call_tool :: "'w env \<Rightarrow> tool_info \<Rightarrow> json \<Rightarrow> ('w, string + tool_result) step" where
  "call_tool e t args =
    State (\<lambda>s. case en_call e (ti_name t) args (ag_world s) of
       (r, w) \<Rightarrow> (r, s\<lparr>ag_world := w, ag_trace := ag_trace s @ [Called t args]\<rparr>))"

definition ask_model ::
    "'w env \<Rightarrow> asker \<Rightarrow> message list \<Rightarrow> tool_schema list \<Rightarrow> inference_params \<Rightarrow> ('w, string + string) step" where
  "ask_model e who ms schemas params =
    State (\<lambda>s. case en_generate e ms schemas params (ag_world s) of
       (r, w) \<Rightarrow> (r, s\<lparr>ag_world := w, ag_trace := ag_trace s @ [Asked who ms r]\<rparr>))"

text \<open>The calls and the prompts of the history.\<close>

definition calls_of :: "exchange list \<Rightarrow> (tool_info \<times> json) list" where
  "calls_of es = concat (map (\<lambda>x. case x of Called t a \<Rightarrow> [(t, a)] | _ \<Rightarrow> []) es)"

definition prompts_of :: "exchange list \<Rightarrow> message list list" where
  "prompts_of es = concat (map (\<lambda>x. case x of Asked who ms r \<Rightarrow> [ms] | _ \<Rightarrow> []) es)"

definition ag_calls :: "'w agent \<Rightarrow> (tool_info \<times> json) list" where
  "ag_calls s = calls_of (ag_trace s)"

definition ag_prompts :: "'w agent \<Rightarrow> message list list" where
  "ag_prompts s = prompts_of (ag_trace s)"

lemma calls_of_simps [simp]:
  "calls_of [] = []" "calls_of (es @ es') = calls_of es @ calls_of es'"
  "calls_of (x # es) = (case x of Called t a \<Rightarrow> [(t, a)] | _ \<Rightarrow> []) @ calls_of es"
  "calls_of (ag_trace s) = ag_calls s"
  by (simp_all add: calls_of_def ag_calls_def)

lemma prompts_of_simps [simp]:
  "prompts_of [] = []" "prompts_of (es @ es') = prompts_of es @ prompts_of es'"
  "prompts_of (x # es) = (case x of Asked who ms r \<Rightarrow> [ms] | _ \<Rightarrow> []) @ prompts_of es"
  "prompts_of (ag_trace s) = ag_prompts s"
  by (simp_all add: prompts_of_def ag_prompts_def)

lemma ag_calls_updates [simp]:
  "ag_calls (ag_trace_update f1 s) = calls_of (f1 (ag_trace s))"
  "ag_calls (ag_world_update f2 s) = ag_calls s" "ag_calls (ag_log_update f3 s) = ag_calls s"
  "ag_calls (ag_messages_update f4 s) = ag_calls s" "ag_calls (ag_breaker_update f5 s) = ag_calls s"
  "ag_calls (ag_loop_update f6 s) = ag_calls s" "ag_calls (ag_stall_update f7 s) = ag_calls s"
  "ag_calls (ag_advisor_update f8 s) = ag_calls s" "ag_calls (ag_critic_update f9 s) = ag_calls s"
  "ag_calls (ag_all_tools_update g1 s) = ag_calls s" "ag_calls (ag_consecutive_failures_update g2 s) = ag_calls s"
  "ag_calls (ag_iteration_update g3 s) = ag_calls s" "ag_calls (ag_chain_update g4 s) = ag_calls s"
  "ag_calls (ag_cache_update g5 s) = ag_calls s" "ag_calls (ag_trials_update g6 s) = ag_calls s"
  "ag_calls (ag_cycle_update g7 s) = ag_calls s" "ag_calls (ag_continue_site_update g8 s) = ag_calls s"
  "ag_calls (ag_stuck_update g9 s) = ag_calls s" "ag_calls (ag_heuristic_ids_update h1 s) = ag_calls s"
  by (simp_all add: ag_calls_def del: calls_of_simps)

lemma ag_prompts_updates [simp]:
  "ag_prompts (ag_trace_update f1 s) = prompts_of (f1 (ag_trace s))"
  "ag_prompts (ag_world_update f2 s) = ag_prompts s" "ag_prompts (ag_log_update f3 s) = ag_prompts s"
  "ag_prompts (ag_messages_update f4 s) = ag_prompts s" "ag_prompts (ag_breaker_update f5 s) = ag_prompts s"
  "ag_prompts (ag_loop_update f6 s) = ag_prompts s" "ag_prompts (ag_stall_update f7 s) = ag_prompts s"
  "ag_prompts (ag_advisor_update f8 s) = ag_prompts s" "ag_prompts (ag_critic_update f9 s) = ag_prompts s"
  "ag_prompts (ag_all_tools_update g1 s) = ag_prompts s" "ag_prompts (ag_consecutive_failures_update g2 s) = ag_prompts s"
  "ag_prompts (ag_iteration_update g3 s) = ag_prompts s" "ag_prompts (ag_chain_update g4 s) = ag_prompts s"
  "ag_prompts (ag_cache_update g5 s) = ag_prompts s" "ag_prompts (ag_trials_update g6 s) = ag_prompts s"
  "ag_prompts (ag_cycle_update g7 s) = ag_prompts s" "ag_prompts (ag_continue_site_update g8 s) = ag_prompts s"
  "ag_prompts (ag_stuck_update g9 s) = ag_prompts s" "ag_prompts (ag_heuristic_ids_update h1 s) = ag_prompts s"
  by (simp_all add: ag_prompts_def del: prompts_of_simps)

lemma run_primitives [simp]:
  "run_state (asks f) s = (f s, s)"
  "run_state (outside g) s = (case g (ag_world s) of (x, w) \<Rightarrow> (x, s\<lparr>ag_world := w\<rparr>))"
  "run_state (store e p) s = ((), if en_has_store e then s\<lparr>ag_log := ag_log s @ [p]\<rparr> else s)"
  "run_state (say m) s = ((), s\<lparr>ag_messages := ag_messages s @ [m]\<rparr>)"
  "run_state (call_tool e t args) s =
     (case en_call e (ti_name t) args (ag_world s) of
       (r, w) \<Rightarrow> (r, s\<lparr>ag_world := w, ag_trace := ag_trace s @ [Called t args]\<rparr>))"
  "run_state (ask_model e who ms schemas params) s =
     (case en_generate e ms schemas params (ag_world s) of
       (r, w) \<Rightarrow> (r, s\<lparr>ag_world := w, ag_trace := ag_trace s @ [Asked who ms r]\<rparr>))"
  by (simp_all add: asks_def outside_def store_def say_def call_tool_def ask_model_def)

lemma run_update [simp]: "run_state (State_Monad.update f) s = ((), f s)"
  by (simp add: State_Monad.update_def)

section \<open>What the primitive steps keep\<close>

interpretation grow: step_relation "grows f P" for f :: "'s \<Rightarrow> 'a list" and P
proof
  show "grows f P s s" for s by (simp add: grows_def)
next
  fix s t u assume "grows f P s t" "grows f P t u"
  then obtain xs ys where "f t = f s @ xs" "list_all P xs" "f u = f t @ ys" "list_all P ys"
    by (auto simp: grows_def)
  then have "f u = f s @ (xs @ ys) \<and> list_all P (xs @ ys)" by simp
  then show "grows f P s u" unfolding grows_def by blast
qed

lemma asks_keeps: "state_io_rel (grows f P) (asks g)"
  by (simp add: state_io_rel_def grows_same)

lemma outside_keeps:
  "state_io_rel (grows ag_messages P) (outside g)" "state_io_rel (grows ag_log Q) (outside g)"
  "state_io_rel (grows ag_trace C) (outside g)"
  by (simp_all add: state_io_rel_def grows_same split: prod.split)

lemma store_keeps:
  "state_io_rel (grows ag_messages P) (store e p)" "state_io_rel (grows ag_trace C) (store e p)"
  "Q p \<Longrightarrow> state_io_rel (grows ag_log Q) (store e p)"
  by (simp_all add: state_io_rel_def grows_same grows_one)

lemma say_keeps:
  "state_io_rel (grows ag_log Q) (say m)" "state_io_rel (grows ag_trace C) (say m)"
  "P m \<Longrightarrow> state_io_rel (grows ag_messages P) (say m)"
  by (simp_all add: state_io_rel_def grows_same grows_one)

lemma call_tool_keeps:
  "state_io_rel (grows ag_messages P) (call_tool e t a)" "state_io_rel (grows ag_log Q) (call_tool e t a)"
  "C (Called t a) \<Longrightarrow> state_io_rel (grows ag_trace C) (call_tool e t a)"
  by (simp_all add: state_io_rel_def grows_same grows_one split: prod.split)

lemma ask_model_keeps:
  "state_io_rel (grows ag_messages P) (ask_model e who ms sc pr)" "state_io_rel (grows ag_log Q) (ask_model e who ms sc pr)"
  "(\<And>r. C (Asked who ms r)) \<Longrightarrow> state_io_rel (grows ag_trace C) (ask_model e who ms sc pr)"
  by (auto simp: state_io_rel_def grows_same grows_one split: prod.split)

lemma emit_event_keeps:
  "state_io_rel (grows ag_messages P) (emit_event e t d i)" "state_io_rel (grows ag_trace C) (emit_event e t d i)"
  "Q (Append_Event (en_session_id e) t d i) \<Longrightarrow> state_io_rel (grows ag_log Q) (emit_event e t d i)"
  by (simp_all add: emit_event_def store_keeps)

text \<open>An exchange that is a call with a property.\<close>

definition on_call :: "(tool_info \<times> json \<Rightarrow> bool) \<Rightarrow> exchange \<Rightarrow> bool" where
  "on_call C x = (case x of Called t a \<Rightarrow> C (t, a) | _ \<Rightarrow> False)"

lemma on_call_simps [simp]:
  "on_call C (Called t a) = C (t, a)" "\<not> on_call C (Asked who ms r)" "\<not> on_call C Consulted"
  by (simp_all add: on_call_def)

text \<open>What the calls and prompts of a history satisfy, from its exchanges.\<close>

lemma calls_of_all:
  "list_all P es \<Longrightarrow> (\<And>t a. P (Called t a) \<Longrightarrow> C (t, a)) \<Longrightarrow> list_all C (calls_of es)"
  by (induction es) (auto split: exchange.split)

lemma trace_calls:
  "grows ag_trace P s t \<Longrightarrow> (\<And>u a. P (Called u a) \<Longrightarrow> C (u, a)) \<Longrightarrow> grows ag_calls C s t"
  unfolding grows_def ag_calls_def by (metis calls_of_all calls_of_simps(2))

lemma trace_prompts:
  "grows ag_trace P s t \<Longrightarrow> (\<And>who ms r. \<not> P (Asked who ms r)) \<Longrightarrow> ag_prompts t = ag_prompts s"
  unfolding grows_def ag_prompts_def
proof (elim exE conjE)
  fix es assume es: "ag_trace t = ag_trace s @ es" "list_all P es" and no: "\<And>who ms r. \<not> P (Asked who ms r)"
  from es(2) have "prompts_of es = []" by (induction es) (auto simp: no split: exchange.split)
  with es(1) show "prompts_of (ag_trace t) = prompts_of (ag_trace s)" by (simp del: prompts_of_simps(4))
qed

lemma update_other:
  "(\<And>s. f (g s) = f s) \<Longrightarrow> state_io_rel (grows f P) (State_Monad.update g)"
  by (simp add: state_io_rel_def grows_same)

lemmas keeps = grow.keeps asks_keeps outside_keeps store_keeps say_keeps call_tool_keeps
  ask_model_keeps emit_event_keeps update_other

end
