(* ===== verification/Working_Memory.thy ===== *)
theory Working_Memory
  imports Conversation "HOL-Library.Product_Lexorder" "HOL-Library.Sublist"
begin

text \<open>
  \<open>src/agent/working_memory.rs\<close>: the cap on the number of messages of a session. \<open>env\<close> gives the
  environment variables.
\<close>

definition default_cap :: nat where
  "default_cap = 9"

definition min_cap :: nat where
  "min_cap = 3"

definition is_working_cap_enabled :: "(string \<Rightarrow> string option) \<Rightarrow> bool" where
  "is_working_cap_enabled env =
    (case env ''BONSAI_WORKING_CAP_ENABLED'' of
       None \<Rightarrow> False | Some v \<Rightarrow> v = ''1'' \<or> eq_ignore_ascii_case v ''true'')"

definition working_cap_from_env :: "(string \<Rightarrow> string option) \<Rightarrow> nat" where
  "working_cap_from_env env =
    (case env ''BONSAI_WORKING_CAP'' of
       None \<Rightarrow> default_cap
     | Some s \<Rightarrow> (case parse_usize s of
                    Some n \<Rightarrow> if n \<ge> min_cap then n else default_cap
                  | None \<Rightarrow> default_cap))"

definition priority_score :: "message \<Rightarrow> nat" where
  "priority_score m = (case msg_role m of System \<Rightarrow> 100 | Tool \<Rightarrow> 50 | Assistant \<Rightarrow> 30 | User \<Rightarrow> 10)"

definition recent_tool_indices :: "message list \<Rightarrow> nat list" where
  "recent_tool_indices ms =
    take 3 (rev (filter (\<lambda>i. msg_role (ms ! i) = Tool) [0..<length ms]))"

definition evictable :: "message list \<Rightarrow> nat \<Rightarrow> bool" where
  "evictable ms i = (msg_role (ms ! i) \<noteq> System \<and> i \<notin> set (recent_tool_indices ms))"

definition eviction_order :: "message list \<Rightarrow> nat list" where
  "eviction_order ms =
    sort_key (\<lambda>i. (priority_score (ms ! i), i)) (filter (evictable ms) [0..<length ms])"

definition keep_indices :: "(nat \<Rightarrow> bool) \<Rightarrow> 'a list \<Rightarrow> 'a list" where
  "keep_indices P xs = map snd (filter (\<lambda>(i, x). P i) (enumerate 0 xs))"

definition cap_session_messages ::
    "(string \<Rightarrow> string option) \<Rightarrow> nat \<Rightarrow> message list \<Rightarrow> message list \<times> nat" where
  "cap_session_messages env cap ms =
    (if \<not> is_working_cap_enabled env then (ms, 0)
     else if length ms \<le> cap then (ms, 0)
     else (let evict_set = take (length ms - cap) (eviction_order ms)
           in (keep_indices (\<lambda>i. i \<notin> set evict_set) ms, length evict_set)))"

section \<open>Facts\<close>

lemma keep_indices_nths: "keep_indices P xs = nths xs {i. P i}"
proof -
  have "map snd (filter (\<lambda>p. P (fst p)) (zip [n..<n + length xs] xs))
      = map fst (filter (\<lambda>p. P (snd p)) (zip xs [n..<n + length xs]))" for n
  proof (induction xs arbitrary: n)
    case (Cons x xs)
    show ?case using Cons [of "Suc n"] by (simp add: upt_conv_Cons del: upt_Suc)
  qed simp
  from this [of 0] show ?thesis
    by (simp add: keep_indices_def nths_def enumerate_eq_zip case_prod_unfold)
qed

lemma eviction_order_simps [simp]:
  "set (eviction_order ms) = {i. i < length ms \<and> evictable ms i}"
  "distinct (eviction_order ms)"
  "length (eviction_order ms) = length (filter (evictable ms) [0..<length ms])"
  by (auto simp: eviction_order_def)

lemma length_keep: "distinct E \<Longrightarrow> set E \<subseteq> {..<length xs} \<Longrightarrow>
    length (keep_indices (\<lambda>i. i \<notin> set E) xs) = length xs - length E"
proof -
  assume E: "distinct E" "set E \<subseteq> {..<length xs}"
  have "{i. i < length xs \<and> i \<notin> set E} = {..<length xs} - set E" by auto
  then show ?thesis
    using E by (simp add: keep_indices_nths length_nths card_Diff_subset distinct_card)
qed

lemma eviction_order_sorted:
  assumes "i \<in> set (take k (eviction_order ms))" and "j \<in> set (drop k (eviction_order ms))"
  shows "(priority_score (ms ! i), i) \<le> (priority_score (ms ! j), j)"
proof -
  let ?f = "\<lambda>i. (priority_score (ms ! i), i)"
  have "sorted (map ?f (eviction_order ms))" by (simp add: eviction_order_def)
  then have "sorted (map ?f (take k (eviction_order ms)) @ map ?f (drop k (eviction_order ms)))"
    by (simp flip: map_append)
  then show ?thesis using assms unfolding sorted_append by auto
qed

lemma priority_user: "priority_score m \<le> 10 \<longleftrightarrow> msg_role m = User"
  by (simp add: priority_score_def split: role.split)

lemma filter_length_ge:
  assumes "distinct is" and "\<And>i. i \<in> set is \<Longrightarrow> i < length xs \<and> P (xs ! i)"
  shows "length is \<le> length (filter P xs)"
proof -
  have "length is = card (set is)" using assms(1) by (simp add: distinct_card)
  also have "\<dots> \<le> card {i. i < length xs \<and> P (xs ! i)}" using assms(2) by (intro card_mono) auto
  also have "\<dots> = length (filter P xs)" by (simp add: length_filter_conv_card)
  finally show ?thesis .
qed

text \<open>Every user message is evicted before anything else.\<close>

lemma users_evicted_first:
  assumes k: "length (filter (\<lambda>m. msg_role m = User) ms) \<le> k"
    and u: "u < length ms" "msg_role (ms ! u) = User"
  shows "u \<in> set (take k (eviction_order ms))"
proof (rule ccontr)
  assume n: "u \<notin> set (take k (eviction_order ms))"
  have "evictable ms u" using u by (auto simp: evictable_def recent_tool_indices_def dest!: in_set_takeD)
  then have "u \<in> set (eviction_order ms)" using u by simp
  then have d: "u \<in> set (drop k (eviction_order ms))"
    using n by (metis Un_iff append_take_drop_id set_append)
  have users: "i < length ms \<and> msg_role (ms ! i) = User" if "i \<in> set (take k (eviction_order ms))" for i
    using eviction_order_sorted [OF that d] that u
    by (auto simp: priority_user simp flip: priority_user dest!: in_set_takeD)
  have "length (u # take k (eviction_order ms)) \<le> length (filter (\<lambda>m. msg_role m = User) ms)"
    by (rule filter_length_ge) (use users u n in auto)
  moreover have "length (take k (eviction_order ms)) = k"
    using d by (metis drop_all empty_iff length_take list.set(1) min.absorb2 nat_le_linear)
  ultimately show False using k by simp
qed

lemma set_keep: "x \<in> set (keep_indices P xs) \<longleftrightarrow> (\<exists>i < length xs. x = xs ! i \<and> P i)"
  by (auto simp: keep_indices_nths set_nths)

section \<open>Properties\<close>

text \<open>
  C21. When the cap is on and exceeded, what is left keeps its order, loses nothing but evictable
  messages (never a system message or one of the three newest tool messages), and has exactly
  \<open>cap\<close> messages unless more than that are protected.
\<close>

theorem working_cap_keeps_protected:
  assumes "is_working_cap_enabled env" and "cap < length ms"
  shows "subseq (fst (cap_session_messages env cap ms)) ms
    \<and> length (fst (cap_session_messages env cap ms)) + snd (cap_session_messages env cap ms) = length ms
    \<and> length (fst (cap_session_messages env cap ms))
       = max cap (length (filter (\<lambda>i. evictable ms i = False) [0..<length ms]))
    \<and> list_all (\<lambda>i. ms ! i \<in> set (fst (cap_session_messages env cap ms)))
        (filter (\<lambda>i. evictable ms i = False) [0..<length ms])"
proof -
  let ?E = "take (length ms - cap) (eviction_order ms)"
  have r: "cap_session_messages env cap ms = (keep_indices (\<lambda>i. i \<notin> set ?E) ms, length ?E)"
    using assms by (simp add: cap_session_messages_def Let_def)
  have E: "distinct ?E" "set ?E \<subseteq> {..<length ms}" by (auto dest: in_set_takeD)
  have sum: "length (filter (evictable ms) [0..<length ms])
      + length (filter (\<lambda>i. evictable ms i = False) [0..<length ms]) = length ms"
    using sum_length_filter_compl [of "evictable ms" "[0..<length ms]"] by simp
  have le: "length ?E \<le> length ms" using sum by simp
  have "length (keep_indices (\<lambda>i. i \<notin> set ?E) ms) = length ms - length ?E" by (rule length_keep [OF E])
  moreover have "list_all (\<lambda>i. ms ! i \<in> set (keep_indices (\<lambda>i. i \<notin> set ?E) ms))
        (filter (\<lambda>i. evictable ms i = False) [0..<length ms])"
    by (auto simp: list_all_iff set_keep dest!: in_set_takeD)
  moreover have "subseq (keep_indices (\<lambda>i. i \<notin> set ?E) ms) ms"
    by (simp add: keep_indices_nths subseq_conv_nths) blast
  ultimately show ?thesis using le sum assms(2) by (auto simp: r min_def max_def)
qed

definition cap_env :: "string \<Rightarrow> string option" where
  "cap_env v = (if v = ''BONSAI_WORKING_CAP_ENABLED'' then Some ''1'' else None)"

theorem working_cap_keeps_protected_witness:
  "length (fst (cap_session_messages cap_env 1 [msg_user ''a'', msg_assistant ''b'']))
     + snd (cap_session_messages cap_env 1 [msg_user ''a'', msg_assistant ''b'']) = 2"
  using working_cap_keeps_protected [of cap_env 1 "[msg_user ''a'', msg_assistant ''b'']"]
  by (simp add: is_working_cap_enabled_def cap_env_def)

text \<open>
  User messages are evicted before everything else, the current request included: as soon as
  as many messages are evicted as the session has user messages, no request is left.
\<close>

theorem working_cap_forgets_request:
  assumes "is_working_cap_enabled env"
    and "cap + length (filter (\<lambda>m. msg_role m = User) ms) \<le> length ms" and "cap < length ms"
  shows "filter (\<lambda>m. msg_role m = User) (fst (cap_session_messages env cap ms)) = []"
proof -
  have "length (filter (\<lambda>m. msg_role m = User) ms) \<le> length ms - cap" using assms(2) by simp
  from users_evicted_first [OF this] show ?thesis
    using assms by (auto simp: cap_session_messages_def Let_def filter_empty_conv set_keep)
qed

theorem working_cap_forgets_request_witness:
  "filter (\<lambda>m. msg_role m = User) (fst (cap_session_messages cap_env 3
     [msg_system ''s'', msg_user ''task'', msg_assistant ''a'', msg_assistant ''b''])) = []"
  by (rule working_cap_forgets_request) (simp_all add: is_working_cap_enabled_def cap_env_def)

end
