(* ===== verification/Agent_Support.thy ===== *)
theory Agent_Support
  imports Agent_State Working_Memory
begin

text \<open>
  \<open>src/agent/agent_loop/support.rs\<close>, the judgement of a task's complexity in \<open>outcome.rs\<close>, the class
  of a task in \<open>src/domain/event.rs\<close>, and the facts about the detectors of \<open>state.rs\<close>.
\<close>

section \<open>Hash, answer and invariants\<close>

definition compute_output_hash :: "byte_hasher \<Rightarrow> message list \<Rightarrow> 64 word" where
  "compute_output_hash H ms = (if ms = [] then H [] else H (msg_content (last ms) @ [str_end]))"

definition failed_tool_message :: "message \<Rightarrow> bool" where
  "failed_tool_message m =
    (let t = trim_start (msg_content m)
     in starts_with t m_tool_error_prefix \<or> starts_with t ''Error:'' \<or> starts_with t ''[Tool error]'')"

definition check_invariants :: "message list \<Rightarrow> string \<Rightarrow> string list" where
  "check_invariants ms task_context =
    (let tools = filter (\<lambda>m. msg_role m = Tool) ms;
         ok = length (filter (\<lambda>m. \<not> failed_tool_message m) tools);
         rate = fl64 (fl64 (of_nat ok) / fl64 (of_nat (length tools)))
     in (if tools \<noteq> [] \<and> rate < 1 / 2
         then [m_low_rate_1 @ show_int (round_half_even (fl64 (rate * 100))) @ ''%''] else [])
        @ (case last_with_role Assistant ms of
             Some answer \<Rightarrow> if length (msg_content answer) < 10 \<and> length task_context > 50
                            then [m_short_answer] else []
           | None \<Rightarrow> []))"

fun dedup :: "'a list \<Rightarrow> 'a list" where
  "dedup (x # y # zs) = (if x = y then dedup (y # zs) else x # dedup (y # zs))"
| "dedup xs = xs"

definition clean_response :: "string \<Rightarrow> string" where
  "clean_response text =
    (let joined = join nl (dedup (str_lines text)); n = char_count joined; half = n div 2;
         front = take_chars half joined; back = drop (length front) joined
     in if n > 100 \<and> str_contains back (take_chars 30 front) then trim_end front else joined)"

definition build_answer :: "parsed_output \<Rightarrow> string" where
  "build_answer parsed =
    clean_response (case po_text parsed of Some t \<Rightarrow> t | None \<Rightarrow> m_no_answer)"

section \<open>Recording the end of a task\<close>

definition record_success :: "'w env \<Rightarrow> string \<Rightarrow> string \<Rightarrow> ('w, unit) step" where
  "record_success e task_context answer = do {
     ms \<leftarrow> asks ag_messages;
     store e (Save_Session (en_session_id e) ms);
     store e (Record_Experience Success task_context answer ''completed'' None None);
     store e (Promote_Skills 3) }"

definition record_abort :: "'w env \<Rightarrow> string \<Rightarrow> string \<Rightarrow> ('w, unit) step" where
  "record_abort e task_context reason = do {
     ms \<leftarrow> asks ag_messages;
     store e (Save_Session (en_session_id e) ms);
     store e (Record_Experience Insight task_context ''aborted'' reason (Some reason) (Some ''Aborted'')) }"

fun store_all :: "'w env \<Rightarrow> store_op list \<Rightarrow> ('w, unit) step" where
  "store_all e [] = State_Monad.return ()"
| "store_all e (p # ps) = do { store e p; store_all e ps }"

definition record_heuristic_outcomes :: "'w env \<Rightarrow> int list \<Rightarrow> bool \<Rightarrow> ('w, unit) step" where
  "record_heuristic_outcomes e ids succeeded = store_all e (map (\<lambda>i. Heuristic_Outcome i succeeded) ids)"

lemma run_store_all [simp]:
  "run_state (store_all e ps) s = ((), if en_has_store e then s\<lparr>ag_log := ag_log s @ ps\<rparr> else s)"
  by (induction ps arbitrary: s) simp_all

section \<open>Kinds of tasks\<close>

definition detect_task_complexity :: "string \<Rightarrow> bool" where
  "detect_task_complexity input =
    (let signals = filter (str_contains input)
           [k_make, k_implement, k_fix, k_refactor, k_investigate, k_analyse, k_compare, k_design,
            k_write_test, k_do_build, k_deploy, k_file_chain]
     in length signals \<ge> 2 \<or> length input > 200)"

definition classify_task_type :: "string \<Rightarrow> string" where
  "classify_task_type c =
    (if contains_any [k_run, k_command] c then ''shell_exec''
     else if contains_any [k_edit_task, k_fix_task, k_change_task, k_refactor, k_implement_task] c
       then ''code_edit''
     else if contains_any [k_read, k_check_task, k_look_task] c then ''code_read''
     else ''other'')"

section \<open>The token budget as a bounded history\<close>

interpretation outputs: bounded_history tb_record tb_recent_outputs "\<lambda>n. n" "\<lambda>b. tb_diminishing_window b * 2"
  by unfold_locales (simp_all add: tb_record_def push_evict_eq)

lemma tb_fold:
  "tb_total_tokens (fold tb_record ns b) = tb_total_tokens b + sum_list ns"
  "tb_budget (fold tb_record ns b) = tb_budget b"
  "tb_low_output_threshold (fold tb_record ns b) = tb_low_output_threshold b"
  "tb_diminishing_window (fold tb_record ns b) = tb_diminishing_window b"
  by (induction ns arbitrary: b) (simp_all add: tb_record_def)

lemma tb_recent: "tb_recent_outputs (fold tb_record ns (tb_new b)) = last_n 10 ns"
proof -
  have "tb_recent_outputs (tb_new b) = []" by (simp add: tb_new_def)
  from outputs.hist_fold [OF this, of ns] show ?thesis by (simp add: tb_new_def)
qed

lemma diminishing_iff:
  "is_diminishing (fold tb_record ns (tb_new b)) \<longleftrightarrow> 5 \<le> length ns \<and> list_all (\<lambda>t. t < 100) (last_n 5 ns)"
proof -
  have "drop (length (last_n 10 ns) - 5) (last_n 10 ns) = last_n 5 ns" if "5 \<le> length ns"
    using last_n_last_n [of 5 10 ns] by (simp add: last_n_def)
  then show ?thesis
    by (auto simp: is_diminishing_def tb_recent tb_fold length_last_n) (simp_all add: tb_new_def)
qed

section \<open>Runs of the stall detector\<close>

text \<open>A step makes no progress when a tool failed or the output is the previous one.\<close>

fun no_progress :: "64 word \<Rightarrow> (bool \<times> 64 word) list \<Rightarrow> bool list" where
  "no_progress prev [] = []"
| "no_progress prev ((ok, h) # xs) = (\<not> ok \<or> h = prev) # no_progress h xs"

definition sd_run :: "(bool \<times> 64 word) list \<Rightarrow> stall_detector \<Rightarrow> stall_detector" where
  "sd_run xs d = fold (\<lambda>(ok, h) d. snd (sd_record_step ok h d)) xs d"

lemma sd_run_fields:
  "sd_stall_threshold (sd_run xs d) = sd_stall_threshold d"
  "sd_last_output_hash (sd_run xs d) = (if xs = [] then sd_last_output_hash d else snd (last xs))"
  by (induction xs arbitrary: d) (auto simp: sd_run_def sd_record_step_def Let_def)

lemma no_progress_snoc:
  "no_progress l (xs @ [(ok, h)])
    = no_progress l xs @ [\<not> ok \<or> h = (if xs = [] then l else snd (last xs))]"
  by (induction l xs rule: no_progress.induct) auto

lemma sd_run_count:
  "sd_no_progress_count (sd_run xs (sd_new t)) = length (takeWhile (\<lambda>b. b) (rev (no_progress 0 xs)))"
proof (induction xs rule: rev_induct)
  case Nil
  then show ?case by (simp add: sd_run_def sd_new_def)
next
  case (snoc x xs)
  obtain ok h where x: "x = (ok, h)" by (cases x)
  have "sd_run (xs @ [x]) (sd_new t) = snd (sd_record_step ok h (sd_run xs (sd_new t)))"
    by (simp add: sd_run_def x)
  then show ?case
    using snoc by (simp add: x no_progress_snoc sd_record_step_def Let_def sd_run_fields) (simp add: sd_new_def)
qed

end
