(* ===== verification/Middleware.thy ===== *)
theory Middleware
  imports Agent_Support
begin

text \<open>
  \<open>src/agent/middleware.rs\<close>: the hooks before and after a step. Only the compaction has a hook before
  the step. The iteration number that the hook before a step gets is used by its log output alone and
  left out.
\<close>

section \<open>Hooks\<close>

record step_result =
  sr_outcome_type :: string
  sr_iteration :: nat
  sr_duration_ms :: nat
  sr_tools_used :: "string list"
  sr_tools_succeeded :: bool
  sr_output_hash :: "64 word"
  sr_consecutive_failures :: nat

datatype middleware_signal = Mw_Ok | Mw_Inject string | Mw_Abort string

definition middleware_name :: "middleware \<Rightarrow> string" where
  "middleware_name m =
    (case m of Audit_Middleware \<Rightarrow> ''audit'' | Tool_Tracking_Middleware _ \<Rightarrow> ''tool_tracking''
     | Stall_Middleware _ \<Rightarrow> ''stall'' | Compaction_Middleware _ \<Rightarrow> ''compaction''
     | Token_Budget_Middleware _ \<Rightarrow> ''token_budget'')"

text \<open>What the audit, the tool tracking, the stall and the budget middleware do after a step.\<close>

definition audit_after :: "'w env \<Rightarrow> step_result \<Rightarrow> ('w, middleware_signal) step" where
  "audit_after e r = do {
     store e (Audit_Step_Outcome (en_session_id e) (sr_iteration r) (sr_outcome_type r)
       (sr_duration_ms r) (sr_tools_used r) (sr_consecutive_failures r));
     State_Monad.return Mw_Ok }"

definition tracking_after :: "step_result \<Rightarrow> string list \<Rightarrow> string list" where
  "tracking_after r tools = tools @ sr_tools_used r"

definition stall_after :: "step_result \<Rightarrow> stall_detector \<Rightarrow> stall_detector \<times> middleware_signal" where
  "stall_after r d =
    (if sr_outcome_type r \<noteq> ''continue'' then (d, Mw_Ok)
     else (case sd_record_step (sr_tools_succeeded r) (sr_output_hash r) d of
             (stalled, d') \<Rightarrow> if stalled then (sd_reset d', Mw_Inject m_stall_inject) else (d', Mw_Ok)))"

definition budget_after :: "step_result \<Rightarrow> token_budget \<Rightarrow> token_budget \<times> middleware_signal" where
  "budget_after r b =
    (if sr_outcome_type r \<noteq> ''continue'' then (b, Mw_Ok)
     else (let b' = tb_record (length (sr_tools_used r) * 200 + 100) b
           in (b', case tb_check b' of Some msg \<Rightarrow> Mw_Inject msg | None \<Rightarrow> Mw_Ok)))"

definition compaction_after ::
    "'w env \<Rightarrow> step_result \<Rightarrow> compaction_config \<Rightarrow> ('w, middleware_signal) step" where
  "compaction_after e r config =
    (if sr_outcome_type r \<noteq> ''continue'' then State_Monad.return Mw_Ok
     else do {
       w \<leftarrow> asks ag_world;
       State_Monad.update (\<lambda>s. s\<lparr>ag_world := en_touched e w,
         ag_messages := fst (compact_if_needed (en_order e) (\<lambda>c. en_hash e (c @ [str_end]))
           (en_offload e w) config (ag_messages s))\<rparr>);
       State_Monad.return Mw_Ok })"

definition compaction_before :: "'w env \<Rightarrow> compaction_config \<Rightarrow> ('w, middleware_signal) step" where
  "compaction_before e config = do {
     before \<leftarrow> asks (\<lambda>s. estimate_tokens (ag_messages s));
     (if before \<le> max_context_tokens config then State_Monad.return Mw_Ok
      else do {
        State_Monad.update (\<lambda>s. s\<lparr>ag_messages := compact_level3 (en_order e) config (ag_messages s)\<rparr>);
        after \<leftarrow> asks (\<lambda>s. estimate_tokens (ag_messages s));
        State_Monad.return
          (if after > max_context_tokens config
           then Mw_Abort (''context overflow remains after emergency compaction: tokens=''
             @ show_nat after @ '', budget='' @ show_nat (max_context_tokens config))
           else Mw_Ok) }) }"

definition mw_after :: "'w env \<Rightarrow> step_result \<Rightarrow> middleware \<Rightarrow> ('w, middleware \<times> middleware_signal) step" where
  "mw_after e r m =
    (case m of
       Audit_Middleware \<Rightarrow> do { sig \<leftarrow> audit_after e r; State_Monad.return (m, sig) }
     | Tool_Tracking_Middleware tools \<Rightarrow>
         State_Monad.return (Tool_Tracking_Middleware (tracking_after r tools), Mw_Ok)
     | Stall_Middleware d \<Rightarrow>
         State_Monad.return (Stall_Middleware (fst (stall_after r d)), snd (stall_after r d))
     | Compaction_Middleware config \<Rightarrow> do {
         sig \<leftarrow> compaction_after e r config; State_Monad.return (m, sig) }
     | Token_Budget_Middleware b \<Rightarrow>
         State_Monad.return (Token_Budget_Middleware (fst (budget_after r b)), snd (budget_after r b)))"

definition mw_before :: "'w env \<Rightarrow> middleware \<Rightarrow> ('w, middleware_signal) step" where
  "mw_before e m =
    (case m of Compaction_Middleware config \<Rightarrow> compaction_before e config
     | _ \<Rightarrow> State_Monad.return Mw_Ok)"

section \<open>The chain\<close>

fun after_chain :: "'w env \<Rightarrow> step_result \<Rightarrow> middleware list \<Rightarrow> ('w, middleware list) step" where
  "after_chain e r [] = State_Monad.return []"
| "after_chain e r (m # ms) = do {
     x \<leftarrow> mw_after e r m;
     (case snd x of Mw_Inject msg \<Rightarrow> say (msg_system msg) | _ \<Rightarrow> State_Monad.return ());
     ms' \<leftarrow> after_chain e r ms;
     State_Monad.return (fst x # ms') }"

definition run_after_step :: "'w env \<Rightarrow> step_result \<Rightarrow> ('w, unit) step" where
  "run_after_step e r = do {
     ms \<leftarrow> asks ag_chain;
     ms' \<leftarrow> after_chain e r ms;
     State_Monad.update (\<lambda>s. s\<lparr>ag_chain := ms'\<rparr>) }"

fun before_chain :: "'w env \<Rightarrow> middleware list \<Rightarrow> ('w, string option) step" where
  "before_chain e [] = State_Monad.return None"
| "before_chain e (m # ms) = do {
     sig \<leftarrow> mw_before e m;
     (case sig of
        Mw_Ok \<Rightarrow> before_chain e ms
      | Mw_Inject msg \<Rightarrow> do { say (msg_system msg); before_chain e ms }
      | Mw_Abort reason \<Rightarrow> State_Monad.return (Some reason)) }"

definition run_before_step :: "'w env \<Rightarrow> ('w, string option) step" where
  "run_before_step e = do { ms \<leftarrow> asks ag_chain; before_chain e ms }"

definition with_n_ctx_budget :: "environment \<Rightarrow> nat option \<Rightarrow> compaction_config" where
  "with_n_ctx_budget env n =
    with_dynamic_budget_from_env env (with_smoke_or_env_override env (from_n_ctx_budget n))"

definition build_default_chain :: "environment \<Rightarrow> nat option \<Rightarrow> middleware list" where
  "build_default_chain env n =
    [Audit_Middleware, Tool_Tracking_Middleware [], Compaction_Middleware (with_n_ctx_budget env n),
     Token_Budget_Middleware (tb_new 8000)]"

section \<open>The guard of the context\<close>

definition guards :: "middleware list \<Rightarrow> compaction_config list" where
  "guards ms = List.map_filter (\<lambda>m. case m of Compaction_Middleware c \<Rightarrow> Some c | _ \<Rightarrow> None) ms"

lemma guards_simps [simp]:
  "guards [] = []" "guards (Compaction_Middleware c # ms) = c # guards ms"
  "guards (Audit_Middleware # ms) = guards ms" "guards (Tool_Tracking_Middleware ts # ms) = guards ms"
  "guards (Stall_Middleware d # ms) = guards ms" "guards (Token_Budget_Middleware b # ms) = guards ms"
  by (simp_all add: guards_def List.map_filter_def)

lemma guards_default [simp]: "guards (build_default_chain env n) = [with_n_ctx_budget env n]"
  by (simp add: build_default_chain_def)

lemma before_without_guard: "guards ms = [] \<Longrightarrow> before_chain e ms = State_Monad.return None"
proof (induction ms)
  case (Cons m ms)
  then show ?case by (cases m) (simp_all add: mw_before_def)
qed simp

lemma before_one_guard:
  assumes "guards ms = [c]"
  shows "run_state (before_chain e ms) s =
    (let t = (if estimate_tokens (ag_messages s) \<le> max_context_tokens c then s
              else s\<lparr>ag_messages := compact_level3 (en_order e) c (ag_messages s)\<rparr>)
     in (if estimate_tokens (ag_messages t) \<le> max_context_tokens c then None
         else Some (''context overflow remains after emergency compaction: tokens=''
           @ show_nat (estimate_tokens (ag_messages t)) @ '', budget=''
           @ show_nat (max_context_tokens c)), t))"
  using assms
proof (induction ms arbitrary: s)
  case (Cons m ms)
  show ?case
  proof (cases "\<exists>c'. m = Compaction_Middleware c'")
    case True
    with Cons.prems have m: "m = Compaction_Middleware c" and "guards ms = []" by auto
    then show ?thesis
      by (simp add: mw_before_def compaction_before_def before_without_guard Let_def)
  next
    case False
    with Cons.prems have "guards ms = [c]" and "mw_before e m = State_Monad.return Mw_Ok"
      by (cases m; simp add: mw_before_def)+
    then show ?thesis using Cons.IH by simp
  qed
qed simp

lemma after_chain_guards: "pred_state (\<lambda>ms'. guards ms' = guards ms) (after_chain e r ms)"
proof (induction ms)
  case Nil
  show ?case by (rule pred_stateI) auto
next
  case (Cons m ms)
  have "guards (fst x # ms') = guards (m # ms)"
    if "run_state (mw_after e r m) s = (x, t)" and "guards ms' = guards ms" for x s t ms'
    using that by (cases m) (auto simp: mw_after_def split: prod.splits)
  then show ?case
    using Cons by (auto intro!: pred_stateI dest!: pred_stateD [OF Cons] split: prod.splits
        middleware_signal.splits)
qed

end
