(* ===== verification/Tool_Exec.thy ===== *)
theory Tool_Exec
  imports Agent_Support
begin

text \<open>
  \<open>src/agent/tool_exec.rs\<close>: truncating an output, executing one call under the permission and
  autonomy policy, reflecting its result in the state, and executing the validated calls of a step.
  Calls of a parallel batch are atomic and run in the order the environment schedules them; their
  results are collected in the order of the batch. The tools are those of the registry; what a
  call returns is the environment's answer. Writing to the log stream of the program is left out.
\<close>

section \<open>Truncating an output\<close>

definition spill_limit :: nat where
  "spill_limit = 4000"

text \<open>The characters that begin before byte \<open>m\<close>, and those that end within byte \<open>m\<close>.\<close>

fun begin_before :: "nat \<Rightarrow> nat \<Rightarrow> string list \<Rightarrow> string" where
  "begin_before i m [] = []"
| "begin_before i m (g # gs) = (if i < m then g @ begin_before (i + length g) m gs else [])"

fun end_within :: "nat \<Rightarrow> string list \<Rightarrow> string" where
  "end_within m [] = []"
| "end_within m (g # gs) = (if length g \<le> m then g @ end_within (m - length g) gs else [])"

definition usize_bytes :: "nat \<Rightarrow> string" where
  "usize_bytes n = map (\<lambda>i. char_of (n div 256 ^ i)) [0..<8]"

definition spill_hash :: "byte_hasher \<Rightarrow> string \<Rightarrow> string \<Rightarrow> 64 word" where
  "spill_hash H shown out =
    H (usize_bytes (length out) @ end_within (min (length shown) 200) (chars out) @ [str_end])"

definition truncate_tool_output :: "'w env \<Rightarrow> string \<Rightarrow> nat \<Rightarrow> ('w, string) step" where
  "truncate_tool_output e out max_chars =
    (if max_chars = 0 \<or> length out \<le> max_chars then State_Monad.return out
     else (let shown = begin_before 0 max_chars (chars out);
               lengths = show_nat (length out) @ m_spill_2 @ show_nat (length shown) @ m_spill_3
           in do {
             path \<leftarrow> outside (en_spill e (spill_hash (en_hash e) shown out) out);
             State_Monad.return
               (case path of
                  Some p \<Rightarrow> shown @ ''...'' @ nl @ m_spill_1 @ p @ '' ('' @ lengths
                | None \<Rightarrow> shown @ ''...'' @ nl @ m_spill_none @ lengths) }))"

section \<open>Executing one call\<close>

record validated_call =
  vc_name :: string
  vc_args_json :: string
  vc_coerced_args :: json
  vc_tool :: tool_info
  vc_read_only :: bool

record exec_result =
  er_name :: string
  er_args_json :: string
  er_output :: string
  er_success :: bool
  er_is_error :: bool
  er_cancelled :: bool

definition refusal :: "validated_call \<Rightarrow> string \<Rightarrow> exec_result" where
  "refusal c msg =
    \<lparr>er_name = vc_name c, er_args_json = vc_args_json c, er_output = msg, er_success = False,
     er_is_error = True, er_cancelled = False\<rparr>"

definition show_autonomy :: "autonomy_level \<Rightarrow> string" where
  "show_autonomy a = (case a of ReadOnly \<Rightarrow> ''ReadOnly'' | Supervised \<Rightarrow> ''Supervised'' | Full \<Rightarrow> ''Full'')"

definition show_permission :: "permission \<Rightarrow> string" where
  "show_permission p = (case p of Auto \<Rightarrow> ''Auto'' | Confirm \<Rightarrow> ''Confirm'' | Deny \<Rightarrow> ''Deny'')"

definition run_tool :: "'w env \<Rightarrow> validated_call \<Rightarrow> ('w, exec_result) step" where
  "run_tool e c = do {
     r \<leftarrow> call_tool e (vc_tool c) (vc_coerced_args c);
     State_Monad.return (case r of
       Inr tr \<Rightarrow>
         \<lparr>er_name = vc_name c, er_args_json = vc_args_json c, er_output = tr_output tr,
          er_success = tr_success tr, er_is_error = False, er_cancelled = tr_cancelled tr\<rparr>
     | Inl err \<Rightarrow> refusal c (m_tool_error_1 @ err)) }"

definition execute_single_call ::
    "'w env \<Rightarrow> bool \<Rightarrow> daemon_policy \<Rightarrow> autonomy_level \<Rightarrow> validated_call \<Rightarrow> ('w, exec_result) step" where
  "execute_single_call e is_daemon policy autonomy c =
    (if \<not> vc_read_only c \<and> \<not> can_write autonomy then
       State_Monad.return (refusal c (m_perm_autonomy_1 @ show_autonomy autonomy @ m_perm_autonomy_2
         @ vc_name c @ m_perm_autonomy_3))
     else (let perm = ti_permission (vc_tool c)
           in case check_permission perm is_daemon policy of
                Allow \<Rightarrow> run_tool e c
              | Denied \<Rightarrow> State_Monad.return (refusal c (m_perm_denied_1 @ vc_name c @ m_perm_denied_2
                  @ show_permission perm @ '')''))
              | QueueForLater \<Rightarrow> State_Monad.return (refusal c (m_perm_queued_1 @ vc_name c @ m_perm_queued_2))
              | NeedConfirmation \<Rightarrow>
                  (case autonomy of
                     Full \<Rightarrow> run_tool e c
                   | Supervised \<Rightarrow>
                       (case en_confirm e of
                          Some confirm \<Rightarrow> do {
                            yes \<leftarrow> outside (confirm (vc_name c) (vc_args_json c));
                            (if \<not> yes then State_Monad.return (refusal c (m_perm_declined_1 @ vc_name c
                               @ m_perm_declined_2))
                             else run_tool e c) }
                        | None \<Rightarrow> State_Monad.return (refusal c (m_perm_confirm_1 @ vc_name c @ m_perm_confirm_2
                            @ show_permission perm @ m_perm_confirm_3 @ show_autonomy autonomy @ '')'')))
                   | ReadOnly \<Rightarrow> State_Monad.return (refusal c (m_perm_confirm_1 @ vc_name c @ m_perm_confirm_2
                       @ show_permission perm @ m_perm_readonly_3 @ show_autonomy autonomy @ m_perm_readonly_4)))))"

text \<open>The call with the policy of the configuration.\<close>

definition execute_call :: "'w env \<Rightarrow> validated_call \<Rightarrow> ('w, exec_result) step" where
  "execute_call e =
    execute_single_call e (ac_is_daemon (en_config e)) (ac_daemon_policy (en_config e))
      (ac_autonomy (en_config e))"

section \<open>A batch of reading calls\<close>

definition schedule_of :: "nat \<Rightarrow> nat list \<Rightarrow> nat list" where
  "schedule_of n order = (if distinct order \<and> set order = {0..<n} then order else [0..<n])"

definition execute_read_batch_parallel ::
    "'w env \<Rightarrow> validated_call list \<Rightarrow> ('w, exec_result list) step" where
  "execute_read_batch_parallel e batch =
    (if list_ex (\<lambda>c. ti_permission (vc_tool c) = Confirm) batch \<and> en_confirm e \<noteq> None
     then State_Monad.traverse_list (execute_call e) batch
     else do {
       w \<leftarrow> asks ag_world;
       rs \<leftarrow> State_Monad.traverse_list (\<lambda>i. do {
               r \<leftarrow> execute_call e (batch ! i); State_Monad.return (i, r) })
             (schedule_of (length batch) (en_schedule e (length batch) w));
       State_Monad.return (map (\<lambda>i. the (map_of rs i)) [0..<length batch]) })"

section \<open>Reflecting a result\<close>

definition result_failed :: "exec_result \<Rightarrow> bool" where
  "result_failed r = (er_is_error r \<or> \<not> er_success r)"

definition path_argument :: "json \<Rightarrow> string option" where
  "path_argument v =
    (case (case json_get v ''path'' of Some p \<Rightarrow> Some p | None \<Rightarrow> json_get v ''file_path'') of
       Some p \<Rightarrow> as_str p | None \<Rightarrow> None)"

definition tool_event :: "string \<Rightarrow> bool option \<Rightarrow> json" where
  "tool_event name ok =
    JObj ((case ok of Some b \<Rightarrow> [(''success'', JBool b)] | None \<Rightarrow> []) @ [(''tool'', JStr name)])"

definition stuck_note :: "file_stuck_guard \<Rightarrow> string \<Rightarrow> string option" where
  "stuck_note g path =
    (case fg_check_stuck g path of
       Some (Nudge m) \<Rightarrow> Some m | Some (GiveUp m) \<Rightarrow> Some m | None \<Rightarrow> None)"

definition apply_failure ::
    "'w env \<Rightarrow> exec_result \<Rightarrow> nat \<Rightarrow> string \<Rightarrow> string \<Rightarrow> string option \<Rightarrow> ('w, unit) step" where
  "apply_failure e r iteration out args path = do {
     (if er_cancelled r then State_Monad.return ()
      else do {
        now \<leftarrow> outside (en_now e);
        State_Monad.update (\<lambda>s. s\<lparr>ag_breaker := cb_record_failure now (er_name r) (ag_breaker s),
          ag_trials := ts_record_failure (er_name r, args, out, iteration) (ag_trials s)\<rparr>) });
     (case path of
        None \<Rightarrow> State_Monad.return ()
      | Some p \<Rightarrow> do {
          State_Monad.update (\<lambda>s. s\<lparr>ag_stuck := fg_record_file_failure p (ag_stuck s)\<rparr>);
          g \<leftarrow> asks ag_stuck;
          (case stuck_note g p of Some m \<Rightarrow> say (msg_system m) | None \<Rightarrow> State_Monad.return ()) });
     store e (Audit_Tool_Call (en_session_id e) (er_name r) args False (take_chars 200 out));
     (if er_cancelled r then State_Monad.return ()
      else store e (Graph_Error_Pattern ''tool_error'' (case path of Some p \<Rightarrow> p | None \<Rightarrow> ''unknown'')
             (er_name r)));
     say (msg_tool out (er_name r)) }"

definition apply_success ::
    "'w env \<Rightarrow> exec_result \<Rightarrow> nat \<Rightarrow> string \<Rightarrow> string \<Rightarrow> string option \<Rightarrow> ('w, unit) step" where
  "apply_success e r max_chars out args path = do {
     State_Monad.update (\<lambda>s. s\<lparr>ag_breaker := cb_record_success (er_name r) (ag_breaker s)\<rparr>);
     (case path of
        None \<Rightarrow> State_Monad.return ()
      | Some p \<Rightarrow> State_Monad.update (\<lambda>s. s\<lparr>ag_stuck := fg_record_file_success p (ag_stuck s)\<rparr>));
     truncated \<leftarrow> truncate_tool_output e out max_chars;
     store e (Audit_Tool_Call (en_session_id e) (er_name r) args True (take_chars 200 truncated));
     (case path of
        None \<Rightarrow> State_Monad.return ()
      | Some p \<Rightarrow> store e (Graph_Tool_Usage (er_name r) p));
     say (msg_tool truncated (er_name r)) }"

definition apply_tool_result :: "'w env \<Rightarrow> nat \<Rightarrow> nat \<Rightarrow> exec_result \<Rightarrow> ('w, unit) step" where
  "apply_tool_result e iteration max_chars r =
    (let out = en_redact e (er_output r); args = en_redact e (er_args_json r);
         path = (case en_decode e args of None \<Rightarrow> None | Some v \<Rightarrow> path_argument v)
     in do {
       emit_event e ToolCallStart (tool_event (er_name r) None) None;
       emit_event e ToolCallEnd (tool_event (er_name r) (Some (\<not> result_failed r))) None;
       (if result_failed r then apply_failure e r iteration out args path
        else apply_success e r max_chars out args path) })"

section \<open>Edits of several files\<close>

definition extract_edit_path :: "string \<Rightarrow> json \<Rightarrow> string option" where
  "extract_edit_path name args =
    (if name \<noteq> ''file_write'' \<and> name \<noteq> ''multi_edit'' then None else path_argument args)"

definition parse_nudge_files :: "string \<Rightarrow> string list" where
  "parse_nudge_files nudge =
    (case str_find nudge m_nudge_prefix of
       None \<Rightarrow> []
     | Some start \<Rightarrow>
         (let after = drop (start + length m_nudge_prefix) nudge
          in case str_find after m_nudge_suffix of
               None \<Rightarrow> []
             | Some n \<Rightarrow> filter (\<lambda>s. s \<noteq> []) (map trim (split_where (\<lambda>c. c = CHR '','') (take n after)))))"

definition record_edit_and_nudge :: "'w env \<Rightarrow> string \<Rightarrow> json \<Rightarrow> ('w, unit) step" where
  "record_edit_and_nudge e name args =
    (case extract_edit_path name args of
       None \<Rightarrow> State_Monad.return ()
     | Some path \<Rightarrow> do {
         d \<leftarrow> asks ag_cycle;
         (case ec_record_and_check (en_order e) path d of
            (d', r) \<Rightarrow> do {
              State_Monad.update (\<lambda>s. s\<lparr>ag_cycle := d'\<rparr>);
              (case r of
                 None \<Rightarrow> State_Monad.return ()
               | Some nudge \<Rightarrow> do {
                   say (msg_system nudge);
                   store e (Audit_Multi_File_Nudge (en_session_id e) (parse_nudge_files nudge)
                     (ec_nudge_fire_count d') (length nudge)) }) }) })"

section \<open>The calls of a step\<close>

definition remember_result :: "'w env \<Rightarrow> exec_result \<Rightarrow> ('w, unit) step" where
  "remember_result e r =
    (case en_decode e (er_args_json r) of
       None \<Rightarrow> State_Monad.return ()
     | Some args \<Rightarrow> State_Monad.update (\<lambda>s. s\<lparr>ag_cache := cache_put (en_encode e) (er_name r) args
         \<lparr>tr_output = en_redact e (er_output r), tr_success = er_success r, tr_cancelled = False\<rparr>
         (ag_cache s)\<rparr>))"

text \<open>What is done with the result of a reading call: the name and whether it succeeded.\<close>

definition finish_read :: "'w env \<Rightarrow> nat \<Rightarrow> exec_result \<Rightarrow> ('w, string \<times> bool) step" where
  "finish_read e iteration r = do {
     (if result_failed r then State_Monad.return () else remember_result e r);
     apply_tool_result e iteration spill_limit r;
     State_Monad.return (er_name r, \<not> result_failed r) }"

definition read_one :: "'w env \<Rightarrow> nat \<Rightarrow> validated_call \<Rightarrow> ('w, string \<times> bool) step" where
  "read_one e iteration c = do {
     cache \<leftarrow> asks ag_cache;
     (case cache_get (en_encode e) (vc_name c) (vc_coerced_args c) cache of
        (hit, cache') \<Rightarrow> do {
          State_Monad.update (\<lambda>s. s\<lparr>ag_cache := cache'\<rparr>);
          (case hit of
             Some cached \<Rightarrow> do {
               say (msg_tool (en_redact e (tr_output cached)) (vc_name c));
               emit_event e ToolCallStart (tool_event (vc_name c) None) None;
               emit_event e ToolCallEnd (tool_event (vc_name c) (Some (tr_success cached))) None;
               State_Monad.return (vc_name c, True) }
           | None \<Rightarrow> do {
               r \<leftarrow> execute_call e c;
               finish_read e iteration r }) }) }"

definition read_batch :: "'w env \<Rightarrow> nat \<Rightarrow> validated_call list \<Rightarrow> ('w, (string \<times> bool) list) step" where
  "read_batch e iteration batch =
    (if length batch \<ge> 2 then do {
       rs \<leftarrow> execute_read_batch_parallel e batch;
       State_Monad.traverse_list (finish_read e iteration) rs }
     else State_Monad.traverse_list (read_one e iteration) batch)"

definition write_one :: "'w env \<Rightarrow> nat \<Rightarrow> validated_call \<Rightarrow> ('w, string \<times> bool) step" where
  "write_one e iteration c = do {
     r \<leftarrow> execute_call e c;
     (if result_failed r then State_Monad.return ()
      else record_edit_and_nudge e (er_name r) (vc_coerced_args c));
     apply_tool_result e iteration spill_limit r;
     State_Monad.update (\<lambda>s. s\<lparr>ag_cache := cache_invalidate ''repo_map''
       (cache_invalidate ''file_read'' (ag_cache s))\<rparr>);
     State_Monad.return (er_name r, \<not> result_failed r) }"

function exec_calls :: "'w env \<Rightarrow> nat \<Rightarrow> validated_call list \<Rightarrow> ('w, (string \<times> bool) list) step" where
  "exec_calls e iteration calls =
    (if calls = [] then State_Monad.return []
     else do {
       reads \<leftarrow> read_batch e iteration (takeWhile vc_read_only calls);
       (case dropWhile vc_read_only calls of
          [] \<Rightarrow> State_Monad.return reads
        | c # rest \<Rightarrow> do {
            w \<leftarrow> write_one e iteration c;
            others \<leftarrow> exec_calls e iteration rest;
            State_Monad.return (reads @ w # others) }) })"
  by pat_completeness auto
termination
proof (relation "measure (\<lambda>(e, i, calls). length calls)")
  fix calls :: "validated_call list" and c rest
  assume "dropWhile vc_read_only calls = c # rest"
  then have "length (c # rest) \<le> length calls" by (metis length_dropWhile_le)
  then show "((e :: 'a env, i :: nat, rest), (e, i, calls)) \<in> measure (\<lambda>(e, i, calls). length calls)" for e i
    by simp
qed simp

declare exec_calls.simps [simp del]

definition execute_validated_calls ::
    "'w env \<Rightarrow> nat \<Rightarrow> validated_call list \<Rightarrow> ('w, string list \<times> bool) step" where
  "execute_validated_calls e iteration calls = do {
     rs \<leftarrow> exec_calls e iteration calls;
     State_Monad.return (map fst rs, list_all snd rs) }"

end
