(* ===== verification/Agent_Step.thy ===== *)
theory Agent_Step
  imports Middleware Tool_Exec Parse
begin

text \<open>
  \<open>src/agent/agent_loop/step.rs\<close>: one step of the agent. The model is asked with the tools selected for
  the last user message; its output is parsed; an answer goes before the panel of judges, tool calls
  are checked one by one and executed. The result is \<open>Inl\<close> when the step ends by an error of the
  model's backend, which the caller passes on, or by a panic of the parser. Showing the tokens as they
  arrive and writing to the log stream are left out.
\<close>

section \<open>What the model is asked\<close>

datatype step_outcome = Final_Answer string | Continue "string list" bool | Aborted string

datatype stop = Backend_Failed string | Panicked

definition last_user_message :: "message list \<Rightarrow> string" where
  "last_user_message ms = (case last_with_role User ms of None \<Rightarrow> [] | Some m \<Rightarrow> msg_content m)"

fun update_last :: "('a \<Rightarrow> bool) \<Rightarrow> ('a \<Rightarrow> 'a) \<Rightarrow> 'a list \<Rightarrow> 'a list" where
  "update_last P f [] = []"
| "update_last P f (x # xs) =
    (if list_ex P xs then x # update_last P f xs else if P x then f x # xs else x # xs)"

definition llm_messages :: "task_type \<Rightarrow> message list \<Rightarrow> message list" where
  "llm_messages t ms =
    (case memory_directive t of
       None \<Rightarrow> ms
     | Some d \<Rightarrow> update_last (\<lambda>m. msg_role m = User)
                   (\<lambda>m. m\<lparr>msg_content := msg_content m @ m_directive @ d\<rparr>) ms)"

section \<open>Output that cannot be parsed\<close>

definition on_parse_error :: "'w env \<Rightarrow> nat \<Rightarrow> string \<Rightarrow> ('w, step_outcome) step" where
  "on_parse_error e attempt err =
    (case decide_recovery (ParseError InvalidJson) attempt (ac_max_retries (en_config e)) of
       ExplainAndStop msg \<Rightarrow> State_Monad.return (Aborted msg)
     | RetryWithFix fix \<Rightarrow> do {
         say (msg_user (m_parse_fix_1 @ err @ m_parse_fix_2 @ fix));
         State_Monad.return (Continue [] False) }
     | _ \<Rightarrow> do {
         say (msg_user (m_parse_other_1 @ err @ m_parse_other_2));
         State_Monad.return (Continue [] False) })"

section \<open>A final answer\<close>

definition panel_of :: "'w env \<Rightarrow> judge list" where
  "panel_of e =
    default_panel (en_environ e ''BONSAI_GOODHART_CHECK'' = Some ''1'') (en_values e)"

text \<open>What the panel says to an answer, given the tool outputs of the session and the store.\<close>

definition judge_answer ::
    "'w env \<Rightarrow> string \<Rightarrow> string \<Rightarrow> ('w, decision_outcome \<times> judge_verdict list) step" where
  "judge_answer e answer request =
    asks (\<lambda>s. evaluate_final_answer_full (panel_of e) answer request
      (map msg_content (filter (\<lambda>m. msg_role m = Tool) (ag_messages s)))
      (if en_has_store e then Some (en_similar e (ag_log s) (ag_world s)) else None))"

definition reasons_event :: "string list \<Rightarrow> json" where
  "reasons_event reasons =
    JObj [(''reasons'', JArr (map JStr reasons)), (''target'', JStr ''final_answer'')]"

definition content_event :: "string \<Rightarrow> json" where
  "content_event c = JObj [(''content'', JStr c)]"

definition give_answer :: "'w env \<Rightarrow> nat \<Rightarrow> string \<Rightarrow> ('w, step_outcome) step" where
  "give_answer e attempt answer = do {
     say (msg_assistant answer);
     emit_event e AssistantMessage (content_event answer) (Some attempt);
     State_Monad.return (Final_Answer answer) }"

definition on_answer :: "'w env \<Rightarrow> nat \<Rightarrow> string \<Rightarrow> string \<Rightarrow> ('w, step_outcome) step" where
  "on_answer e attempt request answer = do {
     v \<leftarrow> judge_answer e answer request;
     (case fst v of
        Halt _ \<Rightarrow>
          (let reasons = block_reasons (snd v) in do {
             emit_event e MagiHalt (reasons_event reasons) (Some attempt);
             (if attempt < ac_max_retries (en_config e) then do {
                say (msg_assistant answer);
                say (msg_user (m_magi_retry_1 @ join ''; '' reasons @ m_magi_retry_2));
                State_Monad.return (Continue [] False) }
              else State_Monad.return (Aborted (m_magi_halted @ join ''; '' reasons))) })
      | decision_outcome.Warn _ \<Rightarrow> do {
          emit_event e MagiWarn (reasons_event (concern_reasons (snd v))) (Some attempt);
          give_answer e attempt answer }
      | Proceed \<Rightarrow> give_answer e attempt answer) }"

section \<open>Checking the calls\<close>

text \<open>The loop detector is given the name and the arguments, and reads the keys of the arguments back.\<close>

definition action_key :: "'w env \<Rightarrow> tool_call \<Rightarrow> string" where
  "action_key e c = tc_name c @ '':'' @ en_encode e (tc_arguments c)"

definition action_keys :: "'w env \<Rightarrow> string \<Rightarrow> string list option" where
  "action_keys e args =
    (case en_decode e args of Some (JObj kvs) \<Rightarrow> Some (map fst kvs) | _ \<Rightarrow> None)"

definition in_a_loop :: "'w env \<Rightarrow> tool_call \<Rightarrow> ('w, bool) step" where
  "in_a_loop e c = do {
     d \<leftarrow> asks ag_loop;
     (case ld_record_and_check (\<lambda>t. en_hash e (t @ [str_end])) (action_keys e) (action_key e c) d of
        (d', looping) \<Rightarrow> do {
          State_Monad.update (\<lambda>s. s\<lparr>ag_loop := d'\<rparr>);
          State_Monad.return looping }) }"

definition not_allowed_text :: "string list option \<Rightarrow> string \<Rightarrow> string" where
  "not_allowed_text allowed name =
    (let listed = join '', '' (case allowed of None \<Rightarrow> [] | Some ns \<Rightarrow> ns)
     in m_not_allowed_1 @ name @ m_not_allowed_2
        @ (if listed = [] then m_no_tools_hint else m_allowed_hint @ listed))"

definition invalid_text :: "string \<Rightarrow> validation_result \<Rightarrow> string" where
  "invalid_text name v =
    m_refused_1 @ join '', '' (map vi_message
      (filter (\<lambda>i. vi_severity i = severity.Block) (vr_issues v))) @ m_refused_2
    @ (if name = ''shell'' then m_alt_shell else if name = ''file_write'' then m_alt_file_write
       else m_alt_other)"

definition validate_call :: "'w env \<Rightarrow> tool_call \<Rightarrow> validation_result" where
  "validate_call e c =
    validate_tool_call (en_os e) (en_guard e) (en_dangerous e) (known_names (en_tools e)) c"

definition halted_event :: "tool_call \<Rightarrow> string list \<Rightarrow> json" where
  "halted_event c reasons =
    JObj [(''arguments'', tc_arguments c), (''reasons'', JArr (map JStr reasons)),
          (''tool'', JStr (tc_name c))]"

definition validated_of :: "'w env \<Rightarrow> tool_call \<Rightarrow> tool_info \<Rightarrow> validated_call" where
  "validated_of e c t =
    \<lparr>vc_name = tc_name c, vc_args_json = en_encode e (tc_arguments c),
     vc_coerced_args = coerce_tool_arguments (tc_arguments c), vc_tool = t,
     vc_read_only = ti_read_only t\<rparr>"

definition safety_outcome :: "'w env \<Rightarrow> tool_call \<Rightarrow> decision_outcome" where
  "safety_outcome e c = evaluate_tool_safety (panel_of e) (tc_name c) (en_encode e (tc_arguments c))"

text \<open>\<open>None\<close>: the call is answered with a refusal, or its tool is gone, and the next is looked at.\<close>

definition vet_call :: "'w env \<Rightarrow> nat \<Rightarrow> tool_call \<Rightarrow> ('w, validated_call option) step" where
  "vet_call e attempt c = do {
     now \<leftarrow> outside (en_now e);
     breaker \<leftarrow> asks ag_breaker;
     (if \<not> cb_is_available now breaker (tc_name c) then do {
        say (msg_tool (m_breaker_1 @ tc_name c @ m_breaker_2) (tc_name c));
        State_Monad.return None }
      else if \<not> is_tool_allowed (ac_allowed_tools (en_config e)) (tc_name c) then do {
        say (msg_tool (not_allowed_text (ac_allowed_tools (en_config e)) (tc_name c)) (tc_name c));
        State_Monad.return None }
      else if \<not> vr_is_valid (validate_call e c) then do {
        say (msg_tool (invalid_text (tc_name c) (validate_call e c)) (tc_name c));
        State_Monad.return None }
      else case registry_get (en_tools e) (tc_name c) of
             None \<Rightarrow> State_Monad.return None
           | Some t \<Rightarrow>
               (case (if ti_read_only t then Proceed else safety_outcome e c) of
                  Halt verdicts \<Rightarrow>
                    (let reasons = block_reasons verdicts in do {
                       emit_event e MagiHalt (halted_event c reasons) (Some attempt);
                       say (msg_tool (m_magi_tool_1 @ join ''; '' reasons @ m_magi_tool_2) (tc_name c));
                       State_Monad.return None })
                | _ \<Rightarrow> State_Monad.return (Some (validated_of e c t)))) }"

definition loop_abort_text :: "'w env \<Rightarrow> nat \<Rightarrow> string \<Rightarrow> string" where
  "loop_abort_text e attempt name =
    (case decide_recovery LoopDetected attempt (ac_max_retries (en_config e)) of
       Abort msg \<Rightarrow> msg | ExplainAndStop msg \<Rightarrow> msg
     | _ \<Rightarrow> m_loop_other_1 @ name @ m_loop_other_2)"

text \<open>\<open>Inl\<close>: a loop was detected; the step ends without executing any of its calls.\<close>

fun vet_calls :: "'w env \<Rightarrow> nat \<Rightarrow> tool_call list \<Rightarrow> ('w, string + validated_call list) step" where
  "vet_calls e attempt [] = State_Monad.return (Inr [])"
| "vet_calls e attempt (c # cs) = do {
     looping \<leftarrow> in_a_loop e c;
     (if looping then State_Monad.return (Inl (loop_abort_text e attempt (tc_name c)))
      else do {
        v \<leftarrow> vet_call e attempt c;
        vs \<leftarrow> vet_calls e attempt cs;
        State_Monad.return (case vs of Inl msg \<Rightarrow> Inl msg
          | Inr vs \<Rightarrow> Inr (case v of None \<Rightarrow> vs | Some x \<Rightarrow> x # vs)) }) }"

definition on_calls :: "'w env \<Rightarrow> nat \<Rightarrow> string \<Rightarrow> tool_call list \<Rightarrow> ('w, step_outcome) step" where
  "on_calls e attempt text calls = do {
     say (msg_assistant text);
     emit_event e AssistantMessage (content_event text) (Some attempt);
     vetted \<leftarrow> vet_calls e attempt calls;
     (case vetted of
        Inl msg \<Rightarrow> State_Monad.return (Aborted msg)
      | Inr vs \<Rightarrow> do {
          r \<leftarrow> execute_validated_calls e attempt vs;
          State_Monad.return (Continue (fst r) (snd r)) }) }"

section \<open>The step\<close>

definition parse_output :: "'w env \<Rightarrow> string \<Rightarrow> parse_failure + parsed_output" where
  "parse_output e text = parse_assistant_output (en_normalize e) (en_decode_call e) (en_environ e) text"

definition on_output :: "'w env \<Rightarrow> nat \<Rightarrow> string \<Rightarrow> string \<Rightarrow> ('w, stop + step_outcome) step" where
  "on_output e attempt request text =
    (case parse_output e text of
       Inl Panic \<Rightarrow> State_Monad.return (Inl Panicked)
     | Inl (ParseErr err) \<Rightarrow> do { r \<leftarrow> on_parse_error e attempt err; State_Monad.return (Inr r) }
     | Inr parsed \<Rightarrow>
         (if po_tool_calls parsed = []
          then do { r \<leftarrow> on_answer e attempt request (build_answer parsed); State_Monad.return (Inr r) }
          else do { r \<leftarrow> on_calls e attempt text (po_tool_calls parsed); State_Monad.return (Inr r) }))"

definition execute_step :: "'w env \<Rightarrow> nat \<Rightarrow> ('w, stop + step_outcome) step" where
  "execute_step e attempt = do {
     cancelled \<leftarrow> outside (en_cancelled e);
     (if cancelled then State_Monad.return (Inr (Aborted m_cancelled))
      else do {
        ms \<leftarrow> asks ag_messages;
        w \<leftarrow> asks ag_world;
        (let request = last_user_message ms;
             config = en_config e;
             selected = select_relevant_split_semantic (en_similarity e request w) (en_tools e) request
               (ac_max_tools_in_context config) (ac_max_mcp_tools_in_context config)
               (ac_allowed_tools config);
             kind = detect_task_type request
         in do {
           result \<leftarrow> ask_model e By_Step (llm_messages kind ms) (map tool_schema_of selected)
             (inference_for_task kind (ac_base_inference config));
           (case result of
              Inl err \<Rightarrow> State_Monad.return (Inl (Backend_Failed err))
            | Inr text \<Rightarrow> on_output e attempt request text) }) }) }"

end
