(* ===== verification/Agent_Outcome.thy ===== *)
theory Agent_Outcome
  imports Agent_Step
begin

text \<open>
  \<open>src/agent/agent_loop/outcome.rs\<close> and \<open>advisor_inject.rs\<close>: what follows a step. The advisor is the
  external command, then the HTTP interface, then the local prompt; it is asked when the agent stalls
  and before a complex task is answered. The critic is a second question to the same model. The regular
  expressions of the critic's answer are arguments, named by the word they look for.
\<close>

section \<open>Advice\<close>

record advisor_resolution =
  rs_prompt :: string
  rs_source :: string
  rs_duration_ms :: nat

definition millis :: "nat \<Rightarrow> nat \<Rightarrow> nat" where
  "millis t0 t1 = (t1 - t0) div 10 ^ 6"

text \<open>Ask one of the two advisors; it may remember its answer in the configuration.\<close>

definition ask_advisor ::
    "'w env \<Rightarrow> ('w \<Rightarrow> advisor_config \<Rightarrow> advisor_config \<times> (string + string option))
     \<Rightarrow> ('w, string + string option) step" where
  "ask_advisor e ask = do {
     a \<leftarrow> asks ag_advisor;
     w \<leftarrow> asks ag_world;
     (case ask w a of (a', r) \<Rightarrow> do {
        State_Monad.update (\<lambda>s. s\<lparr>ag_advisor := a', ag_world := en_touched e w\<rparr>);
        State_Monad.return r }) }"

text \<open>A consultation is noted in the history.\<close>

definition note_consultation :: "('w, unit) step" where
  "note_consultation = State_Monad.update (\<lambda>s. s\<lparr>ag_trace := ag_trace s @ [Consulted]\<rparr>)"

definition advice_for ::
    "'w env \<Rightarrow> advisor_role \<Rightarrow> string \<Rightarrow> ('w, advisor_resolution) step" where
  "advice_for e role ctx = do {
     start \<leftarrow> outside (en_now e);
     claude \<leftarrow> ask_advisor e (\<lambda>w. try_claude_code_advice (en_hash e) (en_cli e w) role ctx);
     (case claude of
        Inr (Some advice) \<Rightarrow> do {
          now \<leftarrow> outside (en_now e);
          State_Monad.return
            \<lparr>rs_prompt = advice, rs_source = ''claude-code'', rs_duration_ms = millis start now\<rparr> }
      | _ \<Rightarrow> do {
          remote \<leftarrow> ask_advisor e (\<lambda>w. try_remote_advice (en_hash e) (en_http e w) role ctx);
          a \<leftarrow> asks ag_advisor;
          (case remote of
             Inr (Some advice) \<Rightarrow> do {
               now \<leftarrow> outside (en_now e);
               State_Monad.return
                 \<lparr>rs_prompt = advice, rs_source = ''remote'', rs_duration_ms = millis start now\<rparr> }
           | Inr None \<Rightarrow>
               State_Monad.return
                 \<lparr>rs_prompt = local_prompt_for a role ctx, rs_source = ''local'', rs_duration_ms = 0\<rparr>
           | Inl err \<Rightarrow> do {
               now \<leftarrow> outside (en_now e);
               State_Monad.return
                 \<lparr>rs_prompt = local_prompt_for a role ctx, rs_source = ''local'',
                  rs_duration_ms = millis start now\<rparr> }) }) }"

definition resolve_advisor_prompt ::
    "'w env \<Rightarrow> advisor_role \<Rightarrow> string \<Rightarrow> ('w, advisor_resolution) step" where
  "resolve_advisor_prompt e role ctx = do { note_consultation; advice_for e role ctx }"

definition log_advisor_call :: "'w env \<Rightarrow> advisor_role \<Rightarrow> advisor_resolution \<Rightarrow> ('w, unit) step" where
  "log_advisor_call e role r =
    store e (Audit_Advisor_Call (en_session_id e)
      (case role of Verification \<Rightarrow> ''verification'' | ReplanRole \<Rightarrow> ''replan'') (rs_source r)
      (char_count (rs_prompt r)) (rs_duration_ms r))"

definition spend_advice :: "('w, unit) step" where
  "spend_advice = State_Monad.update (\<lambda>s. s\<lparr>ag_advisor := ad_record_call (ag_advisor s)\<rparr>)"

section \<open>Stalls\<close>

datatype stall_action = No_Stall | Replan_Injected | Exhausted_And_Aborted string

definition replan_text :: "'w env \<Rightarrow> string \<Rightarrow> trial_summary \<Rightarrow> string \<Rightarrow> string" where
  "replan_text e ctx trials advice =
    (let injection = format_for_injection (from_trial_summary (en_order e) trials ctx)
     in advice @ (if injection \<noteq> [] then nl @ nl @ injection
                  else if ts_entries trials \<noteq> [] then nl @ nl @ format_for_replan trials
                  else []))"

definition reset_stall :: "('w, unit) step" where
  "reset_stall = State_Monad.update (\<lambda>s. s\<lparr>ag_stall := sd_reset (ag_stall s)\<rparr>)"

definition inject_replan_on_stall :: "'w env \<Rightarrow> string \<Rightarrow> bool \<Rightarrow> 64 word \<Rightarrow> ('w, stall_action) step" where
  "inject_replan_on_stall e ctx tools_succeeded output_hash = do {
     d \<leftarrow> asks ag_stall;
     (case sd_record_step tools_succeeded output_hash d of (stalled, d') \<Rightarrow> do {
        State_Monad.update (\<lambda>s. s\<lparr>ag_stall := d'\<rparr>);
        a \<leftarrow> asks ag_advisor;
        (if \<not> stalled then State_Monad.return No_Stall
         else if \<not> can_advise a then do {
           reset_stall;
           State_Monad.return (Exhausted_And_Aborted m_stall_exhausted) }
         else do {
           r \<leftarrow> resolve_advisor_prompt e ReplanRole ctx;
           log_advisor_call e ReplanRole r;
           trials \<leftarrow> asks ag_trials;
           say (msg_system (replan_text e ctx trials (rs_prompt r)));
           spend_advice;
           reset_stall;
           State_Monad.return Replan_Injected }) }) }"

section \<open>Verification before the answer\<close>

definition should_skip_verification :: "'w env \<Rightarrow> string \<Rightarrow> ('w, (rat \<times> rat) option) step" where
  "should_skip_verification e ctx =
    asks (\<lambda>s. let a = ag_advisor s; threshold = ad_dynamic_skip_threshold a
      in if threshold \<le> 0 \<or> \<not> en_has_store e then None
         else case en_success_rate e (ag_log s) (ag_world s) (classify_task_type ctx)
                     (ad_min_samples_for_skip a) of
                None \<Rightarrow> None
              | Some rate \<Rightarrow> if rate < threshold then Some (rate, threshold) else None)"

text \<open>\<open>{:.2}\<close>: the value rounded to hundredths, ties to even.\<close>

definition show_hundredths :: "rat \<Rightarrow> string" where
  "show_hundredths x =
    (let n = nat \<bar>round_half_even (x * 100)\<bar>
     in (if x < 0 then ''-'' else []) @ show_nat (n div 100) @ ''.''
        @ [digit_char (n div 10 mod 10), digit_char (n mod 10)])"

definition checklist :: "'w env \<Rightarrow> string \<Rightarrow> trial_summary \<Rightarrow> string" where
  "checklist e ctx trials =
    m_checklist
    @ (if ts_entries trials = [] then []
       else (let injection = format_for_injection (from_trial_summary (en_order e) trials ctx)
             in if injection = [] then [] else nl @ nl @ injection))"

definition inject_verification_step :: "'w env \<Rightarrow> string \<Rightarrow> string \<Rightarrow> nat \<Rightarrow> ('w, bool) step" where
  "inject_verification_step e ctx answer iteration = do {
     a \<leftarrow> asks ag_advisor;
     (if iteration = 0 \<or> \<not> can_advise a \<or> \<not> detect_task_complexity ctx
         \<or> str_contains answer m_verified_mark \<or> iteration \<ge> ac_max_iterations (en_config e) - 1
      then State_Monad.return False
      else do {
        skip \<leftarrow> should_skip_verification e ctx;
        (case skip of
           Some (rate, threshold) \<Rightarrow> do {
             store e (Audit_Advisor_Skip (en_session_id e)
               (''rate='' @ show_hundredths rate @ ''<threshold='' @ show_hundredths threshold
                @ '' (task='' @ classify_task_type ctx @ '')'') rate threshold);
             State_Monad.return False }
         | None \<Rightarrow> do {
             r \<leftarrow> resolve_advisor_prompt e Verification ctx;
             log_advisor_call e Verification r;
             say (msg_system (rs_prompt r));
             trials \<leftarrow> asks ag_trials;
             say (msg_system (checklist e ctx trials));
             spend_advice;
             State_Monad.return True }) }) }"

definition inject_planning_step :: "string \<Rightarrow> ('w, unit) step" where
  "inject_planning_step ctx =
    (if detect_task_complexity ctx then say (msg_system m_planning) else State_Monad.return ())"

section \<open>The critic\<close>

definition parse_critic_response :: "'w env \<Rightarrow> string \<Rightarrow> critic_outcome" where
  "parse_critic_response e raw =
    (if en_critic_regex e ''DISAGREE'' raw then
       Disagree raw (case map_option trim (en_critic_revision e raw) of
         None \<Rightarrow> None | Some r \<Rightarrow> if r = [] then None else Some r)
     else if en_critic_regex e ''AGREE'' raw then Agree raw
     else if en_critic_regex e ''UNCERTAIN'' raw then Uncertain raw
     else Uncertain raw)"

definition critic_prompt :: "string \<Rightarrow> string \<Rightarrow> string" where
  "critic_prompt ctx answer = m_critic_1 @ ctx @ m_critic_2 @ answer @ m_critic_3"

definition critic_messages :: "critic_config \<Rightarrow> string \<Rightarrow> string \<Rightarrow> message list" where
  "critic_messages c ctx answer =
    [msg_system (cr_system_prompt c), msg_user (critic_prompt ctx answer)]"

text \<open>What is made of the model's reaction \<open>result\<close>, asked at time \<open>start\<close>.\<close>

definition finish_critique ::
    "'w env \<Rightarrow> critic_config \<Rightarrow> string \<Rightarrow> string \<Rightarrow> nat \<Rightarrow> string + string \<Rightarrow> ('w, critic_outcome) step" where
  "finish_critique e c ctx answer start result = do {
     now \<leftarrow> outside (en_now e);
     (let out = (case result of Inr text \<Rightarrow> parse_critic_response e text
                 | Inl err \<Rightarrow> critic_outcome.BackendError err)
      in do {
        (case out of
           Agree _ \<Rightarrow> State_Monad.update (\<lambda>s. s\<lparr>ag_critic := cr_record_call (ag_critic s)\<rparr>)
         | Disagree _ _ \<Rightarrow> State_Monad.update (\<lambda>s. s\<lparr>ag_critic := cr_record_call (ag_critic s)\<rparr>)
         | Uncertain _ \<Rightarrow> State_Monad.update (\<lambda>s. s\<lparr>ag_critic := cr_record_call (ag_critic s)\<rparr>)
         | _ \<Rightarrow> State_Monad.return ());
        store e (Audit_Critic_Call (en_session_id e) (critic_mode_str (cr_mode c))
          (critic_outcome_str out)
          (char_count (cr_system_prompt c) + char_count (critic_prompt ctx answer))
          (case raw_response out of None \<Rightarrow> 0 | Some t \<Rightarrow> char_count t) (millis start now));
        State_Monad.return out }) }"

definition inject_critic_review :: "'w env \<Rightarrow> string \<Rightarrow> string \<Rightarrow> ('w, critic_outcome) step" where
  "inject_critic_review e ctx answer = do {
     c \<leftarrow> asks ag_critic;
     (if \<not> cr_enabled c then State_Monad.return (Skipped ''disabled'')
      else if \<not> can_critique c then State_Monad.return (Skipped ''max_uses'')
      else if cr_mode c = SeparateBackend then State_Monad.return (Skipped ''phase2_unimplemented'')
      else do {
        start \<leftarrow> outside (en_now e);
        result \<leftarrow> ask_model e By_Critic (critic_messages c ctx answer) []
          ((ac_base_inference (en_config e))\<lparr>ip_temperature := cr_temperature c\<rparr>);
        finish_critique e c ctx answer start result }) }"

section \<open>The outcome of a step\<close>

record agent_loop_result =
  lr_answer :: string
  lr_iterations_used :: nat
  lr_tools_called :: "string list"

text \<open>\<open>Some\<close> ends the loop, \<open>None\<close> goes on with the next iteration.\<close>

definition take_tools :: "string \<Rightarrow> nat \<Rightarrow> ('w, agent_loop_result option) step" where
  "take_tools answer used = do {
     tools \<leftarrow> asks ag_all_tools;
     State_Monad.update (\<lambda>s. s\<lparr>ag_all_tools := []\<rparr>);
     State_Monad.return (Some \<lparr>lr_answer = answer, lr_iterations_used = used, lr_tools_called = tools\<rparr>) }"

definition record_outcome_of_heuristics :: "'w env \<Rightarrow> bool \<Rightarrow> ('w, unit) step" where
  "record_outcome_of_heuristics e ok = do {
     ids \<leftarrow> asks ag_heuristic_ids; record_heuristic_outcomes e ids ok }"

definition abort_with :: "'w env \<Rightarrow> string \<Rightarrow> nat \<Rightarrow> string \<Rightarrow> ('w, agent_loop_result option) step" where
  "abort_with e ctx used reason = do {
     record_abort e ctx reason;
     record_outcome_of_heuristics e False;
     take_tools (m_aborted @ reason) used }"

definition on_final_answer ::
    "'w env \<Rightarrow> string \<Rightarrow> nat \<Rightarrow> nat \<Rightarrow> nat \<Rightarrow> string \<Rightarrow> ('w, agent_loop_result option) step" where
  "on_final_answer e ctx used iteration duration answer = do {
     State_Monad.update (\<lambda>s. s\<lparr>ag_continue_site := cs_record_success (ag_continue_site s)\<rparr>);
     c \<leftarrow> asks ag_critic;
     objection \<leftarrow> (if cr_enabled c then do {
         out \<leftarrow> inject_critic_review e ctx answer;
         action \<leftarrow> asks (\<lambda>s. cr_on_disagreement (ag_critic s));
         State_Monad.return (case out of
           Disagree raw _ \<Rightarrow> if action = InjectAsSystemMessage then Some raw else None
         | _ \<Rightarrow> None) }
       else State_Monad.return None);
     (case objection of
        Some raw \<Rightarrow> do {
          say (msg_system (''[critic] '' @ raw));
          State_Monad.return None }
      | None \<Rightarrow> do {
          again \<leftarrow> inject_verification_step e ctx answer iteration;
          (if again then State_Monad.return None
           else do {
             run_after_step e \<lparr>sr_outcome_type = ''final_answer'', sr_iteration = iteration,
               sr_duration_ms = duration, sr_tools_used = [], sr_tools_succeeded = True,
               sr_output_hash = 0, sr_consecutive_failures = 0\<rparr>;
             State_Monad.update (\<lambda>s. s\<lparr>ag_consecutive_failures := 0\<rparr>);
             record_success e ctx answer;
             record_outcome_of_heuristics e True;
             take_tools answer used }) }) }"

definition on_aborted ::
    "'w env \<Rightarrow> string \<Rightarrow> nat \<Rightarrow> nat \<Rightarrow> nat \<Rightarrow> string \<Rightarrow> ('w, agent_loop_result option) step" where
  "on_aborted e ctx used iteration duration reason = do {
     State_Monad.update (\<lambda>s. s\<lparr>ag_consecutive_failures := ag_consecutive_failures s + 1,
       ag_continue_site := cs_record_failure ReasoningError (ag_continue_site s)\<rparr>);
     n \<leftarrow> asks ag_consecutive_failures;
     run_after_step e \<lparr>sr_outcome_type = ''aborted'', sr_iteration = iteration,
       sr_duration_ms = duration, sr_tools_used = [], sr_tools_succeeded = False,
       sr_output_hash = 0, sr_consecutive_failures = n\<rparr>;
     abort_with e ctx used reason }"

text \<open>The escalation after a failed step: \<open>Some\<close> reason stops.\<close>

definition escalate :: "('w, string option) step" where
  "escalate = do {
     State_Monad.update (\<lambda>s. s\<lparr>ag_consecutive_failures := ag_consecutive_failures s + 1,
       ag_continue_site := cs_record_failure (ToolExecError (UnknownError ''tool_failure''))
         (ag_continue_site s)\<rparr>);
     action \<leftarrow> asks (\<lambda>s. decide_escalated_recovery (ag_continue_site s) 3);
     (case action of
        ExplainAndStop reason \<Rightarrow> State_Monad.return (Some reason)
      | Replan prompt \<Rightarrow> do { say (msg_system prompt); State_Monad.return None }
      | _ \<Rightarrow> State_Monad.return None) }"

definition note_progress :: "bool \<Rightarrow> ('w, string option) step" where
  "note_progress tools_succeeded =
    (if \<not> tools_succeeded then escalate
     else do {
       State_Monad.update (\<lambda>s. s\<lparr>ag_consecutive_failures := 0,
         ag_continue_site := cs_record_success (ag_continue_site s)\<rparr>);
       State_Monad.return None })"

definition on_continue ::
    "'w env \<Rightarrow> string \<Rightarrow> nat \<Rightarrow> nat \<Rightarrow> nat \<Rightarrow> string list \<Rightarrow> bool
     \<Rightarrow> ('w, agent_loop_result option) step" where
  "on_continue e ctx used iteration duration tools tools_succeeded = do {
     stopped \<leftarrow> note_progress tools_succeeded;
     (case stopped of
        Some reason \<Rightarrow> abort_with e ctx used reason
      | None \<Rightarrow> do {
          h \<leftarrow> asks (\<lambda>s. compute_output_hash (en_hash e) (ag_messages s));
          n \<leftarrow> asks ag_consecutive_failures;
          run_after_step e \<lparr>sr_outcome_type = ''continue'', sr_iteration = iteration,
            sr_duration_ms = duration, sr_tools_used = tools, sr_tools_succeeded = tools_succeeded,
            sr_output_hash = h, sr_consecutive_failures = n\<rparr>;
          State_Monad.update (\<lambda>s. s\<lparr>ag_all_tools := ag_all_tools s @ tools\<rparr>);
          stall \<leftarrow> inject_replan_on_stall e ctx tools_succeeded h;
          (case stall of
             Exhausted_And_Aborted reason \<Rightarrow> abort_with e ctx used reason
           | _ \<Rightarrow> State_Monad.return None) }) }"

definition handle_outcome ::
    "'w env \<Rightarrow> string \<Rightarrow> nat \<Rightarrow> nat \<Rightarrow> nat \<Rightarrow> step_outcome \<Rightarrow> ('w, agent_loop_result option) step" where
  "handle_outcome e ctx used iteration duration out =
    (case out of
       Final_Answer answer \<Rightarrow> on_final_answer e ctx used iteration duration answer
     | Aborted reason \<Rightarrow> on_aborted e ctx used iteration duration reason
     | Continue tools ok \<Rightarrow> on_continue e ctx used iteration duration tools ok)"

end
