(* ===== verification/Context_Inject.thy ===== *)
theory Context_Inject
  imports Agent_State
begin

text \<open>
  \<open>src/agent/context_inject.rs\<close>: the system messages a session starts with, made of what files and
  stores answer (\<open>knowledge\<close>), and their removal. That the vault also takes in what the request says
  is part of the world after the recall.
\<close>

section \<open>Memory blocks\<close>

definition tagged :: "string \<Rightarrow> string \<Rightarrow> message" where
  "tagged kind body =
    msg_system (''<context type='' @ [dquote] @ kind @ [dquote] @ ''>'' @ nl @ body @ nl @ ''</context>'')"

text \<open>The first candidate that can be read and is not blank.\<close>

definition readable :: "string option \<Rightarrow> string option" where
  "readable c = (case c of None \<Rightarrow> None | Some t \<Rightarrow> if trim t \<noteq> [] then Some t else None)"

definition load_soul :: "string option list \<Rightarrow> string option" where
  "load_soul candidates =
    (case List.map_filter readable candidates of [] \<Rightarrow> None | t # _ \<Rightarrow> Some t)"

type_synonym memory_block = "string \<times> string"

definition load_blocks :: "knowledge \<Rightarrow> memory_block list" where
  "load_blocks k =
    (case load_soul (kn_soul k) of None \<Rightarrow> [] | Some p \<Rightarrow> [(''persona'', p)])
    @ List.map_filter (\<lambda>(label, c). map_option (\<lambda>t. (label, t)) (readable c)) (kn_blocks k)"

definition find_block :: "memory_block list \<Rightarrow> string \<Rightarrow> memory_block option" where
  "find_block bs label = List.find (\<lambda>b. fst b = label) bs"

definition block_messages :: "knowledge \<Rightarrow> message list" where
  "block_messages k = map (\<lambda>(label, v). tagged (''block:'' @ label) (trim v)) (load_blocks k)"

section \<open>Heuristics\<close>

definition flag_on :: "environment \<Rightarrow> string \<Rightarrow> bool" where
  "flag_on env k =
    (case env k of None \<Rightarrow> False | Some v \<Rightarrow> v = ''1'' \<or> eq_ignore_ascii_case v ''true'')"

definition is_erl_enabled :: "environment \<Rightarrow> bool" where
  "is_erl_enabled env = flag_on env ''BONSAI_ERL_ENABLED''"

definition should_skip_for_freshness :: "environment \<Rightarrow> rat \<Rightarrow> rat \<Rightarrow> bool" where
  "should_skip_for_freshness env freshness threshold =
    (flag_on env ''BONSAI_REVIEW_ENABLED'' \<and> freshness < threshold)"

definition heuristics_to_inject ::
    "environment \<Rightarrow> bool \<Rightarrow> knowledge \<Rightarrow> (int \<times> string \<times> rat) list" where
  "heuristics_to_inject env has_store k =
    (if \<not> is_erl_enabled env \<or> \<not> has_store then []
     else filter (\<lambda>(i, advice, fresh). \<not> should_skip_for_freshness env fresh (fl64 (35 / 100)))
            (kn_heuristics k))"

definition heuristic_messages :: "(int \<times> string \<times> rat) list \<Rightarrow> message list" where
  "heuristic_messages hs =
    (if hs = [] then [] else [tagged ''heuristics'' (join nl (map (\<lambda>(i, advice, f). ''- '' @ advice) hs))])"

section \<open>Memories, experiences, skills, graph\<close>

definition vault_messages :: "knowledge \<Rightarrow> message list" where
  "vault_messages k =
    (if kn_rules k = [] then [] else [tagged ''vault-rules'' (join nl (kn_rules k))])
    @ (if kn_docs k = [] then [] else [tagged ''vault-docs'' (join nl (kn_docs k))])"

text \<open>An experience is its type, its task and its lesson (its outcome where it has no lesson).\<close>

definition experience_lines :: "experience_type \<Rightarrow> (experience_type \<times> string \<times> string) list \<Rightarrow> string list" where
  "experience_lines t es =
    map (\<lambda>(u, task, lesson). case u of Insight \<Rightarrow> ''- '' @ lesson
           | _ \<Rightarrow> m_exp_task @ task @ m_exp_arrow @ lesson)
      (filter (\<lambda>(u, _). u = t) es)"

definition experience_parts :: "(experience_type \<times> string \<times> string) list \<Rightarrow> string list" where
  "experience_parts es =
    List.map_filter (\<lambda>(label, t). let ls = experience_lines t es
        in if ls = [] then None else Some (label @ nl @ join nl ls))
      [(m_exp_success, Success), (m_exp_failure, Failure), (m_exp_insight, Insight)]"

definition experience_messages :: "(experience_type \<times> string \<times> string) list \<Rightarrow> message list" where
  "experience_messages es =
    (if es = [] then [] else [tagged ''experience'' (join nl (experience_parts es))])"

definition contextual_messages :: "bool \<Rightarrow> knowledge \<Rightarrow> message list" where
  "contextual_messages has_store k =
    vault_messages k
    @ (if \<not> has_store then []
       else (if kn_memories k = [] then []
             else [tagged ''memory'' (m_memory_head @ join nl (map (\<lambda>c. ''- '' @ c) (kn_memories k)))])
          @ experience_messages (kn_experiences k)
          @ (if kn_skills k = [] then []
             else [tagged ''skills'' (m_skills_head @ join nl (map (\<lambda>(n, d, tools).
                    m_skill_1 @ n @ m_skill_2 @ d @ m_skill_3 @ tools @ '')'') (kn_skills k))
                    @ m_skills_tail)])
          @ (if kn_graph k = [] then [] else [tagged ''graph'' (m_graph_head @ kn_graph k)]))"

definition strip_injected_context :: "message list \<Rightarrow> message list" where
  "strip_injected_context ms =
    filter (\<lambda>m. msg_role m \<noteq> System \<or> \<not> starts_with (trim_start (msg_content m)) ''<context'') ms"

section \<open>Injected and stripped\<close>

lemma tagged_role [simp]: "msg_role (tagged kind body) = System"
  by (simp add: tagged_def)

lemma injected_roles:
  "list_all (\<lambda>m. msg_role m = System)
     (block_messages k @ heuristic_messages hs @ contextual_messages has_store k)"
  by (auto simp: list_all_iff block_messages_def heuristic_messages_def contextual_messages_def
      vault_messages_def experience_messages_def)

lemma trim_start_bracket: "trim_start (CHR ''<'' # CHR ''c'' # r) = CHR ''<'' # CHR ''c'' # r"
proof -
  have "chars (CHR ''<'' # CHR ''c'' # r) = ''<'' # chars (CHR ''c'' # r)" by simp
  moreover have "\<not> is_ws ''<''" by (simp add: is_ws_def white_space_def)
  ultimately have "dropWhile is_ws (chars (CHR ''<'' # CHR ''c'' # r)) = chars (CHR ''<'' # CHR ''c'' # r)"
    by simp
  then show ?thesis unfolding trim_start_def by (simp only: concat_chars)
qed

lemma tagged_is_context: "starts_with (trim_start (msg_content (tagged kind body))) ''<context''"
  by (simp add: tagged_def trim_start_bracket starts_with_def)

definition is_context :: "message \<Rightarrow> bool" where
  "is_context m = (msg_role m = System \<and> starts_with (trim_start (msg_content m)) ''<context'')"

lemma tagged_context [simp]: "is_context (tagged kind body)"
  by (simp add: is_context_def tagged_is_context)

lemma strip_is_filter: "strip_injected_context ms = filter (\<lambda>m. \<not> is_context m) ms"
  by (simp add: strip_injected_context_def is_context_def)

lemma injected_are_context:
  "list_all is_context (block_messages k)" "list_all is_context (heuristic_messages hs)"
  "list_all is_context (contextual_messages has_store k)"
  by (auto simp: list_all_iff block_messages_def heuristic_messages_def contextual_messages_def
      vault_messages_def experience_messages_def)

text \<open>
  Stripping takes back what a start of a session injects, and nothing else: messages around it
  stay as they were if they were not injected themselves.
\<close>

theorem strip_undoes_injection:
  assumes "list_all (\<lambda>m. msg_role m \<noteq> System \<or> starts_with (trim_start (msg_content m)) ''<context'' = False)
      (before @ after)"
  shows "strip_injected_context
     (before @ block_messages k @ heuristic_messages hs @ contextual_messages has_store k @ after)
    = before @ after"
proof -
  have "filter (\<lambda>m. \<not> is_context m) ms = []" if "list_all is_context ms" for ms
    using that by (simp add: list_all_iff filter_empty_conv)
  note gone = this [OF injected_are_context(1)] this [OF injected_are_context(2)] this [OF injected_are_context(3)]
  have "filter (\<lambda>m. \<not> is_context m) before = before" "filter (\<lambda>m. \<not> is_context m) after = after"
    using assms by (auto simp: is_context_def list_all_iff filter_id_conv)
  then show ?thesis by (simp add: strip_is_filter gone)
qed

definition some_knowledge :: knowledge where
  "some_knowledge =
    \<lparr>kn_soul = [Some ''calm''], kn_blocks = [], kn_heuristics = [(1, ''look first'', 1)], kn_rules = [''r''],
     kn_docs = [], kn_memories = [''m''], kn_experiences = [(Insight, ''t'', ''l'')], kn_skills = [],
     kn_graph = ''g''\<rparr>"

theorem strip_undoes_injection_witness:
  "strip_injected_context
     ([msg_user ''q''] @ block_messages some_knowledge @ heuristic_messages (kn_heuristics some_knowledge)
      @ contextual_messages True some_knowledge @ [msg_assistant ''a''])
    = [msg_user ''q''] @ [msg_assistant ''a'']"
  by (rule strip_undoes_injection) simp

end
