(* ===== verification/Agent_Loop.thy ===== *)
theory Agent_Loop
  imports Agent_Outcome Context_Inject
begin

text \<open>
  \<open>src/agent/agent_loop/core.rs\<close>: the loop. It is a recursion over the iterations that are left, so
  it always ends; within an iteration every call to the outside is answered. The time stamp of the
  system prompt and the clock are answers of the environment. Guessing the kind of the user's feedback
  is left out, its result is only logged.
\<close>

section \<open>Starting a session\<close>

definition new_session_with_system :: "agent_config \<Rightarrow> string \<Rightarrow> message list" where
  "new_session_with_system config date =
    [msg_system (ac_system_prompt config @ m_date_1 @ date @ m_date_2)]"

text \<open>\<open>LoopState::new\<close> with the critic from the environment and the default chain: what the session
  and the outside hold is kept.\<close>

definition loop_state_new :: "'w env \<Rightarrow> 'w agent \<Rightarrow> 'w agent" where
  "loop_state_new e s =
    s\<lparr>ag_breaker := cb_default, ag_loop := ld_default, ag_stall := sd_default,
      ag_advisor := ac_advisor (en_config e),
      ag_critic := critic_from_env (en_critic_prompt e) (en_environ e),
      ag_all_tools := [], ag_consecutive_failures := 0, ag_iteration := 0,
      ag_chain := build_default_chain (en_environ e) (ac_n_ctx_budget (en_config e)),
      ag_cache := cache_new, ag_trials := ts_default, ag_cycle := ec_default,
      ag_continue_site := cs_new, ag_stuck := fg_default\<rparr>"

fun say_all :: "message list \<Rightarrow> ('w, unit) step" where
  "say_all [] = State_Monad.return ()"
| "say_all (m # ms) = do { say m; say_all ms }"

definition recall :: "'w env \<Rightarrow> string \<Rightarrow> ('w, knowledge) step" where
  "recall e ctx = do { log \<leftarrow> asks ag_log; outside (en_recall e ctx log) }"

definition inject_memory_blocks :: "knowledge \<Rightarrow> ('w, unit) step" where
  "inject_memory_blocks k = say_all (block_messages k)"

definition inject_heuristics :: "'w env \<Rightarrow> knowledge \<Rightarrow> ('w, int list) step" where
  "inject_heuristics e k =
    (let hs = heuristics_to_inject (en_environ e) (en_has_store e) k
     in do { say_all (heuristic_messages hs); State_Monad.return (map fst hs) })"

definition inject_contextual_memories :: "'w env \<Rightarrow> knowledge \<Rightarrow> ('w, unit) step" where
  "inject_contextual_memories e k = say_all (contextual_messages (en_has_store e) k)"

definition create_task_start_checkpoint :: "'w env \<Rightarrow> string \<Rightarrow> ('w, unit) step" where
  "create_task_start_checkpoint e ctx =
    outside (\<lambda>w. ((), en_checkpoint e (''auto-start: '' @ take_chars 60 ctx) w))"

definition prepare_session :: "'w env \<Rightarrow> string \<Rightarrow> ('w, unit) step" where
  "prepare_session e ctx = do {
     store e Purge_Expired;
     emit_event e SessionStart (JObj [(''task_context'', JStr (take_chars 500 ctx))]) None;
     emit_event e UserMessage (content_event (take_chars 500 ctx)) None;
     k \<leftarrow> recall e ctx;
     inject_memory_blocks k;
     ids \<leftarrow> inject_heuristics e k;
     inject_contextual_memories e k;
     inject_planning_step ctx;
     (if ac_auto_checkpoint (en_config e) then create_task_start_checkpoint e ctx
      else State_Monad.return ());
     State_Monad.update (\<lambda>s. (loop_state_new e s)\<lparr>ag_heuristic_ids := ids\<rparr>) }"

section \<open>The loop\<close>

definition end_event :: "string \<Rightarrow> string option \<Rightarrow> nat \<Rightarrow> nat \<Rightarrow> json" where
  "end_event reason abort iterations tool_count =
    JObj ((case abort of None \<Rightarrow> [] | Some r \<Rightarrow> [(''abort_reason'', JStr r)])
          @ [(''iterations'', JNum (PosInt iterations)), (''reason'', JStr reason),
             (''tool_count'', JNum (PosInt tool_count))])"

text \<open>End the loop outside a step.\<close>

definition end_early :: "'w env \<Rightarrow> string \<Rightarrow> string option \<Rightarrow> nat \<Rightarrow> string \<Rightarrow> ('w, agent_loop_result) step" where
  "end_early e reason abort used answer = do {
     tools \<leftarrow> asks ag_all_tools;
     emit_event e SessionEnd (end_event reason abort used (length tools)) (Some used);
     State_Monad.return \<lparr>lr_answer = answer, lr_iterations_used = used, lr_tools_called = tools\<rparr> }"

definition timed_out :: "'w env \<Rightarrow> nat \<Rightarrow> ('w, nat option) step" where
  "timed_out e start =
    (case ac_task_timeout (en_config e) of
       None \<Rightarrow> State_Monad.return None
     | Some limit \<Rightarrow> do {
         now \<leftarrow> outside (en_now e);
         State_Monad.return (if now - start > limit then Some limit else None) })"

text \<open>One iteration: \<open>Inl\<close> the step ended by an error, \<open>Inr (Some r)\<close> the loop returns \<open>r\<close>.\<close>

definition iterate :: "'w env \<Rightarrow> string \<Rightarrow> nat \<Rightarrow> ('w, stop + agent_loop_result option) step" where
  "iterate e ctx iteration = do {
     start \<leftarrow> outside (en_now e);
     out \<leftarrow> execute_step e iteration;
     now \<leftarrow> outside (en_now e);
     (case out of
        Inl err \<Rightarrow> State_Monad.return (Inl err)
      | Inr out \<Rightarrow> do {
          r \<leftarrow> handle_outcome e ctx (iteration + 1) iteration (millis start now) out;
          (case r of
             None \<Rightarrow> State_Monad.return (Inr None)
           | Some res \<Rightarrow> do {
               emit_event e SessionEnd (end_event ''completed'' None (lr_iterations_used res)
                 (length (lr_tools_called res))) (Some iteration);
               State_Monad.return (Inr (Some res)) }) }) }"

fun loop_from :: "'w env \<Rightarrow> string \<Rightarrow> nat \<Rightarrow> nat \<Rightarrow> nat \<Rightarrow> ('w, stop + agent_loop_result) step" where
  "loop_from e ctx start 0 iteration = do {
     r \<leftarrow> end_early e ''max_iterations'' None iteration
       (m_aborted @ m_max_steps_1 @ show_nat (ac_max_iterations (en_config e)) @ m_max_steps_2);
     State_Monad.return (Inr r) }"
| "loop_from e ctx start (Suc left) iteration = do {
     late \<leftarrow> timed_out e start;
     (case late of
        Some limit \<Rightarrow> do {
          r \<leftarrow> end_early e ''timeout'' None iteration
            (m_timeout_1 @ show_nat (limit div 10 ^ 9) @ m_timeout_2);
          State_Monad.return (Inr r) }
      | None \<Rightarrow> do {
          State_Monad.update (\<lambda>s. s\<lparr>ag_iteration := iteration,
            ag_messages := fst (cap_session_messages (en_environ e)
              (working_cap_from_env (en_environ e)) (ag_messages s))\<rparr>);
          stopped \<leftarrow> run_before_step e;
          (case stopped of
             Some reason \<Rightarrow> do {
               r \<leftarrow> end_early e ''abort'' (Some reason) iteration (m_aborted @ reason);
               State_Monad.return (Inr r) }
           | None \<Rightarrow> do {
               r \<leftarrow> iterate e ctx iteration;
               (case r of
                  Inl err \<Rightarrow> State_Monad.return (Inl err)
                | Inr (Some res) \<Rightarrow> State_Monad.return (Inr res)
                | Inr None \<Rightarrow> loop_from e ctx start left (iteration + 1)) }) }) }"

definition run_agent_loop_with_session :: "'w env \<Rightarrow> ('w, stop + agent_loop_result) step" where
  "run_agent_loop_with_session e = do {
     ms \<leftarrow> asks ag_messages;
     (let ctx = last_user_message ms in do {
        prepare_session e ctx;
        start \<leftarrow> outside (en_now e);
        loop_from e ctx start (ac_max_iterations (en_config e)) 0 }) }"

definition run_agent_loop :: "'w env \<Rightarrow> string \<Rightarrow> string \<Rightarrow> ('w, stop + agent_loop_result) step" where
  "run_agent_loop e date input = do {
     State_Monad.update (\<lambda>s. s\<lparr>ag_messages :=
       new_session_with_system (en_config e) date @ [msg_user input]\<rparr>);
     run_agent_loop_with_session e }"

end
