(* ===== verification/Tool_Exec_Facts.thy ===== *)
theory Tool_Exec_Facts
  imports Tool_Exec
begin

text \<open>
  Properties of executing the calls of a step: only permitted tools are called, every call is
  answered in order whatever the schedule, and what a result leaves in the state.
\<close>

section \<open>Permission\<close>

definition permitted :: "'w env \<Rightarrow> validated_call \<Rightarrow> bool" where
  "permitted e c =
    ((vc_read_only c \<or> can_write (ac_autonomy (en_config e)))
     \<and> (case check_permission (ti_permission (vc_tool c)) (ac_is_daemon (en_config e))
            (ac_daemon_policy (en_config e)) of
          Allow \<Rightarrow> True
        | NeedConfirmation \<Rightarrow> (case ac_autonomy (en_config e) of
             Full \<Rightarrow> True | Supervised \<Rightarrow> en_confirm e \<noteq> None | ReadOnly \<Rightarrow> False)
        | _ \<Rightarrow> False))"

text \<open>A call that the validated calls of the step contain and the policy permits.\<close>

definition made :: "'w env \<Rightarrow> validated_call list \<Rightarrow> tool_info \<times> json \<Rightarrow> bool" where
  "made e calls ta = list_ex (\<lambda>c. ta = (vc_tool c, vc_coerced_args c) \<and> permitted e c) calls"

lemma made_here: "permitted e c \<Longrightarrow> made e [c] (vc_tool c, vc_coerced_args c)"
  by (simp add: made_def)

lemma made_mono: "made e cs ta \<Longrightarrow> set cs \<subseteq> set ds \<Longrightarrow> made e ds ta"
  by (auto simp: made_def list_ex_iff)

lemma io_weaken: "state_io_rel R m \<Longrightarrow> (\<And>s t. R s t \<Longrightarrow> R' s t) \<Longrightarrow> state_io_rel R' m"
  by (simp add: state_io_rel_def)

lemma calls_mono:
  "state_io_rel (grows ag_trace (on_call (made e cs))) m \<Longrightarrow> set cs \<subseteq> set ds
    \<Longrightarrow> state_io_rel (grows ag_trace (on_call (made e ds))) m"
  by (erule io_weaken, erule grows_weaken) (auto simp: on_call_def split: exchange.splits intro: made_mono)

lemma decision_keeps:
  "state_io_rel R a \<Longrightarrow> state_io_rel R b \<Longrightarrow> state_io_rel R c \<Longrightarrow> state_io_rel R d
    \<Longrightarrow> state_io_rel R (case x of Allow \<Rightarrow> a | NeedConfirmation \<Rightarrow> b | QueueForLater \<Rightarrow> c | Denied \<Rightarrow> d)"
  by (cases x) auto

lemma run_tool_calls: "permitted e c \<Longrightarrow> state_io_rel (grows ag_trace (on_call (made e [c]))) (run_tool e c)"
  unfolding run_tool_def by (intro keeps) (simp add: made_here)

lemma execute_call_calls: "state_io_rel (grows ag_trace (on_call (made e [c]))) (execute_call e c)"
proof (cases "permitted e c")
  case True
  note run = run_tool_calls [OF True]
  show ?thesis
    unfolding execute_call_def execute_single_call_def Let_def
    by (auto intro!: keeps run split: permission_decision.split autonomy_level.split)
next
  case False
  then show ?thesis
    unfolding execute_call_def execute_single_call_def Let_def permitted_def
    by (auto intro!: keeps split: permission_decision.splits autonomy_level.splits)
qed

section \<open>Only permitted tools are called\<close>

lemma truncate_keeps:
  "state_io_rel (grows ag_trace C) (truncate_tool_output e out n)"
  "state_io_rel (grows ag_messages P) (truncate_tool_output e out n)"
  unfolding truncate_tool_output_def by (intro keeps)+

lemma apply_tool_result_calls: "state_io_rel (grows ag_trace C) (apply_tool_result e i n r)"
  unfolding apply_tool_result_def apply_failure_def apply_success_def
  by (intro keeps truncate_keeps; simp)

lemma record_edit_calls: "state_io_rel (grows ag_trace C) (record_edit_and_nudge e name args)"
  unfolding record_edit_and_nudge_def by (intro keeps; simp)

lemma remember_result_calls: "state_io_rel (grows ag_trace C) (remember_result e r)"
  unfolding remember_result_def by (intro keeps; simp)

lemma finish_read_calls: "state_io_rel (grows ag_trace C) (finish_read e i r)"
  unfolding finish_read_def by (intro keeps apply_tool_result_calls remember_result_calls)

lemma read_one_calls: "state_io_rel (grows ag_trace (on_call (made e [c]))) (read_one e i c)"
  unfolding read_one_def by (intro keeps execute_call_calls finish_read_calls; simp)

lemma write_one_calls: "state_io_rel (grows ag_trace (on_call (made e [c]))) (write_one e i c)"
  unfolding write_one_def
  by (intro keeps execute_call_calls record_edit_calls apply_tool_result_calls; simp)

lemma traverse_calls:
  assumes "\<And>x. x \<in> set xs \<Longrightarrow> state_io_rel (grows ag_trace C) (f x)"
  shows "state_io_rel (grows ag_trace C) (State_Monad.traverse_list f xs)"
  using assms by (induction xs) (auto intro!: keeps)

lemma schedule_of_perm: "distinct (schedule_of n order)" "set (schedule_of n order) = {0..<n}"
  by (simp_all add: schedule_of_def)

lemma batch_calls: "state_io_rel (grows ag_trace (on_call (made e batch))) (execute_read_batch_parallel e batch)"
  unfolding execute_read_batch_parallel_def
  by (intro keeps traverse_calls)
    (auto simp: schedule_of_perm intro!: keeps calls_mono [OF execute_call_calls])

lemma read_batch_calls: "state_io_rel (grows ag_trace (on_call (made e batch))) (read_batch e i batch)"
  unfolding read_batch_def
  by (intro keeps traverse_calls batch_calls finish_read_calls)
    (auto intro!: calls_mono [OF read_one_calls])

lemma exec_calls_calls: "state_io_rel (grows ag_trace (on_call (made e calls))) (exec_calls e i calls)"
proof (induction e i calls rule: exec_calls.induct)
  case (1 e i calls)
  have reads: "state_io_rel (grows ag_trace (on_call (made e calls))) (read_batch e i (takeWhile vc_read_only calls))"
    by (rule calls_mono [OF read_batch_calls]) (auto dest: set_takeWhileD)
  show ?case
  proof (cases "dropWhile vc_read_only calls")
    case Nil
    show ?thesis by (subst exec_calls.simps, unfold Nil list.case, intro keeps reads)
  next
    case (Cons c rest)
    then have sub: "set (c # rest) \<subseteq> set calls" by (metis set_dropWhileD subsetI)
    have rest: "state_io_rel (grows ag_trace (on_call (made e calls))) (exec_calls e i rest)" if "calls \<noteq> []"
      by (rule calls_mono [OF "1.IH" [OF that Cons]]) (use sub in auto)
    have c: "state_io_rel (grows ag_trace (on_call (made e calls))) (write_one e i c)"
      by (rule calls_mono [OF write_one_calls]) (use sub in auto)
    show ?thesis by (subst exec_calls.simps, unfold Cons list.case, intro keeps reads rest c)
  qed
qed

section \<open>Every call is answered, in order\<close>

text \<open>
  \<open>tells m Q\<close>: the step only appends to the conversation, and \<open>Q\<close> holds of its result and of the
  calls that the tool messages among what it appends answer.
\<close>

definition answered :: "message list \<Rightarrow> string option list" where
  "answered ms = map msg_tool_call_id (filter (\<lambda>m. msg_role m = Tool) ms)"

lemma answered_simps [simp]:
  "answered [] = []" "answered (xs @ ys) = answered xs @ answered ys"
  "answered [msg_tool c n] = [Some n]" "answered [msg_system c] = []"
  "answered [msg_user c] = []" "answered [msg_assistant c] = []"
  by (simp_all add: answered_def)

definition tells :: "('w, 'a) step \<Rightarrow> ('a \<Rightarrow> string option list \<Rightarrow> bool) \<Rightarrow> bool" where
  "tells m Q \<longleftrightarrow>
    (\<forall>s. \<exists>ms. ag_messages (snd (run_state m s)) = ag_messages s @ ms
         \<and> Q (fst (run_state m s)) (answered ms))"

lemma tells_bind:
  assumes "tells m Q" and "\<And>x. tells (f x) (R x)" and "\<And>x y as bs. Q x as \<Longrightarrow> R x y bs \<Longrightarrow> S y (as @ bs)"
  shows "tells (State_Monad.bind m f) S"
  unfolding tells_def
proof
  fix s
  obtain x t where m: "run_state m s = (x, t)" by fastforce
  obtain y u where f: "run_state (f x) t = (y, u)" by fastforce
  from assms(1) m obtain ms where ms: "ag_messages t = ag_messages s @ ms" "Q x (answered ms)"
    unfolding tells_def by (metis fst_conv snd_conv)
  from assms(2) f obtain ns where ns: "ag_messages u = ag_messages t @ ns" "R x y (answered ns)"
    unfolding tells_def by (metis fst_conv snd_conv)
  have "ag_messages u = ag_messages s @ (ms @ ns) \<and> S y (answered (ms @ ns))"
    using ms ns assms(3) by simp
  then show "\<exists>ms. ag_messages (snd (run_state (State_Monad.bind m f) s)) = ag_messages s @ ms
      \<and> S (fst (run_state (State_Monad.bind m f) s)) (answered ms)"
    using m f by auto
qed

lemma tells_weaken: "tells m Q \<Longrightarrow> (\<And>x as. Q x as \<Longrightarrow> S x as) \<Longrightarrow> tells m S"
  unfolding tells_def by blast

lemma tells_return: "Q x [] \<Longrightarrow> tells (State_Monad.return x) Q"
  by (simp add: tells_def)

abbreviation silent :: "('w, 'a) step \<Rightarrow> bool" where
  "silent m \<equiv> state_io_rel (grows ag_messages (\<lambda>m. msg_role m \<noteq> Tool)) m"

lemma tells_silent: "silent m \<Longrightarrow> tells m (\<lambda>x as. as = [])"
  by (auto simp: tells_def state_io_rel_def grows_def answered_def list_all_iff filter_empty_conv)

lemma tells_map:
  assumes "tells m Q" and "\<And>x as. Q x as \<Longrightarrow> S (g x) as"
  shows "tells (State_Monad.bind m (\<lambda>x. State_Monad.return (g x))) S"
  by (rule tells_bind [OF assms(1), where R = "\<lambda>x y bs. y = g x \<and> bs = []"])
    (auto intro: tells_return assms(2))

lemma tells_say: "Q () [Some n] \<Longrightarrow> tells (say (msg_tool c n)) Q"
  by (simp add: tells_def)

lemma tells_after: "silent m \<Longrightarrow> (\<And>x. tells (f x) Q) \<Longrightarrow> tells (State_Monad.bind m f) Q"
  by (rule tells_bind [OF tells_silent]) auto

text \<open>A silent step whose results satisfy \<open>V\<close>.\<close>

lemma tells_value:
  assumes "silent m" and "pred_state V m"
  shows "tells m (\<lambda>x as. V x \<and> as = [])"
  using tells_silent [OF assms(1)] pred_state_run_state [OF assms(2)] by (simp add: tells_def)

lemma tells_say_then:
  "tells (f ()) (\<lambda>x as. S x (Some n # as)) \<Longrightarrow> tells (State_Monad.bind (say (msg_tool c n)) f) S"
  by (rule tells_bind [OF tells_say [where Q = "\<lambda>_ as. as = [Some n]"]]) (auto simp: tells_def)

lemma apply_tool_result_tells: "tells (apply_tool_result e i n r) (\<lambda>_ as. as = [Some (er_name r)])"
  unfolding apply_tool_result_def apply_failure_def apply_success_def Let_def
  by (auto intro!: tells_after tells_say keeps truncate_keeps split: if_split)

lemma finish_read_tells:
  "tells (finish_read e i r) (\<lambda>p as. fst p = er_name r \<and> as = [Some (er_name r)])"
  unfolding finish_read_def remember_result_def
  by (intro tells_after tells_bind [OF apply_tool_result_tells] keeps)
    (auto intro!: tells_return [where Q = "\<lambda>p as. fst p = er_name r \<and> as = []"])

lemma execute_call_silent: "silent (execute_call e c)"
  unfolding execute_call_def execute_single_call_def run_tool_def Let_def
  by (auto intro!: keeps split: permission_decision.split autonomy_level.split)

lemma bind_pred:
  "pred_state Q m \<Longrightarrow> (\<And>x. Q x \<Longrightarrow> pred_state P (f x)) \<Longrightarrow> pred_state P (State_Monad.bind m f)"
  by (rule pred_stateI) (auto split: prod.splits dest: pred_stateD)

lemma any_pred: "pred_state (\<lambda>_. True) m"
  by (rule pred_stateI) simp

lemma return_pred: "P x \<Longrightarrow> pred_state P (State_Monad.return x)"
  by (rule pred_stateI) auto

lemma execute_call_name: "pred_state (\<lambda>r. er_name r = vc_name c) (execute_call e c)"
  unfolding execute_call_def execute_single_call_def run_tool_def Let_def
  by (auto intro!: return_pred bind_pred [OF any_pred] simp: refusal_def
      split: permission_decision.split autonomy_level.split option.split sum.split)

lemma execute_then:
  assumes "\<And>r. er_name r = vc_name c \<Longrightarrow> tells (f r) S"
  shows "tells (State_Monad.bind (execute_call e c) f) S"
  unfolding tells_def
proof
  fix s
  obtain r t where r: "run_state (execute_call e c) s = (r, t)" by fastforce
  then obtain ms where ms: "ag_messages t = ag_messages s @ ms" "answered ms = []" "er_name r = vc_name c"
    using tells_value [OF execute_call_silent execute_call_name] unfolding tells_def by (metis fst_conv snd_conv)
  from assms [OF ms(3)] obtain ns where
    "ag_messages (snd (run_state (f r) t)) = ag_messages t @ ns" "S (fst (run_state (f r) t)) (answered ns)"
    unfolding tells_def by blast
  then have "ag_messages (snd (run_state (f r) t)) = ag_messages s @ (ms @ ns)
      \<and> S (fst (run_state (f r) t)) (answered (ms @ ns))" using ms by simp
  then show "\<exists>ms. ag_messages (snd (run_state (State_Monad.bind (execute_call e c) f) s)) = ag_messages s @ ms
      \<and> S (fst (run_state (State_Monad.bind (execute_call e c) f) s)) (answered ms)"
    using r by auto
qed

lemma read_one_tells: "tells (read_one e i c) (\<lambda>p as. fst p = vc_name c \<and> as = [Some (vc_name c)])"
  unfolding read_one_def
  by (auto intro!: tells_after keeps tells_say_then tells_return execute_then
      tells_weaken [OF finish_read_tells] split: prod.split option.split)

lemma write_one_tells: "tells (write_one e i c) (\<lambda>p as. fst p = vc_name c \<and> as = [Some (vc_name c)])"
  unfolding write_one_def record_edit_and_nudge_def
  by (rule execute_then, intro tells_after tells_bind [OF apply_tool_result_tells]
      tells_bind [OF tells_silent] keeps)
    (auto intro!: tells_return [where Q = "\<lambda>p as. fst p = vc_name c \<and> as = []"] keeps)

text \<open>A list of steps that each answer one call.\<close>

lemma traverse_tells:
  assumes "\<And>x. tells (f x) (\<lambda>p as. fst p = nm x \<and> as = [Some (nm x)])"
  shows "tells (State_Monad.traverse_list f xs)
    (\<lambda>ps as. map fst ps = map nm xs \<and> as = map (\<lambda>x. Some (nm x)) xs)"
proof (induction xs)
  case Nil
  then show ?case by (auto intro: tells_return)
next
  case (Cons x xs)
  show ?case
    by (simp only: State_Monad.traverse_list.simps,
        rule tells_bind [OF assms, where R = "\<lambda>p qs as. \<exists>ps. qs = p # ps \<and> map fst ps = map nm xs
          \<and> as = map (\<lambda>x. Some (nm x)) xs"], rule tells_map [OF Cons]) auto
qed

text \<open>The results of a parallel batch, in the order of the batch.\<close>

lemma traverse_pred:
  assumes "\<And>x. x \<in> set xs \<Longrightarrow> pred_state (Q x) (f x)"
  shows "pred_state (\<lambda>ys. list_all2 Q xs ys) (State_Monad.traverse_list f xs)"
  using assms
proof (induction xs)
  case (Cons x xs)
  then show ?case
    by (simp only: State_Monad.traverse_list.simps)
      (rule bind_pred [of "Q x"], simp, rule bind_pred [of "list_all2 Q xs"], simp, rule return_pred, simp)
qed (auto intro: return_pred)

lemma traverse_silent: "(\<And>x. silent (f x)) \<Longrightarrow> silent (State_Monad.traverse_list f xs)"
  by (intro keeps)

lemma batch_silent: "silent (execute_read_batch_parallel e batch)"
  unfolding execute_read_batch_parallel_def by (intro keeps execute_call_silent)

lemma collect_names:
  assumes "list_all2 (\<lambda>i p. fst p = i \<and> er_name (snd p) = vc_name (batch ! i)) order rs"
    and "set order = {0..<length batch}"
  shows "map er_name (map (\<lambda>i. the (map_of rs i)) [0..<length batch]) = map vc_name batch"
proof -
  have "er_name (the (map_of rs i)) = vc_name (batch ! i)" if "i < length batch" for i
  proof -
    have keys: "map fst rs = order" using assms(1) by (induction rule: list_all2_induct) auto
    have vals: "er_name (snd p) = vc_name (batch ! fst p)" if "p \<in> set rs" for p
      using assms(1) that by (induction rule: list_all2_induct) auto
    from that keys assms(2) have "i \<in> fst ` set rs" by (metis atLeastLessThan_iff le0 list.set_map)
    then obtain r where "map_of rs i = Some r" by (metis map_of_eq_None_iff option.exhaust)
    then show ?thesis using vals [of "(i, r)"] by (auto dest: map_of_SomeD)
  qed
  then show ?thesis by (intro nth_equalityI) simp_all
qed

lemma batch_names:
  "pred_state (\<lambda>rs. map er_name rs = map vc_name batch) (execute_read_batch_parallel e batch)"
proof -
  have seq: "pred_state (\<lambda>rs. map er_name rs = map vc_name batch)
      (State_Monad.traverse_list (execute_call e) batch)"
  proof -
    have "pred_state (\<lambda>rs. list_all2 (\<lambda>c r. er_name r = vc_name c) batch rs)
        (State_Monad.traverse_list (execute_call e) batch)"
      by (rule traverse_pred) (rule execute_call_name)
    then show ?thesis
      by (rule state.pred_mono_strong) (erule list_all2_induct, simp_all)
  qed
  have par: "pred_state (\<lambda>rs. list_all2 (\<lambda>i p. fst p = i \<and> er_name (snd p) = vc_name (batch ! i)) order rs)
      (State_Monad.traverse_list (\<lambda>i. State_Monad.bind (execute_call e (batch ! i))
         (\<lambda>r. State_Monad.return (i, r))) order)" for order
    by (rule traverse_pred, rule bind_pred [OF execute_call_name], rule return_pred) simp
  have "pred_state (\<lambda>rs. map er_name rs = map vc_name batch)
      (State_Monad.bind (asks ag_world) (\<lambda>w. State_Monad.bind
         (State_Monad.traverse_list (\<lambda>i. State_Monad.bind (execute_call e (batch ! i))
            (\<lambda>r. State_Monad.return (i, r))) (schedule_of (length batch) (en_schedule e (length batch) w)))
         (\<lambda>rs. State_Monad.return (map (\<lambda>i. the (map_of rs i)) [0..<length batch]))))"
    by (rule bind_pred [OF any_pred], rule bind_pred [OF par], rule return_pred,
        rule collect_names [OF _ schedule_of_perm(2)])
  with seq show ?thesis unfolding execute_read_batch_parallel_def by presburger
qed

abbreviation answers_all :: "validated_call list \<Rightarrow> (string \<times> 'b) list \<Rightarrow> string option list \<Rightarrow> bool" where
  "answers_all cs ps as \<equiv> map fst ps = map vc_name cs \<and> as = map (\<lambda>c. Some (vc_name c)) cs"

lemma read_batch_tells: "tells (read_batch e i batch) (answers_all batch)"
proof (cases "length batch \<ge> 2")
  case True
  have "tells (State_Monad.bind (execute_read_batch_parallel e batch)
      (State_Monad.traverse_list (finish_read e i))) (answers_all batch)"
  proof (rule tells_bind [OF tells_value [OF batch_silent batch_names]])
    show "tells (State_Monad.traverse_list (finish_read e i) rs)
        (\<lambda>ps as. map fst ps = map er_name rs \<and> as = map (\<lambda>r. Some (er_name r)) rs)" for rs
      by (rule traverse_tells) (rule finish_read_tells)
  next
    fix rs and ps :: "(string \<times> bool) list" and as bs
    assume rs: "map er_name rs = map vc_name batch \<and> as = ([] :: string option list)"
      and ps: "map fst ps = map er_name rs \<and> bs = map (\<lambda>r. Some (er_name r)) rs"
    have "map Some (map er_name rs) = map Some (map vc_name batch)" using rs by (simp only:)
    then have "map (\<lambda>r. Some (er_name r)) rs = map (\<lambda>c. Some (vc_name c)) batch" by (simp add: o_def)
    then show "answers_all batch ps (as @ bs)" using rs ps by simp
  qed
  then show ?thesis using True by (simp add: read_batch_def)
next
  case False
  then show ?thesis by (auto simp: read_batch_def intro!: traverse_tells read_one_tells)
qed

lemma exec_calls_tells: "tells (exec_calls e i calls) (answers_all calls)"
proof (induction e i calls rule: exec_calls.induct)
  case (1 e i calls)
  show ?case
  proof (cases "calls = []")
    case True
    then show ?thesis by (subst exec_calls.simps) (auto intro: tells_return)
  next
    case False
    let ?reads = "takeWhile vc_read_only calls"
    show ?thesis
    proof (cases "dropWhile vc_read_only calls")
      case Nil
      then have reads: "?reads = calls" by (metis append_Nil2 takeWhile_dropWhile_id)
      have "tells (State_Monad.bind (read_batch e i ?reads) State_Monad.return) (answers_all calls)"
        unfolding reads by (simp add: read_batch_tells)
      then show ?thesis using False by (subst exec_calls.simps) (simp only: Nil list.case if_False)
    next
      case (Cons c rest)
      have calls: "calls = ?reads @ c # rest" by (metis Cons takeWhile_dropWhile_id)
      have rest: "tells (State_Monad.bind (exec_calls e i rest) (\<lambda>others. State_Monad.return (reads @ w # others)))
          (\<lambda>ps as. \<exists>others. ps = reads @ w # others \<and> answers_all rest others as)" for reads w
        by (rule tells_map [OF "1.IH" [OF False Cons]]) auto
      have "tells (State_Monad.bind (write_one e i c) (\<lambda>w. State_Monad.bind (exec_calls e i rest)
            (\<lambda>others. State_Monad.return (reads @ w # others))))
          (\<lambda>ps as. \<exists>w others bs. ps = reads @ w # others \<and> fst w = vc_name c \<and> as = Some (vc_name c) # bs
             \<and> answers_all rest others bs)" for reads
        by (rule tells_bind [OF write_one_tells rest]) auto
      then have "tells (State_Monad.bind (read_batch e i ?reads) (\<lambda>reads. State_Monad.bind (write_one e i c)
            (\<lambda>w. State_Monad.bind (exec_calls e i rest) (\<lambda>others. State_Monad.return (reads @ w # others)))))
          (answers_all calls)"
        by (rule tells_bind [OF read_batch_tells]) (subst (1 2) calls, auto)
      then show ?thesis using False by (subst exec_calls.simps) (simp only: Cons list.case if_False)
    qed
  qed
qed

section \<open>What a result leaves\<close>

interpretation same: step_relation "\<lambda>s t. f t = f s" for f :: "'s \<Rightarrow> 'a"
  by unfold_locales auto

lemma cache_same:
  "state_io_rel (\<lambda>s t. ag_cache t = ag_cache s) (asks f)"
  "state_io_rel (\<lambda>s t. ag_cache t = ag_cache s) (outside g)"
  "state_io_rel (\<lambda>s t. ag_cache t = ag_cache s) (store e p)"
  "state_io_rel (\<lambda>s t. ag_cache t = ag_cache s) (say m)"
  "state_io_rel (\<lambda>s t. ag_cache t = ag_cache s) (emit_event e t d j)"
  "state_io_rel (\<lambda>s t. ag_cache t = ag_cache s) (call_tool e u a)"
  "(\<And>s. ag_cache (h s) = ag_cache s) \<Longrightarrow> state_io_rel (\<lambda>s t. ag_cache t = ag_cache s) (State_Monad.update h)"
  by (simp_all add: state_io_rel_def emit_event_def split: prod.split)

lemma execute_call_cache: "state_io_rel (\<lambda>s t. ag_cache t = ag_cache s) (execute_call e c)"
  unfolding execute_call_def execute_single_call_def run_tool_def Let_def
  by (auto intro!: same.keeps cache_same split: permission_decision.split autonomy_level.split)

lemma apply_tool_result_cache: "state_io_rel (\<lambda>s t. ag_cache t = ag_cache s) (apply_tool_result e i n r)"
  unfolding apply_tool_result_def apply_failure_def apply_success_def truncate_tool_output_def
  by (intro same.keeps cache_same; simp)

lemma execute_call_args:
  "pred_state (\<lambda>r. er_name r = vc_name c \<and> er_args_json r = vc_args_json c) (execute_call e c)"
  unfolding execute_call_def execute_single_call_def run_tool_def Let_def
  by (auto intro!: return_pred bind_pred [OF any_pred] simp: refusal_def
      split: permission_decision.split autonomy_level.split option.split sum.split)

lemma remember_lookup:
  assumes "en_decode e (er_args_json r) = Some args" and "make_key (en_encode e) (er_name r) args \<noteq> k"
  shows "cache_lookup (ag_cache (snd (run_state (remember_result e r) s))) k = cache_lookup (ag_cache s) k"
  using assms by (simp add: remember_result_def cache_put_store results.lookup_put)

lemma finish_read_lookup:
  assumes "en_decode e (er_args_json r) = Some args" and "make_key (en_encode e) (er_name r) args \<noteq> k"
  shows "cache_lookup (ag_cache (snd (run_state (finish_read e i r) s))) k = cache_lookup (ag_cache s) k"
proof -
  have "ag_cache (snd (run_state (apply_tool_result e i n r) t)) = ag_cache t" for n t
    using apply_tool_result_cache [of e i n r] by (simp add: state_io_rel_def)
  moreover have "cache_lookup (ag_cache (snd (run_state (if result_failed r then State_Monad.return ()
      else remember_result e r) s))) k = cache_lookup (ag_cache s) k"
    using remember_lookup [OF assms] by simp
  ultimately show ?thesis by (simp add: finish_read_def split: prod.split) (metis snd_conv)
qed

section \<open>A world for examples\<close>

text \<open>A configuration and an environment in which nothing happens, to be updated by the examples.\<close>

definition idle_config :: agent_config where
  "idle_config =
    \<lparr>ac_max_iterations = 10, ac_max_retries = 3, ac_system_prompt = [], ac_advisor = ad_default,
     ac_auto_checkpoint = False, ac_max_tools_in_context = 8, ac_max_mcp_tools_in_context = 3,
     ac_allowed_tools = None,
     ac_base_inference = \<lparr>ip_temperature = 1, ip_top_p = 1, ip_top_k = 20, ip_min_p = 0,
       ip_max_tokens = 100, ip_repeat_penalty = 1\<rparr>,
     ac_task_timeout = None, ac_n_ctx_budget = None, ac_autonomy = Supervised, ac_is_daemon = False,
     ac_daemon_policy = AutoOnly\<rparr>"

definition idle_env :: "unit env" where
  "idle_env =
    \<lparr>en_session_id = ''s'', en_has_store = False, en_config = idle_config, en_environ = (\<lambda>_. None),
     en_tools = [], en_os = \<lparr>os_home = None, os_cwd = None, os_canonicalize = (\<lambda>_. None)\<rparr>,
     en_guard = [], en_dangerous = [],
     en_values = \<lparr>vp_destructive = [], vp_overconfidence = [], vp_dependency = [],
       vp_abandonment = [], vp_degradation = []\<rparr>,
     en_critic_prompt = [], en_critic_regex = (\<lambda>_ _. False), en_critic_revision = (\<lambda>_. None),
     en_redact = (\<lambda>t. t), en_encode = (\<lambda>_. []), en_decode = (\<lambda>_. None),
     en_decode_call = (\<lambda>_. Inl []), en_normalize = (\<lambda>t. t), en_hash = (\<lambda>_. 0), en_order = (\<lambda>m. m),
     en_similarity = (\<lambda>_ _. None), en_now = (\<lambda>w. (0, w)), en_cancelled = (\<lambda>w. (False, w)),
     en_generate = (\<lambda>_ _ _ w. (Inl [], w)), en_call = (\<lambda>_ _ w. (Inl [], w)), en_confirm = None,
     en_schedule = (\<lambda>n _. [0..<n]), en_spill = (\<lambda>_ _ w. (None, w)), en_offload = (\<lambda>_ _ _. False),
     en_http = (\<lambda>_ _ _ _ _. Inl []), en_cli = (\<lambda>_ _. Inl []), en_touched = (\<lambda>w. w),
     en_recall = (\<lambda>_ _ w. (\<lparr>kn_soul = [], kn_blocks = [], kn_heuristics = [], kn_rules = [], kn_docs = [],
       kn_memories = [], kn_experiences = [], kn_skills = [], kn_graph = []\<rparr>, w)),
     en_checkpoint = (\<lambda>_ w. w),
     en_success_rate = (\<lambda>_ _ _ _. None), en_similar = (\<lambda>_ _ _. Inr [])\<rparr>"

definition fresh_agent :: "'w \<Rightarrow> message list \<Rightarrow> 'w agent" where
  "fresh_agent w ms =
    \<lparr>ag_world = w, ag_log = [], ag_trace = [], ag_messages = ms,
     ag_breaker = cb_default, ag_loop = ld_default, ag_stall = sd_default, ag_advisor = ad_default,
     ag_critic = cr_default [], ag_all_tools = [], ag_consecutive_failures = 0, ag_iteration = 0,
     ag_chain = [], ag_cache = cache_new, ag_trials = ts_default, ag_cycle = ec_default,
     ag_continue_site = cs_new, ag_stuck = fg_default, ag_heuristic_ids = []\<rparr>"

section \<open>Properties\<close>

text \<open>
  C26. Executing the calls of a step calls no tool but those of its calls, with their coerced
  arguments, and only where autonomy, permission, daemon policy and the presence of a confirmation
  callback permit it: in read-only autonomy no writing tool runs, and a denied tool never runs.
\<close>

theorem only_permitted_tools_called:
  "\<exists>cs. ag_calls (snd (run_state (exec_calls e i calls) s)) = ag_calls s @ cs
    \<and> list_all (\<lambda>ta. list_ex (\<lambda>c. ta = (vc_tool c, vc_coerced_args c) \<and> permitted e c) calls) cs"
proof -
  have "grows ag_trace (on_call (made e calls)) s (snd (run_state (exec_calls e i calls) s))"
    using exec_calls_calls [of e calls i] by (simp add: state_io_rel_def)
  from trace_calls [OF this, of "made e calls"] show ?thesis by (simp add: grows_def made_def [abs_def])
qed

text \<open>
  C27. Whatever the tools answer and however a parallel batch is scheduled, executing the calls of a
  step only appends to the conversation, with exactly one tool message per call, in the order of the
  calls, and reports their names in that order.
\<close>

theorem every_call_answered_in_order:
  "map fst (fst (run_state (exec_calls e i calls) s)) = map vc_name calls
   \<and> (\<exists>ms. ag_messages (snd (run_state (exec_calls e i calls) s)) = ag_messages s @ ms
        \<and> map msg_tool_call_id (filter (\<lambda>m. msg_role m = Tool) ms) = map (\<lambda>c. Some (vc_name c)) calls)"
  using exec_calls_tells [of e i calls] by (auto simp: tells_def answered_def)

text \<open>
  A reading call whose arguments the coercion changes is never answered from the cache: its
  result is stored under the arguments as written and looked up under the coerced ones. Here the
  lookup fails before and, whatever happened, after the call.
\<close>

theorem coerced_reads_are_never_cached:
  assumes "en_decode e (vc_args_json c) = Some args"
    and "en_encode e args \<noteq> en_encode e (vc_coerced_args c)"
    and "cache_lookup (ag_cache s) (make_key (en_encode e) (vc_name c) (vc_coerced_args c)) = None"
  shows "cache_lookup (ag_cache (snd (run_state (read_one e i c) s)))
      (make_key (en_encode e) (vc_name c) (vc_coerced_args c)) = None"
proof -
  let ?k = "make_key (en_encode e) (vc_name c) (vc_coerced_args c)"
  let ?s = "s\<lparr>ag_cache := ag_cache s\<lparr>tc_misses := tc_misses (ag_cache s) + 1\<rparr>\<rparr>"
  obtain r t where r: "run_state (execute_call e c) ?s = (r, t)" by fastforce
  have "er_name r = vc_name c \<and> er_args_json r = vc_args_json c"
    using pred_state_run_state [OF execute_call_args [of c e], of ?s] r by simp
  then have "cache_lookup (ag_cache (snd (run_state (finish_read e i r) t))) ?k = cache_lookup (ag_cache t) ?k"
    using assms(1,2) by (intro finish_read_lookup [of _ _ args]) (simp_all add: make_key_def)
  moreover have "ag_cache t = ag_cache ?s"
    using execute_call_cache [of e c] r unfolding state_io_rel_def by (metis snd_conv)
  moreover have "cache_lookup (ag_cache ?s) ?k = None"
    using assms(3) by (simp add: cache_lookup_def)
  moreover have "hm_get (tc_cache (ag_cache s)) ?k = None" using assms(3) by (simp add: cache_lookup_def)
  ultimately show ?thesis using r by (simp add: read_one_def cache_get_def)
qed

definition typed_env :: "unit env" where
  "typed_env = idle_env\<lparr>
    en_decode := (\<lambda>s. Some (JObj [(''n'', JStr ''1'')])),
    en_encode := (\<lambda>v. case json_get v ''n'' of Some (JStr s) \<Rightarrow> ''text'' | _ \<Rightarrow> ''number''),
    en_call := (\<lambda>_ _ w. (Inr \<lparr>tr_output = ''ok'', tr_success = True, tr_cancelled = False\<rparr>, w))\<rparr>"

definition typed_call :: validated_call where
  "typed_call =
    \<lparr>vc_name = ''list'', vc_args_json = ''args'', vc_coerced_args = JObj [(''n'', JNum (PosInt 1))],
     vc_tool = \<lparr>ti_name = ''list'', ti_description = [], ti_parameters = JNull, ti_permission = Auto,
       ti_read_only = True\<rparr>, vc_read_only = True\<rparr>"

theorem coerced_reads_are_never_cached_witness:
  "cache_lookup (ag_cache (snd (run_state (read_one typed_env 0 typed_call) (fresh_agent () []))))
     (make_key (en_encode typed_env) (vc_name typed_call) (vc_coerced_args typed_call)) = None"
  by (rule coerced_reads_are_never_cached [where args = "JObj [(''n'', JStr ''1'')]"])
    (simp_all add: typed_env_def typed_call_def fresh_agent_def)

end
