(* ===== verification/Step_Facts.thy ===== *)
theory Step_Facts
  imports Agent_Step Tool_Exec_Facts
begin

text \<open>
  What a step of the agent keeps. The relation \<open>calm\<close> collects it: the parts of the loop state that
  belong to the handling of outcomes are untouched, nobody asks the model, and no end of the session
  is recorded.
\<close>

section \<open>Fields that a composed step leaves alone\<close>

definition loop_part :: "'w agent \<Rightarrow> stall_detector \<times> advisor_config \<times> critic_config \<times> string list
    \<times> nat \<times> nat \<times> middleware list \<times> continue_site \<times> int list" where
  "loop_part s = (ag_stall s, ag_advisor s, ag_critic s, ag_all_tools s, ag_consecutive_failures s,
     ag_iteration s, ag_chain s, ag_continue_site s, ag_heuristic_ids s)"

definition not_end :: "store_op \<Rightarrow> bool" where
  "not_end p = (case p of Append_Event _ t _ _ \<Rightarrow> t \<noteq> SessionEnd | _ \<Rightarrow> True)"

lemma not_end_simps [simp]:
  "not_end (Append_Event i ty d j) \<longleftrightarrow> ty \<noteq> SessionEnd"
  "not_end (Audit_Step_Outcome i n t m ts k)" "not_end (Audit_Tool_Call i t a ok out)"
  "not_end (Audit_Multi_File_Nudge i fs n k)" "not_end (Audit_Advisor_Call i t u n k)"
  "not_end (Audit_Advisor_Skip i t x y)" "not_end (Audit_Critic_Call i t u n k l)"
  "not_end (Save_Session i ms)" "not_end (Record_Experience xt t a out er er2)" "not_end (Promote_Skills n)"
  "not_end (Heuristic_Outcome h ok)" "not_end (Graph_Error_Pattern t p u)" "not_end (Graph_Tool_Usage t p)"
  "not_end Purge_Expired" "not_end (Audit_Task_Complete g n r k)"
  by (simp_all add: not_end_def)

text \<open>An entry that is no end of a session and no tool event.\<close>

definition plain :: "store_op \<Rightarrow> bool" where
  "plain p = (case p of Append_Event _ t _ _ \<Rightarrow> t \<notin> {SessionEnd, ToolCallStart, ToolCallEnd} | _ \<Rightarrow> True)"

lemma plain_simps [simp]:
  "plain (Append_Event i ty d j) \<longleftrightarrow> ty \<noteq> SessionEnd \<and> ty \<noteq> ToolCallStart \<and> ty \<noteq> ToolCallEnd"
  "plain (Audit_Step_Outcome i n t m ts k)" "plain (Audit_Tool_Call i t a ok out)"
  "plain (Audit_Multi_File_Nudge i fs n k)" "plain (Audit_Advisor_Call i t u n k)"
  "plain (Audit_Advisor_Skip i t x y)" "plain (Audit_Critic_Call i t u n k l)"
  "plain (Save_Session i ms)" "plain (Record_Experience xt t a out er er2)" "plain (Promote_Skills n)"
  "plain (Heuristic_Outcome h ok)" "plain (Graph_Error_Pattern t p u)" "plain (Graph_Tool_Usage t p)"
  "plain Purge_Expired" "plain (Audit_Task_Complete g n r k)"
  by (simp_all add: plain_def)

text \<open>The log of a session before its end: the start of a call is followed at once by its end.\<close>

inductive tool_log :: "store_op list \<Rightarrow> bool" where
  none: "tool_log []"
| other: "plain p \<Longrightarrow> tool_log ps \<Longrightarrow> tool_log (p # ps)"
| call: "tool_log ps \<Longrightarrow> tool_log (Append_Event i ToolCallStart (tool_event n None) None
    # Append_Event i ToolCallEnd (tool_event n (Some ok)) None # ps)"

lemma tool_log_append: "tool_log ps \<Longrightarrow> tool_log qs \<Longrightarrow> tool_log (ps @ qs)"
  by (induction rule: tool_log.induct) (auto intro: tool_log.intros)

lemma tool_log_not_end: "tool_log ps \<Longrightarrow> list_all not_end ps"
  by (induction rule: tool_log.induct) (auto simp: not_end_def plain_def split: store_op.splits)

lemma tool_log_plain: "list_all plain ps \<Longrightarrow> tool_log ps"
  by (induction ps) (auto intro: tool_log.intros)

definition logs :: "'w agent \<Rightarrow> 'w agent \<Rightarrow> bool" where
  "logs s t \<longleftrightarrow> (\<exists>ps. ag_log t = ag_log s @ ps \<and> tool_log ps)"

lemma logs_same: "ag_log t = ag_log s \<Longrightarrow> logs s t"
  by (simp add: logs_def tool_log.none)

lemma logs_one: "ag_log t = ag_log s @ [p] \<Longrightarrow> plain p \<Longrightarrow> logs s t"
  by (simp add: logs_def tool_log_plain)

lemma logs_trans: "logs s t \<Longrightarrow> logs t u \<Longrightarrow> logs s u"
  unfolding logs_def by (metis append.assoc tool_log_append)

lemma logs_log: "ag_log s' = ag_log s \<Longrightarrow> ag_log t' = ag_log t \<Longrightarrow> logs s' t' \<longleftrightarrow> logs s t"
  by (simp add: logs_def)

lemma logs_plain: "grows ag_log plain s t \<Longrightarrow> logs s t"
  unfolding logs_def grows_def by (blast intro: tool_log_plain)

definition calm :: "'w agent \<Rightarrow> 'w agent \<Rightarrow> bool" where
  "calm s t \<longleftrightarrow> loop_part t = loop_part s \<and> ag_prompts t = ag_prompts s \<and> logs s t"

interpretation calm: step_relation calm
proof
  show "calm s s" for s :: "'w agent" by (simp add: calm_def logs_same)
  show "calm s u" if "calm s t" "calm t u" for s t u :: "'w agent"
    using that logs_trans [of s t u] by (simp add: calm_def)
qed

lemma calm_primitives:
  "state_io_rel calm (asks f)"
  "state_io_rel calm (outside g)"
  "plain p \<Longrightarrow> state_io_rel calm (store e p)"
  "state_io_rel calm (say m)"
  "t \<notin> {SessionEnd, ToolCallStart, ToolCallEnd} \<Longrightarrow> state_io_rel calm (emit_event e t d i)"
  "state_io_rel calm (call_tool e u a)"
  "(\<And>s. loop_part (h s) = loop_part s) \<Longrightarrow> (\<And>s. ag_prompts (h s) = ag_prompts s)
    \<Longrightarrow> (\<And>s. ag_log (h s) = ag_log s) \<Longrightarrow> state_io_rel calm (State_Monad.update h)"
  by (auto simp: state_io_rel_def calm_def loop_part_def emit_event_def logs_same logs_one split: prod.split)

lemmas calm_keeps = calm.keeps calm_primitives

text \<open>The two events of a call are recorded together.\<close>

lemma tool_events_calm:
  fixes m :: "('w, 'a) step"
  assumes "state_io_rel calm m"
  shows "state_io_rel calm (do {
     emit_event e ToolCallStart (tool_event n None) None;
     emit_event e ToolCallEnd (tool_event n (Some ok)) None;
     m })"
proof -
  have "state_io_rel calm (do {
     emit_event e ToolCallStart (tool_event n None) None;
     emit_event e ToolCallEnd (tool_event n (Some ok)) None } :: ('w, unit) step)"
    using tool_log.call [OF tool_log.none, of "en_session_id e" n ok]
    by (auto simp: state_io_rel_def calm_def loop_part_def emit_event_def logs_def tool_log.none)
  then have "state_io_rel calm (State_Monad.bind (do {
     emit_event e ToolCallStart (tool_event n None) None;
     emit_event e ToolCallEnd (tool_event n (Some ok)) None }) (\<lambda>_. m))"
    using assms by (rule calm.bind_keeps)
  then show ?thesis by simp
qed

section \<open>Executing calls is calm\<close>

lemma execute_call_calm: "state_io_rel calm (execute_call e c)"
  unfolding execute_call_def execute_single_call_def run_tool_def Let_def
  by (auto intro!: calm_keeps split: permission_decision.split autonomy_level.split)

lemma apply_tool_result_calm: "state_io_rel calm (apply_tool_result e i n r)"
  unfolding apply_tool_result_def apply_failure_def apply_success_def truncate_tool_output_def Let_def
  by (intro tool_events_calm calm_keeps; simp add: loop_part_def)

lemma record_edit_calm: "state_io_rel calm (record_edit_and_nudge e name args)"
  unfolding record_edit_and_nudge_def by (intro calm_keeps; simp add: loop_part_def)

lemma finish_read_calm: "state_io_rel calm (finish_read e i r)"
  unfolding finish_read_def remember_result_def
  by (intro calm_keeps apply_tool_result_calm; simp add: loop_part_def)

lemma read_one_calm: "state_io_rel calm (read_one e i c)"
  unfolding read_one_def
  by (intro tool_events_calm calm_keeps execute_call_calm finish_read_calm; simp add: loop_part_def)

lemma write_one_calm: "state_io_rel calm (write_one e i c)"
  unfolding write_one_def
  by (intro calm_keeps execute_call_calm record_edit_calm apply_tool_result_calm;
      simp add: loop_part_def)

lemma read_batch_calm: "state_io_rel calm (read_batch e i batch)"
  unfolding read_batch_def execute_read_batch_parallel_def
  by (intro calm_keeps execute_call_calm finish_read_calm read_one_calm)

lemma exec_calls_calm: "state_io_rel calm (exec_calls e i calls)"
proof (induction e i calls rule: exec_calls.induct)
  case (1 e i calls)
  show ?case
  proof (cases "dropWhile vc_read_only calls")
    case Nil
    show ?thesis by (subst exec_calls.simps, unfold Nil list.case, intro calm_keeps read_batch_calm)
  next
    case (Cons c rest)
    have "state_io_rel calm (exec_calls e i rest)" if "calls \<noteq> []" using that Cons by (rule "1.IH")
    then show ?thesis
      by (subst exec_calls.simps, unfold Cons list.case, intro calm_keeps read_batch_calm write_one_calm)
  qed
qed

lemma execute_validated_calm: "state_io_rel calm (execute_validated_calls e i calls)"
  unfolding execute_validated_calls_def by (intro calm_keeps exec_calls_calm)

section \<open>What follows the model's output is calm\<close>

lemma on_parse_error_calm: "state_io_rel calm (on_parse_error e n err)"
  unfolding on_parse_error_def by (auto intro!: calm_keeps split: recovery_action.split)

lemma give_answer_calm: "state_io_rel calm (give_answer e n answer)"
  unfolding give_answer_def by (intro calm_keeps; simp)

lemma on_answer_calm: "state_io_rel calm (on_answer e n request answer)"
  unfolding on_answer_def judge_answer_def Let_def
  by (auto intro!: calm_keeps give_answer_calm split: decision_outcome.split)

lemma in_a_loop_calm: "state_io_rel calm (in_a_loop e c)"
  unfolding in_a_loop_def by (intro calm_keeps; simp add: loop_part_def)

lemma vet_call_calm: "state_io_rel calm (vet_call e n c)"
  unfolding vet_call_def Let_def by (auto intro!: calm_keeps split: decision_outcome.split)

lemma vet_calls_calm: "state_io_rel calm (vet_calls e n cs)"
  by (induction cs) (auto intro!: calm_keeps in_a_loop_calm vet_call_calm)

lemma on_calls_calm: "state_io_rel calm (on_calls e n text cs)"
  unfolding on_calls_def by (intro calm_keeps vet_calls_calm execute_validated_calm; simp)

lemma on_output_calm: "state_io_rel calm (on_output e n request text)"
  unfolding on_output_def
  by (auto intro!: calm_keeps on_parse_error_calm on_answer_calm on_calls_calm split: parse_failure.split)

section \<open>What is executed was sanctioned\<close>

text \<open>A call of the model that passed the checks of the step, with the tool it names.\<close>

definition cleared :: "'w env \<Rightarrow> tool_call \<Rightarrow> tool_info \<Rightarrow> bool" where
  "cleared e c t =
    (registry_get (en_tools e) (tc_name c) = Some t
     \<and> is_tool_allowed (ac_allowed_tools (en_config e)) (tc_name c)
     \<and> vr_is_valid (validate_call e c)
     \<and> (ti_read_only t \<or> is_halt (safety_outcome e c) = False))"

lemma vet_call_cleared:
  "pred_state (\<lambda>r. list_all (\<lambda>v. \<exists>t. v = validated_of e c t \<and> cleared e c t)
     (case r of None \<Rightarrow> [] | Some v \<Rightarrow> [v])) (vet_call e n c)"
  unfolding vet_call_def Let_def
  by (auto intro!: bind_pred [OF any_pred] return_pred simp: cleared_def is_halt_def
      split: option.split decision_outcome.split)

definition vetted :: "'w env \<Rightarrow> tool_call list \<Rightarrow> validated_call list \<Rightarrow> bool" where
  "vetted e cs = list_all (\<lambda>v. \<exists>c \<in> set cs. \<exists>t. v = validated_of e c t \<and> cleared e c t)"

lemma vet_calls_vetted:
  "pred_state (\<lambda>r. case r of Inl msg \<Rightarrow> True | Inr vs \<Rightarrow> vetted e cs vs) (vet_calls e n cs)"
proof (induction cs)
  case Nil
  show ?case by (simp add: vetted_def return_pred)
next
  case (Cons c cs)
  have "pred_state (\<lambda>r. case r of Inl msg \<Rightarrow> True | Inr vs \<Rightarrow> vetted e (c # cs) vs)
      (do { v \<leftarrow> vet_call e n c; vs \<leftarrow> vet_calls e n cs;
            State_Monad.return (case vs of Inl msg \<Rightarrow> Inl msg
              | Inr vs \<Rightarrow> Inr (case v of None \<Rightarrow> vs | Some x \<Rightarrow> x # vs)) })"
    by (rule bind_pred [OF vet_call_cleared], rule bind_pred [OF Cons], rule return_pred)
      (auto simp: vetted_def list_all_iff split: sum.splits option.splits)
  then show ?case by (auto intro!: bind_pred [OF any_pred] return_pred)
qed

text \<open>A call of a tool that an output of the model asks for, that passed the checks, with coerced
  arguments, and that autonomy, permission and daemon policy permit.\<close>

definition asked_for :: "'w env \<Rightarrow> string \<Rightarrow> tool_info \<times> json \<Rightarrow> bool" where
  "asked_for e text ta =
    (\<exists>parsed c. parse_output e text = Inr parsed \<and> c \<in> set (po_tool_calls parsed)
       \<and> cleared e c (fst ta) \<and> snd ta = coerce_tool_arguments (tc_arguments c)
       \<and> permitted e (validated_of e c (fst ta)))"

text \<open>
  The history of a run: every tool called is asked for by the answer the model gave last, and that
  answer was given to a step. \<open>latest\<close> is that answer at the start.
\<close>

fun in_reply :: "'w env \<Rightarrow> string option \<Rightarrow> exchange list \<Rightarrow> bool" where
  "in_reply e latest [] = True"
| "in_reply e latest (Asked By_Step ms (Inr text) # es) = in_reply e (Some text) es"
| "in_reply e latest (Asked By_Step ms (Inl err) # es) = in_reply e None es"
| "in_reply e latest (Asked By_Critic ms r # es) = in_reply e None es"
| "in_reply e latest (Consulted # es) = in_reply e None es"
| "in_reply e latest (Called t a # es) =
    ((case latest of None \<Rightarrow> False | Some text \<Rightarrow> asked_for e text (t, a)) \<and> in_reply e latest es)"

lemma in_reply_weaken: "in_reply e None es \<Longrightarrow> in_reply e latest es"
proof (cases es)
  case (Cons x xs)
  assume "in_reply e None es"
  with Cons show ?thesis by (cases "(e, None :: string option, es)" rule: in_reply.cases) auto
qed simp

lemma in_reply_append: "in_reply e latest xs \<Longrightarrow> in_reply e None ys \<Longrightarrow> in_reply e latest (xs @ ys)"
  by (induction e latest xs rule: in_reply.induct) (auto intro: in_reply_weaken)

lemma in_reply_calls: "list_all (on_call (asked_for e text)) es \<Longrightarrow> in_reply e (Some text) es"
  by (induction es) (auto simp: on_call_def split: exchange.splits)

text \<open>An exchange that is no call.\<close>

definition no_call :: "exchange \<Rightarrow> bool" where
  "no_call x = (case x of Called t a \<Rightarrow> False | _ \<Rightarrow> True)"

lemma no_call_simps [simp]: "no_call (Asked who ms r)" "no_call Consulted" "\<not> no_call (Called t a)"
  by (simp_all add: no_call_def)

lemma in_reply_no_calls: "list_all no_call es \<Longrightarrow> in_reply e latest es"
  by (induction e latest es rule: in_reply.induct) simp_all

definition heard :: "'w env \<Rightarrow> 'w agent \<Rightarrow> 'w agent \<Rightarrow> bool" where
  "heard e s t \<longleftrightarrow> (\<exists>es. ag_trace t = ag_trace s @ es \<and> in_reply e None es)"

interpretation heard: step_relation "heard e" for e :: "'w env"
proof
  show "heard e s s" for s :: "'w agent" by (simp add: heard_def)
  fix s t u :: "'w agent" assume "heard e s t" "heard e t u"
  then obtain xs ys where "ag_trace t = ag_trace s @ xs" "in_reply e None xs"
    "ag_trace u = ag_trace t @ ys" "in_reply e None ys" unfolding heard_def by blast
  then have "ag_trace u = ag_trace s @ (xs @ ys) \<and> in_reply e None (xs @ ys)" by (simp add: in_reply_append)
  then show "heard e s u" unfolding heard_def by blast
qed

lemma heard_no_calls: "state_io_rel (grows ag_trace no_call) m \<Longrightarrow> state_io_rel (heard e) m"
  by (erule io_weaken) (auto simp: grows_def heard_def intro: in_reply_no_calls)

lemma vet_calls_calls: "state_io_rel (grows ag_trace C) (vet_calls e n cs)"
proof (induction cs)
  case (Cons c cs)
  have "state_io_rel (grows ag_trace C) (in_a_loop e c)"
    unfolding in_a_loop_def by (intro keeps; simp)
  moreover have "state_io_rel (grows ag_trace C) (vet_call e n c)"
    unfolding vet_call_def Let_def by (auto intro!: keeps split: decision_outcome.split)
  ultimately show ?case using Cons by (auto intro!: keeps)
qed (auto intro!: keeps)

lemma on_calls_sanctioned:
  assumes "parse_output e text = Inr parsed"
  shows "state_io_rel (grows ag_trace (on_call (asked_for e text))) (on_calls e n text (po_tool_calls parsed))"
proof -
  have exec: "state_io_rel (grows ag_trace (on_call (asked_for e text))) (execute_validated_calls e n vs)"
    if "vetted e (po_tool_calls parsed) vs" for vs
  proof -
    have "asked_for e text ta" if "made e vs ta" for ta
      using that assms \<open>vetted e (po_tool_calls parsed) vs\<close>
      by (fastforce simp: made_def vetted_def asked_for_def list_ex_iff list_all_iff validated_of_def)
    then have "on_call (asked_for e text) x" if "on_call (made e vs) x" for x
      using that by (auto simp: on_call_def split: exchange.splits)
    then have "state_io_rel (grows ag_trace (on_call (asked_for e text))) (exec_calls e n vs)"
      by (intro io_weaken [OF exec_calls_calls]) (erule grows_weaken)
    then show ?thesis unfolding execute_validated_calls_def by (intro keeps)
  qed
  show ?thesis
    unfolding on_calls_def
    by (intro keeps grow.bind_pred_keeps [OF vet_calls_calls vet_calls_vetted])
      (auto intro!: keeps exec split: sum.split)
qed

lemma on_output_sanctioned:
  "state_io_rel (grows ag_trace (on_call (asked_for e text))) (on_output e n request text)"
proof -
  have "state_io_rel (grows ag_trace C) (on_parse_error e n err)" for C err
    unfolding on_parse_error_def by (auto intro!: keeps split: recovery_action.split)
  moreover have "state_io_rel (grows ag_trace C) (on_answer e n request answer)" for C answer
    unfolding on_answer_def judge_answer_def give_answer_def Let_def
    by (auto intro!: keeps split: decision_outcome.split)
  ultimately show ?thesis
    unfolding on_output_def by (auto intro!: keeps on_calls_sanctioned split: parse_failure.split sum.split)
qed

text \<open>The history of one step: nothing, or a question and the calls its answer asks for.\<close>

lemma execute_step_trace:
  "\<exists>es. ag_trace (snd (run_state (execute_step e n) s)) = ag_trace s @ es
     \<and> (es = [] \<or> (\<exists>ms err. es = [Asked By_Step ms (Inl err)])
        \<or> (\<exists>ms text cs. es = Asked By_Step ms (Inr text) # cs \<and> list_all (on_call (asked_for e text)) cs))"
proof -
  obtain stop w where cancel: "en_cancelled e (ag_world s) = (stop, w)" by fastforce
  show ?thesis
  proof (cases stop)
    case True
    then show ?thesis by (simp add: execute_step_def cancel)
  next
    case False
    let ?s = "s\<lparr>ag_world := w\<rparr>" and ?request = "last_user_message (ag_messages s)"
    let ?kind = "detect_task_type ?request" and ?config = "en_config e"
    let ?p = "llm_messages ?kind (ag_messages s)"
    obtain r w' where gen: "en_generate e ?p
        (map tool_schema_of (select_relevant_split_semantic (en_similarity e ?request w) (en_tools e) ?request
           (ac_max_tools_in_context ?config) (ac_max_mcp_tools_in_context ?config) (ac_allowed_tools ?config)))
        (inference_for_task ?kind (ac_base_inference ?config)) w = (r, w')" by fastforce
    let ?t = "s\<lparr>ag_world := w', ag_trace := ag_trace s @ [Asked By_Step ?p r]\<rparr>"
    show ?thesis
    proof (cases r)
      case (Inl err)
      then show ?thesis using False gen by (simp add: execute_step_def cancel Let_def)
    next
      case (Inr out)
      have "snd (run_state (execute_step e n) s) = snd (run_state (on_output e n ?request out) ?t)"
        using False gen Inr by (simp add: execute_step_def cancel Let_def)
      moreover have "grows ag_trace (on_call (asked_for e out)) ?t (snd (run_state (on_output e n ?request out) ?t))"
        using on_output_sanctioned unfolding state_io_rel_def by blast
      ultimately obtain cs where "ag_trace (snd (run_state (execute_step e n) s)) = ag_trace ?t @ cs"
        "list_all (on_call (asked_for e out)) cs" by (auto simp: grows_def)
      then show ?thesis using Inr by simp
    qed
  qed
qed

lemma execute_step_heard: "state_io_rel (heard e) (execute_step e n)"
proof -
  have "heard e s (snd (run_state (execute_step e n) s))" for s
    using execute_step_trace [of e n s] unfolding heard_def by (auto intro: in_reply_calls)
  then show ?thesis by (simp add: state_io_rel_def)
qed

end
