(* ===== verification/Loop_Facts.thy ===== *)
theory Loop_Facts
  imports Agent_Loop Step_Facts
begin

text \<open>
  Properties of whole runs of the agent loop: what may be called, how often and with what the model is
  asked, how a session ends, and when the loop gives up.
\<close>

section \<open>What the handling of an outcome keeps\<close>

text \<open>No tool is called, no end of the session is recorded, and the chain keeps its guards.\<close>

definition tame :: "'w agent \<Rightarrow> 'w agent \<Rightarrow> bool" where
  "tame s t \<longleftrightarrow> logs s t \<and> grows ag_trace no_call s t
     \<and> guards (ag_chain t) = guards (ag_chain s) \<and> cr_enabled (ag_critic t) = cr_enabled (ag_critic s)"

text \<open>In addition the model is not asked.\<close>

definition hush :: "'w agent \<Rightarrow> 'w agent \<Rightarrow> bool" where
  "hush s t \<longleftrightarrow> tame s t \<and> ag_prompts t = ag_prompts s"

interpretation tame: step_relation tame
proof
  show "tame s s" for s :: "'w agent" by (simp add: tame_def logs_same grows_same)
  show "tame s u" if "tame s t" "tame t u" for s t u :: "'w agent"
    using that logs_trans [of s t u] grow.R_trans [of ag_trace no_call s t u] by (simp add: tame_def)
qed

interpretation hush: step_relation hush
proof
  show "hush s s" for s :: "'w agent" by (simp add: hush_def tame.R_refl)
  show "hush s u" if "hush s t" "hush t u" for s t u :: "'w agent"
    using that tame.R_trans [of s t u] by (simp add: hush_def)
qed

lemma hush_primitives:
  "state_io_rel hush (asks f)"
  "state_io_rel hush (outside g)"
  "plain p \<Longrightarrow> state_io_rel hush (store e p)"
  "state_io_rel hush (say m)"
  "t \<notin> {SessionEnd, ToolCallStart, ToolCallEnd} \<Longrightarrow> state_io_rel hush (emit_event e t d i)"
  "(\<And>s. hush s (h s)) \<Longrightarrow> state_io_rel hush (State_Monad.update h)"
  by (auto simp: state_io_rel_def hush_def tame_def emit_event_def logs_same logs_one grows_same split: prod.split)

lemmas hush_keeps = hush.keeps hush_primitives

text \<open>An update is hushed when it touches none of the fields.\<close>

lemma hush_same:
  "ag_log t = ag_log s \<Longrightarrow> ag_trace t = ag_trace s \<Longrightarrow> ag_chain t = ag_chain s
    \<Longrightarrow> cr_enabled (ag_critic t) = cr_enabled (ag_critic s) \<Longrightarrow> hush s t"
  by (simp add: hush_def tame_def logs_same grows_same ag_prompts_def del: prompts_of_simps(4))

lemma hush_tame: "state_io_rel hush m \<Longrightarrow> state_io_rel tame m"
  by (erule io_weaken) (simp add: hush_def)

lemma ask_model_tame: "state_io_rel tame (ask_model e who ms sc pr)"
  by (auto simp: state_io_rel_def tame_def logs_same grows_one split: prod.split)

lemma note_hush: "state_io_rel hush note_consultation"
  by (simp add: note_consultation_def state_io_rel_def hush_def tame_def logs_same grows_one)

lemma store_all_hush: "list_all plain ps \<Longrightarrow> state_io_rel hush (store_all e ps)"
  by (induction ps) (auto intro!: hush_keeps)

lemma record_outcome_hush: "state_io_rel hush (record_outcome_of_heuristics e ok)"
  unfolding record_outcome_of_heuristics_def record_heuristic_outcomes_def
  by (intro hush_keeps store_all_hush) (simp add: list_all_iff)

lemma record_hush:
  "state_io_rel hush (record_success e ctx answer)" "state_io_rel hush (record_abort e ctx reason)"
  unfolding record_success_def record_abort_def by (intro hush_keeps; simp)+

lemma take_tools_hush: "state_io_rel hush (take_tools answer used)"
  unfolding take_tools_def by (intro hush_keeps) (rule hush_same; simp)

lemma abort_with_hush: "state_io_rel hush (abort_with e ctx used reason)"
  unfolding abort_with_def by (intro hush_keeps record_outcome_hush record_hush take_tools_hush)

lemma ask_advisor_hush: "state_io_rel hush (ask_advisor e ask)"
  unfolding ask_advisor_def by (intro hush_keeps hush_same; simp)

lemma resolve_hush: "state_io_rel hush (resolve_advisor_prompt e role ctx)"
  unfolding resolve_advisor_prompt_def advice_for_def by (intro hush_keeps note_hush ask_advisor_hush)

lemma mw_after_hush: "state_io_rel hush (mw_after e r m)"
proof -
  have "state_io_rel hush (compaction_after e r config)" for config
    unfolding compaction_after_def by (intro hush_keeps hush_same; simp)
  moreover have "state_io_rel hush (audit_after e r)"
    unfolding audit_after_def by (intro hush_keeps; simp)
  ultimately show ?thesis
    unfolding mw_after_def by (auto intro!: hush_keeps split: middleware.split)
qed

lemma mw_after_chain: "state_io_rel (\<lambda>s t. ag_chain t = ag_chain s) (mw_after e r m)"
  by (auto simp: mw_after_def compaction_after_def audit_after_def state_io_rel_def split: middleware.split)

lemma after_chain_keeps:
  "state_io_rel hush (after_chain e r ms)" "state_io_rel (\<lambda>s t. ag_chain t = ag_chain s) (after_chain e r ms)"
proof (induction ms)
  case (Cons m ms)
  case 1
  show ?case using Cons by (auto intro!: hush_keeps mw_after_hush split: middleware_signal.split)
next
  case (Cons m ms)
  have "state_io_rel (\<lambda>s t. ag_chain t = ag_chain s) (say x)" for x :: message
    by (simp add: state_io_rel_def)
  then show "state_io_rel (\<lambda>s t. ag_chain t = ag_chain s) (after_chain e r (m # ms))"
    using Cons by (auto intro!: same.keeps mw_after_chain split: middleware_signal.split)
qed (auto intro!: hush_keeps same.keeps)

lemma run_after_step_hush: "state_io_rel hush (run_after_step e r)"
proof -
  have "hush s (t\<lparr>ag_chain := ms'\<rparr>)" if "run_state (after_chain e r (ag_chain s)) s = (ms', t)" for s t ms'
  proof -
    have "hush s t" using after_chain_keeps(1) [of e r "ag_chain s"] that
      by (metis state_io_rel_def snd_conv)
    moreover have "guards ms' = guards (ag_chain s)"
      using pred_stateD [OF after_chain_guards that] .
    ultimately show ?thesis by (simp add: hush_def tame_def logs_def grows_def)
  qed
  then show ?thesis by (auto simp: run_after_step_def state_io_rel_def split: prod.split)
qed

lemma stall_hush: "state_io_rel hush (inject_replan_on_stall e ctx ok h)"
  unfolding inject_replan_on_stall_def log_advisor_call_def spend_advice_def reset_stall_def
  by (intro hush_keeps resolve_hush hush_same; simp)

lemma verification_hush: "state_io_rel hush (inject_verification_step e ctx answer i)"
  unfolding inject_verification_step_def should_skip_verification_def log_advisor_call_def spend_advice_def
  by (intro hush_keeps resolve_hush hush_same; simp)

lemma on_aborted_hush: "state_io_rel hush (on_aborted e ctx used i d reason)"
  unfolding on_aborted_def by (intro hush_keeps run_after_step_hush abort_with_hush hush_same; simp)

lemma note_progress_hush: "state_io_rel hush (note_progress ok)"
  unfolding note_progress_def escalate_def
  by (auto intro!: hush_keeps hush_same split: recovery_action.split)

lemma on_continue_hush: "state_io_rel hush (on_continue e ctx used i d tools ok)"
  unfolding on_continue_def
  by (auto intro!: hush_keeps note_progress_hush run_after_step_hush stall_hush abort_with_hush hush_same
      split: stall_action.split)

section \<open>The critic's question\<close>

definition is_critic_prompt :: "message list \<Rightarrow> bool" where
  "is_critic_prompt ms = (\<exists>c ctx answer. ms = critic_messages c ctx answer)"

text \<open>At most one more prompt, the critic's, and none when the critic is off.\<close>

definition critic_only :: "'w agent \<Rightarrow> 'w agent \<Rightarrow> bool" where
  "critic_only s t \<longleftrightarrow> tame s t
     \<and> (\<exists>ps. ag_prompts t = ag_prompts s @ ps \<and> list_all is_critic_prompt ps
          \<and> length ps \<le> of_bool (cr_enabled (ag_critic s)))"

lemma hush_critic_only: "hush s t \<Longrightarrow> critic_only s t"
  by (auto simp: hush_def critic_only_def)

lemma critic_then_hush: "critic_only s t \<Longrightarrow> hush t u \<Longrightarrow> critic_only s u"
  unfolding critic_only_def hush_def by (auto intro: tame.R_trans)

lemma hush_then_critic: "hush s t \<Longrightarrow> critic_only t u \<Longrightarrow> critic_only s u"
  unfolding critic_only_def hush_def tame_def
  by (auto intro: logs_trans grow.R_trans)

lemma bind_critic_hush:
  assumes "state_io_rel critic_only m" and "\<And>x. state_io_rel hush (f x)"
  shows "state_io_rel critic_only (State_Monad.bind m f)"
  using assms by (auto simp: state_io_rel_def split: prod.split) (metis critic_then_hush snd_conv)

lemma bind_hush_critic:
  assumes "state_io_rel hush m" and "\<And>x. state_io_rel critic_only (f x)"
  shows "state_io_rel critic_only (State_Monad.bind m f)"
  using assms by (auto simp: state_io_rel_def split: prod.split) (metis hush_then_critic snd_conv)

lemma finish_critique_hush: "state_io_rel hush (finish_critique e c ctx answer start result)"
  unfolding finish_critique_def Let_def
  by (auto intro!: hush_keeps hush_same simp: cr_record_call_def split: critic_outcome.split)

lemma critic_review_only: "state_io_rel critic_only (inject_critic_review e ctx answer)"
proof -
  have "critic_only s (snd (run_state (inject_critic_review e ctx answer) s))" for s
  proof (cases "cr_enabled (ag_critic s) \<and> can_critique (ag_critic s) \<and> cr_mode (ag_critic s) \<noteq> SeparateBackend")
    case False
    then have "snd (run_state (inject_critic_review e ctx answer) s) = s"
      by (auto simp: inject_critic_review_def)
    then show ?thesis by (simp add: hush_critic_only hush.R_refl)
  next
    case True
    obtain start w where now: "en_now e (ag_world s) = (start, w)" by fastforce
    obtain r w' where gen: "en_generate e (critic_messages (ag_critic s) ctx answer) []
        ((ac_base_inference (en_config e))\<lparr>ip_temperature := cr_temperature (ag_critic s)\<rparr>) w = (r, w')"
      by fastforce
    let ?t = "s\<lparr>ag_world := w', ag_trace := ag_trace s @ [Asked By_Critic (critic_messages (ag_critic s) ctx answer) r]\<rparr>"
    have "critic_only s ?t"
      using True by (auto simp: critic_only_def tame_def logs_same is_critic_prompt_def grows_one)
    then have "critic_only s (snd (run_state (finish_critique e (ag_critic s) ctx answer start r) ?t))"
      using finish_critique_hush unfolding state_io_rel_def by (blast intro: critic_then_hush)
    then show ?thesis using True by (simp add: inject_critic_review_def now gen)
  qed
  then show ?thesis by (simp add: state_io_rel_def)
qed

lemma on_final_answer_only: "state_io_rel critic_only (on_final_answer e ctx used i d answer)"
proof -
  have first: "state_io_rel critic_only (if cr_enabled c then do {
         out \<leftarrow> inject_critic_review e ctx answer;
         action \<leftarrow> asks (\<lambda>s. cr_on_disagreement (ag_critic s));
         State_Monad.return (case out of
           Disagree raw _ \<Rightarrow> if action = InjectAsSystemMessage then Some raw else None
         | _ \<Rightarrow> None) }
       else State_Monad.return None)" for c
  proof -
    have "state_io_rel critic_only (State_Monad.return None)"
      by (rule io_weaken [OF hush.return_keeps hush_critic_only])
    then show ?thesis by (auto intro!: bind_critic_hush [OF critic_review_only] hush_keeps)
  qed
  have upd: "state_io_rel hush (State_Monad.update
      (\<lambda>s. s\<lparr>ag_continue_site := cs_record_success (ag_continue_site s)\<rparr>))"
    by (intro hush_keeps hush_same; simp)
  show ?thesis
    unfolding on_final_answer_def
    by (intro bind_hush_critic [OF upd] bind_hush_critic [OF hush_primitives(1)] bind_critic_hush [OF first])
      (intro hush_keeps verification_hush run_after_step_hush record_hush record_outcome_hush
        take_tools_hush hush_same; simp)
qed

lemma handle_outcome_only: "state_io_rel critic_only (handle_outcome e ctx used i d out)"
  unfolding handle_outcome_def
  by (auto intro: on_final_answer_only io_weaken [OF on_aborted_hush hush_critic_only]
      io_weaken [OF on_continue_hush hush_critic_only] split: step_outcome.split)

section \<open>One iteration\<close>

text \<open>What a step asks the model: nothing, or once, the session with the directive of its kind.\<close>

definition step_prompts :: "'w agent \<Rightarrow> message list list \<Rightarrow> bool" where
  "step_prompts s ps \<longleftrightarrow> ps = [] \<or>
     ps = [llm_messages (detect_task_type (last_user_message (ag_messages s))) (ag_messages s)]"

lemma execute_step_asks:
  "loop_part (snd (run_state (execute_step e n) s)) = loop_part s
   \<and> logs s (snd (run_state (execute_step e n) s))
   \<and> (\<exists>ps. ag_prompts (snd (run_state (execute_step e n) s)) = ag_prompts s @ ps \<and> step_prompts s ps)"
proof -
  obtain stop w where c: "en_cancelled e (ag_world s) = (stop, w)" by fastforce
  show ?thesis
  proof (cases stop)
    case True
    then show ?thesis by (simp add: execute_step_def c loop_part_def step_prompts_def logs_same)
  next
    case False
    define request where "request = last_user_message (ag_messages s)"
    define p where "p = llm_messages (detect_task_type request) (ag_messages s)"
    define schemas where "schemas = map tool_schema_of (select_relevant_split_semantic
      (en_similarity e request w) (en_tools e) request (ac_max_tools_in_context (en_config e))
      (ac_max_mcp_tools_in_context (en_config e)) (ac_allowed_tools (en_config e)))"
    obtain r w' where g: "en_generate e p schemas
        (inference_for_task (detect_task_type request) (ac_base_inference (en_config e))) w = (r, w')"
      by fastforce
    let ?t = "s\<lparr>ag_world := w', ag_trace := ag_trace s @ [Asked By_Step p r]\<rparr>"
    have run: "run_state (execute_step e n) s = run_state (case r of
        Inl err \<Rightarrow> State_Monad.return (Inl (Backend_Failed err))
      | Inr text \<Rightarrow> on_output e n request text) ?t"
      using False g by (cases r) (simp_all add: execute_step_def c Let_def p_def schemas_def request_def)
    have "state_io_rel calm (case r of Inl err \<Rightarrow> State_Monad.return (Inl (Backend_Failed err))
      | Inr text \<Rightarrow> on_output e n request text)"
      by (intro calm_keeps on_output_calm)
    then have "calm ?t (snd (run_state (execute_step e n) s))" unfolding run state_io_rel_def by blast
    moreover have "step_prompts s [p]" by (simp add: step_prompts_def p_def request_def)
    ultimately show ?thesis by (auto simp: calm_def loop_part_def logs_def)
  qed
qed

text \<open>A prompt of the loop fits the budget before its directive is added, or is the critic's.\<close>

definition prompt_fits :: "compaction_config \<Rightarrow> message list \<Rightarrow> bool" where
  "prompt_fits c p \<longleftrightarrow>
     (\<exists>kind ms. p = llm_messages kind ms \<and> estimate_tokens ms \<le> max_context_tokens c)
     \<or> is_critic_prompt p"

lemma prompt_fits_step: "estimate_tokens ms \<le> max_context_tokens c \<Longrightarrow> prompt_fits c (llm_messages kind ms)"
  by (auto simp: prompt_fits_def)

text \<open>What an iteration does to the fields of interest.\<close>

definition iterates :: "compaction_config \<Rightarrow> 'w agent \<Rightarrow> 'w agent \<Rightarrow> bool" where
  "iterates c s t \<longleftrightarrow> guards (ag_chain t) = guards (ag_chain s)
     \<and> cr_enabled (ag_critic t) = cr_enabled (ag_critic s)
     \<and> (\<exists>ps. ag_prompts t = ag_prompts s @ ps \<and> list_all (prompt_fits c) ps
          \<and> length ps \<le> 1 + of_bool (cr_enabled (ag_critic s)))"

lemma iterate_asks:
  assumes "estimate_tokens (ag_messages s) \<le> max_context_tokens c"
  shows "iterates c s (snd (run_state (iterate e ctx i) s))"
proof -
  obtain t0 w where now: "en_now e (ag_world s) = (t0, w)" by fastforce
  let ?s = "s\<lparr>ag_world := w\<rparr>"
  obtain out t where step: "run_state (execute_step e i) ?s = (out, t)" by fastforce
  obtain t1 w' where now': "en_now e (ag_world t) = (t1, w')" by fastforce
  let ?t = "t\<lparr>ag_world := w'\<rparr>"
  have t: "loop_part t = loop_part s" "\<exists>ps. ag_prompts t = ag_prompts s @ ps \<and> step_prompts s ps"
    using execute_step_asks [of e i ?s] step by (auto simp: loop_part_def step_prompts_def)
  obtain ps where ps: "ag_prompts t = ag_prompts s @ ps" "step_prompts s ps" using t(2) by blast
  have fits: "list_all (prompt_fits c) ps \<and> length ps \<le> 1"
    using ps(2) prompt_fits_step [OF assms] by (auto simp: step_prompts_def)
  have u: "critic_only ?t u \<Longrightarrow> iterates c s u" for u
    using t(1) ps(1) fits
    by (fastforce simp: critic_only_def tame_def iterates_def loop_part_def list_all_iff prompt_fits_def)
  show ?thesis
  proof (cases out)
    case (Inl err)
    then show ?thesis
      using u [of ?t] by (simp add: iterate_def now step now' hush_critic_only hush.R_refl)
  next
    case (Inr o')
    obtain r v where r: "run_state (handle_outcome e ctx (i + 1) i (millis t0 t1) o') ?t = (r, v)"
      by fastforce
    have "critic_only ?t v"
      using handle_outcome_only [of e ctx "i + 1" i "millis t0 t1" o'] r
      by (metis state_io_rel_def snd_conv)
    then have v: "iterates c s v" by (rule u)
    then have "iterates c s (v\<lparr>ag_log := l\<rparr>)" for l by (simp add: iterates_def)
    then show ?thesis
      using v Inr by (simp add: iterate_def now step now' r [simplified] emit_event_def split: option.split)
  qed
qed

section \<open>The loop, run from a state\<close>

definition capped :: "'w env \<Rightarrow> nat \<Rightarrow> 'w agent \<Rightarrow> 'w agent" where
  "capped e i s = s\<lparr>ag_iteration := i, ag_messages := fst (cap_session_messages (en_environ e)
     (working_cap_from_env (en_environ e)) (ag_messages s))\<rparr>"

text \<open>The two ends outside a step, and the end of the iterations.\<close>

definition ends_early :: "'w env \<Rightarrow> string \<Rightarrow> string option \<Rightarrow> nat \<Rightarrow> string \<Rightarrow> 'w agent
    \<Rightarrow> (stop + agent_loop_result) \<times> 'w agent" where
  "ends_early e reason abort used answer s = map_prod Inr id (run_state (end_early e reason abort used answer) s)"

lemma ends_early_run:
  "ends_early e reason abort used answer s =
    (Inr \<lparr>lr_answer = answer, lr_iterations_used = used, lr_tools_called = ag_all_tools s\<rparr>,
     if en_has_store e then s\<lparr>ag_log := ag_log s @ [Append_Event (en_session_id e) SessionEnd
       (end_event reason abort used (length (ag_all_tools s))) (Some used)]\<rparr> else s)"
  by (simp add: ends_early_def end_early_def emit_event_def)

definition timeout_answer :: "nat \<Rightarrow> string" where
  "timeout_answer limit = m_timeout_1 @ show_nat (limit div 10 ^ 9) @ m_timeout_2"

definition max_steps_answer :: "'w env \<Rightarrow> string" where
  "max_steps_answer e = m_aborted @ m_max_steps_1 @ show_nat (ac_max_iterations (en_config e)) @ m_max_steps_2"

lemma loop_from_0: "run_state (loop_from e ctx start 0 i) s
    = ends_early e ''max_iterations'' None i (max_steps_answer e) s"
  by (simp add: ends_early_def max_steps_answer_def split: prod.split)

lemma timed_out_run: "\<exists>late w. run_state (timed_out e start) s = (late, s\<lparr>ag_world := w\<rparr>)"
proof (cases "ac_task_timeout (en_config e)")
  case None
  then have "run_state (timed_out e start) s = (None, s\<lparr>ag_world := ag_world s\<rparr>)" by (simp add: timed_out_def)
  then show ?thesis by blast
qed (auto simp: timed_out_def split: prod.split)

lemma loop_from_Suc:
  assumes "run_state (timed_out e start) s = (late, s')"
  shows "run_state (loop_from e ctx start (Suc left) i) s =
    (case late of
       Some limit \<Rightarrow> ends_early e ''timeout'' None i (timeout_answer limit) s'
     | None \<Rightarrow>
        (case run_state (run_before_step e) (capped e i s') of
           (Some reason, t) \<Rightarrow> ends_early e ''abort'' (Some reason) i (m_aborted @ reason) t
         | (None, t) \<Rightarrow>
            (case run_state (iterate e ctx i) t of
               (Inl err, u) \<Rightarrow> (Inl err, u)
             | (Inr (Some res), u) \<Rightarrow> (Inr res, u)
             | (Inr None, u) \<Rightarrow> run_state (loop_from e ctx start left (Suc i)) u)))"
  using assms
  by (simp add: ends_early_def timeout_answer_def capped_def split: option.split sum.split prod.split)

text \<open>One round of the loop from a state whose chain has one guard.\<close>

lemma round_cases:
  assumes "guards (ag_chain s) = [c]"
  obtains (ended) reason abort answer t where
      "run_state (loop_from e ctx start (Suc left) i) s = ends_early e reason abort i answer t"
      "ag_prompts t = ag_prompts s" "ag_log t = ag_log s"
      "starts_with answer m_aborted \<or> starts_with answer m_timeout_1"
  | (ran) r t u where
      "run_state (loop_from e ctx start (Suc left) i) s =
        (case r of Inl err \<Rightarrow> (Inl err, u) | Inr (Some res) \<Rightarrow> (Inr res, u)
         | Inr None \<Rightarrow> run_state (loop_from e ctx start left (Suc i)) u)"
      "run_state (iterate e ctx i) t = (r, u)"
      "estimate_tokens (ag_messages t) \<le> max_context_tokens c"
      "ag_prompts t = ag_prompts s" "ag_log t = ag_log s" "guards (ag_chain t) = [c]"
      "ag_critic t = ag_critic s" "ag_continue_site t = ag_continue_site s"
proof -
  obtain late w where late: "run_state (timed_out e start) s = (late, s\<lparr>ag_world := w\<rparr>)"
    using timed_out_run [of e start s] by blast
  note run = loop_from_Suc [OF late, of ctx left i]
  show thesis
  proof (cases late)
    case (Some limit)
    have "run_state (loop_from e ctx start (Suc left) i) s
        = ends_early e ''timeout'' None i (timeout_answer limit) (s\<lparr>ag_world := w\<rparr>)"
      using run Some by simp
    then show thesis by (rule ended) (simp_all add: timeout_answer_def starts_with_def)
  next
    case None
    let ?s = "capped e i (s\<lparr>ag_world := w\<rparr>)"
    obtain stopped t where b: "run_state (run_before_step e) ?s = (stopped, t)" by fastforce
    have g: "guards (ag_chain ?s) = [c]" using assms by (simp add: capped_def)
    have t: "ag_prompts t = ag_prompts s" "ag_log t = ag_log s" "ag_chain t = ag_chain s"
      "ag_critic t = ag_critic s" "ag_continue_site t = ag_continue_site s"
      and fit: "stopped = None \<Longrightarrow> estimate_tokens (ag_messages t) \<le> max_context_tokens c"
      using b g by (auto simp: run_before_step_def before_one_guard Let_def capped_def split: if_splits)
    show thesis
    proof (cases stopped)
      case (Some reason)
      have "run_state (loop_from e ctx start (Suc left) i) s
          = ends_early e ''abort'' (Some reason) i (m_aborted @ reason) t"
        using run None b Some by simp
      then show thesis by (rule ended) (simp_all add: t starts_with_def)
    next
      case None': None
      obtain r u where it: "run_state (iterate e ctx i) t = (r, u)" by fastforce
      have "run_state (loop_from e ctx start (Suc left) i) s =
          (case r of Inl err \<Rightarrow> (Inl err, u) | Inr (Some res) \<Rightarrow> (Inr res, u)
           | Inr None \<Rightarrow> run_state (loop_from e ctx start left (Suc i)) u)"
        using run None b None' it by (simp split: sum.split option.split)
      then show thesis
        by (rule ran [OF _ it]) (use fit None' t assms in simp_all)
    qed
  qed
qed

lemma loop_asks:
  assumes "guards (ag_chain s) = [c]"
  shows "\<exists>ps. ag_prompts (snd (run_state (loop_from e ctx start left i) s)) = ag_prompts s @ ps
    \<and> list_all (prompt_fits c) ps \<and> length ps \<le> left * (1 + of_bool (cr_enabled (ag_critic s)))"
  using assms
proof (induction left arbitrary: i s)
  case 0
  then show ?case by (simp add: loop_from_0 ends_early_run del: loop_from.simps)
next
  case (Suc left)
  from Suc.prems show ?case
  proof (cases rule: round_cases [of s c e ctx start left i])
    case (ended reason abort answer t)
    then show ?thesis by (simp add: ends_early_run del: loop_from.simps)
  next
    case (ran r t u)
    have "iterates c t u" using iterate_asks [OF ran(3), of e ctx i] ran(2) by simp
    then obtain ps where ps: "ag_prompts u = ag_prompts s @ ps" "list_all (prompt_fits c) ps"
        "length ps \<le> 1 + of_bool (cr_enabled (ag_critic s))"
      and u: "guards (ag_chain u) = [c]" "cr_enabled (ag_critic u) = cr_enabled (ag_critic s)"
      using ran by (auto simp: iterates_def)
    show ?thesis
    proof (cases "r = Inr None")
      case True
      from Suc.IH [OF u(1), of "Suc i"] obtain qs where
        "ag_prompts (snd (run_state (loop_from e ctx start left (Suc i)) u)) = ag_prompts u @ qs"
        "list_all (prompt_fits c) qs" "length qs \<le> left * (1 + of_bool (cr_enabled (ag_critic s)))"
        using u(2) by auto
      then have "ag_prompts (snd (run_state (loop_from e ctx start (Suc left) i) s)) = ag_prompts s @ (ps @ qs)
          \<and> list_all (prompt_fits c) (ps @ qs)
          \<and> length (ps @ qs) \<le> Suc left * (1 + of_bool (cr_enabled (ag_critic s)))"
        using ran(1) True ps by (simp del: loop_from.simps)
      then show ?thesis by blast
    next
      case False
      then have "snd (run_state (loop_from e ctx start (Suc left) i) s) = u"
        using ran(1) by (auto split: sum.splits option.splits)
      then show ?thesis using ps by (intro exI [of _ ps]) (simp del: loop_from.simps)
    qed
  qed
qed

section \<open>What an iteration returns\<close>

definition approved :: "'w env \<Rightarrow> string \<Rightarrow> bool" where
  "approved e answer = (matches (vp_destructive (en_values e)) answer = False \<and> trim answer \<noteq> [])"

lemma judge_answer_pred:
  "pred_state (\<lambda>v. is_halt (fst v) = False \<longrightarrow> approved e answer) (judge_answer e answer request)"
proof (rule pred_stateI)
  fix v s t assume "run_state (judge_answer e answer request) s = (v, t)"
  then have "v = evaluate_final_answer_full (panel_of e) answer request
      (map msg_content (filter (\<lambda>m. msg_role m = Tool) (ag_messages s)))
      (if en_has_store e then Some (en_similar e (ag_log s) (ag_world s)) else None)"
    by (auto simp only: judge_answer_def run_primitives prod.inject)
  then show "is_halt (fst v) = False \<longrightarrow> approved e answer"
    by (simp add: panel_of_def evaluate_final_answer_full_def default_panel_halt approved_def)
qed

lemma on_answer_approved:
  "pred_state (\<lambda>out. case out of Final_Answer a \<Rightarrow> approved e a | _ \<Rightarrow> True) (on_answer e n request answer)"
proof -
  have give: "approved e answer \<Longrightarrow>
      pred_state (\<lambda>out. case out of Final_Answer a \<Rightarrow> approved e a | _ \<Rightarrow> True) (give_answer e n answer)"
    unfolding give_answer_def by (intro bind_pred [OF any_pred] return_pred) simp
  show ?thesis
    unfolding on_answer_def Let_def
    by (rule bind_pred [OF judge_answer_pred])
      (auto intro!: bind_pred [OF any_pred] return_pred give simp: is_halt_def split: decision_outcome.split)
qed

lemma execute_step_approved:
  "pred_state (\<lambda>r. case r of Inr (Final_Answer a) \<Rightarrow> approved e a | _ \<Rightarrow> True) (execute_step e n)"
proof -
  have "pred_state (\<lambda>r. case r of Final_Answer a \<Rightarrow> approved e a | _ \<Rightarrow> True) (on_parse_error e n err)" for err
    unfolding on_parse_error_def
    by (auto intro!: bind_pred [OF any_pred] return_pred split: recovery_action.split)
  moreover have "pred_state (\<lambda>r. case r of Final_Answer a \<Rightarrow> approved e a | _ \<Rightarrow> True) (on_calls e n out cs)"
    for out cs
    unfolding on_calls_def by (intro bind_pred [OF any_pred]) (auto intro!: bind_pred [OF any_pred] return_pred split: sum.split)
  ultimately have "pred_state (\<lambda>r. case r of Inr (Final_Answer a) \<Rightarrow> approved e a | _ \<Rightarrow> True)
      (on_output e n request out)" for request out
    unfolding on_output_def
    by (auto intro!: return_pred bind_pred [OF on_answer_approved] bind_pred [of "\<lambda>r. case r of
        Final_Answer a \<Rightarrow> approved e a | _ \<Rightarrow> True"] split: sum.split parse_failure.split)
  then show ?thesis
    unfolding execute_step_def Let_def
    by (intro bind_pred [OF any_pred]) (auto intro!: return_pred bind_pred [OF any_pred] split: sum.split)
qed

text \<open>A returned result counts its iteration, and carries the answer or a note of the abort.\<close>

definition result_of :: "nat \<Rightarrow> step_outcome \<Rightarrow> agent_loop_result option \<Rightarrow> bool" where
  "result_of used out r = (case r of None \<Rightarrow> True
     | Some res \<Rightarrow> lr_iterations_used res = used
         \<and> (case out of Final_Answer a \<Rightarrow> lr_answer res = a | _ \<Rightarrow> starts_with (lr_answer res) m_aborted))"

lemma take_tools_result:
  "pred_state (\<lambda>r. \<exists>tools. r = Some \<lparr>lr_answer = a, lr_iterations_used = used, lr_tools_called = tools\<rparr>)
     (take_tools a used)"
  unfolding take_tools_def by (intro bind_pred [OF any_pred] return_pred) simp

lemma take_tools_pred: "pred_state (result_of used (Final_Answer a)) (take_tools a used)"
  by (rule pred_stateI) (auto simp: result_of_def dest!: pred_stateD [OF take_tools_result])

lemma abort_with_pred:
  assumes "\<And>a. out \<noteq> Final_Answer a"
  shows "pred_state (result_of used out) (abort_with e ctx used reason)"
proof -
  have "pred_state (result_of used out) (take_tools (m_aborted @ reason) used)"
    by (rule pred_stateI) (use assms in \<open>auto simp: result_of_def starts_with_def
        dest!: pred_stateD [OF take_tools_result] split: step_outcome.split\<close>)
  then show ?thesis unfolding abort_with_def by (intro bind_pred [OF any_pred])
qed

lemma none_pred: "pred_state (result_of used out) (State_Monad.return None)"
  by (rule return_pred) (simp add: result_of_def)

lemma handle_outcome_pred: "pred_state (result_of used out) (handle_outcome e ctx used i d out)"
proof (cases out)
  case (Final_Answer a)
  then show ?thesis
    unfolding handle_outcome_def on_final_answer_def
    by (auto intro!: bind_pred [OF any_pred] none_pred take_tools_pred split: option.split)
next
  case (Continue tools ok)
  then show ?thesis
    unfolding handle_outcome_def on_continue_def
    by (auto intro!: bind_pred [OF any_pred] none_pred abort_with_pred split: option.split stall_action.split)
next
  case (Aborted reason)
  then show ?thesis
    unfolding handle_outcome_def on_aborted_def
    by (auto intro!: bind_pred [OF any_pred] abort_with_pred)
qed

text \<open>What an iteration adds to the log: the end of the session exactly when it returns a result.\<close>

definition ends_log :: "'w env \<Rightarrow> store_op list \<Rightarrow> bool" where
  "ends_log e ps = (if en_has_store e
     then list_all (\<lambda>p. case p of Append_Event sid t _ _ \<Rightarrow> sid = en_session_id e \<and> t = SessionEnd | _ \<Rightarrow> False) ps
       \<and> length ps = 1 else ps = [])"

definition closes :: "'w env \<Rightarrow> bool \<Rightarrow> 'w agent \<Rightarrow> 'w agent \<Rightarrow> bool" where
  "closes e fin s t \<longleftrightarrow> (\<exists>ps qs. ag_log t = ag_log s @ ps @ qs \<and> tool_log ps
     \<and> (if fin then ends_log e qs else qs = []))"

lemma closes_after: "logs s t \<Longrightarrow> closes e fin t u \<Longrightarrow> closes e fin s u"
proof -
  assume "logs s t" "closes e fin t u"
  then obtain os ps qs where "ag_log t = ag_log s @ os" "tool_log os"
    "ag_log u = ag_log t @ ps @ qs" "tool_log ps" "if fin then ends_log e qs else qs = []"
    unfolding closes_def logs_def by blast
  then have "ag_log u = ag_log s @ (os @ ps) @ qs \<and> tool_log (os @ ps)
      \<and> (if fin then ends_log e qs else qs = [])" by (simp add: tool_log_append)
  then show "closes e fin s u" unfolding closes_def by blast
qed

lemma closes_open: "closes e False s t \<longleftrightarrow> logs s t"
  by (auto simp: closes_def logs_def)

lemma closes_end:
  "ag_log t = (if en_has_store e then ag_log s @ [Append_Event (en_session_id e) SessionEnd d j] else ag_log s)
    \<Longrightarrow> closes e True s t"
  unfolding closes_def ends_log_def
  by (rule exI [of _ "[]"], rule exI [of _ "drop (length (ag_log s)) (ag_log t)"]) (simp add: tool_log.none)

lemma handle_outcome_log: "state_io_rel logs (handle_outcome e ctx used i d out)"
  by (rule io_weaken [OF handle_outcome_only]) (simp add: critic_only_def tame_def)

lemma iterate_result:
  assumes "run_state (iterate e ctx i) s = (r, u)"
  shows "closes e (case r of Inr (Some _) \<Rightarrow> True | _ \<Rightarrow> False) s u
    \<and> (case r of Inr (Some res) \<Rightarrow> lr_iterations_used res = Suc i
         \<and> (approved e (lr_answer res) \<or> starts_with (lr_answer res) m_aborted) | _ \<Rightarrow> True)"
proof -
  obtain t0 w where now: "en_now e (ag_world s) = (t0, w)" by fastforce
  obtain out t where step: "run_state (execute_step e i) (s\<lparr>ag_world := w\<rparr>) = (out, t)" by fastforce
  obtain t1 w' where now': "en_now e (ag_world t) = (t1, w')" by fastforce
  have log: "logs s t"
    using execute_step_asks [of e i "s\<lparr>ag_world := w\<rparr>"] step by (simp add: logs_def)
  show ?thesis
  proof (cases out)
    case (Inl err)
    then show ?thesis
      using assms log by (auto simp: iterate_def now step now' closes_open logs_def)
  next
    case (Inr o')
    obtain v u' where v: "run_state (handle_outcome e ctx (Suc i) i (millis t0 t1) o') (t\<lparr>ag_world := w'\<rparr>) = (v, u')"
      by fastforce
    have "logs s (t\<lparr>ag_world := w'\<rparr>)" using log by (simp add: logs_def)
    moreover have "logs (t\<lparr>ag_world := w'\<rparr>) u'"
      using handle_outcome_log v by (metis state_io_rel_def snd_conv)
    ultimately have log': "logs s u'" by (rule logs_trans)
    have res: "result_of (Suc i) o' v" by (rule pred_stateD [OF handle_outcome_pred v])
    have app: "case o' of Final_Answer a \<Rightarrow> approved e a | _ \<Rightarrow> True"
      using pred_stateD [OF execute_step_approved step] Inr by simp
    show ?thesis
    proof (cases v)
      case None
      then have "r = Inr None" "u = u'" using assms Inr v by (simp_all add: iterate_def now step now')
      then show ?thesis using log' by (simp add: closes_open)
    next
      case (Some rs)
      then have r: "r = Inr (Some rs)" and u: "ag_log u = (if en_has_store e then ag_log u' @
          [Append_Event (en_session_id e) SessionEnd (end_event ''completed'' None (lr_iterations_used rs)
            (length (lr_tools_called rs))) (Some i)] else ag_log u')"
        using assms Inr v by (auto simp: iterate_def now step now' emit_event_def)
      have "closes e True s u" by (rule closes_after [OF log' closes_end [OF u]])
      then show ?thesis using res app r Some by (auto simp: result_of_def split: step_outcome.splits)
    qed
  qed
qed

section \<open>What a run returns and leaves\<close>

definition answer_ok :: "'w env \<Rightarrow> string \<Rightarrow> bool" where
  "answer_ok e a = (approved e a \<or> starts_with a m_aborted \<or> starts_with a m_timeout_1)"

definition run_ok :: "'w env \<Rightarrow> nat \<Rightarrow> stop + agent_loop_result \<Rightarrow> bool" where
  "run_ok e n r = (case r of Inl _ \<Rightarrow> True
     | Inr res \<Rightarrow> lr_iterations_used res \<le> n \<and> answer_ok e (lr_answer res))"

lemma ends_early_ok:
  assumes "starts_with answer m_aborted \<or> starts_with answer m_timeout_1" and "i \<le> n"
    and "ag_log t = ag_log s"
  shows "run_ok e n (fst (ends_early e reason abort i answer t))
    \<and> closes e (\<not> isl (fst (ends_early e reason abort i answer t))) s (snd (ends_early e reason abort i answer t))"
  using assms by (auto simp: run_ok_def answer_ok_def ends_early_run intro!: closes_end)

lemma loop_ends:
  assumes "guards (ag_chain s) = [c]"
  shows "run_ok e (i + left) (fst (run_state (loop_from e ctx start left i) s))
    \<and> closes e (\<not> isl (fst (run_state (loop_from e ctx start left i) s))) s
        (snd (run_state (loop_from e ctx start left i) s))"
  using assms
proof (induction left arbitrary: i s)
  case 0
  have "starts_with (max_steps_answer e) m_aborted"
    by (simp add: max_steps_answer_def starts_with_def)
  then show ?case unfolding loop_from_0 by (intro ends_early_ok) simp_all
next
  case (Suc left)
  from Suc.prems show ?case
  proof (cases rule: round_cases [of s c e ctx start left i])
    case (ended reason abort answer t)
    show ?thesis unfolding ended(1) by (rule ends_early_ok) (use ended in simp_all)
  next
    case (ran r t u)
    have it: "closes e (case r of Inr (Some _) \<Rightarrow> True | _ \<Rightarrow> False) t u"
      "case r of Inr (Some res) \<Rightarrow> lr_iterations_used res = Suc i
         \<and> (approved e (lr_answer res) \<or> starts_with (lr_answer res) m_aborted) | _ \<Rightarrow> True"
      using iterate_result [OF ran(2)] by simp_all
    have same: "closes e fin t v \<Longrightarrow> closes e fin s v" for fin v using ran(5) by (simp add: closes_def)
    show ?thesis
    proof (cases "r = Inr None")
      case True
      have open': "logs s u" using it(1) True same [of False] by (simp add: closes_open)
      have g: "guards (ag_chain u) = [c]"
        using iterate_asks [OF ran(3), of e ctx i] ran by (simp add: iterates_def)
      show ?thesis
        using Suc.IH [OF g, of "Suc i"] closes_after [OF open'] ran(1) True by (simp del: loop_from.simps)
    next
      case False
      then show ?thesis
        using it same ran(1)
        by (auto simp: run_ok_def answer_ok_def simp del: loop_from.simps split: sum.splits option.splits)
    qed
  qed
qed

lemma handle_outcome_heard: "state_io_rel (heard e') (handle_outcome e ctx used i d out)"
  by (intro heard_no_calls io_weaken [OF handle_outcome_only]) (simp add: critic_only_def tame_def)

lemma mw_before_calls: "state_io_rel (grows ag_trace C) (before_chain e ms)"
proof (induction ms)
  case (Cons m ms)
  have "state_io_rel (grows ag_trace C) (mw_before e m)"
    unfolding mw_before_def compaction_before_def by (auto intro!: keeps split: middleware.split)
  then show ?case using Cons by (auto intro!: keeps split: middleware_signal.split)
qed (auto intro!: keeps)

lemma loop_heard: "state_io_rel (heard e) (loop_from e ctx start left i)"
proof (induction left arbitrary: i)
  case 0
  show ?case unfolding loop_from.simps end_early_def by (intro heard_no_calls keeps)
next
  case (Suc left)
  have "state_io_rel (heard e) (outside g)" "state_io_rel (heard e) (emit_event e ty d j)" for g :: "'a \<Rightarrow> nat \<times> 'a" and ty d j
    by (intro heard_no_calls keeps)+
  then have it: "state_io_rel (heard e) (iterate e ctx i)"
    unfolding iterate_def by (intro heard.keeps execute_step_heard handle_outcome_heard)
  have early: "state_io_rel (heard e) (end_early e reason abort j answer)" for reason abort j answer
    unfolding end_early_def by (intro heard_no_calls keeps)
  have late: "state_io_rel (heard e) (timed_out e start)"
    unfolding timed_out_def by (intro heard_no_calls keeps)
  have cap: "state_io_rel (heard e) (State_Monad.update (\<lambda>s. s\<lparr>ag_iteration := i,
      ag_messages := fst (cap_session_messages (en_environ e) (working_cap_from_env (en_environ e)) (ag_messages s))\<rparr>))"
    by (intro heard_no_calls keeps) simp
  have before: "state_io_rel (heard e) (run_before_step e)"
    unfolding run_before_step_def by (intro heard_no_calls keeps mw_before_calls; simp)
  show ?case
    unfolding loop_from.simps by (intro heard.keeps early late cap before it Suc)
qed

section \<open>The start of a session\<close>

lemma say_all_run: "run_state (say_all ms) s = ((), s\<lparr>ag_messages := ag_messages s @ ms\<rparr>)"
  by (induction ms arbitrary: s) simp_all

lemma say_all_keeps:
  "state_io_rel (grows ag_trace C) (say_all ms)"
  "state_io_rel (grows ag_log Q) (say_all ms)"
  by (simp_all add: state_io_rel_def say_all_run grows_same)

lemma prepare_session_run:
  fixes s :: "'w agent"
  assumes "run_state (prepare_session e ctx) s = (x, t)"
  shows "ag_trace t = ag_trace s" "ag_calls t = ag_calls s" "ag_prompts t = ag_prompts s" "logs s t"
    "guards (ag_chain t) = [with_n_ctx_budget (en_environ e) (ac_n_ctx_budget (en_config e))]"
    "ag_critic t = critic_from_env (en_critic_prompt e) (en_environ e)"
    "ag_continue_site t = cs_new" "ag_advisor t = ac_advisor (en_config e)"
proof -
  have "state_io_rel (\<lambda>s t. ag_trace t = ag_trace s \<and> logs s t)
      (prepare_session e ctx :: ('w, unit) step)"
  proof -
    have "state_io_rel (grows ag_trace (\<lambda>_. False)) (prepare_session e ctx :: ('w, unit) step)"
      "state_io_rel (grows ag_log plain) (prepare_session e ctx :: ('w, unit) step)"
      unfolding prepare_session_def recall_def inject_memory_blocks_def inject_heuristics_def
        inject_contextual_memories_def inject_planning_step_def create_task_start_checkpoint_def
        loop_state_new_def Let_def
      by (intro keeps say_all_keeps; simp)+
    then show ?thesis by (simp add: state_io_rel_def grows_none logs_plain)
  qed
  then show trace: "ag_trace t = ag_trace s" and "logs s t"
    using assms by (auto simp: state_io_rel_def dest: spec [of _ s])
  from trace show "ag_calls t = ag_calls s" "ag_prompts t = ag_prompts s"
    by (simp_all add: ag_calls_def ag_prompts_def del: calls_of_simps(4) prompts_of_simps(4))
  show "guards (ag_chain t) = [with_n_ctx_budget (en_environ e) (ac_n_ctx_budget (en_config e))]"
    "ag_critic t = critic_from_env (en_critic_prompt e) (en_environ e)"
    "ag_continue_site t = cs_new" "ag_advisor t = ac_advisor (en_config e)"
    using assms by (auto simp: prepare_session_def loop_state_new_def split: prod.splits if_splits)
qed

end
