(* ===== verification/Run_Properties.thy ===== *)
theory Run_Properties
  imports Loop_Facts
begin

text \<open>
  The properties of whole runs, and of the ways in which the loop gives up.
\<close>

section \<open>Fields that the handling of an outcome leaves alone\<close>

lemma same_primitives:
  "state_io_rel (\<lambda>s t. f t = f s) (asks g)"
  "(\<And>s w. f (s\<lparr>ag_world := w\<rparr>) = f s) \<Longrightarrow> state_io_rel (\<lambda>s t. f t = f s) (outside o')"
  "(\<And>s l. f (s\<lparr>ag_log := l\<rparr>) = f s) \<Longrightarrow> state_io_rel (\<lambda>s t. f t = f s) (store e p)"
  "(\<And>s l. f (s\<lparr>ag_log := l\<rparr>) = f s) \<Longrightarrow> state_io_rel (\<lambda>s t. f t = f s) (emit_event e ty d j)"
  "(\<And>s ms. f (s\<lparr>ag_messages := ms\<rparr>) = f s) \<Longrightarrow> state_io_rel (\<lambda>s t. f t = f s) (say m)"
  "(\<And>s w r. f (s\<lparr>ag_world := w, ag_trace := ag_trace s @ [Asked who ms r]\<rparr>) = f s)
    \<Longrightarrow> state_io_rel (\<lambda>s t. f t = f s) (ask_model e who ms sc pr)"
  "(\<And>s. f (h s) = f s) \<Longrightarrow> state_io_rel (\<lambda>s t. f t = f s) (State_Monad.update h)"
  by (auto simp: state_io_rel_def emit_event_def split: prod.split)

lemmas same_keeps = same.keeps same_primitives

text \<open>The continue site, the uses of the advisor and the uses of the critic.\<close>

definition site :: "'w agent \<Rightarrow> continue_site" where
  "site s = ag_continue_site s"

definition uses :: "'w agent \<Rightarrow> nat \<times> nat" where
  "uses s = (ad_calls_used (ag_advisor s), ad_max_uses (ag_advisor s))"

definition critic_uses :: "'w agent \<Rightarrow> nat \<times> nat" where
  "critic_uses s = (cr_calls_used (ag_critic s), cr_max_critic_uses (ag_critic s))"

text \<open>The consultations of the advisor and the answers of the critic that the history tells of.\<close>

definition is_review :: "exchange \<Rightarrow> bool" where
  "is_review x = (case x of Asked By_Critic ms (Inr answer) \<Rightarrow> True | _ \<Rightarrow> False)"

definition consultations :: "exchange list \<Rightarrow> nat" where
  "consultations es = length (filter (\<lambda>x. x = Consulted) es)"

definition reviews :: "exchange list \<Rightarrow> nat" where
  "reviews es = length (filter is_review es)"

lemma counts_simps [simp]:
  "consultations [] = 0" "reviews [] = 0"
  "consultations (xs @ ys) = consultations xs + consultations ys" "reviews (xs @ ys) = reviews xs + reviews ys"
  "consultations (x # xs) = of_bool (x = Consulted) + consultations xs"
  "reviews (x # xs) = of_bool (is_review x) + reviews xs"
  by (simp_all add: consultations_def reviews_def)

lemma is_review_simps [simp]:
  "is_review (Asked By_Critic ms (Inr answer))" "\<not> is_review (Asked By_Critic ms (Inl err))"
  "\<not> is_review (Asked By_Step ms r)" "\<not> is_review (Called t a)" "\<not> is_review Consulted"
  by (simp_all add: is_review_def)

lemma counts_calls:
  "list_all (on_call C) es \<Longrightarrow> consultations es = 0 \<and> reviews es = 0"
  by (induction es) (auto simp: on_call_def split: exchange.splits)

definition advised :: "'w agent \<Rightarrow> nat" where
  "advised s = consultations (ag_trace s)"

definition reviewed :: "'w agent \<Rightarrow> nat" where
  "reviewed s = reviews (ag_trace s)"

definition budgets :: "'w agent \<Rightarrow> continue_site \<times> (nat \<times> nat) \<times> (nat \<times> nat) \<times> nat \<times> nat" where
  "budgets s = (site s, uses s, critic_uses s, advised s, reviewed s)"

lemmas budgets_defs = budgets_def site_def uses_def critic_uses_def advised_def reviewed_def

lemma budgets_updates [simp]:
  "budgets (ag_world_update f1 s) = budgets s" "budgets (ag_log_update f2 s) = budgets s"
  "budgets (ag_messages_update f3 s) = budgets s"
  "budgets (ag_chain_update f5 s) = budgets s" "budgets (ag_all_tools_update f6 s) = budgets s"
  "budgets (ag_stall_update f7 s) = budgets s" "budgets (ag_consecutive_failures_update f8 s) = budgets s"
  "budgets (ag_iteration_update f9 s) = budgets s"
  by (simp_all add: budgets_defs)

abbreviation steady :: "('w, 'a) step \<Rightarrow> bool" where
  "steady m \<equiv> state_io_rel (\<lambda>s t. budgets t = budgets s) m"

lemma ask_advisor_steady:
  assumes "\<And>w a. ad_calls_used (fst (ask w a)) = ad_calls_used a \<and> ad_max_uses (fst (ask w a)) = ad_max_uses a"
  shows "steady (ask_advisor e ask)"
proof -
  have "budgets (s\<lparr>ag_advisor := a, ag_world := w\<rparr>) = budgets s" if "ask v (ag_advisor s) = (a, r)" for s a w v r
    using assms [of v "ag_advisor s"] that by (simp add: budgets_defs)
  then show ?thesis by (auto simp: ask_advisor_def state_io_rel_def split: prod.split)
qed

lemma cached_or_ask_uses:
  "ad_calls_used (fst (cached_or_ask k f a)) = ad_calls_used a" "ad_max_uses (fst (cached_or_ask k f a)) = ad_max_uses a"
  by (simp_all add: cached_or_ask_def split: option.split sum.split)

lemma advice_steady: "steady (advice_for e role ctx)"
proof -
  have "steady (ask_advisor e (\<lambda>w. try_claude_code_advice h (c w) role ctx))"
    "steady (ask_advisor e (\<lambda>w. try_remote_advice h (d w) role ctx))" for h c d
    by (rule ask_advisor_steady;
        simp add: try_claude_code_advice_def try_remote_advice_def cached_or_ask_uses split: option.split)+
  then show ?thesis unfolding advice_for_def by (auto intro!: same_keeps split: option.split)
qed

lemma consulted_budgets:
  "budgets (s\<lparr>ag_trace := ag_trace s @ [Consulted]\<rparr>)
    = (site s, uses s, critic_uses s, Suc (advised s), reviewed s)"
  by (simp add: budgets_defs)

lemma resolve_budgets:
  assumes "run_state (resolve_advisor_prompt e role ctx) s = (r, t)"
  shows "site t = site s" "uses t = uses s" "critic_uses t = critic_uses s" "advised t = Suc (advised s)"
    "reviewed t = reviewed s"
proof -
  let ?s = "s\<lparr>ag_trace := ag_trace s @ [Consulted]\<rparr>"
  have "run_state (resolve_advisor_prompt e role ctx) s = run_state (advice_for e role ctx) ?s"
    unfolding resolve_advisor_prompt_def note_consultation_def by simp
  then have t: "snd (run_state (advice_for e role ctx) ?s) = t" using assms by (metis snd_conv)
  have "budgets (snd (run_state (advice_for e role ctx) ?s)) = budgets ?s"
    using advice_steady unfolding state_io_rel_def by (rule spec)
  then have "budgets t = budgets ?s" unfolding t .
  then have "(site t, uses t, critic_uses t, advised t, reviewed t)
      = (site s, uses s, critic_uses s, Suc (advised s), reviewed s)"
    unfolding consulted_budgets by (simp only: budgets_def)
  then show "site t = site s" "uses t = uses s" "critic_uses t = critic_uses s" "advised t = Suc (advised s)"
    "reviewed t = reviewed s" by simp_all
qed

lemma mw_after_steady: "steady (mw_after e r m)"
  unfolding mw_after_def compaction_after_def audit_after_def
  by (auto intro!: same_keeps split: middleware.split)

lemma after_chain_steady: "steady (after_chain e r ms)"
  by (induction ms) (auto intro!: same_keeps mw_after_steady split: middleware_signal.split)

lemma run_after_step_steady: "steady (run_after_step e r)"
  unfolding run_after_step_def by (intro same_keeps after_chain_steady) simp

lemma store_all_steady: "steady (store_all e ps)"
  by (induction ps) (auto intro!: same_keeps)

lemma take_tools_steady: "steady (take_tools answer used)"
  unfolding take_tools_def by (intro same_keeps) simp

lemma record_steady:
  "steady (record_success e ctx answer)" "steady (record_abort e ctx reason)"
  "steady (record_outcome_of_heuristics e ok)"
  unfolding record_success_def record_abort_def record_outcome_of_heuristics_def record_heuristic_outcomes_def
  by (intro same_keeps store_all_steady; simp)+

lemma abort_with_steady: "steady (abort_with e ctx used reason)"
  unfolding abort_with_def by (intro same_keeps record_steady take_tools_steady)

section \<open>Bounded advice and critique\<close>

definition spent :: "nat \<times> nat \<Rightarrow> nat \<times> nat \<Rightarrow> bool" where
  "spent u v \<longleftrightarrow> snd v = snd u \<and> fst u \<le> fst v \<and> fst v \<le> max (fst u) (snd u)"

lemma spent_refl: "spent u u"
  by (simp add: spent_def)

lemma spent_trans: "spent u v \<Longrightarrow> spent v w \<Longrightarrow> spent u w"
  by (auto simp: spent_def max_def split: if_splits)

lemma spent_one: "fst u < snd u \<Longrightarrow> spent u (Suc (fst u), snd u)"
  by (simp add: spent_def)

lemma spent_pair: "u < m \<Longrightarrow> spent (u, m) (Suc u, m)"
  by (simp add: spent_def)

text \<open>Every use is counted: with \<open>k\<close> consultations that are not counted yet, the counters grow by \<open>k\<close> more
  than the history tells.\<close>

definition settles :: "nat \<Rightarrow> 'w agent \<Rightarrow> 'w agent \<Rightarrow> bool" where
  "settles k s t \<longleftrightarrow> spent (uses s) (uses t) \<and> spent (critic_uses s) (critic_uses t)
     \<and> advised t + k + fst (uses s) = advised s + fst (uses t)
     \<and> reviewed t + fst (critic_uses s) = reviewed s + fst (critic_uses t)"

abbreviation thrifty :: "'w agent \<Rightarrow> 'w agent \<Rightarrow> bool" where
  "thrifty \<equiv> settles 0"

lemmas thrifty_def = settles_def

lemma settles_trans: "settles j s t \<Longrightarrow> settles k t u \<Longrightarrow> settles (j + k) s u"
  unfolding settles_def by (auto intro: spent_trans)

interpretation thrifty: step_relation thrifty
proof
  show "thrifty s s" for s :: "'w agent" by (simp add: thrifty_def spent_refl)
  show "thrifty s u" if "thrifty s t" "thrifty t u" for s t u :: "'w agent"
    using settles_trans [OF that] by simp
qed

lemma steady_thrifty: "steady m \<Longrightarrow> state_io_rel thrifty m"
  by (erule io_weaken) (simp add: budgets_def thrifty_def spent_refl)

text \<open>Steps that spend at most one piece of advice, if one was left, after \<open>k\<close> consultations.\<close>

definition frugal :: "nat \<Rightarrow> ('w, 'a) step \<Rightarrow> bool" where
  "frugal k m = (\<forall>s. can_advise (ag_advisor s) \<longrightarrow> settles k s (snd (run_state m s)))"

lemma frugal_steady: "steady m \<Longrightarrow> frugal 0 m"
  using steady_thrifty [of m] by (simp add: frugal_def state_io_rel_def)

lemma frugal_after:
  fixes m :: "('w, 'a) step"
  assumes "steady m" and "\<And>x. frugal k (f x)"
  shows "frugal k (State_Monad.bind m f)"
  unfolding frugal_def
proof (intro allI impI)
  fix s :: "'w agent" assume c: "can_advise (ag_advisor s)"
  obtain x t where m: "run_state m s = (x, t)" by fastforce
  have "budgets (snd (run_state m s)) = budgets s" using assms(1) by (simp add: state_io_rel_def)
  then have b: "budgets t = budgets s" using m by simp
  then have "thrifty s t" by (simp add: budgets_def thrifty_def spent_refl)
  moreover have "can_advise (ag_advisor t)" using b c by (simp add: budgets_def uses_def can_advise_def)
  then have "settles k t (snd (run_state (f x) t))" using assms(2) by (simp add: frugal_def)
  ultimately show "settles k s (snd (run_state (State_Monad.bind m f) s))"
    using m settles_trans [of 0 s t k] by simp
qed

lemma frugal_resolve:
  assumes "\<And>x. frugal (Suc 0) (f x)"
  shows "frugal 0 (State_Monad.bind (resolve_advisor_prompt e role ctx) f)"
  unfolding frugal_def
proof (intro allI impI)
  fix s :: "'a agent" assume c: "can_advise (ag_advisor s)"
  obtain x t where r: "run_state (resolve_advisor_prompt e role ctx) s = (x, t)" by fastforce
  note b = resolve_budgets [OF r]
  then have "can_advise (ag_advisor t)" using c by (simp add: uses_def can_advise_def)
  then have "settles (Suc 0) t (snd (run_state (f x) t))" using assms by (simp add: frugal_def)
  then show "thrifty s (snd (run_state (State_Monad.bind (resolve_advisor_prompt e role ctx) f) s))"
    by (simp add: r settles_def b)
qed

lemma frugal_spend:
  fixes f :: "unit \<Rightarrow> ('w, 'a) step"
  assumes "\<And>x. steady (f x)"
  shows "frugal (Suc 0) (State_Monad.bind spend_advice f)"
  unfolding frugal_def
proof (intro allI impI)
  fix s :: "'w agent" assume c: "can_advise (ag_advisor s)"
  let ?t = "s\<lparr>ag_advisor := ad_record_call (ag_advisor s)\<rparr>"
  have "uses ?t = (Suc (fst (uses s)), snd (uses s))" "critic_uses ?t = critic_uses s" "advised ?t = advised s"
    "reviewed ?t = reviewed s"
    by (simp_all add: uses_def critic_uses_def ad_record_call_def advised_def reviewed_def)
  moreover have "fst (uses s) < snd (uses s)" using c by (simp add: uses_def can_advise_def)
  ultimately have "settles (Suc 0) s ?t" by (simp add: thrifty_def spent_refl spent_one)
  moreover have "thrifty ?t (snd (run_state (f ()) ?t))"
    using steady_thrifty [OF assms] by (simp add: state_io_rel_def)
  ultimately show "settles (Suc 0) s (snd (run_state (State_Monad.bind spend_advice f) s))"
    using settles_trans [of "Suc 0" s ?t 0] by (simp add: spend_advice_def)
qed

lemma frugal_if: "frugal k m \<Longrightarrow> frugal k n \<Longrightarrow> frugal k (if b then m else n)"
  by simp

lemma frugal_option:
  "frugal k m \<Longrightarrow> (\<And>y. frugal k (f y)) \<Longrightarrow> frugal k (case x of None \<Rightarrow> m | Some y \<Rightarrow> f y)"
  by (simp split: option.split)

text \<open>Looking at the advisor first.\<close>

lemma look_then_spend:
  assumes "\<And>a. can_advise a \<Longrightarrow> frugal 0 (f a)" and "\<And>a. \<not> can_advise a \<Longrightarrow> steady (f a)"
  shows "state_io_rel thrifty (State_Monad.bind (asks ag_advisor) f)"
proof -
  have "thrifty s (snd (run_state (f (ag_advisor s)) s))" for s
  proof (cases "can_advise (ag_advisor s)")
    case True
    then show ?thesis using assms(1) by (simp add: frugal_def)
  next
    case False
    from steady_thrifty [OF assms(2) [OF this]] show ?thesis by (simp add: state_io_rel_def)
  qed
  then show ?thesis by (simp add: state_io_rel_def)
qed

lemma log_advisor_steady: "steady (log_advisor_call e role r)"
  unfolding log_advisor_call_def by (intro same_keeps) simp

lemma reset_stall_steady: "steady reset_stall"
  unfolding reset_stall_def by (intro same_keeps) simp

lemma stall_thrifty: "state_io_rel thrifty (inject_replan_on_stall e ctx ok h)"
proof -
  have "steady (State_Monad.update (\<lambda>s. s\<lparr>ag_stall := d\<rparr>))" for d
    by (intro same_primitives) simp
  note first = this [THEN steady_thrifty]
  have "frugal (Suc 0) (do {
           log_advisor_call e ReplanRole r;
           trials \<leftarrow> asks ag_trials;
           say (msg_system (replan_text e ctx trials (rs_prompt r)));
           spend_advice;
           reset_stall;
           State_Monad.return Replan_Injected })" for r
    by (intro frugal_after frugal_spend log_advisor_steady reset_stall_steady same_keeps) simp_all
  note resolved = frugal_resolve [OF this]
  have main: "state_io_rel thrifty (do {
        a \<leftarrow> asks ag_advisor;
        (if \<not> stalled then State_Monad.return No_Stall
         else if \<not> can_advise a then do {
           reset_stall;
           State_Monad.return (Exhausted_And_Aborted m_stall_exhausted) }
         else do {
           r \<leftarrow> resolve_advisor_prompt e ReplanRole ctx;
           log_advisor_call e ReplanRole r;
           trials \<leftarrow> asks ag_trials;
           say (msg_system (replan_text e ctx trials (rs_prompt r)));
           spend_advice;
           reset_stall;
           State_Monad.return Replan_Injected }) })" for stalled
    by (rule look_then_spend) (auto intro: resolved frugal_steady intro!: reset_stall_steady same_keeps)
  show ?thesis
    unfolding inject_replan_on_stall_def
    by (rule thrifty.bind_keeps [OF steady_thrifty [OF same_primitives(1)]], rule thrifty.prod_keeps,
        rule thrifty.bind_keeps [OF first], rule main)
qed

lemma verification_thrifty: "state_io_rel thrifty (inject_verification_step e ctx answer i)"
proof -
  have skip: "steady (should_skip_verification e ctx)"
    unfolding should_skip_verification_def by (rule same_primitives)
  have "frugal (Suc 0) (do {
             log_advisor_call e Verification r;
             say (msg_system (rs_prompt r));
             trials \<leftarrow> asks ag_trials;
             say (msg_system (checklist e ctx trials));
             spend_advice;
             State_Monad.return True })" for r
    by (intro frugal_after frugal_spend log_advisor_steady same_keeps) simp_all
  note resolved = frugal_resolve [OF this]
  have "steady (do {
             store e (Audit_Advisor_Skip (en_session_id e) t x y);
             State_Monad.return False })" for t x y
    by (intro same_keeps) simp
  note skipped = frugal_steady [OF this]
  have idle: "steady (State_Monad.return False)" by (rule same.return_keeps)
  show ?thesis
    unfolding inject_verification_step_def
  proof (rule look_then_spend, goal_cases)
    case (1 a)
    show ?case
      by (intro frugal_if frugal_steady [OF idle] frugal_after [OF skip] frugal_option resolved)
        (simp add: skipped split: prod.split)
  next
    case (2 a)
    then show ?case using idle by simp
  qed
qed

lemma critic_thrifty: "state_io_rel thrifty (inject_critic_review e ctx answer)"
proof -
  have "thrifty s (snd (run_state (inject_critic_review e ctx answer) s))" for s
  proof -
    obtain t0 w where now: "en_now e (ag_world s) = (t0, w)" by fastforce
    obtain r w' where gen: "en_generate e (critic_messages (ag_critic s) ctx answer) []
        ((ac_base_inference (en_config e))\<lparr>ip_temperature := cr_temperature (ag_critic s)\<rparr>) w = (r, w')"
      by fastforce
    obtain t1 w'' where now': "en_now e w' = (t1, w'')" by fastforce
    define t where "t = snd (run_state (inject_critic_review e ctx answer) s)"
    have "uses t = uses s \<and> advised t = advised s
      \<and> (critic_uses t = critic_uses s \<and> reviewed t = reviewed s
        \<or> critic_uses t = (Suc (fst (critic_uses s)), snd (critic_uses s)) \<and> reviewed t = Suc (reviewed s)
          \<and> can_critique (ag_critic s))"
      by (cases r) (simp_all add: t_def inject_critic_review_def finish_critique_def now gen now' uses_def critic_uses_def
          cr_record_call_def Let_def advised_def reviewed_def parse_critic_response_def)
    then show ?thesis
      by (auto simp: thrifty_def spent_refl can_critique_def critic_uses_def intro: spent_pair simp flip: t_def)
  qed
  then show ?thesis by (simp add: state_io_rel_def)
qed

lemma thrifty_update:
  "(\<And>s. uses (h s) = uses s) \<Longrightarrow> (\<And>s. critic_uses (h s) = critic_uses s) \<Longrightarrow> (\<And>s. ag_trace (h s) = ag_trace s)
    \<Longrightarrow> state_io_rel thrifty (State_Monad.update h)"
  by (simp add: state_io_rel_def thrifty_def spent_refl advised_def reviewed_def)

lemma handle_outcome_thrifty: "state_io_rel thrifty (handle_outcome e ctx used i d out)"
proof -
  note steps = thrifty.keeps thrifty_update steady_thrifty [OF same_primitives(1)]
    steady_thrifty [OF same_primitives(5)] steady_thrifty [OF run_after_step_steady]
    steady_thrifty [OF abort_with_steady] steady_thrifty [OF take_tools_steady]
    record_steady [THEN steady_thrifty] critic_thrifty verification_thrifty stall_thrifty
  have "state_io_rel thrifty (note_progress ok)" for ok
    unfolding note_progress_def escalate_def
    by (auto intro!: steps simp: uses_def critic_uses_def split: recovery_action.split)
  then show ?thesis
    unfolding handle_outcome_def on_final_answer_def on_aborted_def on_continue_def
    by (auto intro!: steps simp: uses_def critic_uses_def split: step_outcome.split stall_action.split)
qed

lemma execute_step_budgets: "budgets (snd (run_state (execute_step e i) s)) = budgets s"
proof -
  obtain es where es: "ag_trace (snd (run_state (execute_step e i) s)) = ag_trace s @ es"
    "es = [] \<or> (\<exists>ms err. es = [Asked By_Step ms (Inl err)])
      \<or> (\<exists>ms text cs. es = Asked By_Step ms (Inr text) # cs \<and> list_all (on_call (asked_for e text)) cs)"
    using execute_step_trace by blast
  then have "consultations es = 0 \<and> reviews es = 0" by (auto dest: counts_calls)
  then show ?thesis using execute_step_asks [of e i s] es(1) by (simp add: loop_part_def budgets_defs)
qed

lemma iterate_thrifty: "state_io_rel thrifty (iterate e ctx i)"
proof -
  have "steady (execute_step e i)" by (simp add: state_io_rel_def execute_step_budgets)
  then have "state_io_rel thrifty (execute_step e i)" by (rule steady_thrifty)
  moreover have "state_io_rel thrifty (outside (en_now e))" "state_io_rel thrifty (emit_event e ty x j)" for ty x j
    by (intro steady_thrifty same_primitives; simp)+
  ultimately show ?thesis
    unfolding iterate_def by (intro thrifty.keeps handle_outcome_thrifty)
qed

lemma loop_thrifty: "state_io_rel thrifty (loop_from e ctx start left i)"
proof (induction left arbitrary: i)
  have early: "steady (end_early e reason abort j answer)" for reason abort j answer
    unfolding end_early_def by (intro same_keeps) simp
  case 0
  show ?case unfolding loop_from.simps by (intro thrifty.keeps steady_thrifty [OF early])
next
  have early: "steady (end_early e reason abort j answer)" for reason abort j answer
    unfolding end_early_def by (intro same_keeps) simp
  have late: "steady (timed_out e start)"
    unfolding timed_out_def by (intro same_keeps) simp
  have before: "steady (run_before_step e)"
  proof -
    have "steady (mw_before e m)" for m
      unfolding mw_before_def compaction_before_def by (auto intro!: same_keeps split: middleware.split)
    then have "steady (before_chain e ms)" for ms
      by (induction ms) (auto intro!: same_keeps split: middleware_signal.split)
    then show ?thesis unfolding run_before_step_def by (intro same_keeps)
  qed
  case (Suc left)
  show ?case
    unfolding loop_from.simps
    by (intro thrifty.keeps iterate_thrifty Suc steady_thrifty [OF early] steady_thrifty [OF late]
        steady_thrifty [OF before] thrifty_update) (simp_all add: uses_def critic_uses_def)
qed

section \<open>Failed steps in a row\<close>

lemma stall_site: "state_io_rel (\<lambda>s t. site t = site s) (inject_replan_on_stall e ctx ok h)"
proof -
  have resolve: "state_io_rel (\<lambda>s t. site t = site s) (resolve_advisor_prompt e role ctx)" for role
    unfolding state_io_rel_def by (rule allI, rule resolve_budgets(1), rule surjective_pairing)
  show ?thesis
    unfolding inject_replan_on_stall_def log_advisor_call_def spend_advice_def reset_stall_def
    by (intro same_keeps resolve) (simp_all add: site_def)
qed

lemma after_note_site:
  "state_io_rel (\<lambda>s t. site t = site (s :: 'w agent)) (do {
     h \<leftarrow> asks (\<lambda>s. compute_output_hash (en_hash e) (ag_messages s));
     n \<leftarrow> asks ag_consecutive_failures;
     run_after_step e (r h n);
     State_Monad.update (\<lambda>s. s\<lparr>ag_all_tools := ag_all_tools s @ tools\<rparr>);
     stall \<leftarrow> inject_replan_on_stall e ctx ok h;
     (case stall of Exhausted_And_Aborted reason \<Rightarrow> abort_with e ctx used reason
      | _ \<Rightarrow> State_Monad.return None) })"
proof -
  have "steady m \<Longrightarrow> state_io_rel (\<lambda>s t. site t = site s) m" for m :: "('c, 'd) step"
    by (erule io_weaken) (simp add: budgets_def)
  note s = this [OF run_after_step_steady] this [OF abort_with_steady]
  have "site (ag_all_tools_update f s) = site s" for f and s :: "'w agent" by (simp add: site_def)
  then show ?thesis
    by (auto intro!: same_keeps stall_site s split: stall_action.split)
qed

text \<open>How the handling of a step without an answer counts failures in a row.\<close>

definition failures :: "'w agent \<Rightarrow> nat" where
  "failures s = cs_consecutive_failures (ag_continue_site s)"

lemma note_progress_run:
  "run_state (note_progress ok) s = (r, t) \<Longrightarrow>
    failures t = (if ok then 0 else Suc (failures s))
    \<and> (r = None \<longleftrightarrow> ok \<or> Suc (failures s) \<le> 3)"
  by (auto simp: note_progress_def escalate_def failures_def cs_record_success_def cs_record_failure_def
      decide_escalated_recovery_def max_consecutive_failures_def decide_recovery_def Let_def
      split: if_splits recovery_action.splits)

lemma on_continue_failures:
  assumes "run_state (on_continue e ctx used i d tools ok) s = (None, t)"
  shows "failures t = (if ok then 0 else Suc (failures s)) \<and> failures t \<le> 3"
proof -
  obtain r u where r: "run_state (note_progress ok) s = (r, u)" by fastforce
  note np = note_progress_run [OF r]
  have stops: "fst (run_state (abort_with e ctx used reason) v) \<noteq> None" for reason v
    by (simp add: abort_with_def take_tools_def split: prod.split)
  show ?thesis
  proof (cases r)
    case None
    define rest where "rest = do {
      h \<leftarrow> asks (\<lambda>s. compute_output_hash (en_hash e) (ag_messages s));
      n \<leftarrow> asks ag_consecutive_failures;
      run_after_step e \<lparr>sr_outcome_type = ''continue'', sr_iteration = i, sr_duration_ms = d,
        sr_tools_used = tools, sr_tools_succeeded = ok, sr_output_hash = h, sr_consecutive_failures = n\<rparr>;
      State_Monad.update (\<lambda>s. s\<lparr>ag_all_tools := ag_all_tools s @ tools\<rparr>);
      stall \<leftarrow> inject_replan_on_stall e ctx ok h;
      (case stall of Exhausted_And_Aborted reason \<Rightarrow> abort_with e ctx used reason
       | _ \<Rightarrow> State_Monad.return None) }"
    have "site (snd (run_state rest u)) = site u"
      using after_note_site unfolding rest_def state_io_rel_def by (rule spec)
    moreover have "run_state (on_continue e ctx used i d tools ok) s = run_state rest u"
      unfolding on_continue_def rest_def using r None by (simp only: run_state_bind prod.case option.case)
    ultimately have "site t = site u" using assms by (metis snd_conv)
    then have "failures t = failures u" by (simp add: failures_def site_def)
    then show ?thesis using np None by auto
  next
    case (Some reason)
    then show ?thesis using assms r stops [of reason u] by (simp add: on_continue_def)
  qed
qed

section \<open>A model that writes nothing usable\<close>

definition unusable :: "'w env \<Rightarrow> string \<Rightarrow> bool" where
  "unusable e out = (case parse_output e out of Inl (ParseErr _) \<Rightarrow> True | _ \<Rightarrow> False)"

definition never_usable :: "'w env \<Rightarrow> bool" where
  "never_usable e \<longleftrightarrow>
    (\<forall>ms schemas params w. case fst (en_generate e ms schemas params w) of
       Inl _ \<Rightarrow> True | Inr out \<Rightarrow> unusable e out)"

text \<open>Retried while attempts are left, counted as a failure.\<close>

lemma on_output_unusable:
  assumes "unusable e out"
  shows "pred_state (\<lambda>r. if n < ac_max_retries (en_config e) then r = Inr (Continue [] False)
    else \<exists>msg. r = Inr (Aborted msg)) (on_output e n request out)"
proof -
  obtain err where "parse_output e out = Inl (ParseErr err)"
    using assms by (auto simp: unusable_def split: sum.splits parse_failure.splits)
  then show ?thesis
    by (auto simp: on_output_def on_parse_error_def decide_recovery_def intro!: bind_pred [OF any_pred] return_pred)
qed

definition gives_up :: "stop + step_outcome \<Rightarrow> bool" where
  "gives_up r = (case r of Inl _ \<Rightarrow> True | Inr (Aborted _) \<Rightarrow> True | _ \<Rightarrow> False)"

lemma gives_up_simps [simp]:
  "gives_up (Inl x)" "gives_up (Inr (Aborted m))" "\<not> gives_up (Inr (Continue ts ok))"
  by (simp_all add: gives_up_def)

lemma execute_step_unusable:
  assumes "never_usable e"
  shows "pred_state (\<lambda>r. gives_up r \<or> n < ac_max_retries (en_config e) \<and> r = Inr (Continue [] False))
    (execute_step e n)"
proof -
  have out: "pred_state (\<lambda>r. gives_up r \<or> n < ac_max_retries (en_config e) \<and> r = Inr (Continue [] False))
      (on_output e n request out)" if "unusable e out" for request out
  proof (rule pred_stateI)
    fix r s t assume "run_state (on_output e n request out) s = (r, t)"
    from pred_stateD [OF on_output_unusable [OF that] this]
    show "gives_up r \<or> n < ac_max_retries (en_config e) \<and> r = Inr (Continue [] False)"
      by (auto simp: gives_up_def split: if_splits)
  qed
  have asked: "pred_state (\<lambda>r. case r of Inl _ \<Rightarrow> True | Inr out \<Rightarrow> unusable e out) (ask_model e who ms sc pr)"
    for who ms sc pr
  proof (rule pred_stateI)
    fix r s t assume "run_state (ask_model e who ms sc pr) s = (r, t)"
    then have "r = fst (en_generate e ms sc pr (ag_world s))" by (auto split: prod.splits)
    then show "case r of Inl _ \<Rightarrow> True | Inr out \<Rightarrow> unusable e out"
      using assms unfolding never_usable_def by blast
  qed
  show ?thesis
    unfolding execute_step_def Let_def
    by (intro bind_pred [OF any_pred]) (auto intro!: return_pred bind_pred [OF any_pred] bind_pred [OF asked] out
        split: sum.split)
qed

lemma on_aborted_ends: "pred_state (\<lambda>r. r \<noteq> None) (on_aborted e ctx used i d reason)"
proof -
  have "pred_state (\<lambda>r. r \<noteq> None) (take_tools answer used)" for answer
    by (rule pred_stateI) (auto dest!: pred_stateD [OF take_tools_result])
  then show ?thesis
    unfolding on_aborted_def abort_with_def by (intro bind_pred [OF any_pred])
qed

text \<open>An iteration of such a model: it ends the loop, or one more failure is counted.\<close>

lemma iterate_unusable:
  assumes "never_usable e" and "run_state (iterate e ctx i) s = (r, u)"
  shows "r = Inr None \<Longrightarrow> i < ac_max_retries (en_config e) \<and> failures u = Suc (failures s) \<and> failures u \<le> 3"
    and "\<exists>ps. ag_prompts u = ag_prompts s @ ps \<and> length ps \<le> 1"
proof -
  obtain t0 w where now: "en_now e (ag_world s) = (t0, w)" by fastforce
  obtain out t where step: "run_state (execute_step e i) (s\<lparr>ag_world := w\<rparr>) = (out, t)" by fastforce
  obtain t1 w' where now': "en_now e (ag_world t) = (t1, w')" by fastforce
  have cases: "gives_up out \<or> i < ac_max_retries (en_config e) \<and> out = Inr (Continue [] False)"
    using pred_stateD [OF execute_step_unusable [OF assms(1)] step] .
  have fail: "failures t = failures s"
    using execute_step_asks [of e i "s\<lparr>ag_world := w\<rparr>"] step by (simp add: loop_part_def failures_def)
  obtain ps where ps: "ag_prompts t = ag_prompts s @ ps" "length ps \<le> 1"
    using execute_step_asks [of e i "s\<lparr>ag_world := w\<rparr>"] step by (auto simp: step_prompts_def)
  show "\<exists>ps. ag_prompts u = ag_prompts s @ ps \<and> length ps \<le> 1"
    and "r = Inr None \<Longrightarrow> i < ac_max_retries (en_config e) \<and> failures u = Suc (failures s) \<and> failures u \<le> 3"
  proof -
    let ?t = "t\<lparr>ag_world := w'\<rparr>"
    let ?goal = "(\<exists>ps. ag_prompts u = ag_prompts s @ ps \<and> length ps \<le> 1)
      \<and> (r = Inr None \<longrightarrow> i < ac_max_retries (en_config e) \<and> failures u = Suc (failures s) \<and> failures u \<le> 3)"
    have ?goal
    proof (cases out)
      case (Inl err)
      then show ?thesis using assms(2) ps by (auto simp: iterate_def now step now')
    next
      case (Inr o')
      obtain v u' where v: "run_state (handle_outcome e ctx (Suc i) i (millis t0 t1) o') ?t = (v, u')" by fastforce
      have u: "ag_prompts u = ag_prompts u'" "r = Inr None \<longleftrightarrow> v = None" "failures u = failures u'"
        using assms(2) Inr v
        by (auto simp: iterate_def now step now' emit_event_def failures_def split: option.splits if_splits)
      consider reason where "o' = Aborted reason" | "o' = Continue [] False" "i < ac_max_retries (en_config e)"
        using cases Inr by (auto simp: gives_up_def split: step_outcome.splits)
      then show ?thesis
      proof cases
        case 1
        have h: "state_io_rel hush (on_aborted e ctx (Suc i) i (millis t0 t1) reason)" by (rule on_aborted_hush)
        have c: "run_state (on_aborted e ctx (Suc i) i (millis t0 t1) reason) ?t = (v, u')"
          using v 1 by (simp add: handle_outcome_def)
        have "hush ?t u'" using h c by (metis state_io_rel_def snd_conv)
        then have "ag_prompts u' = ag_prompts t" by (simp add: hush_def)
        moreover have "v \<noteq> None" using pred_stateD [OF on_aborted_ends c] .
        ultimately show ?thesis using u ps by auto
      next
        case 2
        have h: "state_io_rel hush (on_continue e ctx (Suc i) i (millis t0 t1) [] False)" by (rule on_continue_hush)
        have c: "run_state (on_continue e ctx (Suc i) i (millis t0 t1) [] False) ?t = (v, u')"
          using v 2 by (simp add: handle_outcome_def)
        have "hush ?t u'" using h c by (metis state_io_rel_def snd_conv)
        then have "ag_prompts u' = ag_prompts t" by (simp add: hush_def)
        moreover have "v = None \<Longrightarrow> failures u' = Suc (failures ?t) \<and> failures u' \<le> 3"
          using on_continue_failures [of e ctx "Suc i" i "millis t0 t1" "[]" False ?t u'] c by simp
        moreover have "failures ?t = failures s" using fail by (simp add: failures_def)
        ultimately show ?thesis using u ps 2 by auto
      qed
    qed
    then show "\<exists>ps. ag_prompts u = ag_prompts s @ ps \<and> length ps \<le> 1"
      and "r = Inr None \<Longrightarrow> i < ac_max_retries (en_config e) \<and> failures u = Suc (failures s) \<and> failures u \<le> 3"
      by blast+
  qed
qed

lemma loop_unusable:
  assumes "never_usable e" and "guards (ag_chain s) = [c]" and "failures s = i"
    and "i \<le> min 3 (ac_max_retries (en_config e))"
  shows "length (ag_prompts (snd (run_state (loop_from e ctx start left i) s)))
    \<le> length (ag_prompts s) + Suc (min 3 (ac_max_retries (en_config e)) - i)"
  using assms(2-)
proof (induction left arbitrary: i s)
  case 0
  have "ag_prompts (snd (run_state (loop_from e ctx start 0 i) s)) = ag_prompts s"
    by (simp add: loop_from_0 ends_early_run del: loop_from.simps)
  then show ?case by (metis le_add1)
next
  case (Suc left)
  from Suc.prems(1) show ?case
  proof (cases rule: round_cases [of s c e ctx start left i])
    case (ended reason abort answer t)
    then show ?thesis by (simp add: ends_early_run del: loop_from.simps)
  next
    case (ran r t u)
    note it = iterate_unusable [OF assms(1) ran(2)]
    have asked: "length (ag_prompts u) \<le> length (ag_prompts s) + 1" using it(2) ran(4) by auto
    show ?thesis
    proof (cases "r = Inr None")
      case True
      have "failures t = i" using ran(8) Suc.prems(2) by (simp add: failures_def)
      then have f: "failures u = Suc i" "Suc i \<le> min 3 (ac_max_retries (en_config e))" using it(1) [OF True] by auto
      have g: "guards (ag_chain u) = [c]"
        using iterate_asks [OF ran(3), of e ctx i] ran by (simp add: iterates_def)
      have "length (ag_prompts (snd (run_state (loop_from e ctx start left (Suc i)) u)))
          \<le> length (ag_prompts u) + Suc (min 3 (ac_max_retries (en_config e)) - Suc i)"
        by (rule Suc.IH [OF g f])
      then show ?thesis using asked ran(1) True f(2) by (simp del: loop_from.simps)
    next
      case False
      then have "snd (run_state (loop_from e ctx start (Suc left) i) s) = u"
        using ran(1) by (auto split: sum.splits option.splits)
      then show ?thesis using asked by (simp del: loop_from.simps)
    qed
  qed
qed

section \<open>A run from its prepared state\<close>

definition guard_of :: "'w env \<Rightarrow> compaction_config" where
  "guard_of e = with_n_ctx_budget (en_environ e) (ac_n_ctx_budget (en_config e))"

definition critic_of :: "'w env \<Rightarrow> critic_config" where
  "critic_of e = critic_from_env (en_critic_prompt e) (en_environ e)"

lemma run_prepared:
  obtains ctx start t where
    "run_state (run_agent_loop_with_session e) s
      = run_state (loop_from e ctx start (ac_max_iterations (en_config e)) 0) t"
    "ag_trace t = ag_trace s" "ag_calls t = ag_calls s" "ag_prompts t = ag_prompts s" "logs s t"
    "guards (ag_chain t) = [guard_of e]" "ag_critic t = critic_of e" "ag_continue_site t = cs_new"
    "ag_advisor t = ac_advisor (en_config e)"
proof -
  define ctx where "ctx = last_user_message (ag_messages s)"
  obtain x t where prep: "run_state (prepare_session e ctx) s = (x, t)" by (rule prod.exhaust)
  obtain start w where now: "en_now e (ag_world t) = (start, w)" by fastforce
  have "run_state (run_agent_loop_with_session e) s
      = run_state (loop_from e ctx start (ac_max_iterations (en_config e)) 0) (t\<lparr>ag_world := w\<rparr>)"
    using prep now by (simp add: run_agent_loop_with_session_def Let_def flip: ctx_def)
  then show thesis
    by (rule that) (use prepare_session_run [OF prep] in \<open>simp_all add: guard_of_def critic_of_def logs_def\<close>)
qed

section \<open>Properties\<close>

lemma run_heard: "state_io_rel (heard e) (run_agent_loop_with_session e)"
proof -
  have "heard e s (snd (run_state (run_agent_loop_with_session e) s))" for s
  proof (rule run_prepared [of e s])
    fix ctx start t
    assume run: "run_state (run_agent_loop_with_session e) s
        = run_state (loop_from e ctx start (ac_max_iterations (en_config e)) 0) t"
      and t: "ag_trace t = ag_trace s"
    have "heard e t (snd (run_state (loop_from e ctx start (ac_max_iterations (en_config e)) 0) t))"
      using loop_heard unfolding state_io_rel_def by blast
    then show ?thesis by (simp add: run heard_def t)
  qed
  then show ?thesis by (simp add: state_io_rel_def)
qed

text \<open>
  C1. Over a whole run, every tool call is asked for by the model and sanctioned: in the history of the
  run, the last time the model was asked before the call, a step asked it, and the output it gave then
  parses to the call; its name is registered and on the allowlist; its arguments pass the path guard
  and the dangerous patterns; if the tool writes, the panel does not halt; autonomy, permission and
  daemon policy permit it; and it is called with the coerced arguments.
\<close>

theorem only_sanctioned_calls:
  "\<exists>es. ag_trace (snd (run_state (run_agent_loop_with_session e) s)) = ag_trace s @ es
    \<and> in_reply e None es"
  using run_heard [of e] unfolding state_io_rel_def heard_def by blast

text \<open>
  C2. Every prompt of a run fits: it is the session of at most the token budget, whose last user
  message has the directive of its kind added, or it is a prompt of the critic.
\<close>

theorem prompts_fit_budget:
  "\<exists>ps. ag_prompts (snd (run_state (run_agent_loop_with_session e) s)) = ag_prompts s @ ps
    \<and> list_all (prompt_fits (guard_of e)) ps"
proof (rule run_prepared [of e s])
  fix ctx start t
  assume run: "run_state (run_agent_loop_with_session e) s
      = run_state (loop_from e ctx start (ac_max_iterations (en_config e)) 0) t"
    and t: "ag_prompts t = ag_prompts s" "guards (ag_chain t) = [guard_of e]"
  from loop_asks [OF t(2)] show ?thesis unfolding run t(1) by blast
qed

lemma run_ends:
  "length (ag_prompts (snd (run_state (run_agent_loop_with_session e) s)))
     \<le> length (ag_prompts s) + ac_max_iterations (en_config e) * (1 + of_bool (cr_enabled (critic_of e)))
   \<and> (case fst (run_state (run_agent_loop_with_session e) s) of
        Inl _ \<Rightarrow> True | Inr res \<Rightarrow> lr_iterations_used res \<le> ac_max_iterations (en_config e))"
proof (rule run_prepared [of e s])
  fix ctx start t
  assume run: "run_state (run_agent_loop_with_session e) s
      = run_state (loop_from e ctx start (ac_max_iterations (en_config e)) 0) t"
    and t: "ag_prompts t = ag_prompts s" "guards (ag_chain t) = [guard_of e]" "ag_critic t = critic_of e"
  from loop_asks [OF t(2), of e ctx start "ac_max_iterations (en_config e)" 0]
    loop_ends [OF t(2), of e 0 "ac_max_iterations (en_config e)" ctx start]
  show ?thesis unfolding run by (auto simp: t run_ok_def split: sum.splits)
qed

text \<open>
  C3. A run always ends: the model is asked at most once per iteration, twice with the critic on, and
  a result counts at most \<open>max_iterations\<close> iterations.
\<close>

theorem run_always_ends:
  "length (ag_prompts (snd (run_state (run_agent_loop_with_session e) s)))
     \<le> length (ag_prompts s) + ac_max_iterations (en_config e) * (1 + of_bool (cr_enabled (critic_of e)))
   \<and> (case fst (run_state (run_agent_loop_with_session e) s) of
        Inl _ \<Rightarrow> True | Inr res \<Rightarrow> lr_iterations_used res \<le> ac_max_iterations (en_config e))"
  by (rule run_ends)

text \<open>
  C4. A run that returns a result records the end of the session exactly once, as the last entry of
  the store; a run that ends by an error of the backend (or a panic) never does.
\<close>

theorem session_end_recorded_once:
  "\<exists>ps qs. ag_log (snd (run_state (run_agent_loop_with_session e) s)) = ag_log s @ ps @ qs
    \<and> list_all not_end ps
    \<and> (if isl (fst (run_state (run_agent_loop_with_session e) s)) then qs = [] else ends_log e qs)"
proof (rule run_prepared [of e s])
  fix ctx start t
  assume run: "run_state (run_agent_loop_with_session e) s
      = run_state (loop_from e ctx start (ac_max_iterations (en_config e)) 0) t"
    and t: "logs s t" "guards (ag_chain t) = [guard_of e]"
  let ?r = "run_state (loop_from e ctx start (ac_max_iterations (en_config e)) 0) t"
  have "closes e (\<not> isl (fst ?r)) t (snd ?r)" using loop_ends [OF t(2)] by blast
  from closes_after [OF t(1) this] obtain ps qs where "ag_log (snd ?r) = ag_log s @ ps @ qs"
    "list_all not_end ps" "if \<not> isl (fst ?r) then ends_log e qs else qs = []"
    unfolding closes_def by (blast dest: tool_log_not_end)
  then show ?thesis
    unfolding run by (intro exI [of _ ps] exI [of _ qs]) (cases "isl (fst ?r)"; simp)
qed

text \<open>
  C5. What a run returns was judged: the answer is not blank and matches no destructive pattern, or
  it is marked as aborted or timed out.
\<close>

theorem returned_answers_were_judged:
  "case fst (run_state (run_agent_loop_with_session e) s) of
     Inl _ \<Rightarrow> True
   | Inr res \<Rightarrow> matches (vp_destructive (en_values e)) (lr_answer res) = False \<and> trim (lr_answer res) \<noteq> []
       \<or> starts_with (lr_answer res) m_aborted \<or> starts_with (lr_answer res) m_timeout_1"
proof (rule run_prepared [of e s])
  fix ctx start t
  assume run: "run_state (run_agent_loop_with_session e) s
      = run_state (loop_from e ctx start (ac_max_iterations (en_config e)) 0) t"
    and t: "guards (ag_chain t) = [guard_of e]"
  have "run_ok e (0 + ac_max_iterations (en_config e))
      (fst (run_state (loop_from e ctx start (ac_max_iterations (en_config e)) 0) t))"
    using loop_ends [OF t] by blast
  then show ?thesis unfolding run by (simp add: run_ok_def answer_ok_def approved_def split: sum.splits)
qed

text \<open>
  C6. The advisor and the critic stay in their budgets. In the history of a run the advisor is consulted
  at most as often as its configuration has uses left, and the critic answers at most as often as its
  configuration allows. A question of the critic that the model fails to answer is not counted.
\<close>

theorem advice_and_critique_bounded:
  "\<exists>es. ag_trace (snd (run_state (run_agent_loop_with_session e) s)) = ag_trace s @ es
    \<and> consultations es \<le> ad_max_uses (ac_advisor (en_config e)) - ad_calls_used (ac_advisor (en_config e))
    \<and> reviews es \<le> cr_max_critic_uses (critic_of e) - cr_calls_used (critic_of e)"
proof (rule run_prepared [of e s])
  fix ctx start t
  assume run: "run_state (run_agent_loop_with_session e) s
      = run_state (loop_from e ctx start (ac_max_iterations (en_config e)) 0) t"
    and t: "ag_trace t = ag_trace s" "ag_critic t = critic_of e" "ag_advisor t = ac_advisor (en_config e)"
  let ?u = "snd (run_state (loop_from e ctx start (ac_max_iterations (en_config e)) 0) t)"
  have "thrifty t ?u" using loop_thrifty unfolding state_io_rel_def by blast
  moreover obtain es where es: "ag_trace ?u = ag_trace t @ es"
    using loop_heard [of e ctx start] unfolding state_io_rel_def heard_def by blast
  ultimately have "consultations es \<le> ad_max_uses (ac_advisor (en_config e)) - ad_calls_used (ac_advisor (en_config e))"
    "reviews es \<le> cr_max_critic_uses (critic_of e) - cr_calls_used (critic_of e)"
    by (auto simp: thrifty_def spent_def uses_def critic_uses_def advised_def reviewed_def t max_def split: if_splits)
  then show ?thesis using es by (simp add: run t)
qed

text \<open>
  C7. A model whose output can never be parsed is asked at most four times, however many iterations
  are configured: once, and again after at most three failures in a row, or \<open>max_retries\<close>, whichever
  is smaller.
\<close>

theorem unusable_model_is_dropped:
  assumes "\<forall>ms schemas params w. case fst (en_generate e ms schemas params w) of
       Inl _ \<Rightarrow> True | Inr out \<Rightarrow> (case parse_output e out of Inl (ParseErr _) \<Rightarrow> True | _ \<Rightarrow> False)"
  shows "length (ag_prompts (snd (run_state (run_agent_loop_with_session e) s)))
    \<le> length (ag_prompts s) + Suc (min 3 (ac_max_retries (en_config e)))"
proof (rule run_prepared [of e s])
  fix ctx start t
  assume run: "run_state (run_agent_loop_with_session e) s
      = run_state (loop_from e ctx start (ac_max_iterations (en_config e)) 0) t"
    and t: "ag_prompts t = ag_prompts s" "guards (ag_chain t) = [guard_of e]" "ag_continue_site t = cs_new"
  have "never_usable e" using assms unfolding never_usable_def unusable_def .
  moreover have "failures t = 0" by (simp add: failures_def t cs_new_def)
  ultimately show ?thesis
    using loop_unusable [OF _ t(2), of e 0 ctx start "ac_max_iterations (en_config e)"]
    by (simp add: run t(1))
qed

text \<open>A model that always writes the same call without closing it.\<close>

definition broken_env :: "unit env" where
  "broken_env = idle_env\<lparr>en_generate := (\<lambda>_ _ _ w. (Inr ''<tool_call>{'', w))\<rparr>"

lemma broken_output: "parse_output broken_env ''<tool_call>{'' = Inl (ParseErr m_no_close_tool_call)"
  by (simp add: parse_output_def broken_env_def idle_env_def parse_assistant_output_def
      normalize_special_tags_def is_xml_toolcall_fallback_enabled_def parse_loop.simps [of _ "''<tool_call>{''"])

lemma fresh_agent_prompts: "ag_prompts (fresh_agent w ms) = []"
  by (simp add: ag_prompts_def fresh_agent_def prompts_of_def)

theorem unusable_model_is_dropped_witness:
  "length (ag_prompts (snd (run_state (run_agent_loop_with_session broken_env)
     (fresh_agent () [msg_user ''list the files'']))) ) \<le> 4"
proof -
  have "\<forall>ms schemas params w. case fst (en_generate broken_env ms schemas params w) of
       Inl _ \<Rightarrow> True | Inr out \<Rightarrow> (case parse_output broken_env out of Inl (ParseErr _) \<Rightarrow> True | _ \<Rightarrow> False)"
    using broken_output by (simp add: broken_env_def)
  from unusable_model_is_dropped [OF this, of "fresh_agent () [msg_user ''list the files'']"]
  show ?thesis by (simp add: fresh_agent_prompts broken_env_def idle_env_def idle_config_def)
qed

text \<open>
  C18. The iteration number is taken for the number of attempts: an output that cannot be parsed at
  iteration \<open>max_retries\<close> or later ends the run at once, even when it is the first failure, and the
  session is left as it is.
\<close>

theorem late_parse_error_aborts:
  assumes "parse_output e out = Inl (ParseErr err)" and "ac_max_retries (en_config e) \<le> i"
  shows "run_state (on_output e i request out) s
    = (Inr (Aborted (show_nat (ac_max_retries (en_config e)) @ m_retries_stop_1
         @ debug_failure_mode (ParseError InvalidJson))), s)"
  using assms by (simp add: on_output_def on_parse_error_def decide_recovery_def)

theorem late_parse_error_aborts_witness:
  "fst (run_state (on_output broken_env 3 [] ''<tool_call>{'') (fresh_agent () []))
    = Inr (Aborted (show_nat 3 @ m_retries_stop_1 @ debug_failure_mode (ParseError InvalidJson)))"
  using late_parse_error_aborts [OF broken_output, of 3 "[]" "fresh_agent () []"]
  by (simp add: broken_env_def idle_env_def idle_config_def)

text \<open>
  An answer the critic disagrees with is put aside and the loop goes on, whatever the iteration:
  on the last one the answer is lost and the run reports that the steps are used up. The verification
  before the answer is never asked for on the last iteration.
\<close>

theorem critic_objection_costs_the_answer:
  assumes "cr_enabled (ag_critic s)" and "can_critique (ag_critic s)"
    and "cr_mode (ag_critic s) = SamePromptDifferentTemperature"
    and "cr_on_disagreement (ag_critic s) = InjectAsSystemMessage"
    and "\<forall>ms schemas params w. \<exists>out. fst (en_generate e ms schemas params w) = Inr out
          \<and> en_critic_regex e ''DISAGREE'' out"
  shows "fst (run_state (handle_outcome e ctx used i d (Final_Answer answer)) s) = None
    \<and> fst (run_state (inject_verification_step e ctx answer (ac_max_iterations (en_config e) - 1)) s) = False"
proof -
  let ?s = "s\<lparr>ag_continue_site := cs_record_success (ag_continue_site s)\<rparr>"
  obtain t0 w where now: "en_now e (ag_world s) = (t0, w)" by fastforce
  let ?q = "(ac_base_inference (en_config e))\<lparr>ip_temperature := cr_temperature (ag_critic s)\<rparr>"
  obtain out w' where gen: "en_generate e (critic_messages (ag_critic s) ctx answer) [] ?q w = (Inr out, w')"
    and dis: "en_critic_regex e ''DISAGREE'' out"
    using assms(5) by (metis prod.collapse)
  obtain t1 w'' where now': "en_now e w' = (t1, w'')" by fastforce
  have "run_state (handle_outcome e ctx used i d (Final_Answer answer)) s = (None, snd (run_state
      (handle_outcome e ctx used i d (Final_Answer answer)) s))"
    using assms(1-4)
    by (simp add: handle_outcome_def on_final_answer_def inject_critic_review_def finish_critique_def
        now gen now' Let_def parse_critic_response_def dis cr_record_call_def)
  then show ?thesis by (simp add: inject_verification_step_def) (metis fst_conv)
qed

definition stern_env :: "unit env" where
  "stern_env = idle_env\<lparr>en_generate := (\<lambda>_ _ _ w. (Inr ''DISAGREE'', w)),
     en_critic_regex := (\<lambda>word out. word = out)\<rparr>"

definition criticised :: "unit agent" where
  "criticised = (fresh_agent () [])\<lparr>ag_critic := (cr_default [])\<lparr>cr_enabled := True\<rparr>\<rparr>"

theorem critic_objection_costs_the_answer_witness:
  "fst (run_state (handle_outcome stern_env ''task'' 10 9 0 (Final_Answer ''done'')) criticised) = None"
proof -
  have "\<forall>ms schemas params w. \<exists>out. fst (en_generate stern_env ms schemas params w) = Inr out
      \<and> en_critic_regex stern_env ''DISAGREE'' out" by (simp add: stern_env_def)
  from critic_objection_costs_the_answer [OF _ _ _ _ this, of criticised "''task''" 10 9 0 "''done''"]
  show ?thesis by (simp add: criticised_def cr_default_def can_critique_def)
qed

text \<open>
  C30. The stall detector after any run of steps: it reports a stall exactly when the last
  \<open>threshold\<close> steps all failed or left the output as it was before them.
\<close>

theorem stall_detected_iff:
  "fst (sd_record_step ok h (sd_run xs (sd_new t)))
    \<longleftrightarrow> t \<le> length (takeWhile (\<lambda>b. b) (rev (no_progress 0 (xs @ [(ok, h)]))))"
proof -
  have snoc: "sd_run (xs @ [(ok, h)]) (sd_new t) = snd (sd_record_step ok h (sd_run xs (sd_new t)))"
    by (simp add: sd_run_def)
  have "sd_stall_threshold (sd_run xs (sd_new t)) = t" by (simp add: sd_run_fields sd_new_def)
  moreover have "fst (sd_record_step ok h d) \<longleftrightarrow>
      sd_stall_threshold d \<le> sd_no_progress_count (snd (sd_record_step ok h d))" for d
    by (simp add: sd_record_step_def Let_def)
  ultimately have "fst (sd_record_step ok h (sd_run xs (sd_new t)))
      \<longleftrightarrow> t \<le> sd_no_progress_count (sd_run (xs @ [(ok, h)]) (sd_new t))"
    by (simp add: snoc)
  then show ?thesis by (simp only: sd_run_count)
qed

text \<open>
  Handling a step without an answer: the loop goes on only while at most three steps failed in a
  row, this one included; a step that succeeds starts the count anew.
\<close>

theorem failed_steps_counted:
  "case run_state (handle_outcome e ctx used i d (Continue tools ok)) s of
     (None, t) \<Rightarrow> cs_consecutive_failures (ag_continue_site t)
         = (if ok then 0 else Suc (cs_consecutive_failures (ag_continue_site s)))
       \<and> cs_consecutive_failures (ag_continue_site t) \<le> 3
   | (Some res, t) \<Rightarrow> starts_with (lr_answer res) m_aborted \<and> lr_iterations_used res = used"
proof -
  obtain r t where r: "run_state (handle_outcome e ctx used i d (Continue tools ok)) s = (r, t)" by fastforce
  then have c: "run_state (on_continue e ctx used i d tools ok) s = (r, t)" by (simp add: handle_outcome_def)
  show ?thesis
  proof (cases r)
    case None
    then show ?thesis using on_continue_failures [of e ctx used i d tools ok s t] c r by (simp add: failures_def)
  next
    case (Some res)
    then show ?thesis using pred_stateD [OF handle_outcome_pred r] r by (simp add: result_of_def)
  qed
qed

end
