(* ===== verification/Repl_Messages.thy ===== *)
theory Repl_Messages
  imports Prelude
begin

text \<open>
  The texts of the fast path and the interactive loop, as UTF-8 bytes, like the theory \<open>Messages\<close>.
\<close>

section \<open>Fast path (src/agent/fast_path.rs)\<close>

definition m_fp_konnichiwa :: string where
  \<comment> \<open>good day\<close>
  "m_fp_konnichiwa = utf8x ''E38193E38293E381ABE381A1E381AF''"

definition m_fp_ohayou :: string where
  \<comment> \<open>good morning\<close>
  "m_fp_ohayou = utf8x ''E3818AE381AFE38288E38186''"

definition m_fp_konbanwa :: string where
  \<comment> \<open>good evening\<close>
  "m_fp_konbanwa = utf8x ''E38193E38293E381B0E38293E381AF''"

definition m_fp_greeting :: string where
  \<comment> \<open>good day, this is bonsai-agent, can I help?\<close>
  "m_fp_greeting = utf8x
    (''E38193E38293E381ABE381A1E381AFEFBC81626F6E7361692D6167656E74E381A7E38199E38082E4BD95E381''
     @ ''8BE3818AE6898BE4BC9DE38184E381A7E3818DE3828BE38193E381A8E381AFE38182E3828AE381BEE38199E3''
     @ ''818BEFBC9F'')"

definition m_fp_version :: string where
  \<comment> \<open>version\<close>
  "m_fp_version = utf8x ''E38390E383BCE382B8E383A7E383B3''"

section \<open>Interactive loop (src/agent/agent_loop/repl.rs)\<close>

definition m_inbox :: string where
  \<comment> \<open>a message of the default mode network\<close>
  "m_inbox = utf8x ''0AF09F92A1205B444D4E5D3A20''"

definition m_stopped :: string where
  \<comment> \<open>aborted\<close>
  "m_stopped = utf8x ''5BE4B8ADE696AD5D''"

definition m_error_line :: string where
  \<comment> \<open>error\<close>
  "m_error_line = utf8x ''0AE382A8E383A9E383BC3A20''"

definition m_help :: string where
  \<comment> \<open>the commands\<close>
  "m_help = utf8x
    (''0AF09F92A120E588A9E794A8E58FAFE883BDE381AAE58685E79C81E383BBE79FA5E883BDE382B3E3839EE383''
     @ ''B3E383893A0A20202F646D6E2020202D20444D4EEFBC88E887AAE799BAE6809DE88083E383ABE383BCE38397''
     @ ''EFBC89E381AEE79BB4E8BF91E381AEE58685E79C81E5B1A5E6ADB4E38292E8A1A8E7A4BA0A20202F64726561''
     @ ''6D202D20E58DB3E5BAA7E381AB204465657020447265616D696E6720E38292E382ADE38383E382AFE38197E3''
     @ ''8081E383A1E382BFE8AA8DE79FA5E383ACE3839DE383BCE38388E38292E8A1A8E7A4BA0A20202F6D61676920''
     @ ''202D204D41474920E4B889E9878DE79BA3E8A696E381AEE588A4E5AE9AE383ADE382B0E383BBE38396E383AD''
     @ ''E38383E382AFE5B1A5E6ADB4E38292E8A1A8E7A4BA0A20202F7661756C74202D20E3838AE383ACE38383E382''
     @ ''B8205661756C7420E381ABE89384E7A98DE38195E3828CE3819FE382B9E38388E38383E382AFE79FA5E8A68B''
     @ ''E38292E4B880E8A6A7E8A1A8E7A4BA0A20202F6772617068202D20E8A898E686B6E383BBE3838AE383ACE383''
     @ ''83E382B8E382B0E383A9E38395E381AEE58A9BE5ADA6E58FAFE8A696E58C9648544D4CE38292E7949FE68890''
     @ ''20282F6772617068206F70656E20E381A7E38396E383A9E382A6E382B6E8A1A8E7A4BA290A20202F68656C70''
     @ ''20202D20E38193E381AEE38398E383ABE38397E38292E8A1A8E7A4BA0A2020657869742020202D20E382BBE3''
     @ ''8383E382B7E383A7E383B3E38292E7B582E4BA860A0A'')"

definition m_cmd_dmn :: string where
  \<comment> \<open>the last reflections\<close>
  "m_cmd_dmn = utf8x ''0AF09FA7A0205B444D4E20E79BB4E8BF91E58685E79C81E383ADE382B05D3A0A''"

definition m_no_reflections :: string where
  \<comment> \<open>none yet\<close>
  "m_no_reflections = utf8x
    (''2020EFBC88E381BEE381A0E58685E79C81E383ACE382B3E383BCE38389E381AFE38182E3828AE381BEE3819B''
     @ ''E38293EFBC890A'')"

definition m_result_1 :: string where
  \<comment> \<open>result\<close>
  "m_result_1 = utf8x ''2028E7B590E69E9C3A20''"

definition m_no_store_line :: string where
  \<comment> \<open>the store is not there\<close>
  "m_no_store_line = utf8x
    (''2020EFBC88E8A898E686B6E382B9E38388E382A2E3818CE69CAAE5889DE69C9FE58C96E381A7E38199EFBC89''
     @ ''0A'')"

definition m_cmd_dream :: string where
  \<comment> \<open>the report of deep dreaming\<close>
  "m_cmd_dream = utf8x
    (''0AF09F8C99205B4465657020447265616D696E6720E383A1E382BFE8AA8DE79FA5E383ACE3839DE383BCE383''
     @ ''885D3A0A'')"

definition m_rate_line :: string where
  \<comment> \<open>success rate\<close>
  "m_rate_line = utf8x ''2020E68890E58A9FE78E873A20''"

definition m_usage_line :: string where
  \<comment> \<open>use of tools\<close>
  "m_usage_line = utf8x ''2020E38384E383BCE383ABE4BDBFE794A8E7B5B1E8A8883A0A''"

definition m_times :: string where
  \<comment> \<open>times\<close>
  "m_times = utf8x ''E59B9E0A''"

definition m_failures_line :: string where
  \<comment> \<open>failures\<close>
  "m_failures_line = utf8x ''2020E5A4B1E69597E582BEE590913A0A''"

definition m_insights_line :: string where
  \<comment> \<open>insights\<close>
  "m_insights_line = utf8x ''2020E799BAE8A68BE38195E3828CE3819FE6B49EE5AF9F3A0A''"

definition m_insight_item :: string where
  \<comment> \<open>an insight\<close>
  "m_insight_item = utf8x ''20202020F09F92A120''"

definition m_skills_line :: string where
  \<comment> \<open>skills to promote\<close>
  "m_skills_line = utf8x ''2020E382B9E382ADE383ABE69887E6A0BCE68EA8E896A63A0A''"

definition m_skill_item :: string where
  \<comment> \<open>a skill\<close>
  "m_skill_item = utf8x ''20202020E2AD9020''"

definition m_cmd_magi :: string where
  \<comment> \<open>state of the panel\<close>
  "m_cmd_magi = utf8x ''0AE29A96EFB88F205B4D41474920E4B889E9878DE79BA3E8A696E382B9E38386E383BCE382BFE382B95D3A0A''"

definition m_audits :: string where
  \<comment> \<open>audits\<close>
  "m_audits = utf8x ''2020E7B78FE79BA3E69FBBE4BBB6E695B03A20''"

definition m_blocked :: string where
  \<comment> \<open>blocked\<close>
  "m_blocked = utf8x ''2020E981AEE696ADE383BBE698AFE6ADA32028426C6F636B293A20''"

definition m_warned :: string where
  \<comment> \<open>warned\<close>
  "m_warned = utf8x ''2020E8ADA6E5918AE383BBE68C87E5B08E20285761726E293A20''"

definition m_cases :: string where
  \<comment> \<open>cases\<close>
  "m_cases = utf8x ''20E4BBB60A''"

definition m_judges :: string where
  \<comment> \<open>the judges\<close>
  "m_judges = utf8x
    (''202056616C7565734A756467652028E6809DE683B3E383BBE5AE89E585A829202F20436F6E73697374656E63''
     @ ''794A756467652028E695B4E59088E680A729202F20476F6F64686172744A756467652028E68C87E6A899E581''
     @ ''A5E585A8E680A72920E7A8BCE5838DE4B8AD0A'')"

definition m_no_audit :: string where
  \<comment> \<open>the audit log is not there\<close>
  "m_no_audit = utf8x
    (''2020EFBC88E79BA3E69FBBE383ADE382B0E382B9E38388E382A2E3818CE69CAAE5889DE69C9FE58C96E381A7''
     @ ''E38199EFBC890A'')"

definition m_cmd_vault :: string where
  \<comment> \<open>the newest entries of the vault\<close>
  "m_cmd_vault = utf8x
    (''0AF09F939A205BE3838AE383ACE38383E382B85661756C7420E69C80E696B0E382B9E38388E38383E382AFE7''
     @ ''9FA5E8A68B5D3A0A'')"

definition m_vault_at :: string where
  \<comment> \<open>the vault is at\<close>
  "m_vault_at = utf8x ''2020E3838AE383ACE38383E382B85661756C743A20''"

definition m_vault_recent :: string where
  \<comment> \<open>insights\<close>
  "m_vault_recent = utf8x
    (''2020E79BB4E8BF91E381AEE6B49EE5AF9FE382A8E383B3E38388E383AA2028696E7369676874732E6D64293A''
     @ ''20'')"

definition m_vault_empty :: string where
  \<comment> \<open>no entries\<close>
  "m_vault_empty = utf8x ''2028E382A8E383B3E38388E383AAE381AAE38197290A''"

definition m_vault_absent :: string where
  \<comment> \<open>there is no vault\<close>
  "m_vault_absent = utf8x
    (''2020E3838AE383ACE38383E382B85661756C74E38387E382A3E383ACE382AFE38388E383AAE3818CE69CAAE5''
     @ ''889DE69C9FE58C96E381A7E381990A'')"

definition m_cmd_graph :: string where
  \<comment> \<open>the graph as HTML\<close>
  "m_cmd_graph = utf8x
    (''0AF09F938A205BE8A898E686B6E383BBE79FA5E8AD98E382B0E383A9E383952048544D4C20E587BAE58A9B5D''
     @ ''3A0A'')"

definition m_graph_write_failed :: string where
  \<comment> \<open>the file could not be written\<close>
  "m_graph_write_failed = utf8x
    (''2020E29D8C20E38395E382A1E382A4E383ABE69BB8E3818DE8BEBCE381BFE381ABE5A4B1E69597E38197E381''
     @ ''BEE38197E3819F3A20'')"

definition m_graph_written :: string where
  \<comment> \<open>written\<close>
  "m_graph_written = utf8x
    (''2020E29C8520E58A9BE5ADA6E382B0E383A9E38395E38393E383A5E383BCE382A2E38292E587BAE58A9BE381''
     @ ''97E381BEE38197E3819F3A20'')"

definition m_graph_open :: string where
  \<comment> \<open>opening\<close>
  "m_graph_open = utf8x ''2020F09F8C9020E38396E383A9E382A6E382B6E381A7E9968BE38184E381A6E38184E381BEE381993A20''"

definition m_graph_failed :: string where
  \<comment> \<open>the graph could not be made\<close>
  "m_graph_failed = utf8x ''2020E29D8C20E382B0E383A9E38395E7949FE68890E382A8E383A9E383BC3A20''"

definition m_unknown_1 :: string where
  \<comment> \<open>unknown command\<close>
  "m_unknown_1 = utf8x ''0AE4B88DE6988EE381AAE382B3E3839EE383B3E38389E381A7E381993A2027''"

definition m_unknown_2 :: string where
  \<comment> \<open>see /help\<close>
  "m_unknown_2 = utf8x
    (''27E38082272F68656C702720E381A7E4B880E8A6A7E38292E8A1A8E7A4BAE381A7E3818DE381BEE38199E380''
     @ ''820A0A'')"

end
