(* ===== verification/Fast_Path.thy ===== *)
theory Fast_Path
  imports Repl_Messages
begin

text \<open>
  \<open>src/agent/fast_path.rs\<close>: rules that answer short inputs without the model. A pattern is the set of
  the texts it matches; those of the default rules are words, compared as \<open>(?i)\<close> compares them.
  Instants and durations are nanoseconds; a duration since a later instant is zero.
\<close>

section \<open>Words in either case\<close>

text \<open>The simple case folding of the letters that fold to ASCII: the long s and the Kelvin sign are the
  only ones outside.\<close>

definition fold_case :: "string \<Rightarrow> string" where
  "fold_case c = (if c = utf8x ''C5BF'' then ''s'' else if c = utf8x ''E284AA'' then ''k'' else map lower_byte c)"

definition words_ci :: "string list \<Rightarrow> string \<Rightarrow> bool" where
  "words_ci ws s = (map fold_case (chars s) \<in> set (map (\<lambda>w. map fold_case (chars w)) ws))"

section \<open>Rules\<close>

record fast_rule =
  fr_name :: string
  fr_pattern :: "string \<Rightarrow> bool"
  fr_response :: string
  fr_cooldown :: nat

record fast_path =
  fp_rules :: "fast_rule list"
  fp_last_triggered :: "(string, nat) hashmap"

definition fp_new :: fast_path where
  "fp_new = \<lparr>fp_rules = [], fp_last_triggered = []\<rparr>"

definition add_rule :: "fast_rule \<Rightarrow> fast_path \<Rightarrow> fast_path" where
  "add_rule r f = f\<lparr>fp_rules := fp_rules f @ [r]\<rparr>"

definition default_rules :: "fast_rule list" where
  "default_rules =
    [\<lparr>fr_name = ''ping'', fr_pattern = words_ci [''ping''], fr_response = ''pong'', fr_cooldown = 10 ^ 9\<rparr>,
     \<lparr>fr_name = ''greeting'',
      fr_pattern = words_ci [''hello'', ''hi'', m_fp_konnichiwa, m_fp_ohayou, m_fp_konbanwa],
      fr_response = m_fp_greeting, fr_cooldown = 3 * 10 ^ 9\<rparr>,
     \<lparr>fr_name = ''version'', fr_pattern = words_ci [''version'', ''--version'', ''-v'', m_fp_version],
      fr_response = ''bonsai-agent v0.1.0'', fr_cooldown = 10 ^ 9\<rparr>]"

definition with_default_rules :: fast_path where
  "with_default_rules = fold add_rule default_rules fp_new"

text \<open>The first rule that matches decides: it answers, or, while it cools down, nobody does.\<close>

definition cooling :: "fast_rule \<Rightarrow> nat \<Rightarrow> fast_path \<Rightarrow> bool" where
  "cooling r now f =
    (case hm_get (fp_last_triggered f) (fr_name r) of None \<Rightarrow> False | Some t \<Rightarrow> now - t < fr_cooldown r)"

fun try_rules :: "fast_rule list \<Rightarrow> string \<Rightarrow> nat \<Rightarrow> fast_path \<Rightarrow> string option \<times> fast_path" where
  "try_rules [] input now f = (None, f)"
| "try_rules (r # rs) input now f =
    (if fr_pattern r input
     then (if cooling r now f then (None, f)
           else (Some (fr_response r), f\<lparr>fp_last_triggered := hm_insert (fr_name r) now (fp_last_triggered f)\<rparr>))
     else try_rules rs input now f)"

definition try_handle :: "string \<Rightarrow> nat \<Rightarrow> fast_path \<Rightarrow> string option \<times> fast_path" where
  "try_handle input now f =
    (if trim input = [] then (None, f) else try_rules (fp_rules f) (trim input) now f)"

section \<open>Answers keep their distance\<close>

text \<open>What the dispatcher knows of the answers given so far: of each rule at least the last.\<close>

definition rule_answers :: "fast_rule \<Rightarrow> (string \<times> nat) list \<Rightarrow> nat list" where
  "rule_answers r as = map snd (filter (\<lambda>a. fst a = fr_response r) as)"

definition remembers :: "fast_path \<Rightarrow> (string \<times> nat) list \<Rightarrow> bool" where
  "remembers f as =
    (distinct (map fr_name (fp_rules f)) \<and> distinct (map fr_response (fp_rules f))
     \<and> list_all (\<lambda>r. 0 < fr_cooldown r
          \<and> hm_get (fp_last_triggered f) (fr_name r)
              = (if rule_answers r as = [] then None else Some (last (rule_answers r as)))
          \<and> sorted_wrt (\<lambda>s t. s + fr_cooldown r \<le> t) (rule_answers r as)) (fp_rules f))"

lemma try_rules_cases:
  assumes "try_rules rs input now f = (out, f')"
  shows "(out = None \<and> f' = f)
    \<or> (\<exists>r \<in> set rs. out = Some (fr_response r) \<and> \<not> cooling r now f
        \<and> f' = f\<lparr>fp_last_triggered := hm_insert (fr_name r) now (fp_last_triggered f)\<rparr>)"
  using assms by (induction rs) (auto split: if_splits)

lemma spaced_snoc:
  "sorted_wrt (\<lambda>s t. s + c \<le> t) xs \<Longrightarrow> xs = [] \<or> last xs + c \<le> n \<Longrightarrow> sorted_wrt (\<lambda>s t. s + c \<le> t) (xs @ [n::nat])"
proof (induction xs)
  case (Cons x xs)
  then show ?case by (cases "xs = []") (fastforce dest: last_in_set simp: sorted_wrt_append)+
qed simp

lemma try_rules_remembers:
  assumes tried: "try_rules rs input now f = (out, f')" and sub: "set rs \<subseteq> set (fp_rules f)"
    and known: "remembers f as"
  shows "remembers f' (as @ (case out of None \<Rightarrow> [] | Some a \<Rightarrow> [(a, now)])) \<and> fp_rules f' = fp_rules f"
proof -
  from try_rules_cases [OF tried] show ?thesis
  proof
    assume "\<exists>r \<in> set rs. out = Some (fr_response r) \<and> \<not> cooling r now f
        \<and> f' = f\<lparr>fp_last_triggered := hm_insert (fr_name r) now (fp_last_triggered f)\<rparr>"
    then obtain r where r: "r \<in> set (fp_rules f)" "out = Some (fr_response r)" "\<not> cooling r now f"
      and f': "f' = f\<lparr>fp_last_triggered := hm_insert (fr_name r) now (fp_last_triggered f)\<rparr>"
      using sub by blast
    have names: "inj_on fr_name (set (fp_rules f))" "inj_on fr_response (set (fp_rules f))"
      using known by (auto simp: remembers_def distinct_map)
    have "0 < fr_cooldown q
          \<and> hm_get (fp_last_triggered f') (fr_name q)
              = (if rule_answers q (as @ [(fr_response r, now)]) = [] then None
                 else Some (last (rule_answers q (as @ [(fr_response r, now)]))))
          \<and> sorted_wrt (\<lambda>s t. s + fr_cooldown q \<le> t) (rule_answers q (as @ [(fr_response r, now)]))"
      if q: "q \<in> set (fp_rules f)" for q
    proof (cases "q = r")
      case True
      have pos: "0 < fr_cooldown r" and spaced: "sorted_wrt (\<lambda>s t. s + fr_cooldown r \<le> t) (rule_answers r as)"
        using known r(1) by (auto simp: remembers_def list_all_iff)
      have "rule_answers r as = [] \<or> last (rule_answers r as) + fr_cooldown r \<le> now"
        using known r(1,3) pos by (auto simp: remembers_def list_all_iff cooling_def split: if_splits)
      from spaced_snoc [OF spaced this] pos show ?thesis using True
        by (simp add: f' rule_answers_def hm_get_insert)
    next
      case False
      then have "fr_name q \<noteq> fr_name r" "fr_response q \<noteq> fr_response r"
        using names q r(1) by (auto dest: inj_onD)
      moreover from this have "rule_answers q (as @ [(fr_response r, now)]) = rule_answers q as"
        by (simp add: rule_answers_def)
      ultimately show ?thesis using known q by (simp add: f' hm_get_insert remembers_def list_all_iff)
    qed
    then show ?thesis using known r(2) by (simp add: f' remembers_def list_all_iff)
  qed (use known in simp)
qed

lemma try_handle_remembers:
  "try_handle input now f = (out, f') \<Longrightarrow> remembers f as \<Longrightarrow>
    remembers f' (as @ (case out of None \<Rightarrow> [] | Some a \<Rightarrow> [(a, now)])) \<and> fp_rules f' = fp_rules f"
  using try_rules_remembers [of "fp_rules f" "trim input" now f out f' as]
  by (auto simp: try_handle_def split: if_splits)

lemma default_rules_eq: "fp_rules with_default_rules = default_rules" "fp_last_triggered with_default_rules = []"
  by (simp_all add: with_default_rules_def default_rules_def add_rule_def fp_new_def)

end
