(* ===== verification/Event_Store.thy ===== *)
theory Event_Store
  imports Agent_Support
begin

text \<open>
  \<open>src/domain/event.rs\<close>, \<open>src/agent/event_store.rs\<close> and \<open>src/memory/mocks/event_repository_mock.rs\<close>:
  the record of what the agent did, as a table of events that is only appended to. The table is the
  list of its rows with the counter of \<open>AUTOINCREMENT\<close>, and a query is what its SQL says of the rows;
  errors of the database itself are left out. The clock (\<open>now\<close>), the JSON parser (\<open>dec\<close>) and the
  parser of time stamps (\<open>time_of\<close>, in nanoseconds) are arguments.
\<close>

section \<open>Events\<close>

definition event_type_str :: "event_type \<Rightarrow> string" where
  "event_type_str t =
    (case t of SessionStart \<Rightarrow> ''session_start'' | UserMessage \<Rightarrow> ''user_message''
     | AssistantMessage \<Rightarrow> ''assistant_message'' | ToolCallStart \<Rightarrow> ''tool_call_start''
     | ToolCallEnd \<Rightarrow> ''tool_call_end'' | PlanGenerated \<Rightarrow> ''plan_generated''
     | StepCompleted \<Rightarrow> ''step_completed'' | SessionEnd \<Rightarrow> ''session_end''
     | MagiHalt \<Rightarrow> ''magi_halt'' | MagiWarn \<Rightarrow> ''magi_warn'')"

record event =
  ev_id :: int
  ev_session :: string
  ev_type :: string
  ev_data :: string
  ev_step :: "nat option"
  ev_created :: string

definition is_event :: "event_type \<Rightarrow> event \<Rightarrow> bool" where
  "is_event t e = (ev_type e = event_type_str t)"

record trajectory =
  tc_session_id :: string
  tc_task_description :: string
  tc_tool_sequence :: "string list"
  tc_tool_success_rate :: rat
  tc_total_steps :: nat
  tc_duration_ms :: nat

definition tool_chain_key :: "trajectory \<Rightarrow> string" where
  "tool_chain_key c = join '' -> '' (tc_tool_sequence c)"

definition compute_duration_ms :: "(string \<Rightarrow> int option) \<Rightarrow> string \<Rightarrow> string \<Rightarrow> nat" where
  "compute_duration_ms time_of start fin =
    (case (time_of start, time_of fin) of
       (Some s, Some t) \<Rightarrow> nat ((t - s) div 10 ^ 6) | _ \<Rightarrow> 0)"

text \<open>A field of an event's data, when the data parses.\<close>

definition event_str :: "(string \<Rightarrow> json option) \<Rightarrow> string \<Rightarrow> event \<Rightarrow> string option" where
  "event_str dec k e =
    Option.bind (dec (ev_data e)) (\<lambda>v. Option.bind (json_get v k) as_str)"

definition event_succeeded :: "(string \<Rightarrow> json option) \<Rightarrow> event \<Rightarrow> bool" where
  "event_succeeded dec e =
    (case Option.bind (dec (ev_data e)) (\<lambda>v. json_get v ''success'') of
       Some (JBool b) \<Rightarrow> b | _ \<Rightarrow> False)"

definition task_of_events :: "(string \<Rightarrow> json option) \<Rightarrow> event list \<Rightarrow> string" where
  "task_of_events dec es =
    (case Option.bind (find (is_event UserMessage) es) (event_str dec ''content'') of
       None \<Rightarrow> [] | Some s \<Rightarrow> s)"

text \<open>The walk over the events: the tools started, the calls ended and those that succeeded.\<close>

fun walk_events ::
    "(string \<Rightarrow> json option) \<Rightarrow> event list \<Rightarrow> string list \<times> nat \<times> nat \<Rightarrow> string list \<times> nat \<times> nat" where
  "walk_events dec [] acc = acc"
| "walk_events dec (e # es) (names, ended, ok) =
    walk_events dec es
      (if is_event ToolCallStart e
       then (case event_str dec ''tool'' e of Some n \<Rightarrow> (names @ [n], ended, ok) | None \<Rightarrow> (names, ended, ok))
       else if is_event ToolCallEnd e
       then (names, ended + 1, if event_succeeded dec e then ok + 1 else ok)
       else (names, ended, ok))"

definition success_rate :: "nat \<Rightarrow> nat \<Rightarrow> rat" where
  "success_rate ok ended = (if ended = 0 then 0 else fl64 (fl64 (of_nat ok) / fl64 (of_nat ended)))"

definition build_trajectory_from_events ::
    "(string \<Rightarrow> int option) \<Rightarrow> (string \<Rightarrow> json option) \<Rightarrow> string \<Rightarrow> event list \<Rightarrow> trajectory option" where
  "build_trajectory_from_events time_of dec session_id es =
    (if es = [] then None
     else if \<not> list_ex (is_event SessionEnd) es then None
     else case walk_events dec es ([], 0, 0) of
       (names, ended, ok) \<Rightarrow>
         Some \<lparr>tc_session_id = session_id, tc_task_description = task_of_events dec es,
               tc_tool_sequence = names, tc_tool_success_rate = success_rate ok ended,
               tc_total_steps = length (filter (is_event ToolCallStart) es),
               tc_duration_ms = compute_duration_ms time_of (ev_created (hd es)) (ev_created (last es))\<rparr>)"

definition classify_session_for_verification ::
    "(string \<Rightarrow> json option) \<Rightarrow> event list \<Rightarrow> string \<Rightarrow> bool option" where
  "classify_session_for_verification dec es target =
    (if \<not> list_ex (is_event SessionEnd) es then None
     else if classify_task_type (task_of_events dec es) \<noteq> target then None
     else Some
       ((case Option.bind (find (is_event AssistantMessage) (rev es)) (event_str dec ''content'') of
           None \<Rightarrow> False | Some s \<Rightarrow> str_contains s m_verified_mark)
        \<and> list_all (event_succeeded dec) (filter (is_event ToolCallEnd) es)))"

section \<open>The table\<close>

record event_table =
  et_rows :: "event list"
  et_sequence :: int

definition et_new :: event_table where
  "et_new = \<lparr>et_rows = [], et_sequence = 0\<rparr>"

definition es_append ::
    "string \<Rightarrow> string \<Rightarrow> event_type \<Rightarrow> string \<Rightarrow> nat option \<Rightarrow> event_table \<Rightarrow> int \<times> event_table" where
  "es_append now sid t data step_index db =
    (let id = et_sequence db + 1
     in (id, \<lparr>et_rows = et_rows db @ [\<lparr>ev_id = id, ev_session = sid, ev_type = event_type_str t,
                ev_data = data, ev_step = step_index, ev_created = now\<rparr>],
              et_sequence = id\<rparr>))"

text \<open>\<open>ORDER BY id\<close> and \<open>DISTINCT\<close>, which keeps the first of equal rows.\<close>

definition order_by_id :: "event list \<Rightarrow> event list" where
  "order_by_id es = sort_key ev_id es"

definition select_distinct :: "'a list \<Rightarrow> 'a list" where
  "select_distinct xs = rev (remdups (rev xs))"

definition es_replay :: "string \<Rightarrow> event_table \<Rightarrow> event list" where
  "es_replay sid db = order_by_id (filter (\<lambda>e. ev_session e = sid) (et_rows db))"

text \<open>The groups are ordered by their count; the order of equal counts is the database's (\<open>ord\<close>).\<close>

definition es_count_by_type ::
    "(string list \<Rightarrow> string list) \<Rightarrow> string \<Rightarrow> event_table \<Rightarrow> (string \<times> nat) list" where
  "es_count_by_type ord sid db =
    (let ts = map ev_type (filter (\<lambda>e. ev_session e = sid) (et_rows db))
     in sort_key (\<lambda>p. - int (snd p)) (map (\<lambda>t. (t, count_list ts t)) (ord (remdups ts))))"

definition es_total_count :: "event_table \<Rightarrow> nat" where
  "es_total_count db = length (et_rows db)"

definition es_started :: "(event \<Rightarrow> bool) \<Rightarrow> event_table \<Rightarrow> string list" where
  "es_started P db =
    select_distinct (map ev_session (order_by_id
      (filter (\<lambda>e. is_event SessionStart e \<and> P e) (et_rows db))))"

definition es_list_sessions :: "event_table \<Rightarrow> string list" where
  "es_list_sessions = es_started (\<lambda>_. True)"

definition es_build_trajectory ::
    "(string \<Rightarrow> int option) \<Rightarrow> (string \<Rightarrow> json option) \<Rightarrow> event_table \<Rightarrow> string \<Rightarrow> trajectory option" where
  "es_build_trajectory time_of dec db sid = build_trajectory_from_events time_of dec sid (es_replay sid db)"

definition es_extract_since ::
    "(string \<Rightarrow> int option) \<Rightarrow> (string \<Rightarrow> json option) \<Rightarrow> (rat \<Rightarrow> bool) \<Rightarrow> int \<Rightarrow> nat \<Rightarrow> event_table
      \<Rightarrow> trajectory list" where
  "es_extract_since time_of dec good since min_steps db =
    filter (\<lambda>c. tc_total_steps c \<ge> min_steps \<and> good (tc_tool_success_rate c))
      (List.map_filter (es_build_trajectory time_of dec db) (es_started (\<lambda>e. ev_id e > since) db))"

definition es_extract_successful_since ::
    "(string \<Rightarrow> int option) \<Rightarrow> (string \<Rightarrow> json option) \<Rightarrow> int \<Rightarrow> rat \<Rightarrow> nat \<Rightarrow> event_table \<Rightarrow> trajectory list" where
  "es_extract_successful_since time_of dec since rate = es_extract_since time_of dec (\<lambda>r. r \<ge> rate) since"

definition es_extract_failed_since ::
    "(string \<Rightarrow> int option) \<Rightarrow> (string \<Rightarrow> json option) \<Rightarrow> int \<Rightarrow> rat \<Rightarrow> nat \<Rightarrow> event_table \<Rightarrow> trajectory list" where
  "es_extract_failed_since time_of dec since rate = es_extract_since time_of dec (\<lambda>r. r < rate) since"

definition es_extract_successful ::
    "(string \<Rightarrow> int option) \<Rightarrow> (string \<Rightarrow> json option) \<Rightarrow> rat \<Rightarrow> nat \<Rightarrow> event_table \<Rightarrow> trajectory list" where
  "es_extract_successful time_of dec = es_extract_successful_since time_of dec 0"

definition es_extract_failed ::
    "(string \<Rightarrow> int option) \<Rightarrow> (string \<Rightarrow> json option) \<Rightarrow> rat \<Rightarrow> nat \<Rightarrow> event_table \<Rightarrow> trajectory list" where
  "es_extract_failed time_of dec = es_extract_failed_since time_of dec 0"

definition aggregate_verification_outcomes ::
    "(string \<Rightarrow> json option) \<Rightarrow> string list \<Rightarrow> string \<Rightarrow> (string \<Rightarrow> event list) \<Rightarrow> nat \<times> nat" where
  "aggregate_verification_outcomes dec sids task_type replay =
    fold (\<lambda>sid (samples, successes).
        case classify_session_for_verification dec (replay sid) task_type of
          None \<Rightarrow> (samples, successes)
        | Some ok \<Rightarrow> (samples + 1, if ok then successes + 1 else successes))
      sids (0, 0)"

text \<open>Without samples and without a minimum the quotient of two zeros is not a number.\<close>

definition rate_of_samples :: "nat \<Rightarrow> nat \<times> nat \<Rightarrow> float_value option" where
  "rate_of_samples min_samples counts =
    (case counts of (samples, successes) \<Rightarrow>
       if samples < min_samples then None
       else if samples = 0 then Some NaN
       else Some (Finite (fl64 (fl64 (of_nat successes) / fl64 (of_nat samples)))))"

definition es_verification_success_rate ::
    "(string \<Rightarrow> json option) \<Rightarrow> string \<Rightarrow> nat \<Rightarrow> event_table \<Rightarrow> float_value option" where
  "es_verification_success_rate dec task_type min_samples db =
    rate_of_samples min_samples
      (aggregate_verification_outcomes dec (es_list_sessions db) task_type (\<lambda>sid. es_replay sid db))"

definition es_current_max_id :: "event_table \<Rightarrow> int" where
  "es_current_max_id db = (if et_rows db = [] then 0 else Max (set (map ev_id (et_rows db))))"

section \<open>The repository in memory\<close>

record mock_repository =
  mk_events :: "event list"
  mk_next_id :: int

definition mk_new :: mock_repository where
  "mk_new = \<lparr>mk_events = [], mk_next_id = 1\<rparr>"

definition mk_append ::
    "string \<Rightarrow> string \<Rightarrow> event_type \<Rightarrow> string \<Rightarrow> nat option \<Rightarrow> mock_repository \<Rightarrow> int \<times> mock_repository" where
  "mk_append now sid t data step_index m =
    (let id = mk_next_id m
     in (id, \<lparr>mk_events = mk_events m @ [\<lparr>ev_id = id, ev_session = sid, ev_type = event_type_str t,
                ev_data = data, ev_step = step_index, ev_created = now\<rparr>],
              mk_next_id = id + 1\<rparr>))"

definition mk_replay :: "string \<Rightarrow> mock_repository \<Rightarrow> event list" where
  "mk_replay sid m = filter (\<lambda>e. ev_session e = sid) (mk_events m)"

text \<open>The counts are a hash map, iterated in the order \<open>ord\<close> and sorted stably by the count.\<close>

definition mk_count_by_type ::
    "((string, nat) hashmap \<Rightarrow> (string, nat) hashmap) \<Rightarrow> string \<Rightarrow> mock_repository \<Rightarrow> (string \<times> nat) list" where
  "mk_count_by_type ord sid m =
    sort_key (\<lambda>p. - int (snd p)) (ord (hm_count (map ev_type (mk_replay sid m))))"

definition mk_total_count :: "mock_repository \<Rightarrow> nat" where
  "mk_total_count m = length (mk_events m)"

definition mk_started :: "(event \<Rightarrow> bool) \<Rightarrow> mock_repository \<Rightarrow> string list" where
  "mk_started P m =
    fst (fold (\<lambda>e (result, seen).
        if is_event SessionStart e \<and> P e \<and> ev_session e \<notin> seen
        then (result @ [ev_session e], insert (ev_session e) seen) else (result, seen))
      (mk_events m) ([], {}))"

definition mk_list_sessions :: "mock_repository \<Rightarrow> string list" where
  "mk_list_sessions = mk_started (\<lambda>_. True)"

definition mk_session_starts_since :: "int \<Rightarrow> mock_repository \<Rightarrow> string list" where
  "mk_session_starts_since since = mk_started (\<lambda>e. ev_id e > since)"

definition mk_extract_since ::
    "(string \<Rightarrow> int option) \<Rightarrow> (string \<Rightarrow> json option) \<Rightarrow> (rat \<Rightarrow> bool) \<Rightarrow> int \<Rightarrow> nat \<Rightarrow> mock_repository
      \<Rightarrow> trajectory list" where
  "mk_extract_since time_of dec good since min_steps m =
    filter (\<lambda>c. tc_total_steps c \<ge> min_steps \<and> good (tc_tool_success_rate c))
      (List.map_filter (\<lambda>sid. build_trajectory_from_events time_of dec sid (mk_replay sid m))
        (mk_session_starts_since since m))"

definition mk_extract_successful_since ::
    "(string \<Rightarrow> int option) \<Rightarrow> (string \<Rightarrow> json option) \<Rightarrow> int \<Rightarrow> rat \<Rightarrow> nat \<Rightarrow> mock_repository \<Rightarrow> trajectory list" where
  "mk_extract_successful_since time_of dec since rate = mk_extract_since time_of dec (\<lambda>r. r \<ge> rate) since"

definition mk_extract_failed_since ::
    "(string \<Rightarrow> int option) \<Rightarrow> (string \<Rightarrow> json option) \<Rightarrow> int \<Rightarrow> rat \<Rightarrow> nat \<Rightarrow> mock_repository \<Rightarrow> trajectory list" where
  "mk_extract_failed_since time_of dec since rate = mk_extract_since time_of dec (\<lambda>r. r < rate) since"

definition mk_current_max_id :: "mock_repository \<Rightarrow> int" where
  "mk_current_max_id m = mk_next_id m - 1"

definition mk_verification_success_rate ::
    "(string \<Rightarrow> json option) \<Rightarrow> string \<Rightarrow> nat \<Rightarrow> mock_repository \<Rightarrow> float_value option" where
  "mk_verification_success_rate dec task_type min_samples m =
    rate_of_samples min_samples
      (aggregate_verification_outcomes dec (mk_list_sessions m) task_type (\<lambda>sid. mk_replay sid m))"

end
