(* ===== verification/Sql.thy ===== *)
theory Sql
  imports Messages Soft_Float "HOL-Library.Multiset"
begin

text \<open>
  What the SQL of the stores uses: comparison of texts, \<open>ORDER BY\<close>, \<open>LIMIT\<close>, \<open>LIKE\<close> and \<open>GROUP BY\<close>
  with \<open>COUNT\<close>. A table is the list of its rows in the order of insertion; where SQL leaves an order
  open, that order is kept.
\<close>

section \<open>Order\<close>

text \<open>Texts are compared byte by byte; \<open>insort_text\<close> puts a row before the first larger one.\<close>

fun text_less :: "string \<Rightarrow> string \<Rightarrow> bool" where
  "text_less [] [] = False"
| "text_less [] (c # cs) = True"
| "text_less (b # bs) [] = False"
| "text_less (b # bs) (c # cs) =
    ((of_char b :: nat) < of_char c \<or> b = c \<and> text_less bs cs)"

fun insort_text :: "('r \<Rightarrow> 'r \<Rightarrow> bool) \<Rightarrow> 'r \<Rightarrow> 'r list \<Rightarrow> 'r list" where
  "insort_text lt x [] = [x]"
| "insort_text lt x (y # ys) = (if lt y x then y # insort_text lt x ys else x # y # ys)"

definition order_by :: "('r \<Rightarrow> 'r \<Rightarrow> bool) \<Rightarrow> 'r list \<Rightarrow> 'r list" where
  "order_by lt xs = foldr (insort_text lt) xs []"

lemma set_insort_text [simp]: "set (insort_text lt x xs) = insert x (set xs)"
  by (induction xs) auto

lemma set_order_by [simp]: "set (order_by lt xs) = set xs"
  by (induction xs) (auto simp: order_by_def)

lemma length_insort_text [simp]: "length (insort_text lt x xs) = Suc (length xs)"
  by (induction xs) auto

lemma mset_insort_text [simp]: "mset (insort_text lt x xs) = add_mset x (mset xs)"
  by (induction xs) auto

lemma mset_order_by [simp]: "mset (order_by lt xs) = mset xs"
  by (induction xs) (auto simp: order_by_def)

lemma length_order_by [simp]: "length (order_by lt xs) = length xs"
  by (metis mset_order_by size_mset)

lemma order_by_Nil [simp]: "order_by lt [] = []"
  by (simp add: order_by_def)

text \<open>\<open>ORDER BY key DESC\<close> on texts, and on numbers.\<close>

definition newest_first :: "('r \<Rightarrow> string) \<Rightarrow> 'r list \<Rightarrow> 'r list" where
  "newest_first key = order_by (\<lambda>r q. text_less (key q) (key r))"

definition largest_first :: "('r \<Rightarrow> int) \<Rightarrow> 'r list \<Rightarrow> 'r list" where
  "largest_first key = order_by (\<lambda>r q. key q < key r)"

text \<open>\<open>LIMIT\<close> with the \<open>usize\<close> cast to \<open>i64\<close>: a negative limit is none.\<close>

definition sql_limit :: "nat \<Rightarrow> 'r list \<Rightarrow> 'r list" where
  "sql_limit n xs = (if n < 2 ^ 63 then take n xs else xs)"

lemma set_newest_first [simp]: "set (newest_first key xs) = set xs"
  by (simp add: newest_first_def)

lemma set_largest_first [simp]: "set (largest_first key xs) = set xs"
  by (simp add: largest_first_def)

lemma set_sql_limit: "set (sql_limit n xs) \<subseteq> set xs"
  by (auto simp: sql_limit_def dest: in_set_takeD)

section \<open>LIKE\<close>

text \<open>A percent sign stands for any characters, an underscore for any one; ASCII letters match in either
  case. The arguments are lists of characters.\<close>

fun like_chars :: "string list \<Rightarrow> string list \<Rightarrow> bool" where
  "like_chars [] [] = True"
| "like_chars [] (c # cs) = False"
| "like_chars (p # ps) [] = (p = ''%'' \<and> like_chars ps [])"
| "like_chars (p # ps) (c # cs) =
    (if p = ''%'' then like_chars ps (c # cs) \<or> like_chars (p # ps) cs
     else (p = ''_'' \<or> eq_ignore_ascii_case p c) \<and> like_chars ps cs)"

definition sql_like :: "string \<Rightarrow> string \<Rightarrow> bool" where
  "sql_like s pattern = like_chars (chars pattern) (chars s)"

lemma like_anything [simp]: "like_chars [''%''] cs"
  by (induction cs) auto

lemma sql_like_any [simp]: "sql_like s ''%%''"
proof -
  have "like_chars [''%'', ''%''] cs" for cs :: "string list"
    by (cases cs) auto
  then show ?thesis by (simp add: sql_like_def chars.simps is_cont.simps)
qed

section \<open>GROUP BY\<close>

definition group_counts :: "'k list \<Rightarrow> ('k \<times> nat) list" where
  "group_counts ks = map (\<lambda>k. (k, count_list ks k)) (remdups ks)"

lemma group_counts_iff: "(k, n) \<in> set (group_counts ks) \<longleftrightarrow> k \<in> set ks \<and> n = count_list ks k"
  by (auto simp: group_counts_def)

text \<open>\<open>SELECT k, COUNT(*) ... GROUP BY k ORDER BY COUNT(*) DESC\<close>.\<close>

definition most_frequent :: "'k list \<Rightarrow> ('k \<times> nat) list" where
  "most_frequent ks = order_by (\<lambda>a b. snd b < snd a) (group_counts ks)"

lemma set_most_frequent [simp]: "set (most_frequent ks) = set (group_counts ks)"
  by (simp add: most_frequent_def)

section \<open>Fixed decimals\<close>

text \<open>\<open>{:.0}\<close> and \<open>{:.1}\<close> of a finite value that is not negative: rounded, ties to even.\<close>

definition show_rounded :: "rat \<Rightarrow> string" where
  "show_rounded x = show_nat (nat (round_half_even x))"

definition show_tenths :: "rat \<Rightarrow> string" where
  "show_tenths x =
    (let n = nat (round_half_even (x * 10)) in show_nat (n div 10) @ ''.'' @ [digit_char (n mod 10)])"

section \<open>Tables\<close>

text \<open>A table with \<open>AUTOINCREMENT\<close>: an identifier is never given twice.\<close>

record 'r table =
  tb_rows :: "'r list"
  tb_sequence :: int

definition table_new :: "'r table" where
  "table_new = \<lparr>tb_rows = [], tb_sequence = 0\<rparr>"

definition insert_row :: "(int \<Rightarrow> 'r) \<Rightarrow> 'r table \<Rightarrow> int \<times> 'r table" where
  "insert_row mk tb =
    (let i = tb_sequence tb + 1 in (i, \<lparr>tb_rows = tb_rows tb @ [mk i], tb_sequence = i\<rparr>))"

definition update_rows :: "('r \<Rightarrow> bool) \<Rightarrow> ('r \<Rightarrow> 'r) \<Rightarrow> 'r table \<Rightarrow> 'r table" where
  "update_rows p f tb = tb\<lparr>tb_rows := map (\<lambda>r. if p r then f r else r) (tb_rows tb)\<rparr>"

text \<open>\<open>DELETE\<close> answers how many rows it removed.\<close>

definition delete_rows :: "('r \<Rightarrow> bool) \<Rightarrow> 'r table \<Rightarrow> nat \<times> 'r table" where
  "delete_rows p tb =
    (length (filter p (tb_rows tb)), tb\<lparr>tb_rows := filter (\<lambda>r. \<not> p r) (tb_rows tb)\<rparr>)"

text \<open>The identifiers rise and the counter is beyond them.\<close>

definition table_wf :: "('r \<Rightarrow> int) \<Rightarrow> 'r table \<Rightarrow> bool" where
  "table_wf key tb =
    (sorted_wrt (<) (map key (tb_rows tb)) \<and> list_all (\<lambda>r. key r \<le> tb_sequence tb) (tb_rows tb))"

lemma rows_new [simp]: "tb_rows table_new = []"
  by (simp add: table_new_def)

lemma rows_insert [simp]: "tb_rows (snd (insert_row mk tb)) = tb_rows tb @ [mk (tb_sequence tb + 1)]"
  by (simp add: insert_row_def Let_def)

lemma rows_delete [simp]: "tb_rows (snd (delete_rows p tb)) = filter (\<lambda>r. \<not> p r) (tb_rows tb)"
  by (simp add: delete_rows_def)

lemma map_update_rows: "(\<And>r. key (f r) = key r) \<Longrightarrow> map key (tb_rows (update_rows p f tb)) = map key (tb_rows tb)"
  by (simp add: update_rows_def)

lemma table_wf_new [simp]: "table_wf key table_new"
  by (simp add: table_wf_def table_new_def)

lemma table_wf_insert: "table_wf key tb \<Longrightarrow> (\<And>i. key (mk i) = i) \<Longrightarrow> table_wf key (snd (insert_row mk tb))"
  by (fastforce simp: table_wf_def insert_row_def Let_def sorted_wrt_append list_all_iff)

lemma table_wf_update: "table_wf key tb \<Longrightarrow> (\<And>r. key (f r) = key r) \<Longrightarrow> table_wf key (update_rows p f tb)"
  by (auto simp: table_wf_def update_rows_def list_all_iff o_def if_distrib [of key] cong: if_cong)

lemma table_wf_delete: "table_wf key tb \<Longrightarrow> table_wf key (snd (delete_rows p tb))"
  by (auto simp: table_wf_def delete_rows_def list_all_iff sorted_wrt_map intro: sorted_wrt_filter)

lemma table_wf_distinct: "table_wf key tb \<Longrightarrow> distinct (map key (tb_rows tb))"
  by (simp add: table_wf_def strict_sorted_iff)

lemma insert_row_fresh: "table_wf key tb \<Longrightarrow> r \<in> set (tb_rows tb) \<Longrightarrow> key r \<noteq> fst (insert_row mk tb)"
  by (auto simp: table_wf_def insert_row_def Let_def list_all_iff)

end
