(* ===== verification/Experience_Store.thy ===== *)
theory Experience_Store
  imports Event_Store Sql
begin

text \<open>
  \<open>src/memory/experience.rs\<close> and \<open>src/memory/dreams.rs\<close>: the table of experiences, what is mined from
  the events of a session that failed, and the statistics over the table. Times are the texts the
  clock answers. A query is what its SQL says of the rows; errors of the database are left out.
\<close>

section \<open>The table\<close>

definition experience_type_str :: "experience_type \<Rightarrow> string" where
  "experience_type_str t = (case t of Success \<Rightarrow> ''success'' | Failure \<Rightarrow> ''failure'' | Insight \<Rightarrow> ''insight'')"

definition experience_type_of :: "string \<Rightarrow> experience_type" where
  "experience_type_of s =
    (if s = ''success'' then Success else if s = ''failure'' then Failure else Insight)"

record experience =
  xp_id :: int
  xp_type :: experience_type
  xp_task_context :: string
  xp_action :: string
  xp_outcome :: string
  xp_lesson :: "string option"
  xp_tool_name :: "string option"
  xp_error_type :: "string option"
  xp_error_detail :: "string option"
  xp_reuse_count :: int
  xp_created_at :: string

record record_params =
  rp_exp_type :: experience_type
  rp_task_context :: string
  rp_action :: string
  rp_outcome :: string
  rp_lesson :: "string option"
  rp_tool_name :: "string option"
  rp_error_type :: "string option"
  rp_error_detail :: "string option"

record experience_row =
  xr_id :: int
  xr_type :: string
  xr_task_context :: string
  xr_action :: string
  xr_outcome :: string
  xr_lesson :: "string option"
  xr_tool_name :: "string option"
  xr_error_type :: "string option"
  xr_error_detail :: "string option"
  xr_reuse_count :: int
  xr_created_at :: string
  xr_expires_at :: "string option"

definition xs_record :: "string \<Rightarrow> record_params \<Rightarrow> experience_row table \<Rightarrow> int \<times> experience_row table" where
  "xs_record now p tb =
    insert_row (\<lambda>i. \<lparr>xr_id = i, xr_type = experience_type_str (rp_exp_type p),
      xr_task_context = rp_task_context p, xr_action = rp_action p, xr_outcome = rp_outcome p,
      xr_lesson = rp_lesson p, xr_tool_name = rp_tool_name p, xr_error_type = rp_error_type p,
      xr_error_detail = rp_error_detail p, xr_reuse_count = 0, xr_created_at = now,
      xr_expires_at = None\<rparr>) tb"

definition has_expired :: "string \<Rightarrow> string option \<Rightarrow> bool" where
  "has_expired now t = (case t of None \<Rightarrow> False | Some e \<Rightarrow> text_less e now)"

definition xs_purge_expired :: "string \<Rightarrow> experience_row table \<Rightarrow> nat \<times> experience_row table" where
  "xs_purge_expired now tb = delete_rows (\<lambda>r. has_expired now (xr_expires_at r)) tb"

definition xs_set_ttl :: "string \<Rightarrow> int \<Rightarrow> experience_row table \<Rightarrow> experience_row table" where
  "xs_set_ttl expires i tb = update_rows (\<lambda>r. xr_id r = i) (\<lambda>r. r\<lparr>xr_expires_at := Some expires\<rparr>) tb"

definition experience_of_row :: "experience_row \<Rightarrow> experience" where
  "experience_of_row r =
    \<lparr>xp_id = xr_id r, xp_type = experience_type_of (xr_type r), xp_task_context = xr_task_context r,
     xp_action = xr_action r, xp_outcome = xr_outcome r, xp_lesson = xr_lesson r,
     xp_tool_name = xr_tool_name r, xp_error_type = xr_error_type r, xp_error_detail = xr_error_detail r,
     xp_reuse_count = xr_reuse_count r, xp_created_at = xr_created_at r\<rparr>"

text \<open>The first word of the context, anywhere in the context of the row.\<close>

definition first_word :: "string \<Rightarrow> string" where
  "first_word s = (case split_whitespace s of [] \<Rightarrow> [] | w # ws \<Rightarrow> w)"

definition xs_find_similar :: "string \<Rightarrow> nat \<Rightarrow> experience_row table \<Rightarrow> experience list" where
  "xs_find_similar context' limit tb =
    map experience_of_row (sql_limit limit (newest_first xr_created_at
      (filter (\<lambda>r. sql_like (xr_task_context r) (''%'' @ first_word context' @ ''%'')) (tb_rows tb))))"

definition is_type :: "string \<Rightarrow> experience_row \<Rightarrow> bool" where
  "is_type t r = (xr_type r = t)"

definition xs_failure_patterns :: "string \<Rightarrow> experience_row table \<Rightarrow> (string \<times> nat) list" where
  "xs_failure_patterns tool_name tb =
    most_frequent (List.map_filter xr_error_detail
      (filter (\<lambda>r. is_type ''failure'' r \<and> xr_tool_name r = Some tool_name) (tb_rows tb)))"

definition xs_success_count :: "string \<Rightarrow> experience_row table \<Rightarrow> nat" where
  "xs_success_count tool_name tb =
    length (filter (\<lambda>r. is_type ''success'' r \<and> xr_tool_name r = Some tool_name) (tb_rows tb))"

section \<open>Hindsight\<close>

datatype subgoal_judge_method = Tool_End_Success | Side_Effect_Only | Tool_End_Success_Or_Side_Effect

record hindsight_relabel =
  hr_original_goal :: string
  hr_achieved_subgoals :: "string list"
  hr_subgoal_indices :: "nat list"
  hr_trajectory :: "string list"
  hr_tool_success_rate :: rat
  hr_session_id :: string
  hr_total_steps :: nat

text \<open>\<open>None\<close> of the outer option: an index is out of bounds, the code panics.\<close>

definition into_relabeled_candidate :: "nat \<Rightarrow> hindsight_relabel \<Rightarrow> trajectory option option" where
  "into_relabeled_candidate i h =
    (if i \<ge> length (hr_achieved_subgoals h) then Some None
     else if i \<ge> length (hr_subgoal_indices h) then None
     else (let k = hr_subgoal_indices h ! i
       in if k \<ge> length (hr_trajectory h) then Some None
          else (let sequence = take (k + 1) (hr_trajectory h)
            in if sequence = [] then Some None
               else Some (Some
                 \<lparr>tc_session_id = hr_session_id h,
                  tc_task_description = hr_original_goal h @ '' (subgoal: '' @ hr_achieved_subgoals h ! i @ '')'',
                  tc_tool_sequence = sequence, tc_tool_success_rate = 1, tc_total_steps = k + 1,
                  tc_duration_ms = 0\<rparr>))))"

definition is_subgoal_achieved :: "subgoal_judge_method \<Rightarrow> string \<Rightarrow> bool \<Rightarrow> bool" where
  "is_subgoal_achieved m tool_name success =
    (success \<and> (case m of
       Tool_End_Success \<Rightarrow> True
     | Side_Effect_Only \<Rightarrow> tool_name \<in> {''file_write'', ''multi_edit'', ''git_commit''}
     | Tool_End_Success_Or_Side_Effect \<Rightarrow> True))"

record mining =
  mi_trajectory :: "string list"
  mi_achieved :: "string list"
  mi_indices :: "nat list"
  mi_ended :: nat
  mi_success :: nat
  mi_current :: "nat option"
  mi_last_tool :: "string option"

definition mining_new :: mining where
  "mining_new = \<lparr>mi_trajectory = [], mi_achieved = [], mi_indices = [], mi_ended = 0, mi_success = 0,
     mi_current = None, mi_last_tool = None\<rparr>"

definition mine_start :: "(string \<Rightarrow> json option) \<Rightarrow> event \<Rightarrow> mining \<Rightarrow> mining" where
  "mine_start dec e m =
    (case event_str dec ''tool'' e of
       None \<Rightarrow> m
     | Some name \<Rightarrow> m\<lparr>mi_current := Some (length (mi_trajectory m)),
         mi_trajectory := mi_trajectory m @ [name], mi_last_tool := Some name\<rparr>)"

definition mine_end :: "subgoal_judge_method \<Rightarrow> (string \<Rightarrow> json option) \<Rightarrow> event \<Rightarrow> mining \<Rightarrow> mining" where
  "mine_end method dec e m =
    (let m = m\<lparr>mi_ended := mi_ended m + 1\<rparr>;
         m = (if dec (ev_data e) = None then m
              else (let ok = event_succeeded dec e;
                        m = (if ok then m\<lparr>mi_success := mi_success m + 1\<rparr> else m);
                        tool_name = (case event_str dec ''tool'' e of Some n \<Rightarrow> n
                          | None \<Rightarrow> (case mi_last_tool m of Some n \<Rightarrow> n | None \<Rightarrow> []))
                in case mi_current m of
                     Some idx \<Rightarrow>
                       (if is_subgoal_achieved method tool_name ok
                        then m\<lparr>mi_achieved := mi_achieved m @ [tool_name @ m_subgoal_1 @ show_nat idx @ '')''],
                               mi_indices := mi_indices m @ [idx]\<rparr>
                        else m)
                   | None \<Rightarrow> m))
     in m\<lparr>mi_current := None\<rparr>)"

definition mine_event :: "subgoal_judge_method \<Rightarrow> (string \<Rightarrow> json option) \<Rightarrow> event \<Rightarrow> mining \<Rightarrow> mining" where
  "mine_event method dec e m =
    (if is_event ToolCallStart e then mine_start dec e m
     else if is_event ToolCallEnd e then mine_end method dec e m
     else m)"

definition extract_hindsight_relabels ::
    "(string \<Rightarrow> json option) \<Rightarrow> event list \<Rightarrow> subgoal_judge_method \<Rightarrow> hindsight_relabel list" where
  "extract_hindsight_relabels dec es method =
    (if es = [] then []
     else if \<not> list_ex (is_event SessionEnd) es then []
     else (let m = fold (mine_event method dec) es mining_new
       in if length (mi_trajectory m) < 2 then []
          else if mi_achieved m = [] then []
          else [\<lparr>hr_original_goal = task_of_events dec es, hr_achieved_subgoals = mi_achieved m,
                 hr_subgoal_indices = mi_indices m, hr_trajectory = mi_trajectory m,
                 hr_tool_success_rate = success_rate (mi_success m) (mi_ended m),
                 hr_session_id = ev_session (hd es), hr_total_steps = length (mi_trajectory m)\<rparr>]))"

definition hindsight_insight :: "hindsight_relabel \<Rightarrow> record_params" where
  "hindsight_insight h =
    \<lparr>rp_exp_type = Insight, rp_task_context = hr_original_goal h,
     rp_action = join '' -> '' (hr_trajectory h),
     rp_outcome = m_partial @ join '', '' (hr_achieved_subgoals h),
     rp_lesson = Some (m_hsl_1 @ show_nat (length (hr_achieved_subgoals h)) @ m_hsl_2),
     rp_tool_name = (if hr_trajectory h = [] then None else Some (last (hr_trajectory h))),
     rp_error_type = None, rp_error_detail = None\<rparr>"

definition record_hindsight_insight ::
    "string \<Rightarrow> hindsight_relabel \<Rightarrow> experience_row table \<Rightarrow> int \<times> experience_row table" where
  "record_hindsight_insight now h tb = xs_record now (hindsight_insight h) tb"

section \<open>Dreams\<close>

record dream_pattern =
  dp_name :: string
  dp_count :: nat
  dp_trend :: string
  dp_last_seen :: string

datatype dream_phase = Dream_Light | Dream_Deep

record dream_report =
  dm_timestamp :: string
  dm_tool_usage :: "(string \<times> nat) list"
  dm_failure_patterns :: "(string \<times> nat) list"
  dm_success_rate :: rat
  dm_insights :: "string list"
  dm_emerging_patterns :: "dream_pattern list"
  dm_phase :: dream_phase
  dm_skill_promotions :: "string list"

definition since :: "string \<Rightarrow> experience_row table \<Rightarrow> experience_row list" where
  "since cutoff tb = filter (\<lambda>r. text_less cutoff (xr_created_at r)) (tb_rows tb)"

definition tool_usage_stats :: "string \<Rightarrow> experience_row table \<Rightarrow> (string \<times> nat) list" where
  "tool_usage_stats cutoff tb = most_frequent (List.map_filter xr_tool_name (since cutoff tb))"

definition failure_stats :: "string \<Rightarrow> experience_row table \<Rightarrow> (string \<times> nat) list" where
  "failure_stats cutoff tb =
    take 10 (most_frequent (List.map_filter xr_error_detail (filter (is_type ''failure'') (since cutoff tb))))"

definition dream_success_rate :: "string \<Rightarrow> experience_row table \<Rightarrow> rat" where
  "dream_success_rate cutoff tb =
    success_rate (length (filter (is_type ''success'') (since cutoff tb))) (length (since cutoff tb))"

definition generate_insights :: "(string \<times> nat) list \<Rightarrow> (string \<times> nat) list \<Rightarrow> rat \<Rightarrow> string list" where
  "generate_insights tool_usage failures rate =
    (if rate < 1 / 2 then [m_low_1 @ show_rounded (fl64 (rate * 100)) @ m_low_2]
     else if rate > fl64 (9 / 10) then [m_high_1 @ show_rounded (fl64 (rate * 100)) @ m_high_2]
     else [])
    @ (case failures of
         [] \<Rightarrow> []
       | (name, n) # fs \<Rightarrow> if n \<ge> 3 then [[squote] @ name @ m_fail_2 @ show_nat n @ m_fail_3] else [])
    @ (case tool_usage of
         [] \<Rightarrow> []
       | (name, n) # us \<Rightarrow> [m_top_1 @ name @ '' ('' @ show_nat n @ m_top_3])
    @ (if length tool_usage \<le> 1 \<and> tool_usage \<noteq> [] then [m_one_tool] else [])"

text \<open>The last ten experiences by identifier; the failures seen three times, those without a detail
  counted as one kind; the number of skills.\<close>

definition detect_patterns :: "string \<Rightarrow> string \<Rightarrow> nat \<Rightarrow> experience_row table \<Rightarrow> dream_pattern list" where
  "detect_patterns now cutoff skill_count tb =
    (let recent = take 10 (largest_first xr_id (since cutoff tb));
         successes = length (filter (is_type ''success'') recent);
         details = map xr_error_detail (filter (is_type ''failure'') (since cutoff tb));
         repeated = length (filter (\<lambda>(d, n). n \<ge> 3) (group_counts details))
     in (if successes \<ge> 8 then [\<lparr>dp_name = m_pat_success, dp_count = successes, dp_trend = ''stable'', dp_last_seen = now\<rparr>] else [])
        @ (if repeated > 0 then [\<lparr>dp_name = m_pat_failure, dp_count = repeated, dp_trend = ''increasing'', dp_last_seen = now\<rparr>] else [])
        @ (if skill_count > 0 then [\<lparr>dp_name = m_pat_skills, dp_count = skill_count, dp_trend = ''increasing'', dp_last_seen = now\<rparr>] else []))"

definition generate_report :: "string \<Rightarrow> string \<Rightarrow> nat \<Rightarrow> experience_row table \<Rightarrow> dream_report" where
  "generate_report now cutoff skill_count tb =
    (let usage = tool_usage_stats cutoff tb; failures = failure_stats cutoff tb; rate = dream_success_rate cutoff tb
     in \<lparr>dm_timestamp = now, dm_tool_usage = usage, dm_failure_patterns = failures, dm_success_rate = rate,
         dm_insights = generate_insights usage failures rate,
         dm_emerging_patterns = detect_patterns now cutoff skill_count tb, dm_phase = Dream_Deep,
         dm_skill_promotions = []\<rparr>)"

definition dream_light :: "string \<Rightarrow> string \<Rightarrow> experience_row table \<Rightarrow> dream_report" where
  "dream_light now cutoff tb =
    (let usage = tool_usage_stats cutoff tb; rate = dream_success_rate cutoff tb
     in \<lparr>dm_timestamp = now, dm_tool_usage = usage, dm_failure_patterns = [], dm_success_rate = rate,
         dm_insights = generate_insights usage [] rate, dm_emerging_patterns = [], dm_phase = Dream_Light,
         dm_skill_promotions = []\<rparr>)"

section \<open>Lemmas\<close>

lemma experience_type_roundtrip [simp]: "experience_type_of (experience_type_str t) = t"
  by (cases t) (simp_all add: experience_type_str_def experience_type_of_def)

lemma xs_record_wf: "table_wf xr_id tb \<Longrightarrow> table_wf xr_id (snd (xs_record now p tb))"
  by (simp add: xs_record_def table_wf_insert)

text \<open>Mining keeps one index per sub-goal, each inside the trajectory.\<close>

definition mining_wf :: "mining \<Rightarrow> bool" where
  "mining_wf m =
    (length (mi_achieved m) = length (mi_indices m)
     \<and> list_all (\<lambda>i. i < length (mi_trajectory m)) (mi_indices m)
     \<and> (case mi_current m of None \<Rightarrow> True | Some i \<Rightarrow> i < length (mi_trajectory m)))"

lemma mine_event_wf: "mining_wf m \<Longrightarrow> mining_wf (mine_event method dec e m)"
  by (auto simp: mine_event_def mine_start_def mine_end_def mining_wf_def Let_def list_all_iff less_Suc_eq
      split: option.splits)

lemma mining_run_wf: "mining_wf (fold (mine_event method dec) es mining_new)"
proof -
  have "mining_wf m \<Longrightarrow> mining_wf (fold (mine_event method dec) es m)" for m
    by (induction es arbitrary: m) (auto intro: mine_event_wf)
  then show ?thesis by (simp add: mining_wf_def mining_new_def)
qed

text \<open>Every sub-goal of a relabelled trajectory gives a candidate.\<close>

lemma relabel_candidates:
  assumes "h \<in> set (extract_hindsight_relabels dec es method)" and "i < length (hr_achieved_subgoals h)"
  shows "\<exists>c. into_relabeled_candidate i h = Some (Some c)"
proof -
  define m where "m = fold (mine_event method dec) es mining_new"
  have "hr_achieved_subgoals h = mi_achieved m" "hr_subgoal_indices h = mi_indices m" "hr_trajectory h = mi_trajectory m"
    using assms(1) by (auto simp: extract_hindsight_relabels_def Let_def m_def split: if_splits)
  moreover have "mining_wf m" unfolding m_def by (rule mining_run_wf)
  ultimately show ?thesis using assms(2)
    by (auto simp: into_relabeled_candidate_def mining_wf_def Let_def list_all_length Suc_le_eq)
qed

end
