(* ===== verification/Skill_Store.thy ===== *)
theory Skill_Store
  imports Experience_Store
begin

text \<open>
  \<open>src/memory/skill.rs\<close>: chains of tools that worked, saved as skills under unique names. \<open>H\<close> is the
  hasher over the bytes that are fed to it, \<open>enc\<close> the JSON encoder.
\<close>

section \<open>The table\<close>

record skill =
  sk_id :: int
  sk_name :: string
  sk_description :: string
  sk_tool_chain :: string
  sk_trigger_patterns :: string
  sk_success_count :: int
  sk_created_at :: string

record skill_row = skill +
  sk_updated_at :: string
  sk_expires_at :: "string option"

definition skill_of_row :: "skill_row \<Rightarrow> skill" where
  "skill_of_row r =
    \<lparr>sk_id = sk_id r, sk_name = sk_name r, sk_description = sk_description r, sk_tool_chain = sk_tool_chain r,
     sk_trigger_patterns = sk_trigger_patterns r, sk_success_count = sk_success_count r,
     sk_created_at = sk_created_at r\<rparr>"

definition sk_save ::
    "string \<Rightarrow> string \<Rightarrow> string \<Rightarrow> string \<Rightarrow> string \<Rightarrow> skill_row table \<Rightarrow> int \<times> skill_row table" where
  "sk_save now name description tool_chain triggers tb =
    (case find (\<lambda>r. sk_name r = name) (tb_rows tb) of
       Some r \<Rightarrow> (sk_id r, update_rows (\<lambda>x. sk_id x = sk_id r)
         (\<lambda>x. x\<lparr>sk_description := description, sk_tool_chain := tool_chain, sk_trigger_patterns := triggers,
               sk_success_count := sk_success_count x + 1, sk_updated_at := now\<rparr>) tb)
     | None \<Rightarrow> insert_row (\<lambda>i. \<lparr>sk_id = i, sk_name = name, sk_description = description,
         sk_tool_chain = tool_chain, sk_trigger_patterns = triggers, sk_success_count = 1,
         sk_created_at = now, sk_updated_at = now, sk_expires_at = None\<rparr>) tb)"

definition sk_find_matching :: "string \<Rightarrow> nat \<Rightarrow> skill_row table \<Rightarrow> skill list" where
  "sk_find_matching query limit tb =
    (let pattern = ''%'' @ first_word query @ ''%''
     in map skill_of_row (sql_limit limit (largest_first sk_success_count
          (filter (\<lambda>r. sql_like (sk_name r) pattern \<or> sql_like (sk_description r) pattern) (tb_rows tb)))))"

definition sk_list_all :: "skill_row table \<Rightarrow> skill list" where
  "sk_list_all tb = map skill_of_row (largest_first sk_success_count (tb_rows tb))"

definition skill_markdown :: "skill \<Rightarrow> string" where
  "skill_markdown s =
    ''## '' @ sk_name s @ nl @ nl @ sk_description s @ nl @ nl
    @ m_skill_chain @ sk_tool_chain s @ [backquote] @ nl
    @ m_skill_trigger @ sk_trigger_patterns s @ nl
    @ m_skill_count @ show_int (sk_success_count s) @ nl
    @ m_skill_created @ sk_created_at s @ nl @ nl"

definition export_markdown :: "skill_row table \<Rightarrow> string" where
  "export_markdown tb =
    (let skills = sk_list_all tb
     in ''# Skills'' @ nl @ nl
        @ (if skills = [] then m_no_skills
           else m_skill_total @ show_nat (length skills) @ nl @ nl @ concat (map skill_markdown skills)))"

definition sk_purge_expired :: "string \<Rightarrow> skill_row table \<Rightarrow> nat \<times> skill_row table" where
  "sk_purge_expired now tb = delete_rows (\<lambda>r. has_expired now (sk_expires_at r)) tb"

section \<open>Promotion\<close>

definition chain_exists :: "string \<Rightarrow> skill_row table \<Rightarrow> bool" where
  "chain_exists chain tb = list_ex (\<lambda>r. sk_tool_chain r = chain) (tb_rows tb)"

definition replace_bytes :: "char list \<Rightarrow> string \<Rightarrow> string" where
  "replace_bytes cs s = map (\<lambda>c. if c \<in> set cs then CHR ''_'' else c) s"

text \<open>\<open>{:04x}\<close> of the last sixteen bits.\<close>

definition hash_suffix :: "byte_hasher \<Rightarrow> string \<Rightarrow> string" where
  "hash_suffix H chain =
    (let h = show_hex (unat (H (chain @ [str_end])) mod 65536) in replicate (4 - length h) (CHR ''0'') @ h)"

definition promoted_name :: "byte_hasher \<Rightarrow> string \<Rightarrow> string \<Rightarrow> string \<Rightarrow> string" where
  "promoted_name H prefix' task chain =
    (let raw = take_chars 30 task;
         safe = (if trim raw = [] then ''trajectory''
                 else replace_bytes [CHR '' '', CHR '':'', CHR ''/'', CHR 0x0A] raw)
     in prefix' @ safe @ ''_'' @ hash_suffix H chain)"

definition promote_with_prefix ::
    "byte_hasher \<Rightarrow> (json \<Rightarrow> string) \<Rightarrow> string \<Rightarrow> trajectory \<Rightarrow> string \<Rightarrow> skill_row table
     \<Rightarrow> int option \<times> skill_row table" where
  "promote_with_prefix H enc now c prefix' tb =
    (let chain = tool_chain_key c
     in if chain = [] \<or> chain_exists chain tb then (None, tb)
        else (case sk_save now (promoted_name H prefix' (tc_task_description c) chain)
                (m_traj_1 @ show_rounded (fl64 (tc_tool_success_rate c * 100)) @ m_traj_2
                  @ show_nat (tc_total_steps c) @ m_traj_3 @ show_nat (tc_duration_ms c) @ ''ms'')
                chain (enc (JArr (map JStr (tc_tool_sequence c)))) tb of
           (i, tb') \<Rightarrow> (Some i, tb')))"

definition promote_from_trajectory ::
    "byte_hasher \<Rightarrow> (json \<Rightarrow> string) \<Rightarrow> string \<Rightarrow> trajectory \<Rightarrow> skill_row table \<Rightarrow> int option \<times> skill_row table" where
  "promote_from_trajectory H enc now c tb = promote_with_prefix H enc now c ''traj_'' tb"

text \<open>The outer option: an index of the relabelled trajectory is out of bounds.\<close>

fun promote_subgoals ::
    "byte_hasher \<Rightarrow> (json \<Rightarrow> string) \<Rightarrow> string \<Rightarrow> hindsight_relabel \<Rightarrow> nat list \<Rightarrow> skill_row table
     \<Rightarrow> (int list \<times> skill_row table) option" where
  "promote_subgoals H enc now h [] tb = Some ([], tb)"
| "promote_subgoals H enc now h (i # is) tb =
    (case into_relabeled_candidate i h of
       None \<Rightarrow> None
     | Some None \<Rightarrow> promote_subgoals H enc now h is tb
     | Some (Some c) \<Rightarrow>
         (case promote_with_prefix H enc now c ''hsl_'' tb of
            (r, tb') \<Rightarrow> map_option (\<lambda>(ids, tb''). ((case r of None \<Rightarrow> ids | Some k \<Rightarrow> k # ids), tb''))
              (promote_subgoals H enc now h is tb')))"

definition promote_from_hindsight_relabel ::
    "byte_hasher \<Rightarrow> (json \<Rightarrow> string) \<Rightarrow> string \<Rightarrow> hindsight_relabel \<Rightarrow> nat \<Rightarrow> skill_row table
     \<Rightarrow> (int list \<times> skill_row table) option" where
  "promote_from_hindsight_relabel H enc now h max_promote tb =
    promote_subgoals H enc now h [0..<min max_promote (length (hr_achieved_subgoals h))] tb"

definition promote_from_erl_advice ::
    "byte_hasher \<Rightarrow> (json \<Rightarrow> string) \<Rightarrow> string \<Rightarrow> string list \<Rightarrow> string \<Rightarrow> string \<Rightarrow> skill_row table
     \<Rightarrow> int option \<times> skill_row table" where
  "promote_from_erl_advice H enc now chain advice session_id tb =
    (if chain = [] then (None, tb)
     else promote_with_prefix H enc now
       \<lparr>tc_session_id = session_id, tc_task_description = take_chars 30 advice, tc_tool_sequence = chain,
        tc_tool_success_rate = 1, tc_total_steps = length chain, tc_duration_ms = 0\<rparr> ''erl_'' tb)"

section \<open>Promotion from experiences\<close>

text \<open>
  The actions that succeeded often enough, the most frequent first, each with its count and the
  context of its latest row: with one \<open>MAX\<close> the bare column comes from the row of the maximum. The
  scores the code computes are not used.
\<close>

fun latest :: "experience_row list \<Rightarrow> experience_row option" where
  "latest [] = None"
| "latest (r # rs) =
    (case latest rs of None \<Rightarrow> Some r | Some q \<Rightarrow> if text_less (xr_created_at r) (xr_created_at q) then Some q else Some r)"

definition promotable :: "nat \<Rightarrow> experience_row table \<Rightarrow> (string \<times> nat \<times> string) list" where
  "promotable threshold xs =
    (let ok = filter (is_type ''success'') (tb_rows xs)
     in map (\<lambda>(a, n). (a, n, case latest (filter (\<lambda>r. xr_action r = a) ok) of None \<Rightarrow> [] | Some r \<Rightarrow> xr_task_context r))
          (order_by (\<lambda>x y. snd y < snd x)
            (filter (\<lambda>(a, n). threshold \<le> n) (group_counts (map xr_action ok)))))"

definition auto_name :: "string \<Rightarrow> string" where
  "auto_name action = ''auto_'' @ replace_bytes [CHR '' '', CHR '':''] (take_chars 30 action)"

fun promote_actions ::
    "string \<Rightarrow> (string \<times> nat \<times> string) list \<Rightarrow> skill_row table \<Rightarrow> string list \<times> skill_row table" where
  "promote_actions now [] tb = ([], tb)"
| "promote_actions now ((action, n, context') # as) tb =
    (if chain_exists action tb then promote_actions now as tb
     else (case promote_actions now as (snd (sk_save now (auto_name action)
              (m_auto_1 @ context' @ m_auto_2 @ show_nat n @ m_auto_3) action ''[]'' tb)) of
        (names, tb') \<Rightarrow> (auto_name action # names, tb')))"

definition promote_from_experiences ::
    "string \<Rightarrow> nat \<Rightarrow> experience_row table \<Rightarrow> skill_row table \<Rightarrow> string list \<times> skill_row table" where
  "promote_from_experiences now threshold xs tb = promote_actions now (promotable threshold xs) tb"

text \<open>Deep dreaming: the report with the skills it promoted.\<close>

definition dream_deep ::
    "string \<Rightarrow> string \<Rightarrow> experience_row table \<Rightarrow> skill_row table \<Rightarrow> dream_report \<times> skill_row table" where
  "dream_deep now cutoff xs tb =
    (case promote_from_experiences now 3 xs tb of
       (names, tb') \<Rightarrow> ((generate_report now cutoff (length (tb_rows tb)) xs)
          \<lparr>dm_phase := Dream_Deep, dm_skill_promotions := names\<rparr>, tb'))"

section \<open>Lemmas\<close>

text \<open>Identifiers and names stay unique.\<close>

definition skills_wf :: "skill_row table \<Rightarrow> bool" where
  "skills_wf tb = (table_wf sk_id tb \<and> distinct (map sk_name (tb_rows tb)))"

lemma sk_save_wf: "skills_wf tb \<Longrightarrow> skills_wf (snd (sk_save now name d c t tb))"
proof (cases "find (\<lambda>r. sk_name r = name) (tb_rows tb)")
  case (Some r)
  assume "skills_wf tb"
  then show ?thesis using Some
    by (simp add: sk_save_def skills_wf_def map_update_rows table_wf_update)
next
  case None
  assume wf: "skills_wf tb"
  have "name \<notin> set (map sk_name (tb_rows tb))" using None by (auto simp: find_None_iff)
  then show ?thesis using wf None
    by (simp add: sk_save_def skills_wf_def table_wf_insert)
qed

lemma sk_save_wf': "sk_save now name d c t tb = (i, tb') \<Longrightarrow> skills_wf tb \<Longrightarrow> skills_wf tb'"
  using sk_save_wf [of tb now name d c t] by simp

lemma skills_wf_delete: "skills_wf tb \<Longrightarrow> skills_wf (snd (delete_rows p tb))"
  using table_wf_delete [of sk_id tb p] by (simp add: skills_wf_def distinct_map inj_on_def)

lemma promote_with_prefix_wf:
  "promote_with_prefix H enc now c p tb = (r, tb') \<Longrightarrow> skills_wf tb \<Longrightarrow> skills_wf tb'"
  by (auto simp: promote_with_prefix_def Let_def split: prod.splits if_splits dest: sk_save_wf')

lemma promote_actions_wf: "skills_wf tb \<Longrightarrow> skills_wf (snd (promote_actions now as tb))"
  by (induction now as tb rule: promote_actions.induct) (auto split: prod.splits simp: sk_save_wf)

lemma promote_subgoals_wf: "promote_subgoals H enc now h is tb = Some (ids, tb') \<Longrightarrow> skills_wf tb \<Longrightarrow> skills_wf tb'"
proof (induction "is" arbitrary: tb ids tb')
  case (Cons i "is")
  show ?case
  proof (cases "into_relabeled_candidate i h")
    case (Some c)
    show ?thesis
    proof (cases c)
      case None
      then show ?thesis using Cons Some by auto
    next
      case (Some c')
      obtain r tb1 where r: "promote_with_prefix H enc now c' ''hsl_'' tb = (r, tb1)" by fastforce
      then have "skills_wf tb1" using Cons.prems(2) promote_with_prefix_wf by blast
      then show ?thesis using Cons r Some \<open>into_relabeled_candidate i h = Some c\<close> by auto
    qed
  qed (use Cons in simp)
qed simp

section \<open>Actions that begin alike\<close>

text \<open>The skills after promoting again and again from the same experiences.\<close>

definition promoted_again :: "string \<Rightarrow> nat \<Rightarrow> experience_row table \<Rightarrow> nat \<Rightarrow> string list \<times> skill_row table" where
  "promoted_again now threshold xs k =
    ((\<lambda>(names :: string list, tb). promote_from_experiences now threshold xs tb) ^^ k) ([], table_new)"

lemma sk_save_single:
  assumes "tb_rows tb = [r]" and "sk_name r = name"
  shows "tb_rows (snd (sk_save now name d c t tb)) =
    [r\<lparr>sk_description := d, sk_tool_chain := c, sk_trigger_patterns := t,
       sk_success_count := sk_success_count r + 1, sk_updated_at := now\<rparr>]"
  using assms by (simp add: sk_save_def update_rows_def)

lemma promote_collision:
  assumes "a \<noteq> b" and "auto_name a = auto_name b" and "tb_rows tb = [r]"
    and "sk_name r = auto_name a" and "sk_tool_chain r = b"
  shows "\<exists>r'. fst (promote_actions now [(a, n, c), (b, m, d)] tb) = [auto_name a, auto_name a]
    \<and> tb_rows (snd (promote_actions now [(a, n, c), (b, m, d)] tb)) = [r']
    \<and> sk_name r' = auto_name a \<and> sk_tool_chain r' = b \<and> sk_success_count r' = sk_success_count r + 2"
proof -
  define tb1 where "tb1 = snd (sk_save now (auto_name a) (m_auto_1 @ c @ m_auto_2 @ show_nat n @ m_auto_3) a ''[]'' tb)"
  obtain r1 where r1: "tb_rows tb1 = [r1]" "sk_name r1 = auto_name a" "sk_tool_chain r1 = a"
      "sk_success_count r1 = sk_success_count r + 1"
    using sk_save_single [OF assms(3,4)] assms(4) by (simp add: tb1_def)
  define tb2 where "tb2 = snd (sk_save now (auto_name b) (m_auto_1 @ d @ m_auto_2 @ show_nat m @ m_auto_3) b ''[]'' tb1)"
  obtain r2 where r2: "tb_rows tb2 = [r2]" "sk_name r2 = auto_name a" "sk_tool_chain r2 = b"
      "sk_success_count r2 = sk_success_count r1 + 1"
    using sk_save_single [OF r1(1), of "auto_name b"] r1(2) assms(2) by (simp add: tb2_def)
  have "\<not> chain_exists a tb" "\<not> chain_exists b tb1"
    using assms(1,3,5) r1 by (auto simp: chain_exists_def)
  then have "promote_actions now [(a, n, c), (b, m, d)] tb = ([auto_name a, auto_name b], tb2)"
    by (simp add: tb2_def tb1_def)
  then show ?thesis using r2 r1(4) assms(2) by simp
qed

text \<open>
  C32. Skills are promoted from actions under a name that keeps only the first thirty characters of
  the action. Two actions that begin alike therefore share one row: each promotion overwrites the
  chain of the other. However often the same experiences are looked at, both actions are reported
  as new skills every time, the table holds one row with the chain of the second action, and its
  count of successes grows by two although nothing new happened.
\<close>

theorem colliding_promotions_never_settle:
  assumes "a \<noteq> b" and "auto_name a = auto_name b"
    and "promotable threshold xs = [(a, n, c), (b, m, d)]"
  shows "fst (promoted_again now threshold xs (Suc k)) = [auto_name a, auto_name a]
    \<and> map (\<lambda>r. (sk_name r, sk_tool_chain r, sk_success_count r)) (tb_rows (snd (promoted_again now threshold xs (Suc k))))
      = [(auto_name a, b, 2 * int (Suc k))]"
proof -
  let ?state = "\<lambda>k. promoted_again now threshold xs k"
  have step: "?state (Suc k) = promote_actions now [(a, n, c), (b, m, d)] (snd (?state k))" for k
    by (simp add: promoted_again_def promote_from_experiences_def assms(3) split_def)
  have "\<exists>r. fst (?state (Suc k)) = [auto_name a, auto_name a] \<and> tb_rows (snd (?state (Suc k))) = [r]
    \<and> sk_name r = auto_name a \<and> sk_tool_chain r = b \<and> sk_success_count r = 2 * int (Suc k)"
  proof (induction k)
    case 0
    have "tb_rows (snd (?state 0)) = []" by (simp add: promoted_again_def)
    then show ?case using assms(1,2) unfolding step
      by (auto simp: chain_exists_def sk_save_def insert_row_def Let_def update_rows_def)
  next
    case (Suc k)
    then obtain r where r: "tb_rows (snd (?state (Suc k))) = [r]" "sk_name r = auto_name a" "sk_tool_chain r = b"
      "sk_success_count r = 2 * int (Suc k)" by blast
    from promote_collision [OF assms(1,2) r(1-3)] r(4) show ?case unfolding step [of "Suc k"] by auto
  qed
  then show ?thesis by auto
qed

definition success_of :: "string \<Rightarrow> record_params" where
  "success_of action = \<lparr>rp_exp_type = Success, rp_task_context = ''t'', rp_action = action, rp_outcome = ''completed'',
     rp_lesson = None, rp_tool_name = None, rp_error_type = None, rp_error_detail = None\<rparr>"

definition long_action :: "char \<Rightarrow> string" where
  "long_action c = replicate 30 (CHR ''x'') @ [c]"

definition two_actions :: "experience_row table" where
  "two_actions = fold (\<lambda>p tb. snd (xs_record ''2026'' p tb))
     [success_of (long_action CHR ''a''), success_of (long_action CHR ''b'')] table_new"

lemma two_actions_promotable:
  "promotable 1 two_actions = [(long_action CHR ''a'', 1, ''t''), (long_action CHR ''b'', 1, ''t'')]"
  by code_simp

lemma long_actions_collide: "auto_name (long_action CHR ''a'') = auto_name (long_action CHR ''b'')"
  by code_simp

theorem colliding_promotions_never_settle_witness:
  "fst (promoted_again ''2027'' 1 two_actions 5) = [auto_name (long_action CHR ''a''), auto_name (long_action CHR ''a'')]
   \<and> map (\<lambda>r. (sk_name r, sk_tool_chain r, sk_success_count r)) (tb_rows (snd (promoted_again ''2027'' 1 two_actions 5)))
     = [(auto_name (long_action CHR ''a''), long_action CHR ''b'', 10)]"
  using colliding_promotions_never_settle [OF _ long_actions_collide two_actions_promotable, of "''2027''" 4]
  by (simp add: long_action_def eval_nat_numeral)

end
