(* ===== verification/Knowledge_Graph.thy ===== *)
theory Knowledge_Graph
  imports Sql
begin

text \<open>
  \<open>src/memory/graph.rs\<close>: the associative memory, a graph in two tables. Names of nodes are unique, and
  so are the triples of source, target and relation of the edges; an edge refers to nodes of the table
  (foreign keys are on). Rows are never deleted, so the next identifier is one more than the last.
  Columns that no query reads (metadata, times, the identifier of an edge) are left out, and so are
  errors of the database other than a violated foreign key.
\<close>

section \<open>Tables\<close>

record node =
  nd_id :: int
  nd_type :: string
  nd_name :: string

record edge =
  eg_source :: int
  eg_target :: int
  eg_relation :: string
  eg_weight :: rat

record graph =
  gr_nodes :: "node list"
  gr_edges :: "edge list"

definition graph_new :: graph where
  "graph_new = \<lparr>gr_nodes = [], gr_edges = []\<rparr>"

definition node_ids :: "graph \<Rightarrow> int list" where
  "node_ids g = map nd_id (gr_nodes g)"

definition id_of_name :: "string \<Rightarrow> graph \<Rightarrow> int option" where
  "id_of_name name g = map_option nd_id (find (\<lambda>n. nd_name n = name) (gr_nodes g))"

definition name_of_id :: "int \<Rightarrow> graph \<Rightarrow> string option" where
  "name_of_id i g = map_option nd_name (find (\<lambda>n. nd_id n = i) (gr_nodes g))"

text \<open>An insertion that meets the name of a node changes the type of that node.\<close>

definition add_node :: "string \<Rightarrow> string \<Rightarrow> graph \<Rightarrow> int \<times> graph" where
  "add_node node_type name g =
    (case id_of_name name g of
       Some i \<Rightarrow> (i, g\<lparr>gr_nodes := map (\<lambda>n. if nd_id n = i then n\<lparr>nd_type := node_type\<rparr> else n) (gr_nodes g)\<rparr>)
     | None \<Rightarrow>
         (let i = fold max (node_ids g) 0 + 1
          in (i, g\<lparr>gr_nodes := gr_nodes g @ [\<lparr>nd_id = i, nd_type = node_type, nd_name = name\<rparr>]\<rparr>)))"

definition same_edge :: "int \<Rightarrow> int \<Rightarrow> string \<Rightarrow> edge \<Rightarrow> bool" where
  "same_edge s t r e = (eg_source e = s \<and> eg_target e = t \<and> eg_relation e = r)"

text \<open>\<open>None\<close>: a node is missing.\<close>

definition add_edge :: "int \<Rightarrow> int \<Rightarrow> string \<Rightarrow> rat \<Rightarrow> graph \<Rightarrow> graph option" where
  "add_edge s t r w g =
    (if s \<notin> set (node_ids g) \<or> t \<notin> set (node_ids g) then None
     else if list_ex (same_edge s t r) (gr_edges g)
     then Some (g\<lparr>gr_edges := map (\<lambda>e. if same_edge s t r e then e\<lparr>eg_weight := fl64 (eg_weight e + w)\<rparr> else e)
                  (gr_edges g)\<rparr>)
     else Some (g\<lparr>gr_edges := gr_edges g @
                  [\<lparr>eg_source = s, eg_target = t, eg_relation = r, eg_weight = w\<rparr>]\<rparr>))"

definition record_tool_usage :: "string \<Rightarrow> string \<Rightarrow> graph \<Rightarrow> graph option" where
  "record_tool_usage tool_name file_path g =
    (case add_node ''tool'' tool_name g of
       (tool_id, g) \<Rightarrow> (case add_node ''file'' file_path g of
         (file_id, g) \<Rightarrow> add_edge tool_id file_id ''uses'' 1 g))"

definition record_error_pattern :: "string \<Rightarrow> string \<Rightarrow> string \<Rightarrow> graph \<Rightarrow> graph option" where
  "record_error_pattern error_type file_path tool_name g =
    (case add_node ''error'' error_type g of
       (error_id, g) \<Rightarrow> (case add_node ''file'' file_path g of
         (file_id, g) \<Rightarrow> (case add_node ''tool'' tool_name g of
           (tool_id, g) \<Rightarrow>
             Option.bind (add_edge error_id file_id ''caused_by'' 1 g) (add_edge tool_id file_id ''fixes'' 1))))"

section \<open>Neighbours\<close>

text \<open>The rows of the two joins: the node at the other end, its name, the relation and the weight.\<close>

type_synonym hop = "int \<times> string \<times> string \<times> rat"

definition outgoing :: "graph \<Rightarrow> int \<Rightarrow> hop list" where
  "outgoing g i = concat (map (\<lambda>e. if eg_source e = i
     then (case name_of_id (eg_target e) g of None \<Rightarrow> [] | Some n \<Rightarrow> [(eg_target e, n, eg_relation e, eg_weight e)])
     else []) (gr_edges g))"

definition incoming :: "graph \<Rightarrow> int \<Rightarrow> hop list" where
  "incoming g i = concat (map (\<lambda>e. if eg_target e = i
     then (case name_of_id (eg_source e) g of None \<Rightarrow> [] | Some n \<Rightarrow> [(eg_source e, n, eg_relation e, eg_weight e)])
     else []) (gr_edges g))"

text \<open>The state of the search: the nodes visited, the queue, the results.\<close>

type_synonym search = "int list \<times> (int \<times> nat) list \<times> (string \<times> string \<times> rat) list"

fun discover :: "nat \<Rightarrow> hop list \<Rightarrow> search \<Rightarrow> search" where
  "discover d [] acc = acc"
| "discover d ((i, n, r, w) # hs) (visited, queue, results) =
    discover d hs
      (if i \<in> set visited then (visited, queue, results)
       else (i # visited, queue @ [(i, d)], results @ [(n, r, w)]))"

lemma name_of_id_None: "name_of_id i g = None \<longleftrightarrow> i \<notin> set (node_ids g)"
  by (auto simp: name_of_id_def node_ids_def find_None_iff)

lemma hop_ids: "h \<in> set (outgoing g i @ incoming g i) \<Longrightarrow> fst h \<in> set (node_ids g)"
  by (auto simp: outgoing_def incoming_def split: if_splits option.splits)
    (metis name_of_id_None option.distinct(1))+

text \<open>The hops that are discovered, in order.\<close>

fun new_hops :: "int list \<Rightarrow> hop list \<Rightarrow> hop list" where
  "new_hops vis [] = []"
| "new_hops vis (h # hs) =
    (if fst h \<in> set vis then new_hops vis hs else h # new_hops (fst h # vis) hs)"

lemma discover_eq:
  "discover d hs (vis, q, res) =
    (rev (map fst (new_hops vis hs)) @ vis, q @ map (\<lambda>h. (fst h, d)) (new_hops vis hs), res @ map snd (new_hops vis hs))"
  by (induction hs arbitrary: vis q res) auto

lemma new_hops_sub: "set (new_hops vis hs) \<subseteq> set hs"
proof (induction hs arbitrary: vis)
  case (Cons h hs)
  show ?case using Cons.IH [of vis] Cons.IH [of "fst h # vis"] by auto
qed simp

lemma new_hops_fresh: "set (map fst (new_hops vis hs)) = fst ` set hs - set vis"
  by (induction hs arbitrary: vis) auto

lemma new_hops_distinct: "distinct (map fst (new_hops vis hs))"
proof (induction hs arbitrary: vis)
  case (Cons h hs)
  have "fst h \<notin> set (map fst (new_hops (fst h # vis) hs))" unfolding new_hops_fresh by simp
  with Cons.IH show ?case by simp
qed simp

definition unvisited :: "graph \<Rightarrow> int list \<Rightarrow> nat" where
  "unvisited g vis = card (set (node_ids g) - set vis)"

lemma discover_measure:
  assumes "discover d hs (vis, q, res) = (vis', q', res')" and "fst ` set hs \<subseteq> set (node_ids g)"
  shows "2 * unvisited g vis' + length q' \<le> 2 * unvisited g vis + length q"
proof -
  let ?N = "set (node_ids g)" and ?A = "set (map fst (new_hops vis hs))"
  have new: "vis' = rev (map fst (new_hops vis hs)) @ vis" "length q' = length q + length (new_hops vis hs)"
    using assms(1) by (auto simp: discover_eq)
  have sub: "?A \<subseteq> ?N - set vis" using assms(2) unfolding new_hops_fresh by blast
  have "set vis' = ?A \<union> set vis" unfolding new(1) by simp
  then have "?N - set vis' = (?N - set vis) - ?A" by blast
  then have "unvisited g vis' = unvisited g vis - card ?A" "card ?A \<le> unvisited g vis"
    using card_Diff_subset [OF finite_set sub] card_mono [OF _ sub] by (simp_all add: unvisited_def)
  moreover have "card ?A = length (new_hops vis hs)" using distinct_card [OF new_hops_distinct] by fastforce
  ultimately show ?thesis using new(2) by simp
qed

function search_from :: "graph \<Rightarrow> nat \<Rightarrow> search \<Rightarrow> search" where
  "search_from g depth (vis, [], res) = (vis, [], res)"
| "search_from g depth (vis, (c, d) # q, res) =
    (if depth \<le> d then search_from g depth (vis, q, res)
     else search_from g depth (discover (d + 1) (incoming g c) (discover (d + 1) (outgoing g c) (vis, q, res))))"
  by pat_completeness auto

lemma discover_append: "discover d (xs @ ys) acc = discover d ys (discover d xs acc)"
  by (induction d xs acc rule: discover.induct) auto

termination search_from
proof (relation "measure (\<lambda>(g, depth, vis, q, res). 2 * unvisited g vis + length q)", simp_all, goal_cases)
  case (1 g depth vis c d q res)
  obtain vis' q' res' where *: "discover (d + 1) (outgoing g c @ incoming g c) (vis, q, res) = (vis', q', res')"
    by (metis surj_pair)
  then have "2 * unvisited g vis' + length q' \<le> 2 * unvisited g vis + length q"
    by (rule discover_measure) (use hop_ids [of _ g c] in blast)
  with * show ?case by (simp add: discover_append)
qed

definition neighbors :: "string \<Rightarrow> nat \<Rightarrow> graph \<Rightarrow> (string \<times> string \<times> rat) list" where
  "neighbors name depth g =
    (case id_of_name name g of
       None \<Rightarrow> []
     | Some s \<Rightarrow> (case search_from g depth ([s], [(s, 0)], []) of
         (vis, q, results) \<Rightarrow> sort_key (\<lambda>(n, r, w). - w) results))"

definition related_context :: "string \<Rightarrow> nat \<Rightarrow> graph \<Rightarrow> string" where
  "related_context query max_results g =
    (let ns = neighbors query 2 g
     in if ns = [] then []
        else join nl (map (\<lambda>(name, r, w). ''- '' @ query @ '' --['' @ r @ ''('' @ show_tenths w @ '')]--> '' @ name)
               (take max_results ns)))"

section \<open>Triples\<close>

definition contains_triple :: "string \<Rightarrow> string \<Rightarrow> string \<Rightarrow> graph \<Rightarrow> nat option" where
  "contains_triple subj pred obj g =
    (case id_of_name subj g of None \<Rightarrow> None
     | Some s \<Rightarrow> (case id_of_name obj g of None \<Rightarrow> None
       | Some t \<Rightarrow> if list_ex (same_edge s t pred) (gr_edges g) then Some 1 else None))"

definition find_conflicting_edges :: "string \<Rightarrow> string \<Rightarrow> graph \<Rightarrow> (string \<times> string) list" where
  "find_conflicting_edges subj pred g =
    (case id_of_name subj g of None \<Rightarrow> []
     | Some s \<Rightarrow> map (\<lambda>(t, n, r, w). (n, r)) (filter (\<lambda>(t, n, r, w). r = pred) (outgoing g s)))"

definition orphan_nodes :: "graph \<Rightarrow> string list" where
  "orphan_nodes g =
    order_by text_less (map nd_name
      (filter (\<lambda>n. \<not> list_ex (\<lambda>e. eg_source e = nd_id n \<or> eg_target e = nd_id n) (gr_edges g)) (gr_nodes g)))"

text \<open>\<open>LOWER\<close> of SQLite maps ASCII only.\<close>

definition case_variant_pairs :: "graph \<Rightarrow> (string \<times> string) list" where
  "case_variant_pairs g =
    order_by (\<lambda>p q. text_less (fst p) (fst q) \<or> fst p = fst q \<and> text_less (snd p) (snd q))
      (concat (map (\<lambda>a. map (\<lambda>b. (nd_name a, nd_name b))
         (filter (\<lambda>b. nd_id a < nd_id b \<and> eq_ignore_ascii_case (nd_name a) (nd_name b) \<and> nd_name a \<noteq> nd_name b)
           (gr_nodes g))) (gr_nodes g)))"

type_synonym triple = "string \<times> string \<times> string"

definition triple_less :: "triple \<Rightarrow> triple \<Rightarrow> bool" where
  "triple_less a b =
    (case (a, b) of ((s, p, x), (t, q, y)) \<Rightarrow>
       text_less s t \<or> s = t \<and> (text_less p q \<or> p = q \<and> text_less x y))"

definition all_triples :: "graph \<Rightarrow> triple list" where
  "all_triples g =
    order_by triple_less (concat (map (\<lambda>e. case (name_of_id (eg_source e) g, name_of_id (eg_target e) g) of
       (Some s, Some t) \<Rightarrow> [(s, eg_relation e, t)] | _ \<Rightarrow> []) (gr_edges g)))"

fun conflicts_among :: "triple list \<Rightarrow> (triple \<times> triple) list" where
  "conflicts_among [] = []"
| "conflicts_among (a # es) =
    map (Pair a) (filter (\<lambda>b. fst a = fst b \<and> fst (snd a) = fst (snd b) \<and> snd (snd a) \<noteq> snd (snd b)) es)
    @ conflicts_among es"

definition all_conflicting_edge_pairs :: "graph \<Rightarrow> (triple \<times> triple) list" where
  "all_conflicting_edge_pairs g = conflicts_among (all_triples g)"

end
