(* ===== verification/Graph_Facts.thy ===== *)
theory Graph_Facts
  imports Knowledge_Graph
begin

text \<open>
  The tables of the graph stay well-formed, and the search finds exactly the nodes within its depth:
  the invariant of the search labels every visited node with the depth at which it was discovered.
\<close>

section \<open>Well-formed tables\<close>

datatype graph_op =
    Add_Node string string
  | Add_Edge int int string rat
  | Use_Tool string string
  | See_Error string string string

definition kept :: "'a \<Rightarrow> 'a option \<Rightarrow> 'a" where
  "kept g r = (case r of None \<Rightarrow> g | Some g' \<Rightarrow> g')"

definition apply_graph_op :: "graph_op \<Rightarrow> graph \<Rightarrow> graph" where
  "apply_graph_op p g =
    (case p of
       Add_Node ty n \<Rightarrow> snd (add_node ty n g)
     | Add_Edge s t r w \<Rightarrow> kept g (add_edge s t r w g)
     | Use_Tool tool path \<Rightarrow> kept g (record_tool_usage tool path g)
     | See_Error err path tool \<Rightarrow> kept g (record_error_pattern err path tool g))"

definition edge_key :: "edge \<Rightarrow> int \<times> int \<times> string" where
  "edge_key e = (eg_source e, eg_target e, eg_relation e)"

definition graph_wf :: "graph \<Rightarrow> bool" where
  "graph_wf g =
    (distinct (node_ids g) \<and> distinct (map nd_name (gr_nodes g)) \<and> distinct (map edge_key (gr_edges g))
     \<and> list_all (\<lambda>e. eg_source e \<in> set (node_ids g) \<and> eg_target e \<in> set (node_ids g)) (gr_edges g))"

lemma id_of_name_None: "id_of_name n g = None \<longleftrightarrow> n \<notin> set (map nd_name (gr_nodes g))"
  by (auto simp: id_of_name_def find_None_iff)

lemma id_of_name_in: "id_of_name n g = Some i \<Longrightarrow> i \<in> set (node_ids g)"
  by (auto simp: id_of_name_def node_ids_def find_Some_iff)

lemma fold_max_ge: "(i::int) \<in> set xs \<or> i \<le> m \<Longrightarrow> i \<le> fold max xs m"
  by (induction xs arbitrary: m) (auto simp: le_max_iff_disj)

lemma fresh_id: "fold max (node_ids g) 0 + 1 \<notin> set (node_ids g)"
  using fold_max_ge [of "fold max (node_ids g) 0 + 1" "node_ids g" 0] by auto

lemma node_ids_retype [simp]:
  "node_ids (g\<lparr>gr_nodes := map (\<lambda>n. if nd_id n = i then n\<lparr>nd_type := ty\<rparr> else n) (gr_nodes g)\<rparr>) = node_ids g"
  by (simp add: node_ids_def)

lemma names_retype [simp]:
  "map nd_name (map (\<lambda>n. if nd_id n = i then n\<lparr>nd_type := ty\<rparr> else n) ns) = map nd_name ns"
  by simp

lemma node_ids_snoc [simp]: "node_ids (g\<lparr>gr_nodes := gr_nodes g @ [n]\<rparr>) = node_ids g @ [nd_id n]"
  by (simp add: node_ids_def)

lemma node_ids_edges [simp]: "node_ids (g\<lparr>gr_edges := es\<rparr>) = node_ids g"
  by (simp add: node_ids_def)

lemma add_node_ids:
  "fst (add_node ty n g) \<in> set (node_ids (snd (add_node ty n g)))"
  "i \<in> set (node_ids g) \<Longrightarrow> i \<in> set (node_ids (snd (add_node ty n g)))"
  by (auto simp: add_node_def Let_def split: option.splits dest!: id_of_name_in)

lemma add_node_wf: "graph_wf g \<Longrightarrow> graph_wf (snd (add_node ty n g))"
  using fresh_id [of g]
  by (auto simp: graph_wf_def add_node_def Let_def list_all_iff id_of_name_None simp del: map_map split: option.splits)

lemma edge_keys_reweight:
  "map edge_key (map (\<lambda>e. if same_edge s t r e then e\<lparr>eg_weight := v e\<rparr> else e) es) = map edge_key es"
  by (simp add: edge_key_def)

lemma edge_key_in: "(s, t, r) \<in> set (map edge_key es) \<longleftrightarrow> list_ex (same_edge s t r) es"
  by (induction es) (auto simp: edge_key_def same_edge_def)

lemma add_edge_wf: "graph_wf g \<Longrightarrow> add_edge s t r w g = Some g' \<Longrightarrow> graph_wf g'"
  using edge_key_in [of s t r "gr_edges g"]
  by (auto simp: add_edge_def graph_wf_def edge_keys_reweight list_all_iff simp del: map_map set_map split: if_splits)
    (auto simp: edge_key_def)

lemma add_edge_total:
  "s \<in> set (node_ids g) \<Longrightarrow> t \<in> set (node_ids g) \<Longrightarrow> \<exists>g'. add_edge s t r w g = Some g'"
  by (simp add: add_edge_def)

lemma graph_op_wf: "graph_wf g \<Longrightarrow> graph_wf (apply_graph_op p g)"
proof (cases p)
  case (Use_Tool tool path)
  assume wf: "graph_wf g"
  obtain i g1 where g1: "add_node ''tool'' tool g = (i, g1)" by fastforce
  obtain j g2 where g2: "add_node ''file'' path g1 = (j, g2)" by fastforce
  have "graph_wf g2" using wf g1 g2 by (metis add_node_wf snd_conv)
  then show ?thesis using Use_Tool wf g1 g2
    by (auto simp: apply_graph_op_def record_tool_usage_def kept_def split: option.splits dest: add_edge_wf)
next
  case (See_Error err path tool)
  assume wf: "graph_wf g"
  obtain i g1 where g1: "add_node ''error'' err g = (i, g1)" by fastforce
  obtain j g2 where g2: "add_node ''file'' path g1 = (j, g2)" by fastforce
  obtain k g3 where g3: "add_node ''tool'' tool g2 = (k, g3)" by fastforce
  have "graph_wf g3" using wf g1 g2 g3 by (metis add_node_wf snd_conv)
  then show ?thesis using See_Error wf g1 g2 g3
    by (auto simp: apply_graph_op_def record_error_pattern_def kept_def bind_eq_Some_conv split: option.splits
        dest: add_edge_wf)
qed (auto simp: apply_graph_op_def kept_def intro: add_node_wf add_edge_wf split: option.splits)

definition graph_of :: "graph_op list \<Rightarrow> graph" where
  "graph_of ops = fold apply_graph_op ops graph_new"

lemma graph_of_wf: "graph_wf (graph_of ops)"
proof -
  have "graph_wf g \<Longrightarrow> graph_wf (fold apply_graph_op ops g)" for g
    by (induction ops arbitrary: g) (auto intro: graph_op_wf)
  then show ?thesis by (simp add: graph_of_def graph_wf_def graph_new_def node_ids_def)
qed

section \<open>The search\<close>

definition linked :: "graph \<Rightarrow> (int \<times> int) set" where
  "linked g = {(i, j). list_ex (\<lambda>e. eg_source e = i \<and> eg_target e = j \<or> eg_target e = i \<and> eg_source e = j) (gr_edges g)}"

lemma hops_linked:
  assumes "graph_wf g"
  shows "fst ` set (outgoing g c @ incoming g c) = linked g `` {c}"
proof -
  let ?E = "gr_edges g"
  have names: "\<exists>n. name_of_id (eg_source e) g = Some n" "\<exists>n. name_of_id (eg_target e) g = Some n" if "e \<in> set ?E" for e
    using assms that name_of_id_None [of _ g] by (fastforce simp: graph_wf_def list_all_iff)+
  have out: "fst ` set (outgoing g c) = eg_target ` {e \<in> set ?E. eg_source e = c}"
    using names by (force simp: outgoing_def image_iff split: if_splits option.splits)
  have inc: "fst ` set (incoming g c) = eg_source ` {e \<in> set ?E. eg_target e = c}"
    using names by (force simp: incoming_def image_iff split: if_splits option.splits)
  have "linked g `` {c} = eg_target ` {e \<in> set ?E. eg_source e = c} \<union> eg_source ` {e \<in> set ?E. eg_target e = c}"
    by (auto simp: linked_def list_ex_iff)
  then show ?thesis by (simp only: set_append image_Un out inc)
qed

lemma hop_names: "h \<in> set (outgoing g c @ incoming g c) \<Longrightarrow> name_of_id (fst h) g = Some (fst (snd h))"
  by (auto simp: outgoing_def incoming_def split: if_splits option.splits)

definition search_inv :: "graph \<Rightarrow> int \<Rightarrow> nat \<Rightarrow> (int \<Rightarrow> nat) \<Rightarrow> search \<Rightarrow> bool" where
  "search_inv g s depth lab st =
    (case st of (vis, q, res) \<Rightarrow>
       distinct vis \<and> vis \<noteq> [] \<and> last vis = s \<and> lab s = 0
       \<and> (\<forall>(i, d) \<in> set q. i \<in> set vis \<and> lab i = d)
       \<and> sorted (map snd q)
       \<and> (q \<noteq> [] \<longrightarrow> (\<forall>v \<in> set vis. lab v \<le> snd (hd q) + 1))
       \<and> (\<forall>v \<in> set vis - fst ` set q. lab v < depth \<longrightarrow>
            (\<forall>u. (v, u) \<in> linked g \<longrightarrow> u \<in> set vis \<and> lab u \<le> lab v + 1))
       \<and> (\<forall>v \<in> set vis. lab v \<le> depth \<and> (s, v) \<in> linked g ^^ lab v)
       \<and> map (\<lambda>x. Some (fst x)) res = map (\<lambda>i. name_of_id i g) (rev (butlast vis)))"

lemma search_invD:
  assumes "search_inv g s depth lab (vis, q, res)"
  shows "distinct vis" "vis \<noteq> []" "last vis = s" "lab s = 0"
    "\<And>i d. (i, d) \<in> set q \<Longrightarrow> i \<in> set vis" "\<And>i d. (i, d) \<in> set q \<Longrightarrow> lab i = d"
    "sorted (map snd q)"
    "\<And>v. q \<noteq> [] \<Longrightarrow> v \<in> set vis \<Longrightarrow> lab v \<le> snd (hd q) + 1"
    "\<And>v u. v \<in> set vis \<Longrightarrow> v \<notin> fst ` set q \<Longrightarrow> lab v < depth \<Longrightarrow> (v, u) \<in> linked g
      \<Longrightarrow> u \<in> set vis \<and> lab u \<le> lab v + 1"
    "\<And>v. v \<in> set vis \<Longrightarrow> lab v \<le> depth" "\<And>v. v \<in> set vis \<Longrightarrow> (s, v) \<in> linked g ^^ lab v"
    "map (\<lambda>x. Some (fst x)) res = map (\<lambda>i. name_of_id i g) (rev (butlast vis))"
  using assms unfolding search_inv_def by (blast | fast)+

lemma search_invI:
  assumes "distinct vis" "vis \<noteq> []" "last vis = s" "lab s = 0"
    "\<And>i d. (i, d) \<in> set q \<Longrightarrow> i \<in> set vis" "\<And>i d. (i, d) \<in> set q \<Longrightarrow> lab i = d"
    "sorted (map snd q)"
    "\<And>v. q \<noteq> [] \<Longrightarrow> v \<in> set vis \<Longrightarrow> lab v \<le> snd (hd q) + 1"
    "\<And>v u. v \<in> set vis \<Longrightarrow> v \<notin> fst ` set q \<Longrightarrow> lab v < depth \<Longrightarrow> (v, u) \<in> linked g
      \<Longrightarrow> u \<in> set vis \<and> lab u \<le> lab v + 1"
    "\<And>v. v \<in> set vis \<Longrightarrow> lab v \<le> depth" "\<And>v. v \<in> set vis \<Longrightarrow> (s, v) \<in> linked g ^^ lab v"
    "map (\<lambda>x. Some (fst x)) res = map (\<lambda>i. name_of_id i g) (rev (butlast vis))"
  shows "search_inv g s depth lab (vis, q, res)"
  unfolding search_inv_def prod.case using assms by blast

lemma search_inv_skip:
  assumes inv: "search_inv g s depth lab (vis, (c, d) # q, res)" and "depth \<le> d"
  shows "search_inv g s depth lab (vis, q, res)"
proof (rule search_invI)
  note I = search_invD [OF inv]
  show "lab v \<le> snd (hd q) + 1" if "q \<noteq> []" "v \<in> set vis" for v
    using I(7) I(8) [of v] that by (cases q) auto
  show "u \<in> set vis \<and> lab u \<le> lab v + 1"
    if "v \<in> set vis" "v \<notin> fst ` set q" "lab v < depth" "(v, u) \<in> linked g" for v u
  proof -
    have "lab c = d" using I(6) by simp
    then have "v \<noteq> c" using that(3) \<open>depth \<le> d\<close> by auto
    then show ?thesis using I(9) [OF that(1) _ that(3,4)] that(2) by simp
  qed
qed (use search_invD [OF inv] in auto)

lemma search_inv_expand:
  assumes wf: "graph_wf g" and inv: "search_inv g s depth lab (vis, (c, d) # q, res)" and less: "d < depth"
  shows "\<exists>lab'. search_inv g s depth lab' (discover (d + 1) (outgoing g c @ incoming g c) (vis, q, res))"
proof -
  let ?hs = "outgoing g c @ incoming g c"
  define new where "new = new_hops vis ?hs"
  define N where "N = set (map fst new)"
  define lab' where "lab' = (\<lambda>i. if i \<in> N then d + 1 else lab i)"
  define q' where "q' = q @ map (\<lambda>h. (fst h, d + 1)) new"
  define vis' where "vis' = rev (map fst new) @ vis"
  note I = search_invD [OF inv]
  have N: "N = linked g `` {c} - set vis" unfolding N_def new_def new_hops_fresh hops_linked [OF wf] ..
  have c: "c \<in> set vis" "lab c = d" using I(5,6) by auto
  have sv: "s \<in> set vis" using I(2,3) by (metis last_in_set)
  have old: "lab' v = lab v" if "v \<in> set vis" for v using that N by (simp add: lab'_def)
  have le: "lab' v \<le> d + 1" if "v \<in> N \<union> set vis" for v
    using I(8) [of v] that by (auto simp: lab'_def)
  have set_vis': "set vis' = N \<union> set vis" by (simp add: N_def vis'_def)
  have q_ge: "d \<le> k" "k \<le> d + 1" if "(i, k) \<in> set q" for i k
    proof -
    show "d \<le> k" using I(7) that by force
    show "k \<le> d + 1" using I(5) [of i k] I(6) [of i k] I(8) [of i] that by simp
  qed
  have "search_inv g s depth lab' (vis', q', res @ map snd new)"
  proof (rule search_invI)
    have "distinct (map fst new)" unfolding new_def by (rule new_hops_distinct)
    then show "distinct vis'" using I(1) N by (simp add: vis'_def) (auto simp: N_def)
    show "vis' \<noteq> []" "last vis' = s" using I(2,3) by (simp_all add: vis'_def)
    show "lab' s = 0" using old [OF sv] I(4) by simp
    show "i \<in> set vis'" if "(i, k) \<in> set q'" for i k
      using that I(5) [of i k] unfolding set_vis' by (auto simp: q'_def N_def)
    show "lab' i = k" if "(i, k) \<in> set q'" for i k
    proof (cases "(i, k) \<in> set q")
      case True
      then show ?thesis using I(5) [of i k] I(6) [of i k] old [of i] by simp
    next
      case False
      then show ?thesis using that by (auto simp: q'_def N_def lab'_def)
    qed
    have "sorted (map snd q)" using I(7) by simp
    moreover have "sorted (map (\<lambda>h. d + 1) new)" by (induction new) auto
    ultimately show "sorted (map snd q')" using q_ge(2) by (auto simp: q'_def sorted_append o_def)
    show "lab' v \<le> snd (hd q') + 1" if "q' \<noteq> []" "v \<in> set vis'" for v
    proof -
      obtain i k where ik: "hd q' = (i, k)" by fastforce
      then have "(i, k) \<in> set q'" using hd_in_set [OF that(1)] by simp
      then have "d \<le> snd (hd q')" using q_ge(1) [of i k] ik by (auto simp: q'_def)
      then show ?thesis using le [of v] that(2) set_vis' by auto
    qed
    show "u \<in> set vis' \<and> lab' u \<le> lab' v + 1"
      if v: "v \<in> set vis'" "v \<notin> fst ` set q'" and lt: "lab' v < depth" and vu: "(v, u) \<in> linked g" for v u
    proof (cases "v = c")
      case True
      then have u: "u \<in> N \<union> set vis" using N vu by auto
      then show ?thesis using le [OF u] True old [OF c(1)] c(2) set_vis' by auto
    next
      case False
      have "N \<subseteq> fst ` set q'" by (force simp: q'_def N_def image_iff)
      then have "v \<notin> N" using v(2) by blast
      then have "v \<in> set vis" "v \<notin> fst ` set ((c, d) # q)" using v False set_vis' by (auto simp: q'_def)
      then have "u \<in> set vis \<and> lab u \<le> lab v + 1" using I(9) [of v u] lt vu old [of v] by simp
      then show ?thesis using old [of u] old [OF \<open>v \<in> set vis\<close>] set_vis' by auto
    qed
    show "lab' v \<le> depth" if "v \<in> set vis'" for v
      using that I(10) [of v] less set_vis' by (auto simp: lab'_def)
    show "(s, v) \<in> linked g ^^ lab' v" if "v \<in> set vis'" for v
    proof (cases "v \<in> N")
      case True
      then have "(c, v) \<in> linked g" using N by auto
      moreover have "(s, c) \<in> linked g ^^ d" using I(11) [OF c(1)] c(2) by simp
      ultimately show ?thesis using True by (auto simp: lab'_def)
    next
      case False
      then show ?thesis using that I(11) [of v] set_vis' by (auto simp: lab'_def)
    qed
    have "Some (fst (snd h)) = name_of_id (fst h) g" if "h \<in> set new" for h
      using new_hops_sub [of vis ?hs] that hop_names [of h g c] by (auto simp: new_def)
    then have "map (\<lambda>x. Some (fst x)) (map snd new) = map (\<lambda>i. name_of_id i g) (map fst new)" by simp
    moreover have "butlast vis' = rev (map fst new) @ butlast vis" using I(2) by (simp add: vis'_def butlast_append)
    ultimately show "map (\<lambda>x. Some (fst x)) (res @ map snd new) = map (\<lambda>i. name_of_id i g) (rev (butlast vis'))"
      using I(12) by simp
  qed
  then show ?thesis unfolding discover_eq new_def [symmetric] q'_def vis'_def by blast
qed

lemma search_from_inv:
  "graph_wf g \<Longrightarrow> search_inv g s depth lab (vis, q, res) \<Longrightarrow>
    \<exists>lab' vis' res'. search_from g depth (vis, q, res) = (vis', [], res')
      \<and> search_inv g s depth lab' (vis', [], res')"
proof (induction g depth "(vis, q, res)" arbitrary: vis q res lab rule: search_from.induct)
  case (2 g depth vis c d q res)
  show ?case
  proof (cases "depth \<le> d")
    case True
    have "search_inv g s depth lab (vis, q, res)" using search_inv_skip [OF 2(4) True] .
    from 2(1) [OF True 2(3) this] True show ?thesis by simp
  next
    case False
    obtain vis' q' res' where st: "discover (d + 1) (outgoing g c @ incoming g c) (vis, q, res) = (vis', q', res')"
      by (metis surj_pair)
    obtain lab' where inv: "search_inv g s depth lab' (vis', q', res')"
      using search_inv_expand [OF 2(3,4)] False st by auto
    have "search_from g depth (vis, (c, d) # q, res) = search_from g depth (vis', q', res')"
      using False st by (simp add: discover_append)
    then show ?thesis using 2(2) [OF False _ 2(3) inv] st by (simp add: discover_append)
  qed
qed auto

section \<open>What the search finds\<close>

lemma search_complete:
  assumes "search_inv g s depth lab (vis, [], res)" and "(s, v) \<in> linked g ^^ k" and "k \<le> depth"
  shows "v \<in> set vis \<and> lab v \<le> k"
  using assms(2,3)
proof (induction k arbitrary: v)
  case 0
  then show ?case using search_invD(2,3,4) [OF assms(1)] by (auto intro: last_in_set)
next
  case (Suc k)
  then obtain u where "(s, u) \<in> linked g ^^ k" "(u, v) \<in> linked g" by auto
  moreover from this(1) Suc have "u \<in> set vis" "lab u \<le> k" by auto
  ultimately show ?case using search_invD(9) [OF assms(1), of u v] Suc.prems by auto
qed

lemma search_visits:
  assumes "graph_wf g"
  shows "\<exists>vis res. search_from g depth ([s], [(s, 0)], []) = (vis, [], res)
    \<and> distinct vis \<and> vis \<noteq> [] \<and> last vis = s \<and> set vis = {v. \<exists>k \<le> depth. (s, v) \<in> linked g ^^ k}
    \<and> map (\<lambda>x. Some (fst x)) res = map (\<lambda>i. name_of_id i g) (rev (butlast vis))"
proof -
  have "search_inv g s depth (\<lambda>_. 0) ([s], [(s, 0)], [])" by (rule search_invI) auto
  from search_from_inv [OF assms this] obtain lab vis res where
    run: "search_from g depth ([s], [(s, 0)], []) = (vis, [], res)"
    and inv: "search_inv g s depth lab (vis, [], res)" by blast
  have "set vis = {v. \<exists>k \<le> depth. (s, v) \<in> linked g ^^ k}"
    using search_complete [OF inv] search_invD(10,11) [OF inv] by blast
  then show ?thesis using run search_invD(1,2,3,12) [OF inv] by blast
qed

text \<open>In a well-formed graph an identifier and a name determine the node.\<close>

lemma name_of_node: "graph_wf g \<Longrightarrow> v \<in> set (gr_nodes g) \<Longrightarrow> name_of_id (nd_id v) g = Some (nd_name v)"
proof -
  assume "graph_wf g" and v: "v \<in> set (gr_nodes g)"
  then have inj: "inj_on nd_id (set (gr_nodes g))" by (simp add: graph_wf_def node_ids_def distinct_map)
  obtain n where n: "find (\<lambda>n. nd_id n = nd_id v) (gr_nodes g) = Some n"
    using v by (cases "find (\<lambda>n. nd_id n = nd_id v) (gr_nodes g)") (auto simp: find_None_iff)
  then have "n \<in> set (gr_nodes g)" "nd_id n = nd_id v" by (auto simp: find_Some_iff)
  then have "n = v" using inj v by (auto dest: inj_onD)
  then show ?thesis using n by (simp add: name_of_id_def)
qed

lemma name_of_id_Some:
  assumes "graph_wf g"
  shows "name_of_id i g = Some x \<longleftrightarrow> (\<exists>v. v \<in> set (gr_nodes g) \<and> nd_id v = i \<and> nd_name v = x)"
proof
  assume "name_of_id i g = Some x"
  then show "\<exists>v. v \<in> set (gr_nodes g) \<and> nd_id v = i \<and> nd_name v = x"
    using nth_mem by (fastforce simp: name_of_id_def find_Some_iff)
qed (use name_of_node [OF assms] in auto)

lemma linked_ids: "graph_wf g \<Longrightarrow> (i, j) \<in> linked g \<Longrightarrow> j \<in> set (node_ids g)"
  by (auto simp: linked_def list_ex_iff graph_wf_def list_all_iff)

lemma reached_ids:
  assumes "graph_wf g" and "s \<in> set (node_ids g)" and "(s, v) \<in> linked g ^^ k"
  shows "v \<in> set (node_ids g)"
  using assms(3,2) by (cases k) (auto dest: linked_ids [OF assms(1)])

lemma names_inj:
  assumes wf: "graph_wf g"
  shows "inj_on (\<lambda>i. name_of_id i g) (set (node_ids g))"
proof (rule inj_onI)
  fix i j assume "i \<in> set (node_ids g)" "j \<in> set (node_ids g)" and eq: "name_of_id i g = name_of_id j g"
  then obtain a b where ab: "a \<in> set (gr_nodes g)" "b \<in> set (gr_nodes g)" "i = nd_id a" "j = nd_id b"
    by (auto simp: node_ids_def)
  then have "nd_name a = nd_name b" using eq name_of_node [OF wf] by simp
  then show "i = j" using wf ab by (auto simp: graph_wf_def distinct_map dest: inj_onD)
qed

definition hops_within :: "graph \<Rightarrow> nat \<Rightarrow> int \<Rightarrow> int \<Rightarrow> bool" where
  "hops_within g depth s t = (\<exists>k. k \<le> depth \<and> (s, t) \<in> linked g ^^ k)"

text \<open>
  C12. The search of the associative memory is exact. Whatever operations built the graph, the
  neighbours of a name within a depth are the names of the nodes that a path of at most that many
  edges, in either direction, leads to, other than the node itself; each is listed once, and the list
  is ordered by falling weight. A name that is no node has no neighbours.
\<close>

theorem neighbors_exact:
  "case id_of_name name (graph_of ops) of
     None \<Rightarrow> neighbors name depth (graph_of ops) = []
   | Some s \<Rightarrow>
       set (map fst (neighbors name depth (graph_of ops)))
         = {nd_name v | v. v \<in> set (gr_nodes (graph_of ops)) \<and> nd_id v \<noteq> s \<and> hops_within (graph_of ops) depth s (nd_id v)}
       \<and> distinct (map fst (neighbors name depth (graph_of ops)))
       \<and> sorted (map (\<lambda>(n, r, w). - w) (neighbors name depth (graph_of ops)))"
proof (cases "id_of_name name (graph_of ops)")
  case (Some s)
  define g where "g = graph_of ops"
  have wf: "graph_wf g" unfolding g_def by (rule graph_of_wf)
  have s: "s \<in> set (node_ids g)" using Some id_of_name_in by (simp add: g_def)
  obtain vis res where run: "search_from g depth ([s], [(s, 0)], []) = (vis, [], res)"
    and vis: "distinct vis" "vis \<noteq> []" "last vis = s" "set vis = {v. hops_within g depth s v}"
    and res: "map (\<lambda>x. Some (fst x)) res = map (\<lambda>i. name_of_id i g) (rev (butlast vis))"
    using search_visits [OF wf, of depth s] by (auto simp: hops_within_def)
  have nb: "neighbors name depth g = sort_key (\<lambda>(n, r, w). - w) res"
    using Some run by (simp add: neighbors_def g_def)
  have ids: "set vis \<subseteq> set (node_ids g)" using vis(4) reached_ids [OF wf s] by (auto simp: hops_within_def)
  have "vis = butlast vis @ [s]" using vis(2,3) by (metis append_butlast_last_id)
  then have "distinct (butlast vis @ [s])" "set vis = set (butlast vis @ [s])" using vis(1) by simp_all
  then have front: "set (butlast vis) = set vis - {s}" "distinct (butlast vis)" by auto
  have names: "Some ` set (map fst res) = (\<lambda>i. name_of_id i g) ` set (butlast vis)"
    using arg_cong [OF res, of set] by (simp add: image_image)
  have "x \<in> set (map fst res) \<longleftrightarrow> (\<exists>v. x = nd_name v \<and> v \<in> set (gr_nodes g) \<and> nd_id v \<noteq> s \<and> hops_within g depth s (nd_id v))" for x
  proof -
    have "x \<in> set (map fst res) \<longleftrightarrow> Some x \<in> (\<lambda>i. name_of_id i g) ` set (butlast vis)" unfolding names [symmetric] by blast
    also have "\<dots> \<longleftrightarrow> (\<exists>i. i \<noteq> s \<and> hops_within g depth s i \<and> name_of_id i g = Some x)" using vis(4) front(1) by force
    also have "\<dots> \<longleftrightarrow> (\<exists>v. x = nd_name v \<and> v \<in> set (gr_nodes g) \<and> nd_id v \<noteq> s \<and> hops_within g depth s (nd_id v))"
      by (auto simp: name_of_id_Some [OF wf])
    finally show ?thesis .
  qed
  then have "set (map fst (neighbors name depth g))
      = {nd_name v | v. v \<in> set (gr_nodes g) \<and> nd_id v \<noteq> s \<and> hops_within g depth s (nd_id v)}"
    unfolding nb by auto
  moreover have "distinct (map fst (neighbors name depth g))"
  proof -
    have "inj_on (\<lambda>i. name_of_id i g) (set (butlast vis))" using names_inj [OF wf] ids front(1) by (auto intro: inj_on_subset)
    then have "distinct (map (\<lambda>x. Some (fst x)) res)" unfolding res using front(2) by (simp add: distinct_map)
    then have "distinct (map fst res)" by (auto simp: distinct_map inj_on_def)
    then show ?thesis unfolding nb by (simp add: distinct_map inj_on_def)
  qed
  moreover have "sorted (map (\<lambda>(n, r, w). - w) (neighbors name depth g))" unfolding nb by simp
  ultimately show ?thesis using Some by (simp add: g_def)
qed (simp add: neighbors_def)

end
