(* ===== verification/Memory_Store.thy ===== *)
theory Memory_Store
  imports Skill_Store Graph_Facts
begin

text \<open>
  \<open>src/memory/store.rs\<close>: the store that holds the memories with their links, the sessions with their
  messages, the profile and the vectors, beside the experiences, the skills and the graph. Deleting a
  row deletes what refers to it (\<open>ON DELETE CASCADE\<close>, foreign keys are on). The full-text index, the
  distance of vectors, the embedder, the clock and the JSON encoder are arguments; other errors of
  the database are left out. Times are texts.
\<close>

section \<open>Tables\<close>

record memory_record =
  mm_id :: int
  mm_content :: string
  mm_category :: string
  mm_tags :: string
  mm_access_count :: int
  mm_created_at :: string

record memory_row = memory_record +
  mm_accessed_at :: string
  mm_expires_at :: "string option"

record session_row =
  sn_id :: string
  sn_created_at :: string
  sn_updated_at :: string
  sn_summary :: "string option"

record message_row =
  ms_id :: int
  ms_session_id :: string
  ms_role :: string
  ms_content :: string
  ms_tool_call_id :: "string option"
  ms_created_at :: string

record session_summary =
  ss_id :: string
  ss_created_at :: string
  ss_summary :: "string option"
  ss_first_user_message :: "string option"

record memory_db =
  db_memories :: "memory_row table"
  db_links :: "(int \<times> int \<times> string) list"
  db_vectors :: "(int \<times> rat list) list"
  db_sessions :: "session_row list"
  db_messages :: "message_row table"
  db_profile :: "(string, string \<times> string) hashmap"
  db_experiences :: "experience_row table"
  db_skills :: "skill_row table"
  db_graph :: graph

definition db_new :: memory_db where
  "db_new = \<lparr>db_memories = table_new, db_links = [], db_vectors = [], db_sessions = [],
     db_messages = table_new, db_profile = [], db_experiences = table_new, db_skills = table_new,
     db_graph = graph_new\<rparr>"

section \<open>Memories\<close>

definition memory_of_row :: "memory_row \<Rightarrow> memory_record" where
  "memory_of_row r =
    \<lparr>mm_id = mm_id r, mm_content = mm_content r, mm_category = mm_category r, mm_tags = mm_tags r,
     mm_access_count = mm_access_count r, mm_created_at = mm_created_at r\<rparr>"

definition save_memory ::
    "(json \<Rightarrow> string) \<Rightarrow> string \<Rightarrow> string \<Rightarrow> string \<Rightarrow> string list \<Rightarrow> memory_db \<Rightarrow> int \<times> memory_db" where
  "save_memory enc now content category tags db =
    (case insert_row (\<lambda>i. \<lparr>mm_id = i, mm_content = content, mm_category = category,
            mm_tags = enc (JArr (map JStr tags)), mm_access_count = 0, mm_created_at = now,
            mm_accessed_at = now, mm_expires_at = None\<rparr>) (db_memories db) of
       (i, tb) \<Rightarrow> (i, db\<lparr>db_memories := tb\<rparr>))"

text \<open>\<open>DELETE FROM memories\<close> with the links of the rows.\<close>

definition delete_memories :: "(memory_row \<Rightarrow> bool) \<Rightarrow> memory_db \<Rightarrow> nat \<times> memory_db" where
  "delete_memories p db =
    (case delete_rows p (db_memories db) of
       (n, tb) \<Rightarrow> (n, db\<lparr>db_memories := tb,
         db_links := filter (\<lambda>(s, t, r). s \<in> set (map mm_id (tb_rows tb)) \<and> t \<in> set (map mm_id (tb_rows tb)))
           (db_links db)\<rparr>))"

text \<open>\<open>fts q rows\<close>: the identifiers of the rows that match, best first. The answer is read before the
  counts of the rows found go up.\<close>

definition search_memories ::
    "(string \<Rightarrow> memory_row list \<Rightarrow> int list) \<Rightarrow> string \<Rightarrow> string \<Rightarrow> nat \<Rightarrow> memory_db \<Rightarrow> memory_record list \<times> memory_db" where
  "search_memories fts now query limit db =
    (if query = [] then ([], db)
     else (let safe = [dquote] @ filter (\<lambda>c. c \<noteq> dquote) query @ [dquote];
               hits = sql_limit limit (List.map_filter (\<lambda>i. find (\<lambda>r. mm_id r = i) (tb_rows (db_memories db)))
                 (fts safe (tb_rows (db_memories db))))
       in (map memory_of_row hits, db\<lparr>db_memories := fold (\<lambda>h. update_rows (\<lambda>r. mm_id r = mm_id h)
             (\<lambda>r. r\<lparr>mm_access_count := mm_access_count r + 1, mm_accessed_at := now\<rparr>)) hits (db_memories db)\<rparr>)))"

definition all_memories :: "memory_db \<Rightarrow> memory_record list" where
  "all_memories db = map memory_of_row (sort_key mm_id (tb_rows (db_memories db)))"

text \<open>\<open>None\<close>: a memory is missing. A pair that is linked already keeps its relation.\<close>

definition link_memories :: "int \<Rightarrow> int \<Rightarrow> string \<Rightarrow> memory_db \<Rightarrow> memory_db option" where
  "link_memories s t relation db =
    (if list_ex (\<lambda>(s', t', r). s' = s \<and> t' = t) (db_links db) then Some db
     else if s \<notin> set (map mm_id (tb_rows (db_memories db))) \<or> t \<notin> set (map mm_id (tb_rows (db_memories db)))
     then None
     else Some (db\<lparr>db_links := db_links db @ [(s, t, relation)]\<rparr>))"

definition count_stale_memories :: "string \<Rightarrow> memory_db \<Rightarrow> nat" where
  "count_stale_memories cutoff db =
    length (filter (\<lambda>r. text_less (mm_accessed_at r) cutoff) (tb_rows (db_memories db)))"

definition stale_ids :: "string \<Rightarrow> nat \<Rightarrow> memory_db \<Rightarrow> int list" where
  "stale_ids cutoff max_delete db =
    map mm_id (sql_limit max_delete (order_by (\<lambda>r q. text_less (mm_accessed_at r) (mm_accessed_at q))
      (filter (\<lambda>r. text_less (mm_accessed_at r) cutoff \<and> mm_access_count r = 0) (tb_rows (db_memories db)))))"

definition purge_stale_memories :: "string \<Rightarrow> nat \<Rightarrow> memory_db \<Rightarrow> nat \<times> memory_db" where
  "purge_stale_memories cutoff max_delete db =
    delete_memories (\<lambda>r. mm_id r \<in> set (stale_ids cutoff max_delete db)) db"

definition memory_count :: "memory_db \<Rightarrow> nat" where
  "memory_count db = length (tb_rows (db_memories db))"

definition purge_all_expired :: "string \<Rightarrow> memory_db \<Rightarrow> nat \<times> memory_db" where
  "purge_all_expired now db =
    (case delete_memories (\<lambda>r. has_expired now (mm_expires_at r)) db of
       (a, db) \<Rightarrow> (case xs_purge_expired now (db_experiences db) of
         (b, xs) \<Rightarrow> (case sk_purge_expired now (db_skills db) of
           (c, sks) \<Rightarrow> (a + b + c, db\<lparr>db_experiences := xs, db_skills := sks\<rparr>))))"

definition reset_session_data_for_lab :: "memory_db \<Rightarrow> memory_db" where
  "reset_session_data_for_lab db =
    snd (delete_memories (\<lambda>r. True) (db\<lparr>db_messages := snd (delete_rows (\<lambda>r. True) (db_messages db)), db_sessions := []\<rparr>))"

section \<open>Vectors\<close>

definition embedding_dim :: nat where
  "embedding_dim = 256"

definition m_dim :: "string \<Rightarrow> nat \<Rightarrow> string" where
  "m_dim what n = what @ m_dim_1 @ show_nat embedding_dim @ '', got '' @ show_nat n"

text \<open>A second vector for a memory is refused by the primary key.\<close>

definition insert_memory_embedding :: "int \<Rightarrow> rat list \<Rightarrow> memory_db \<Rightarrow> string + memory_db" where
  "insert_memory_embedding i v db =
    (if length v \<noteq> embedding_dim then Inl (m_dim ''embedding'' (length v))
     else if i \<in> set (map fst (db_vectors db)) then Inl ''UNIQUE constraint failed''
     else Inr (db\<lparr>db_vectors := db_vectors db @ [(i, v)]\<rparr>))"

fun insert_embeddings :: "(int \<times> rat list) list \<Rightarrow> memory_db \<Rightarrow> string option \<times> memory_db" where
  "insert_embeddings [] db = (None, db)"
| "insert_embeddings ((i, v) # vs) db =
    (case insert_memory_embedding i v db of Inl err \<Rightarrow> (Some err, db) | Inr db' \<Rightarrow> insert_embeddings vs db')"

text \<open>The first component is the error; vectors inserted before it stay.\<close>

definition ensure_vec_table :: "(string list \<Rightarrow> string + rat list list) \<Rightarrow> memory_db \<Rightarrow> string option \<times> memory_db" where
  "ensure_vec_table embedder db =
    (if db_vectors db \<noteq> [] then (None, db)
     else if all_memories db = [] then (None, db)
     else (case embedder (map mm_content (all_memories db)) of
        Inl err \<Rightarrow> (Some err, db)
      | Inr vs \<Rightarrow> insert_embeddings (zip (map mm_id (all_memories db)) vs) db))"

definition vec_knn :: "(rat list \<Rightarrow> rat list \<Rightarrow> rat) \<Rightarrow> rat list \<Rightarrow> nat \<Rightarrow> memory_db \<Rightarrow> string + (int \<times> rat) list" where
  "vec_knn metric query limit db =
    (if length query \<noteq> embedding_dim then Inl (m_dim ''query'' (length query))
     else Inr (sql_limit limit (sort_key snd (map (\<lambda>(i, v). (i, metric query v)) (db_vectors db)))))"

definition get_memories_by_ids :: "int list \<Rightarrow> memory_db \<Rightarrow> memory_record list" where
  "get_memories_by_ids ids db =
    map memory_of_row (filter (\<lambda>r. mm_id r \<in> set ids) (tb_rows (db_memories db)))"

section \<open>Sessions\<close>

definition role_text :: "role \<Rightarrow> string" where
  "role_text r =
    (case r of System \<Rightarrow> ''system'' | User \<Rightarrow> ''user'' | Assistant \<Rightarrow> ''assistant'' | Tool \<Rightarrow> ''tool'')"

definition role_of_text :: "string \<Rightarrow> role" where
  "role_of_text s =
    (if s = ''system'' then System else if s = ''user'' then User
     else if s = ''assistant'' then Assistant else Tool)"

text \<open>\<open>INSERT OR REPLACE\<close> removes the old row with its messages. \<open>show_time\<close> and \<open>parse_time\<close> are the
  forms of RFC 3339.\<close>

definition insert_message :: "string \<Rightarrow> string \<Rightarrow> message \<Rightarrow> message_row table \<Rightarrow> message_row table" where
  "insert_message now sid m tb =
    snd (insert_row (\<lambda>i. \<lparr>ms_id = i, ms_session_id = sid, ms_role = role_text (msg_role m),
      ms_content = msg_content m, ms_tool_call_id = msg_tool_call_id m, ms_created_at = now\<rparr>) tb)"

definition save_session :: "(nat \<Rightarrow> string) \<Rightarrow> string \<Rightarrow> session \<Rightarrow> memory_db \<Rightarrow> memory_db" where
  "save_session show_time now s db =
    (let cleared = snd (delete_rows (\<lambda>r. ms_session_id r = se_id s) (db_messages db))
     in db\<lparr>db_sessions := filter (\<lambda>r. sn_id r \<noteq> se_id s) (db_sessions db)
              @ [\<lparr>sn_id = se_id s, sn_created_at = show_time (se_created_at s), sn_updated_at = now,
                  sn_summary = se_summary s\<rparr>],
           db_messages := fold (insert_message now (se_id s)) (se_messages s) cleared\<rparr>)"

definition messages_of :: "string \<Rightarrow> memory_db \<Rightarrow> message_row list" where
  "messages_of sid db = sort_key ms_id (filter (\<lambda>r. ms_session_id r = sid) (tb_rows (db_messages db)))"

definition list_sessions :: "nat \<Rightarrow> memory_db \<Rightarrow> session_summary list" where
  "list_sessions limit db =
    map (\<lambda>r. \<lparr>ss_id = sn_id r, ss_created_at = sn_created_at r, ss_summary = sn_summary r,
              ss_first_user_message = map_option ms_content (find (\<lambda>m. ms_role m = ''user'') (messages_of (sn_id r) db))\<rparr>)
      (sql_limit limit (newest_first sn_updated_at (db_sessions db)))"

definition message_of_row :: "message_row \<Rightarrow> message" where
  "message_of_row r =
    \<lparr>msg_role = role_of_text (ms_role r), msg_content = ms_content r, msg_attachments = [],
     msg_tool_call_id = ms_tool_call_id r\<rparr>"

definition load_session :: "(string \<Rightarrow> nat option) \<Rightarrow> nat \<Rightarrow> string \<Rightarrow> memory_db \<Rightarrow> session option" where
  "load_session parse_time now sid db =
    (case find (\<lambda>r. sn_id r = sid) (db_sessions db) of
       None \<Rightarrow> None
     | Some r \<Rightarrow> Some
         \<lparr>se_id = sn_id r, se_messages = map message_of_row (messages_of (sn_id r) db),
          se_created_at = (case parse_time (sn_created_at r) of None \<Rightarrow> now | Some t \<Rightarrow> t),
          se_updated_at = now, se_summary = sn_summary r\<rparr>)"

section \<open>Profile\<close>

definition set_profile :: "string \<Rightarrow> string \<Rightarrow> string \<Rightarrow> memory_db \<Rightarrow> memory_db" where
  "set_profile now key value' db = db\<lparr>db_profile := hm_insert key (value', now) (db_profile db)\<rparr>"

definition get_profile :: "string \<Rightarrow> memory_db \<Rightarrow> string option" where
  "get_profile key db = map_option fst (hm_get (db_profile db) key)"

end
