(* ===== verification/Memory_Facts.thy ===== *)
theory Memory_Facts
  imports Memory_Store
begin

text \<open>
  What the store keeps under every sequence of its operations: the references between its tables, and
  the sessions, which are read back as they were saved last.
\<close>

section \<open>Sequences of operations\<close>

datatype db_op =
    Save_Memory "json \<Rightarrow> string" string string string "string list"
  | Search_Memories "string \<Rightarrow> memory_row list \<Rightarrow> int list" string string nat
  | Link_Memories int int string
  | Purge_Stale string nat
  | Purge_All string
  | Reset_For_Lab
  | Ensure_Vectors "string list \<Rightarrow> string + rat list list"
  | Insert_Vector int "rat list"
  | Store_Session "nat \<Rightarrow> string" string session
  | Set_Profile string string string
  | Store_Experience string record_params
  | Set_Ttl string int
  | Promote_Trajectory byte_hasher "json \<Rightarrow> string" string trajectory
  | Promote_Experiences string nat
  | Change_Graph graph_op

definition apply_db_op :: "db_op \<Rightarrow> memory_db \<Rightarrow> memory_db" where
  "apply_db_op p db =
    (case p of
       Save_Memory enc now c k ts \<Rightarrow> snd (save_memory enc now c k ts db)
     | Search_Memories fts now q n \<Rightarrow> snd (search_memories fts now q n db)
     | Link_Memories s t r \<Rightarrow> kept db (link_memories s t r db)
     | Purge_Stale cutoff n \<Rightarrow> snd (purge_stale_memories cutoff n db)
     | Purge_All now \<Rightarrow> snd (purge_all_expired now db)
     | Reset_For_Lab \<Rightarrow> reset_session_data_for_lab db
     | Ensure_Vectors em \<Rightarrow> snd (ensure_vec_table em db)
     | Insert_Vector i v \<Rightarrow> (case insert_memory_embedding i v db of Inl err \<Rightarrow> db | Inr db' \<Rightarrow> db')
     | Store_Session show_time now s \<Rightarrow> save_session show_time now s db
     | Set_Profile now k v \<Rightarrow> set_profile now k v db
     | Store_Experience now x \<Rightarrow> db\<lparr>db_experiences := snd (xs_record now x (db_experiences db))\<rparr>
     | Set_Ttl expires i \<Rightarrow> db\<lparr>db_experiences := xs_set_ttl expires i (db_experiences db)\<rparr>
     | Promote_Trajectory H enc now c \<Rightarrow> db\<lparr>db_skills := snd (promote_from_trajectory H enc now c (db_skills db))\<rparr>
     | Promote_Experiences now n \<Rightarrow>
         db\<lparr>db_skills := snd (promote_from_experiences now n (db_experiences db) (db_skills db))\<rparr>
     | Change_Graph q \<Rightarrow> db\<lparr>db_graph := apply_graph_op q (db_graph db)\<rparr>)"

definition db_of :: "db_op list \<Rightarrow> memory_db" where
  "db_of ops = fold apply_db_op ops db_new"

lemma db_of_Nil: "db_of [] = db_new"
  by (simp add: db_of_def)

lemma db_of_snoc: "db_of (ops @ [p]) = apply_db_op p (db_of ops)"
  by (simp add: db_of_def)

section \<open>References\<close>

definition links_wf :: "memory_db \<Rightarrow> bool" where
  "links_wf db =
    (distinct (map (\<lambda>(s, t, r). (s, t)) (db_links db))
     \<and> list_all (\<lambda>(s, t, r). s \<in> set (map mm_id (tb_rows (db_memories db)))
         \<and> t \<in> set (map mm_id (tb_rows (db_memories db)))) (db_links db))"

definition vectors_wf :: "memory_db \<Rightarrow> bool" where
  "vectors_wf db =
    (distinct (map fst (db_vectors db)) \<and> list_all (\<lambda>(i, v). length v = embedding_dim) (db_vectors db))"

definition sessions_wf :: "memory_db \<Rightarrow> bool" where
  "sessions_wf db =
    (distinct (map sn_id (db_sessions db)) \<and> table_wf ms_id (db_messages db)
     \<and> list_all (\<lambda>r. ms_session_id r \<in> set (map sn_id (db_sessions db))) (tb_rows (db_messages db)))"

definition db_wf :: "memory_db \<Rightarrow> bool" where
  "db_wf db =
    (table_wf mm_id (db_memories db) \<and> links_wf db \<and> vectors_wf db \<and> sessions_wf db
     \<and> table_wf xr_id (db_experiences db) \<and> skills_wf (db_skills db) \<and> graph_wf (db_graph db))"

text \<open>The parts of the invariant look at different fields.\<close>

lemma parts_cong:
  "db_memories db' = db_memories db \<Longrightarrow> db_links db' = db_links db \<Longrightarrow> links_wf db' = links_wf db"
  "db_vectors db' = db_vectors db \<Longrightarrow> vectors_wf db' = vectors_wf db"
  "db_sessions db' = db_sessions db \<Longrightarrow> db_messages db' = db_messages db \<Longrightarrow> sessions_wf db' = sessions_wf db"
  by (simp_all add: links_wf_def vectors_wf_def sessions_wf_def)

lemma delete_memories_wf: "db_wf db \<Longrightarrow> db_wf (snd (delete_memories p db))"
  using table_wf_delete [of mm_id "db_memories db" p]
  by (auto simp: db_wf_def delete_memories_def links_wf_def vectors_wf_def sessions_wf_def list_all_iff
      distinct_map_filter split: prod.splits)

lemma delete_memories_keeps:
  "db_sessions (snd (delete_memories p db)) = db_sessions db"
  "db_messages (snd (delete_memories p db)) = db_messages db"
  by (simp_all add: delete_memories_def split: prod.splits)

lemma bump_wf: "table_wf mm_id tb \<Longrightarrow> table_wf mm_id (fold (\<lambda>h. update_rows (\<lambda>r. mm_id r = mm_id h)
    (\<lambda>r. r\<lparr>mm_access_count := mm_access_count r + 1, mm_accessed_at := now\<rparr>)) hits tb)"
  by (induction hits arbitrary: tb) (simp_all add: table_wf_update)

lemma bump_ids: "map mm_id (tb_rows (fold (\<lambda>h. update_rows (\<lambda>r. mm_id r = mm_id h)
    (\<lambda>r. r\<lparr>mm_access_count := mm_access_count r + 1, mm_accessed_at := now\<rparr>)) hits tb)) = map mm_id (tb_rows tb)"
  by (induction hits arbitrary: tb) (simp_all add: map_update_rows del: map_map)

lemma search_memories_wf: "db_wf db \<Longrightarrow> db_wf (snd (search_memories fts now q n db))"
  by (auto simp: db_wf_def search_memories_def Let_def links_wf_def vectors_wf_def sessions_wf_def bump_wf bump_ids
      simp del: set_map)

lemma insert_vector_wf: "db_wf db \<Longrightarrow> insert_memory_embedding i v db = Inr db' \<Longrightarrow> db_wf db'"
  by (auto simp: insert_memory_embedding_def db_wf_def links_wf_def vectors_wf_def sessions_wf_def split: if_splits)

lemma insert_embeddings_wf: "db_wf db \<Longrightarrow> db_wf (snd (insert_embeddings vs db))"
  by (induction vs db rule: insert_embeddings.induct) (auto split: sum.splits intro: insert_vector_wf)

lemma insert_messages:
  "table_wf ms_id tb \<Longrightarrow> table_wf ms_id (fold (insert_message now sid) ms tb)"
  "ms_session_id ` set (tb_rows (fold (insert_message now sid) ms tb)) \<subseteq> ms_session_id ` set (tb_rows tb) \<union> {sid}"
proof -
  show "table_wf ms_id tb \<Longrightarrow> table_wf ms_id (fold (insert_message now sid) ms tb)"
    by (induction ms arbitrary: tb) (auto simp: insert_message_def table_wf_insert)
  show "ms_session_id ` set (tb_rows (fold (insert_message now sid) ms tb)) \<subseteq> ms_session_id ` set (tb_rows tb) \<union> {sid}"
  proof (induction ms arbitrary: tb)
    case (Cons m ms)
    show ?case using Cons.IH [of "insert_message now sid m tb"] by (auto simp: insert_message_def)
  qed auto
qed

lemma save_session_wf: "db_wf db \<Longrightarrow> db_wf (save_session show_time now s db)"
proof -
  assume wf: "db_wf db"
  let ?tb = "snd (delete_rows (\<lambda>r. ms_session_id r = se_id s) (db_messages db))"
  let ?ms = "fold (insert_message now (se_id s)) (se_messages s) ?tb"
  have "table_wf ms_id ?tb" using wf table_wf_delete by (auto simp: db_wf_def sessions_wf_def)
  then have tb: "table_wf ms_id ?ms" by (rule insert_messages(1))
  have "ms_session_id r \<in> set (map sn_id (db_sessions (save_session show_time now s db)))" if r: "r \<in> set (tb_rows ?ms)" for r
  proof -
    have "ms_session_id r \<in> ms_session_id ` set (tb_rows ?tb) \<union> {se_id s}"
      using insert_messages(2) [of now "se_id s" "se_messages s" ?tb] r by blast
    then consider "ms_session_id r = se_id s"
      | q where "q \<in> set (tb_rows (db_messages db))" "ms_session_id r = ms_session_id q" "ms_session_id q \<noteq> se_id s"
      by auto
    then show ?thesis
    proof cases
      case 2
      then have "ms_session_id q \<in> sn_id ` set (db_sessions db)" using wf by (auto simp: db_wf_def sessions_wf_def list_all_iff)
      then show ?thesis using 2 by (auto simp: save_session_def Let_def image_iff)
    qed (simp add: save_session_def Let_def)
  qed
  moreover have "distinct (map sn_id (db_sessions (save_session show_time now s db)))"
    using wf by (auto simp: db_wf_def sessions_wf_def save_session_def Let_def distinct_map_filter)
  ultimately have "sessions_wf (save_session show_time now s db)"
    using tb by (simp add: sessions_wf_def list_all_iff save_session_def Let_def)
  moreover have "links_wf (save_session show_time now s db)" "vectors_wf (save_session show_time now s db)"
    using wf by (simp_all add: db_wf_def links_wf_def vectors_wf_def save_session_def Let_def)
  ultimately show ?thesis using wf by (simp add: db_wf_def save_session_def Let_def)
qed

lemma link_wf: "db_wf db \<Longrightarrow> link_memories s t r db = Some db' \<Longrightarrow> db_wf db'"
  by (auto simp: link_memories_def db_wf_def links_wf_def vectors_wf_def sessions_wf_def list_ex_iff split: if_splits)

lemma save_memory_wf: "db_wf db \<Longrightarrow> db_wf (snd (save_memory enc now c k ts db))"
proof -
  assume wf: "db_wf db"
  obtain i tb where ins: "insert_row (\<lambda>i. \<lparr>mm_id = i, mm_content = c, mm_category = k,
      mm_tags = enc (JArr (map JStr ts)), mm_access_count = 0, mm_created_at = now,
      mm_accessed_at = now, mm_expires_at = None\<rparr>) (db_memories db) = (i, tb)" by fastforce
  have "table_wf mm_id tb" "set (map mm_id (tb_rows (db_memories db))) \<subseteq> set (map mm_id (tb_rows tb))"
    using wf table_wf_insert [of mm_id "db_memories db"] arg_cong [OF ins, of snd]
    by (auto simp: db_wf_def)
  then show ?thesis using wf
    by (auto simp: save_memory_def ins db_wf_def links_wf_def vectors_wf_def sessions_wf_def list_all_iff)
qed

lemma purge_all_wf: "db_wf db \<Longrightarrow> db_wf (snd (purge_all_expired now db))"
proof -
  assume "db_wf db"
  then have wf: "db_wf (snd (delete_memories (\<lambda>r. has_expired now (mm_expires_at r)) db))" by (rule delete_memories_wf)
  obtain a db1 where d1: "delete_memories (\<lambda>r. has_expired now (mm_expires_at r)) db = (a, db1)" by fastforce
  obtain b xs where xs: "xs_purge_expired now (db_experiences db1) = (b, xs)" by fastforce
  obtain c sks where sks: "sk_purge_expired now (db_skills db1) = (c, sks)" by fastforce
  have "table_wf xr_id xs"
    using wf table_wf_delete [of xr_id "db_experiences db1"] arg_cong [OF xs, of snd] d1
    by (auto simp: xs_purge_expired_def db_wf_def)
  moreover have "skills_wf sks"
    using wf skills_wf_delete [of "db_skills db1"] arg_cong [OF sks, of snd] d1
    by (auto simp: sk_purge_expired_def db_wf_def)
  ultimately show ?thesis using wf d1 xs sks
    by (simp add: purge_all_expired_def db_wf_def links_wf_def vectors_wf_def sessions_wf_def)
qed

lemma db_op_wf: "db_wf db \<Longrightarrow> db_wf (apply_db_op p db)"
proof (induction p)
  case (Purge_Stale cutoff n)
  then show ?case by (simp add: apply_db_op_def purge_stale_memories_def delete_memories_wf)
next
  case (Link_Memories s t r)
  then show ?case by (auto simp: apply_db_op_def kept_def intro: link_wf split: option.splits)
next
  case Reset_For_Lab
  let ?db = "db\<lparr>db_messages := snd (delete_rows (\<lambda>r. True) (db_messages db)), db_sessions := []\<rparr>"
  have "table_wf ms_id (db_messages ?db)" using Reset_For_Lab table_wf_delete by (auto simp: db_wf_def sessions_wf_def)
  then have "db_wf ?db" using Reset_For_Lab
    by (simp add: db_wf_def links_wf_def vectors_wf_def sessions_wf_def)
  then show ?case by (simp add: apply_db_op_def reset_session_data_for_lab_def delete_memories_wf)
next
  case (Ensure_Vectors em)
  then show ?case by (auto simp: apply_db_op_def ensure_vec_table_def insert_embeddings_wf split: sum.splits)
next
  case (Insert_Vector i v)
  then show ?case by (auto simp: apply_db_op_def intro: insert_vector_wf split: sum.splits)
next
  case (Set_Profile now k v)
  then show ?case by (simp add: apply_db_op_def set_profile_def db_wf_def links_wf_def vectors_wf_def sessions_wf_def)
next
  case (Store_Experience now x)
  then show ?case by (simp add: apply_db_op_def db_wf_def links_wf_def vectors_wf_def sessions_wf_def xs_record_wf)
next
  case (Set_Ttl expires i)
  then show ?case
    by (simp add: apply_db_op_def db_wf_def links_wf_def vectors_wf_def sessions_wf_def xs_set_ttl_def table_wf_update)
next
  case (Promote_Trajectory H enc now c)
  obtain r tb where "promote_from_trajectory H enc now c (db_skills db) = (r, tb)" by fastforce
  with Promote_Trajectory show ?case
    by (auto simp: apply_db_op_def db_wf_def links_wf_def vectors_wf_def sessions_wf_def promote_from_trajectory_def
        intro: promote_with_prefix_wf)
next
  case (Promote_Experiences now n)
  then show ?case
    by (simp add: apply_db_op_def db_wf_def links_wf_def vectors_wf_def sessions_wf_def promote_from_experiences_def
        promote_actions_wf)
next
  case (Change_Graph q)
  then show ?case by (simp add: apply_db_op_def db_wf_def links_wf_def vectors_wf_def sessions_wf_def graph_op_wf)
qed (simp_all add: apply_db_op_def save_memory_wf search_memories_wf purge_all_wf save_session_wf)

lemma db_of_wf: "db_wf (db_of ops)"
proof (induction ops rule: rev_induct)
  case Nil
  show ?case by (simp add: db_of_Nil db_new_def db_wf_def links_wf_def vectors_wf_def sessions_wf_def skills_wf_def
        graph_wf_def graph_new_def node_ids_def)
qed (simp add: db_of_snoc db_op_wf)

text \<open>
  C14. Identifiers and references of the store. Whatever operations ran on an empty database, no two
  memories, messages or experiences share an identifier; links join memories that are there, and join a
  pair once; no two sessions share an identifier and every message belongs to a session that is there; a
  memory has at most one vector, of 256 components; the names of skills, the names of nodes and the edges
  of the graph are unique, with both ends of every edge in the table. A vector may outlive its memory:
  nothing removes the vectors of deleted memories, so that a vector refers to a memory is not claimed.
\<close>

theorem store_references_intact:
  "distinct (map mm_id (tb_rows (db_memories (db_of ops))))
   \<and> distinct (map ms_id (tb_rows (db_messages (db_of ops))))
   \<and> distinct (map xr_id (tb_rows (db_experiences (db_of ops))))
   \<and> links_wf (db_of ops) \<and> vectors_wf (db_of ops) \<and> sessions_wf (db_of ops)
   \<and> skills_wf (db_skills (db_of ops)) \<and> graph_wf (db_graph (db_of ops))"
  using db_of_wf [of ops] by (simp add: db_wf_def sessions_wf_def table_wf_def strict_sorted_iff)

section \<open>Sessions\<close>

text \<open>What a session is read back as: the messages without their attachments.\<close>

definition restored :: "(string \<Rightarrow> nat option) \<Rightarrow> nat \<Rightarrow> (nat \<Rightarrow> string) \<times> session \<Rightarrow> session" where
  "restored parse_time now x =
    (case x of (show_time, s) \<Rightarrow>
      s\<lparr>se_messages := map (\<lambda>m. m\<lparr>msg_attachments := []\<rparr>) (se_messages s),
        se_created_at := (case parse_time (show_time (se_created_at s)) of None \<Rightarrow> now | Some t \<Rightarrow> t),
        se_updated_at := now\<rparr>)"

text \<open>The session saved last under an identifier since the last reset.\<close>

fun last_saved :: "string \<Rightarrow> db_op list \<Rightarrow> ((nat \<Rightarrow> string) \<times> session) option" where
  "last_saved sid [] = None"
| "last_saved sid (p # ps) =
    (case last_saved sid ps of
       Some x \<Rightarrow> Some x
     | None \<Rightarrow> if Reset_For_Lab \<in> set ps then None
         else (case p of Store_Session show_time now s \<Rightarrow> if se_id s = sid then Some (show_time, s) else None
               | _ \<Rightarrow> None))"

lemma role_roundtrip [simp]: "role_of_text (role_text r) = r"
  by (cases r) (simp_all add: role_text_def role_of_text_def)

lemma last_saved_snoc:
  "last_saved sid (ops @ [p]) =
    (case p of
       Store_Session show_time now s \<Rightarrow> if se_id s = sid then Some (show_time, s) else last_saved sid ops
     | Reset_For_Lab \<Rightarrow> None
     | _ \<Rightarrow> last_saved sid ops)"
  by (induction ops) (auto split: db_op.splits option.splits)

text \<open>Two databases with the same sessions and messages answer the same.\<close>

lemma load_cong:
  "db_sessions db' = db_sessions db \<Longrightarrow> db_messages db' = db_messages db
    \<Longrightarrow> load_session parse_time now sid db' = load_session parse_time now sid db"
  unfolding load_session_def messages_of_def by (simp only:)

fun message_rows :: "string \<Rightarrow> string \<Rightarrow> int \<Rightarrow> message list \<Rightarrow> message_row list" where
  "message_rows now sid k [] = []"
| "message_rows now sid k (m # ms) =
    \<lparr>ms_id = k + 1, ms_session_id = sid, ms_role = role_text (msg_role m), ms_content = msg_content m,
     ms_tool_call_id = msg_tool_call_id m, ms_created_at = now\<rparr> # message_rows now sid (k + 1) ms"

lemma insert_messages_rows:
  "tb_rows (fold (insert_message now sid) ms tb) = tb_rows tb @ message_rows now sid (tb_sequence tb) ms"
  by (induction ms arbitrary: tb) (simp_all add: insert_message_def insert_row_def Let_def)

lemma message_rows_back: "map message_of_row (message_rows now sid k ms) = map (\<lambda>m. m\<lparr>msg_attachments := []\<rparr>) ms"
  by (induction ms arbitrary: k) (simp_all add: message_of_row_def)

lemma message_rows_session:
  "filter (\<lambda>r. ms_session_id r = i) (message_rows now sid k ms) = (if i = sid then message_rows now sid k ms else [])"
  by (induction ms arbitrary: k) auto

lemma messages_sorted:
  "table_wf ms_id (db_messages db) \<Longrightarrow> messages_of sid db = filter (\<lambda>r. ms_session_id r = sid) (tb_rows (db_messages db))"
  unfolding messages_of_def
  by (rule sort_key_id_if_sorted)
    (auto simp: table_wf_def sorted_map sorted_wrt_map intro!: sorted_wrt_filter elim: sorted_wrt_mono_rel [rotated])

lemma find_session_snoc:
  "find (\<lambda>r. sn_id r = sid) (filter (\<lambda>r. sn_id r \<noteq> i) rs @ [r]) =
    (if sid = i then (if sn_id r = sid then Some r else None)
     else (case find (\<lambda>r. sn_id r = sid) rs of Some x \<Rightarrow> Some x | None \<Rightarrow> if sn_id r = sid then Some r else None))"
  by (induction rs) auto

lemma load_saved:
  assumes "db_wf db"
  shows "load_session parse_time now sid (save_session show_time now' s db) =
    (if se_id s = sid then Some (restored parse_time now (show_time, s)) else load_session parse_time now sid db)"
proof -
  let ?db = "save_session show_time now' s db"
  obtain k where rows: "tb_rows (db_messages ?db) = filter (\<lambda>r. ms_session_id r \<noteq> se_id s) (tb_rows (db_messages db))
      @ message_rows now' (se_id s) k (se_messages s)"
    by (simp add: save_session_def Let_def insert_messages_rows)
  have wf: "table_wf ms_id (db_messages ?db)" "table_wf ms_id (db_messages db)"
    using save_session_wf [OF assms, of show_time now' s] assms by (simp_all add: db_wf_def sessions_wf_def)
  have msgs: "messages_of i ?db =
      (if i = se_id s then message_rows now' (se_id s) k (se_messages s) else messages_of i db)" for i
    by (auto simp: messages_sorted [OF wf(1)] messages_sorted [OF wf(2)] rows message_rows_session filter_empty_conv
        intro: filter_cong)
  have found: "find (\<lambda>r. sn_id r = sid) (db_sessions ?db) =
      (if se_id s = sid then Some \<lparr>sn_id = se_id s, sn_created_at = show_time (se_created_at s), sn_updated_at = now',
         sn_summary = se_summary s\<rparr> else find (\<lambda>r. sn_id r = sid) (db_sessions db))"
    by (auto simp: save_session_def Let_def find_session_snoc split: option.splits)
  show ?thesis
  proof (cases "se_id s = sid")
    case True
    then show ?thesis by (simp add: load_session_def found msgs message_rows_back restored_def)
  next
    case False
    show ?thesis
    proof (cases "find (\<lambda>r. sn_id r = sid) (db_sessions db)")
      case (Some r)
      then have "sn_id r = sid" by (auto simp: find_Some_iff)
      then show ?thesis using False Some by (auto simp: load_session_def found msgs)
    qed (use False in \<open>simp add: load_session_def found\<close>)
  qed
qed

lemma insert_embeddings_keeps:
  "db_sessions (snd (insert_embeddings vs db)) = db_sessions db"
  "db_messages (snd (insert_embeddings vs db)) = db_messages db"
  by (induction vs db rule: insert_embeddings.induct) (auto simp: insert_memory_embedding_def split: sum.splits if_splits)

lemma load_reset: "load_session parse_time now sid (reset_session_data_for_lab db) = None"
  by (simp add: load_session_def reset_session_data_for_lab_def delete_memories_keeps)

text \<open>No other operation touches the two tables.\<close>

lemma op_keeps_sessions:
  assumes "case p of Store_Session st now s \<Rightarrow> False | Reset_For_Lab \<Rightarrow> False | _ \<Rightarrow> True"
  shows "db_sessions (apply_db_op p db) = db_sessions db" "db_messages (apply_db_op p db) = db_messages db"
proof -
  have "db_sessions (apply_db_op p db) = db_sessions db \<and> db_messages (apply_db_op p db) = db_messages db"
  proof (cases p)
    case (Purge_All now)
    then show ?thesis by (simp add: apply_db_op_def purge_all_expired_def delete_memories_def split: prod.splits)
  next
    case (Link_Memories s t r)
    then show ?thesis by (simp add: apply_db_op_def link_memories_def kept_def)
  next
    case (Insert_Vector i v)
    then show ?thesis by (simp add: apply_db_op_def insert_memory_embedding_def)
  next
    case (Ensure_Vectors em)
    then show ?thesis
      by (simp add: apply_db_op_def ensure_vec_table_def insert_embeddings_keeps split: sum.splits)
  next
    case (Save_Memory enc now c k ts)
    then show ?thesis by (simp add: apply_db_op_def save_memory_def split: prod.splits)
  qed (use assms in \<open>simp_all add: apply_db_op_def search_memories_def Let_def purge_stale_memories_def
      delete_memories_keeps set_profile_def\<close>)
  then show "db_sessions (apply_db_op p db) = db_sessions db" "db_messages (apply_db_op p db) = db_messages db" by simp_all
qed

text \<open>
  C13. A session is read back as it was saved last. After any operations on the store, loading a session
  gives the session that was saved last under its identifier since the last reset, with all its
  messages in order, their roles, contents and call identifiers, and with its summary, but without
  the attachments of the messages; if there is none, it gives nothing. No other operation, and no
  saving of another session, has any part in it.
\<close>

theorem sessions_restore_last_saved:
  "load_session parse_time now sid (db_of ops) = map_option (restored parse_time now) (last_saved sid ops)"
proof (induction ops rule: rev_induct)
  case Nil
  show ?case by (simp add: db_of_Nil db_new_def load_session_def)
next
  case (snoc p ops)
  show ?case
  proof (cases p)
    case (Store_Session show_time now' s)
    then show ?thesis using snoc by (simp add: db_of_snoc apply_db_op_def load_saved [OF db_of_wf] last_saved_snoc)
  next
    case Reset_For_Lab
    then show ?thesis by (simp add: db_of_snoc apply_db_op_def load_reset last_saved_snoc)
    qed (use snoc in \<open>simp_all add: db_of_snoc last_saved_snoc load_cong [OF op_keeps_sessions]\<close>)
qed

end
