(* ===== verification/Vault.thy ===== *)
theory Vault
  imports Memory_Facts
begin

text \<open>
  \<open>src/knowledge/vault.rs\<close> and \<open>src/knowledge/extractor.rs\<close>: knowledge kept as lines of one Markdown
  file per category, without duplicates. The vault is the contents of its files by the name of the
  category. The hasher and the time stamp are arguments, and so are the compiled regular expressions
  of the extractor. Failures of the file system and the pages of concepts are left out.
\<close>

section \<open>Categories\<close>

datatype stock_category = Decision | Fact | Preference | Pattern | Insight_Stock | Todo

record stock_entry =
  stk_category :: stock_category
  stk_content :: string
  stk_source :: string

definition category_str :: "stock_category \<Rightarrow> string" where
  "category_str c =
    (case c of Decision \<Rightarrow> ''decisions'' | Fact \<Rightarrow> ''facts'' | Preference \<Rightarrow> ''preferences''
     | Pattern \<Rightarrow> ''patterns'' | Insight_Stock \<Rightarrow> ''insights'' | Todo \<Rightarrow> ''todos'')"

definition is_rule :: "stock_category \<Rightarrow> bool" where
  "is_rule c = (c = Decision \<or> c = Pattern)"

definition all_categories :: "stock_category list" where
  "all_categories = [Decision, Fact, Preference, Pattern, Insight_Stock, Todo]"

definition docs_for_task_context :: "string \<Rightarrow> stock_category list" where
  "docs_for_task_context ctx =
    (let has = (\<lambda>ks. list_ex (str_contains (to_lowercase ctx)) ks)
     in (if has [k_spec, k_constraint, ''spec'', ''fact'', k_info] then [Fact] else [])
        @ (if has [k_settings, k_liking, ''config'', ''prefer'', k_style] then [Preference] else [])
        @ (if has [k_why, k_cause, ''debug'', k_problem, k_error_ja, k_learn] then [Insight_Stock] else [])
        @ (if has [''todo'', k_do, k_next, k_rest, k_plan] then [Todo] else []))"

text \<open>The extractor asks each list of expressions in turn.\<close>

record stock_patterns =
  sp_decision :: "string \<Rightarrow> bool"
  sp_todo :: "string \<Rightarrow> bool"
  sp_insight :: "string \<Rightarrow> bool"
  sp_preference :: "string \<Rightarrow> bool"
  sp_fact :: "string \<Rightarrow> bool"

definition extract_stock :: "stock_patterns \<Rightarrow> string \<Rightarrow> string \<Rightarrow> stock_entry list" where
  "extract_stock p message source =
    (if length message < 10 then []
     else map (\<lambda>(m, c). \<lparr>stk_category = c, stk_content = message, stk_source = source\<rparr>)
       (filter (\<lambda>(m, c). m message)
         [(sp_decision p, Decision), (sp_todo p, Todo), (sp_insight p, Insight_Stock),
          (sp_preference p, Preference), (sp_fact p, Fact)]))"

section \<open>The files\<close>

type_synonym vault = "(string, string) hashmap"

definition heading :: "string \<Rightarrow> string" where
  "heading cat = ''# '' @
    (if cat = ''decisions'' then ''Decisions'' else if cat = ''facts'' then ''Facts''
     else if cat = ''preferences'' then ''Preferences'' else if cat = ''patterns'' then ''Patterns''
     else if cat = ''insights'' then ''Insights'' else ''Todos'') @ nl @ nl"

definition vault_new :: "vault \<Rightarrow> vault" where
  "vault_new v =
    fold (\<lambda>c v. let cat = category_str c in if hm_get v cat = None then hm_insert cat (heading cat) v else v)
      all_categories v"

definition read_category :: "stock_category \<Rightarrow> vault \<Rightarrow> string" where
  "read_category c v = (case hm_get v (category_str c) of None \<Rightarrow> [] | Some t \<Rightarrow> t)"

definition normalized_content_hash :: "byte_hasher \<Rightarrow> string \<Rightarrow> 64 word" where
  "normalized_content_hash H text' = H (join '' '' (split_whitespace text') @ [str_end])"

text \<open>The body of a line: what follows the mark of a list and, if there is one, the first bracket.\<close>

definition entry_body :: "string \<Rightarrow> string" where
  "entry_body line =
    (let trimmed = trim line
     in case strip_prefix ''- '' trimmed of
          None \<Rightarrow> trimmed
        | Some rest \<Rightarrow> (case str_find rest ''] '' of None \<Rightarrow> rest | Some i \<Rightarrow> drop (i + 2) rest))"

definition clean_entry :: "string \<Rightarrow> string" where
  "clean_entry s = trim (map (\<lambda>c. if c = CHR 0x0A then CHR '' '' else c) s)"

definition is_stocked :: "byte_hasher \<Rightarrow> string \<Rightarrow> string \<Rightarrow> bool" where
  "is_stocked H clean content =
    list_ex (\<lambda>l. normalized_content_hash H (entry_body l)
        \<in> {normalized_content_hash H clean, normalized_content_hash H (take_chars 200 clean)})
      (str_lines content)"

definition stock_line :: "string \<Rightarrow> string \<Rightarrow> string" where
  "stock_line stamp clean = nl @ ''- ['' @ stamp @ ''] '' @ take_chars 200 clean @ nl"

definition append_text :: "byte_hasher \<Rightarrow> string \<Rightarrow> string \<Rightarrow> string \<Rightarrow> string" where
  "append_text H stamp entry content =
    (let clean = clean_entry entry
     in if clean = [] \<or> is_stocked H clean content then content else content @ stock_line stamp clean)"

definition vault_append :: "byte_hasher \<Rightarrow> string \<Rightarrow> stock_entry \<Rightarrow> vault \<Rightarrow> vault" where
  "vault_append H stamp e v =
    (let old = read_category (stk_category e) v; new = append_text H stamp (stk_content e) old
     in if new = old then v else hm_insert (category_str (stk_category e)) new v)"

definition append_all :: "byte_hasher \<Rightarrow> string \<Rightarrow> stock_entry list \<Rightarrow> vault \<Rightarrow> nat \<times> vault" where
  "append_all H stamp es v = (length es, fold (vault_append H stamp) es v)"

definition entry_lines :: "string \<Rightarrow> string list" where
  "entry_lines content = filter (\<lambda>l. starts_with l ''- ['') (str_lines content)"

definition vault_summary :: "vault \<Rightarrow> string" where
  "vault_summary v =
    ''# Knowledge Vault'' @ nl @ nl
    @ concat (map (\<lambda>c. ''- **'' @ category_str c @ ''**: ''
        @ show_nat (length (entry_lines (read_category c v))) @ '' entries'' @ nl) all_categories)"

definition read_rules :: "nat \<Rightarrow> vault \<Rightarrow> string list" where
  "read_rules n v =
    concat (map (\<lambda>c. take n (rev (entry_lines (read_category c v)))) (filter is_rule all_categories))"

definition read_docs_for_context :: "string \<Rightarrow> nat \<Rightarrow> vault \<Rightarrow> string list" where
  "read_docs_for_context ctx n v =
    concat (map (\<lambda>c. take n (rev (entry_lines (read_category c v)))) (docs_for_task_context ctx))"

definition record_to_graph :: "stock_entry \<Rightarrow> graph \<Rightarrow> graph option" where
  "record_to_graph e g =
    (case add_node ''vault_category'' (category_str (stk_category e)) g of
       (cat_id, g) \<Rightarrow> (case add_node ''vault_entry'' (take_chars 60 (stk_content e)) g of
         (entry_id, g) \<Rightarrow> (case add_edge cat_id entry_id ''contains'' 1 g of
           None \<Rightarrow> None
         | Some g \<Rightarrow>
             (if stk_source e = [] then Some g
              else (case add_node ''source'' (stk_source e) g of
                (source_id, g) \<Rightarrow> add_edge source_id entry_id ''extracted_from'' 1 g)))))"

end
