(* ===== verification/Sensors.thy ===== *)
theory Sensors
  imports Vault Safety Std_Path
begin

text \<open>
  \<open>src/agent/sensors\<close>: the sensors that watch files, idle time and the active application, the hub that
  starts them, and the handler that turns their events into experiences. A sensor is the loop over what
  it observes at each poll until it is cancelled; the hub merges the events of the sensors in the order
  of some schedule. Instants and durations are nanoseconds. The images of the graph
  (\<open>VisualizationSink\<close>) are rendered by an argument that may fail.
\<close>

section \<open>Events\<close>

datatype sensor_event =
    User_Message string
  | File_Added string string
  | Idle_Started int
  | Idle_Ended nat
  | Window_Changed string string

section \<open>Files\<close>

text \<open>A listing pairs a path with whether it is a file; \<open>None\<close>: the directory cannot be read.\<close>

type_synonym listing = "(string \<times> bool) list option"

fun scan_entries :: "(string \<times> bool) list \<Rightarrow> string list \<Rightarrow> string list \<times> string list" where
  "scan_entries [] known = ([], known)"
| "scan_entries ((p, is_file) # es) known =
    (if is_file \<and> p \<notin> set known
     then (case scan_entries es (known @ [p]) of
       (new, known') \<Rightarrow> (if is_path_safe p then p # new else new, known'))
     else scan_entries es known)"

definition scan_new_files :: "listing \<Rightarrow> string list \<Rightarrow> string list \<times> string list" where
  "scan_new_files l known = (case l of None \<Rightarrow> ([], known) | Some es \<Rightarrow> scan_entries es known)"

text \<open>\<open>alive n\<close>: the receiver takes the event sent after \<open>n\<close> others.\<close>

fun send_files :: "(nat \<Rightarrow> bool) \<Rightarrow> string \<Rightarrow> string list \<Rightarrow> sensor_event list \<Rightarrow> bool \<times> sensor_event list" where
  "send_files alive name [] sent = (True, sent)"
| "send_files alive name (p # ps) sent =
    (if alive (length sent) then send_files alive name ps (sent @ [File_Added p name]) else (False, sent))"

fun watch_polls :: "(nat \<Rightarrow> bool) \<Rightarrow> string \<Rightarrow> listing list \<Rightarrow> string list \<Rightarrow> sensor_event list \<Rightarrow> sensor_event list" where
  "watch_polls alive name [] known sent = sent"
| "watch_polls alive name (l # ls) known sent =
    (case scan_new_files l known of
       (new, known') \<Rightarrow> (case send_files alive name new sent of
         (True, sent') \<Rightarrow> watch_polls alive name ls known' sent'
       | (False, sent') \<Rightarrow> sent'))"

definition file_watch_run :: "(nat \<Rightarrow> bool) \<Rightarrow> string \<Rightarrow> listing \<Rightarrow> listing list \<Rightarrow> sensor_event list" where
  "file_watch_run alive name first polls = watch_polls alive name polls (snd (scan_new_files first [])) []"

section \<open>Idle time\<close>

definition evaluate_idle_transition :: "nat \<Rightarrow> nat \<Rightarrow> nat \<Rightarrow> bool \<Rightarrow> sensor_event option \<times> bool" where
  "evaluate_idle_transition threshold idle now was_idle =
    (let is_now_idle = (threshold \<le> idle)
     in if is_now_idle \<and> \<not> was_idle then (Some (Idle_Started (int now - int idle)), True)
        else if \<not> is_now_idle \<and> was_idle then (Some (Idle_Ended idle), False)
        else (None, was_idle))"

text \<open>The loop over the clock at each poll. The idle time it looks at is always zero.\<close>

fun idle_polls :: "(nat \<Rightarrow> bool) \<Rightarrow> nat \<Rightarrow> nat list \<Rightarrow> bool \<Rightarrow> sensor_event list \<Rightarrow> sensor_event list" where
  "idle_polls alive threshold [] was_idle sent = sent"
| "idle_polls alive threshold (now # ts) was_idle sent =
    (case evaluate_idle_transition threshold 0 now was_idle of
       (None, was_idle') \<Rightarrow> idle_polls alive threshold ts was_idle' sent
     | (Some ev, was_idle') \<Rightarrow>
         (if alive (length sent) then idle_polls alive threshold ts was_idle' (sent @ [ev]) else sent))"

definition idle_run :: "(nat \<Rightarrow> bool) \<Rightarrow> nat \<Rightarrow> nat list \<Rightarrow> sensor_event list" where
  "idle_run alive threshold ts = idle_polls alive threshold ts False []"

section \<open>The active application\<close>

text \<open>A denylist is made from the custom entries alone.\<close>

record window_sensor =
  ws_cooldown :: nat
  ws_custom_denylist :: "string list"

record window_state =
  wn_last_app :: "string option"
  wn_last_emit :: "(string, nat) hashmap"

definition window_start :: window_state where
  "window_start = \<lparr>wn_last_app = None, wn_last_emit = []\<rparr>"

definition evaluate_event ::
    "window_sensor \<Rightarrow> string \<Rightarrow> string \<Rightarrow> nat \<Rightarrow> window_state \<Rightarrow> sensor_event option \<times> window_state" where
  "evaluate_event w app title now s =
    (if app_is_blocked (app_denylist (ws_custom_denylist w)) app then (None, s)
     else if \<not> is_window_title_safe title then (None, s)
     else if wn_last_app s = Some app then (None, s)
     else if (case hm_get (wn_last_emit s) app of None \<Rightarrow> False | Some t \<Rightarrow> now - t < ws_cooldown w) then (None, s)
     else (Some (Window_Changed app title),
           \<lparr>wn_last_app = Some app, wn_last_emit = hm_insert app now (wn_last_emit s)\<rparr>))"

text \<open>A poll sees the active application, if the provider answers, and the clock. A failed sending is
  ignored, so the loop goes on; \<open>alive\<close> says which events arrive.\<close>

fun window_polls ::
    "window_sensor \<Rightarrow> ((string \<times> string) option \<times> nat) list \<Rightarrow> window_state \<Rightarrow> sensor_event list" where
  "window_polls w [] s = []"
| "window_polls w ((None, now) # ps) s = window_polls w ps s"
| "window_polls w ((Some (app, title), now) # ps) s =
    (case evaluate_event w app title now s of
       (None, s') \<Rightarrow> window_polls w ps s'
     | (Some ev, s') \<Rightarrow> ev # window_polls w ps s')"

section \<open>The hub\<close>

datatype permission_state = Granted | Denied | Not_Requested

text \<open>The variable overrides what the operating system says.\<close>

definition check_accessibility_permission :: "(string \<Rightarrow> string option) \<Rightarrow> permission_state \<Rightarrow> permission_state" where
  "check_accessibility_permission env os =
    (case env ''BONSAI_MOCK_ACCESSIBILITY'' of
       None \<Rightarrow> os
     | Some v \<Rightarrow> (let l = to_lowercase v
         in if l \<in> {''granted'', ''1'', ''true''} then Granted
            else if l \<in> {''denied'', ''0'', ''false''} then Denied else Not_Requested))"

datatype sensor =
    File_Watch "nat \<Rightarrow> bool" string listing "listing list"
  | Idle "nat \<Rightarrow> bool" nat "nat list"
  | Window window_sensor "((string \<times> string) option \<times> nat) list"

definition requires_permission :: "sensor \<Rightarrow> bool" where
  "requires_permission s = (case s of Window w ps \<Rightarrow> True | _ \<Rightarrow> False)"

definition sensor_run :: "sensor \<Rightarrow> sensor_event list" where
  "sensor_run s =
    (case s of
       File_Watch alive name first polls \<Rightarrow> file_watch_run alive name first polls
     | Idle alive threshold ts \<Rightarrow> idle_run alive threshold ts
     | Window w ps \<Rightarrow> window_polls w ps window_start)"

definition spawned :: "permission_state \<Rightarrow> sensor list \<Rightarrow> sensor list" where
  "spawned perm ss = filter (\<lambda>s. \<not> requires_permission s \<or> perm = Granted) ss"

text \<open>The channel delivers the events of each sensor in order; \<open>sched\<close> names the sensor whose next
  event comes next.\<close>

fun merge_by :: "nat list \<Rightarrow> 'a list list \<Rightarrow> 'a list" where
  "merge_by [] xss = []"
| "merge_by (i # is) xss =
    (if i < length xss \<and> xss ! i \<noteq> []
     then hd (xss ! i) # merge_by is (xss[i := tl (xss ! i)])
     else merge_by is xss)"

definition hub_events :: "permission_state \<Rightarrow> sensor list \<Rightarrow> nat list \<Rightarrow> sensor_event list" where
  "hub_events perm ss sched = merge_by sched (map sensor_run (spawned perm ss))"

section \<open>The handler\<close>

definition insight :: "string \<Rightarrow> string \<Rightarrow> string \<Rightarrow> string \<Rightarrow> record_params" where
  "insight ctx action outcome lesson =
    \<lparr>rp_exp_type = Insight, rp_task_context = ctx, rp_action = action, rp_outcome = outcome,
     rp_lesson = Some lesson, rp_tool_name = None, rp_error_type = None, rp_error_detail = None\<rparr>"

definition shown_file_name :: "string \<Rightarrow> string" where
  "shown_file_name path = (case file_name (path_components path) of None \<Rightarrow> ''unknown_file'' | Some n \<Rightarrow> n)"

definition event_log :: "sensor_event \<Rightarrow> string" where
  "event_log ev =
    (case ev of
       File_Added path name \<Rightarrow> ''['' @ name @ ''] '' @ m_file_seen @ shown_file_name path
     | Idle_Started t \<Rightarrow> m_idle_log
     | Idle_Ended d \<Rightarrow> m_back_log_1 @ show_nat (d div 10 ^ 9) @ m_back_log_2
     | Window_Changed app title \<Rightarrow> m_app_log @ app
     | User_Message msg \<Rightarrow> m_input_log @ msg)"

definition event_experience :: "sensor_event \<Rightarrow> record_params option" where
  "event_experience ev =
    (case ev of
       File_Added path name \<Rightarrow> Some (insight ''external_sensor:file_watch'' ''file_modified''
         (m_file_seen @ shown_file_name path @ '' ('' @ name @ '')'') ''file_changed_in_workspace'')
     | Idle_Started t \<Rightarrow> Some (insight ''external_sensor:idle'' ''user_idle_started'' m_idle_outcome ''idle_state_active'')
     | Idle_Ended d \<Rightarrow> Some (insight ''external_sensor:idle'' ''user_idle_ended''
         (m_back_1 @ show_nat (d div 10 ^ 9) @ m_back_2) ''user_returned'')
     | Window_Changed app title \<Rightarrow> Some (insight ''external_sensor:window_focus'' ''app_switched''
         (m_app_1 @ app @ m_app_2) ''context_switched'')
     | User_Message msg \<Rightarrow> None)"

record visualization_sink =
  vs_min_interval :: nat
  vs_last_updated :: "nat option"
  vs_update_count :: nat

definition notify_change :: "bool \<Rightarrow> nat \<Rightarrow> visualization_sink \<Rightarrow> bool option \<times> visualization_sink" where
  "notify_change rendered now v =
    (if (case vs_last_updated v of None \<Rightarrow> False | Some prev \<Rightarrow> now - prev < vs_min_interval v) then (Some False, v)
     else if \<not> rendered then (None, v)
     else (Some True, v\<lparr>vs_last_updated := Some now, vs_update_count := vs_update_count v + 1\<rparr>))"

definition force_sync :: "bool \<Rightarrow> nat \<Rightarrow> visualization_sink \<Rightarrow> bool \<times> visualization_sink" where
  "force_sync rendered now v =
    (if \<not> rendered then (False, v)
     else (True, v\<lparr>vs_last_updated := Some now, vs_update_count := vs_update_count v + 1\<rparr>))"

text \<open>The handler: a line of the log, the experience when there is a store, and the sink.\<close>

record handler_state =
  hs_log :: "string list"
  hs_experiences :: "experience_row table option"
  hs_sink :: "visualization_sink option"

definition handle_event :: "string \<Rightarrow> bool \<Rightarrow> nat \<Rightarrow> sensor_event \<Rightarrow> handler_state \<Rightarrow> handler_state" where
  "handle_event utc rendered now ev s =
    (let s = s\<lparr>hs_log := hs_log s @ [event_log ev]\<rparr>;
         s = (case (hs_experiences s, event_experience ev) of
                (Some tb, Some x) \<Rightarrow> s\<lparr>hs_experiences := Some (snd (xs_record utc x tb))\<rparr>
              | _ \<Rightarrow> s)
     in case (hs_sink s, hs_experiences s) of
          (Some v, Some tb) \<Rightarrow> s\<lparr>hs_sink := Some (snd (notify_change rendered now v))\<rparr>
        | _ \<Rightarrow> s)"

fun handle_events :: "(string \<times> bool \<times> nat) list \<Rightarrow> sensor_event list \<Rightarrow> handler_state \<Rightarrow> handler_state" where
  "handle_events clock [] s = s"
| "handle_events [] (ev # evs) s = s"
| "handle_events ((utc, rendered, now) # clock) (ev # evs) s =
    handle_events clock evs (handle_event utc rendered now ev s)"

section \<open>What may be disclosed\<close>

definition disclosable :: "sensor_event \<Rightarrow> bool" where
  "disclosable ev =
    (case ev of
       File_Added path name \<Rightarrow> is_path_safe path
     | Window_Changed app title \<Rightarrow> \<not> app_is_blocked (app_denylist []) app \<and> is_window_title_safe title
     | _ \<Rightarrow> True)"

text \<open>Replace every title by one that only tells whether it is safe.\<close>

definition hide_title :: "string \<Rightarrow> string" where
  "hide_title title = (if is_window_title_safe title then [] else ''password'')"

definition hide_titles :: "sensor \<Rightarrow> sensor" where
  "hide_titles s =
    (case s of
       Window w ps \<Rightarrow> Window w (map (\<lambda>(o', now). (map_option (\<lambda>(app, title). (app, hide_title title)) o', now)) ps)
     | _ \<Rightarrow> s)"

definition hide_event :: "sensor_event \<Rightarrow> sensor_event" where
  "hide_event ev = (case ev of Window_Changed app title \<Rightarrow> Window_Changed app (hide_title title) | _ \<Rightarrow> ev)"

section \<open>Lemmas\<close>

lemma hide_title_safe [simp]: "is_window_title_safe (hide_title title) = is_window_title_safe title"
proof -
  have "is_window_title_safe []" by code_simp
  moreover have "\<not> is_window_title_safe ''password''" by code_simp
  ultimately show ?thesis by (simp add: hide_title_def)
qed

lemma denylist_custom: "set (app_denylist []) \<subseteq> set (app_denylist custom)"
proof -
  have "set xs \<subseteq> set (fold (\<lambda>item list. let lower = to_lowercase (trim item)
      in if lower \<noteq> [] \<and> lower \<notin> set list then list @ [lower] else list) custom xs)" for xs
  proof (induction custom arbitrary: xs)
    case (Cons item custom)
    let ?f = "\<lambda>item list. let lower = to_lowercase (trim item)
      in if lower \<noteq> [] \<and> lower \<notin> set list then list @ [lower] else list"
    have "set xs \<subseteq> set (?f item xs)" by (auto simp: Let_def)
    then show ?case using Cons.IH [of "?f item xs"] by simp
  qed simp
  then show ?thesis unfolding app_denylist_def fold_simps by (simp only:)
qed

lemma blocked_custom: "app_is_blocked (app_denylist []) app \<Longrightarrow> app_is_blocked (app_denylist custom) app"
  using denylist_custom [of custom] by (auto simp: app_is_blocked_def list_ex_iff)

lemma window_events:
  "list_all (\<lambda>ev. disclosable ev \<and> (case ev of Window_Changed a t \<Rightarrow> True | _ \<Rightarrow> False)) (window_polls w ps s)"
proof (induction w ps s rule: window_polls.induct)
  case (3 w app title now ps s)
  show ?case
  proof (cases "evaluate_event w app title now s")
    case (Pair r s')
    then show ?thesis using 3 blocked_custom [of app "ws_custom_denylist w"]
      by (cases r) (auto simp: evaluate_event_def disclosable_def split: if_splits)
  qed
qed auto

lemma evaluate_event_hide:
  "evaluate_event w app (hide_title title) now s = map_prod (map_option hide_event) (\<lambda>s. s) (evaluate_event w app title now s)"
  by (simp add: evaluate_event_def hide_event_def)

lemma window_polls_hide:
  "window_polls w (map (\<lambda>(o', now). (map_option (\<lambda>(app, title). (app, hide_title title)) o', now)) ps) s
    = map hide_event (window_polls w ps s)"
proof (induction w ps s rule: window_polls.induct)
  case (3 w app title now ps s)
  then show ?case
    by (cases "evaluate_event w app title now s"; cases "fst (evaluate_event w app title now s)")
      (auto simp: evaluate_event_hide)
qed auto

lemma scan_entries_new:
  "scan_entries es known = (new, known') \<Longrightarrow>
    distinct new \<and> set new \<inter> set known = {} \<and> set new \<union> set known \<subseteq> set known' \<and> list_all is_path_safe new
    \<and> set new \<subseteq> fst ` {e \<in> set es. snd e}"
proof (induction es known arbitrary: new known' rule: scan_entries.induct)
  case (2 p is_file es known)
  show ?case
  proof (cases "is_file \<and> p \<notin> set known")
    case True
    obtain new1 where "scan_entries es (known @ [p]) = (new1, known')" "new = (if is_path_safe p then p # new1 else new1)"
      using 2(3) True by (cases "scan_entries es (known @ [p])") simp
    with 2(1) [OF True this(1)] True show ?thesis by (cases "is_path_safe p") force+
  next
    case False
    with 2 show ?thesis by fastforce
  qed
qed simp

fun event_path :: "sensor_event \<Rightarrow> string" where
  "event_path (File_Added p n) = p"
| "event_path ev = []"

lemma send_files_eq: "\<exists>k. snd (send_files alive name ps sent) = sent @ map (\<lambda>p. File_Added p name) (take k ps)
    \<and> (fst (send_files alive name ps sent) \<longrightarrow> k = length ps)"
proof (induction ps arbitrary: sent)
  case (Cons p ps)
  show ?case
  proof (cases "alive (length sent)")
    case True
    obtain k where "snd (send_files alive name ps (sent @ [File_Added p name]))
        = (sent @ [File_Added p name]) @ map (\<lambda>p. File_Added p name) (take k ps)"
      "fst (send_files alive name ps (sent @ [File_Added p name])) \<longrightarrow> k = length ps"
      using Cons.IH by blast
    with True show ?thesis by (auto intro!: exI [of _ "Suc k"])
  next
    case False
    then show ?thesis by (auto intro!: exI [of _ 0])
  qed
qed simp

text \<open>What has been sent so far: new safe paths, each once, all known by now.\<close>

definition sent_ok :: "string list \<Rightarrow> string list \<Rightarrow> (string \<times> bool) list \<Rightarrow> sensor_event list \<Rightarrow> bool" where
  "sent_ok old known seen sent =
    (list_all (\<lambda>ev. \<exists>p n. ev = File_Added p n) sent \<and> distinct (map event_path sent)
     \<and> list_all is_path_safe (map event_path sent)
     \<and> set (map event_path sent) \<subseteq> fst ` {e \<in> set seen. snd e} - set old
     \<and> set old \<union> set (map event_path sent) \<subseteq> set known)"

definition listed :: "listing list \<Rightarrow> (string \<times> bool) list" where
  "listed ls = concat (map (\<lambda>l. case l of None \<Rightarrow> [] | Some es \<Rightarrow> es) ls)"

lemma listed_simps [simp]: "listed [] = []" "listed (l # ls) = (case l of None \<Rightarrow> [] | Some es \<Rightarrow> es) @ listed ls"
  by (simp_all add: listed_def)

lemma new_paths:
  "M \<subseteq> F - Old \<Longrightarrow> Old \<union> M \<subseteq> K \<Longrightarrow> X \<subseteq> N \<Longrightarrow> N \<inter> K = {} \<Longrightarrow> N \<subseteq> F' \<Longrightarrow> M \<union> X \<subseteq> (F \<union> F') - Old"
  by blast

lemma watch_polls_ok:
  "sent_ok old known seen sent \<Longrightarrow>
    \<exists>known'. sent_ok old known' (seen @ listed ls) (watch_polls alive name ls known sent)"
proof (induction ls arbitrary: known seen sent)
  case Nil
  then show ?case by auto
next
  case (Cons l ls)
  obtain new known1 where scan: "scan_new_files l known = (new, known1)" by fastforce
  obtain ok sent1 where send: "send_files alive name new sent = (ok, sent1)" by fastforce
  let ?es = "case l of None \<Rightarrow> [] | Some es \<Rightarrow> es"
  have new: "distinct new" "set new \<inter> set known = {}" "set new \<union> set known \<subseteq> set known1" "list_all is_path_safe new"
    "set new \<subseteq> fst ` {e \<in> set ?es. snd e}"
    using scan scan_entries_new [of ?es known new known1]
    by (auto simp: scan_new_files_def split: option.splits)
  obtain k where k: "sent1 = sent @ map (\<lambda>p. File_Added p name) (take k new)"
    using send_files_eq [of alive name new sent] send by auto
  let ?more = "take k new"
  have more: "set ?more \<subseteq> set new" "distinct ?more" using new(1) by (auto dest: in_set_takeD)
  have old: "set (map event_path sent) \<subseteq> fst ` {e \<in> set seen. snd e} - set old"
      "set old \<union> set (map event_path sent) \<subseteq> set known" "distinct (map event_path sent)"
      "list_all is_path_safe (map event_path sent)" "list_all (\<lambda>ev. \<exists>p n. ev = File_Added p n) sent"
    using Cons.prems by (simp_all add: sent_ok_def)
  have paths: "map event_path sent1 = map event_path sent @ ?more" by (simp add: k o_def)
  have "fst ` {e \<in> set seen. snd e} \<union> fst ` {e \<in> set ?es. snd e} = fst ` {e \<in> set (seen @ ?es). snd e}" by auto
  then have "set (map event_path sent @ ?more) \<subseteq> fst ` {e \<in> set (seen @ ?es). snd e} - set old"
    using new_paths [OF old(1,2) more(1) new(2,5)] by (simp only: set_append)
  moreover have "set old \<union> set (map event_path sent @ ?more) \<subseteq> set known1"
    using Un_mono [OF old(2) more(1)] new(3) by (simp only: set_append) (metis (no_types, lifting) Un_assoc Un_commute order_trans)
  moreover have "distinct (map event_path sent @ ?more)"
    using old(2,3) more new(2) unfolding distinct_append by (intro conjI) (simp_all, blast)
  moreover have "list_all is_path_safe (map event_path sent @ ?more)"
    using old(4) more(1) new(4) by (auto simp: list_all_iff)
  moreover have "list_all (\<lambda>ev. \<exists>p n. ev = File_Added p n) sent1" using old(5) by (auto simp: k list_all_iff)
  ultimately have ok1: "sent_ok old known1 (seen @ ?es) sent1" unfolding sent_ok_def paths by blast
  show ?case
  proof (cases ok)
    case True
    from Cons.IH [OF ok1] scan send True show ?thesis
      by (cases l) (auto simp: scan_new_files_def)
  next
    case False
    have "sent_ok old known1 (seen @ listed (l # ls)) sent1"
      using ok1 by (cases l) (auto simp: sent_ok_def)
    then show ?thesis using scan send False by auto
  qed
qed

lemma file_watch_ok:
  "\<exists>known. sent_ok (snd (scan_new_files first [])) known (listed polls) (file_watch_run alive name first polls)"
  using watch_polls_ok [of "snd (scan_new_files first [])" "snd (scan_new_files first [])" "[]" "[]" polls alive name]
  by (auto simp: file_watch_run_def sent_ok_def)

lemma merge_by_map: "merge_by sched (map (map f) xss) = map f (merge_by sched xss)"
proof (induction sched arbitrary: xss)
  case (Cons i sched)
  show ?case
  proof (cases "i < length xss \<and> xss ! i \<noteq> []")
    case True
    have "(map (map f) xss)[i := tl (map (map f) xss ! i)] = map (map f) (xss[i := tl (xss ! i)])"
      using True by (simp add: map_update map_tl)
    with True Cons.IH [of "xss[i := tl (xss ! i)]"] show ?thesis by (simp add: hd_map)
  qed (use Cons.IH [of xss] in auto)
qed simp

lemma merge_by_set: "set (merge_by sched xss) \<subseteq> \<Union> (set ` set xss)"
proof (induction sched arbitrary: xss)
  case (Cons i sched)
  show ?case
  proof (cases "i < length xss \<and> xss ! i \<noteq> []")
    case True
    have "set (xss[i := tl (xss ! i)]) \<subseteq> insert (tl (xss ! i)) (set xss)" by (rule set_update_subset_insert)
    moreover have "set (tl (xss ! i)) \<subseteq> set (xss ! i)" by (cases "xss ! i") auto
    ultimately have "\<Union> (set ` set (xss[i := tl (xss ! i)])) \<subseteq> \<Union> (set ` set xss)"
      using True nth_mem [of i xss] by blast
    moreover have "hd (xss ! i) \<in> \<Union> (set ` set xss)" using True nth_mem [of i xss] hd_in_set by blast
    ultimately show ?thesis using Cons.IH [of "xss[i := tl (xss ! i)]"] True by auto
  qed (use Cons.IH in auto)
qed simp

lemma merge_by_all: "(\<And>xs. xs \<in> set xss \<Longrightarrow> list_all P xs) \<Longrightarrow> list_all P (merge_by sched xss)"
  using merge_by_set [of sched xss] by (fastforce simp: list_all_iff)

lemma idle_polls_started: "0 < threshold \<Longrightarrow> idle_polls alive threshold ts False sent = sent"
  by (induction ts arbitrary: sent) (simp_all add: evaluate_idle_transition_def)

lemma idle_polls_idle: "idle_polls alive 0 ts True sent = sent"
  by (induction ts arbitrary: sent) (simp_all add: evaluate_idle_transition_def)

lemma idle_run_eq:
  "idle_run alive threshold ts =
    (if threshold = 0 \<and> ts \<noteq> [] \<and> alive 0 then [Idle_Started (int (hd ts))] else [])"
proof (cases "threshold = 0")
  case True
  then show ?thesis
    by (cases ts) (simp_all add: idle_run_def evaluate_idle_transition_def idle_polls_idle)
qed (simp add: idle_run_def idle_polls_started)

lemma sensor_run_hide: "sensor_run (hide_titles s) = map hide_event (sensor_run s)"
proof (cases s)
  case (File_Watch alive name first polls)
  obtain known where "sent_ok (snd (scan_new_files first [])) known (listed polls)
      (file_watch_run alive name first polls)" using file_watch_ok by blast
  then have "map hide_event (file_watch_run alive name first polls) = file_watch_run alive name first polls"
    by (intro map_idI) (auto simp: sent_ok_def list_all_iff hide_event_def)
  then show ?thesis using File_Watch by (simp add: hide_titles_def sensor_run_def)
next
  case (Idle alive threshold ts)
  then show ?thesis by (simp add: hide_titles_def sensor_run_def idle_run_eq hide_event_def)
next
  case (Window w ps)
  then show ?thesis by (simp add: hide_titles_def sensor_run_def window_polls_hide)
qed

lemma sensor_run_disclosable: "list_all disclosable (sensor_run s)"
proof (cases s)
  case (File_Watch alive name first polls)
  obtain known where "sent_ok (snd (scan_new_files first [])) known (listed polls)
      (file_watch_run alive name first polls)" using file_watch_ok by blast
  then have "list_all disclosable (file_watch_run alive name first polls)"
    by (force simp: sent_ok_def list_all_iff disclosable_def)
  then show ?thesis using File_Watch by (simp add: sensor_run_def)
next
  case (Idle alive threshold ts)
  then show ?thesis by (simp add: sensor_run_def idle_run_eq disclosable_def)
next
  case (Window w ps)
  then show ?thesis using window_events [of w ps window_start] by (auto simp: sensor_run_def list_all_iff)
qed

lemma handle_event_hide: "handle_event utc r now (hide_event ev) s = handle_event utc r now ev s"
proof -
  have "event_log (hide_event ev) = event_log ev" "event_experience (hide_event ev) = event_experience ev"
    by (cases ev; simp add: hide_event_def event_log_def event_experience_def)+
  then show ?thesis by (simp add: handle_event_def)
qed

lemma handle_events_hide: "handle_events clock (map hide_event evs) s = handle_events clock evs s"
  by (induction clock evs s rule: handle_events.induct) (simp_all add: handle_event_hide)

section \<open>Properties\<close>

text \<open>
  C15. What the sensors see of the user's secrets stays with them. Whatever files appear, whatever
  applications and titles are active and however the threads interleave: no event that arrives names a
  file whose path is sensitive, an application of the denylist or a sensitive title; without the
  permission of the operating system no event tells of a window; and everything that is logged and
  recorded is the same as if every title had been replaced by one that only tells whether it is
  sensitive.
\<close>

theorem sensors_keep_secrets:
  "list_all disclosable (hub_events perm ss sched)
   \<and> (if perm = Granted then True
      else list_all (\<lambda>ev. case ev of Window_Changed app title \<Rightarrow> False | _ \<Rightarrow> True) (hub_events perm ss sched))
   \<and> handle_events clock (hub_events perm (map hide_titles ss) sched) s
     = handle_events clock (hub_events perm ss sched) s"
proof (intro conjI)
  show "list_all disclosable (hub_events perm ss sched)"
    unfolding hub_events_def by (rule merge_by_all) (auto simp: sensor_run_disclosable)
  have "list_all (\<lambda>ev. case ev of Window_Changed app title \<Rightarrow> False | _ \<Rightarrow> True) (sensor_run s)"
    if "\<not> requires_permission s" for s
  proof (cases s)
    case (File_Watch alive name first polls)
    then show ?thesis using file_watch_ok [of first polls alive name]
      by (force simp: sensor_run_def sent_ok_def list_all_iff)
  qed (use that in \<open>auto simp: sensor_run_def idle_run_eq requires_permission_def\<close>)
  then have "list_all (\<lambda>ev. case ev of Window_Changed app title \<Rightarrow> False | _ \<Rightarrow> True) xs"
    if "perm \<noteq> Granted" and "xs \<in> set (map sensor_run (spawned perm ss))" for xs
    using that by (auto simp: spawned_def)
  then show "if perm = Granted then True
      else list_all (\<lambda>ev. case ev of Window_Changed app title \<Rightarrow> False | _ \<Rightarrow> True) (hub_events perm ss sched)"
    unfolding hub_events_def using merge_by_all [of "map sensor_run (spawned perm ss)"] by presburger
  have "requires_permission (hide_titles s) = requires_permission s" for s
    by (cases s) (simp_all add: requires_permission_def hide_titles_def)
  then have "spawned perm (map hide_titles ss) = map hide_titles (spawned perm ss)"
    by (simp add: spawned_def filter_map o_def)
  then have "hub_events perm (map hide_titles ss) sched = map hide_event (hub_events perm ss sched)"
    by (simp add: hub_events_def o_def sensor_run_hide flip: merge_by_map)
  then show "handle_events clock (hub_events perm (map hide_titles ss) sched) s
     = handle_events clock (hub_events perm ss sched) s" by (simp add: handle_events_hide)
qed

text \<open>
  C33. The sensor of idle time cannot tell an absence. With a positive threshold it never reports
  anything, however long the user is away, as the idle time it looks at is always zero. And the
  transition it would use reports, when the user comes back, the idle time since the return, always
  below the threshold, although it is recorded as the time the user was away.
\<close>

theorem idle_sensor_reports_no_absence:
  "idle_run alive (Suc threshold) ts = []
   \<and> (case fst (evaluate_idle_transition limit idle now was_idle) of
        Some (Idle_Ended d) \<Rightarrow> d < limit \<and> d = idle | _ \<Rightarrow> True)"
  by (simp add: idle_run_eq evaluate_idle_transition_def Let_def split: option.splits)

lemma scan_entries_known: "set (snd (scan_entries es known)) = set known \<union> fst ` {e \<in> set es. snd e}"
proof (induction es known rule: scan_entries.induct)
  case (2 p is_file es known)
  show ?case
  proof (cases "is_file \<and> p \<notin> set known")
    case True
    have "snd (scan_entries ((p, is_file) # es) known) = snd (scan_entries es (known @ [p]))"
      using True by (simp split: prod.splits)
    with 2(1) [OF True] True show ?thesis by force
  qed (use 2 in force)
qed simp

text \<open>What is left of a list of paths when those of \<open>K\<close> and every one but the first are taken away.\<close>

fun firsts :: "'a set \<Rightarrow> 'a list \<Rightarrow> 'a list" where
  "firsts K [] = []"
| "firsts K (p # ps) = (if p \<in> K then firsts K ps else p # firsts (insert p K) ps)"

lemma firsts_append: "firsts K (ps @ qs) = firsts K ps @ firsts (K \<union> set ps) qs"
  by (induction ps arbitrary: K) (auto simp: insert_absorb)

lemma set_firsts: "set (firsts K ps) = set ps - K"
  by (induction ps arbitrary: K) auto

text \<open>What a receiver takes of a list after \<open>n\<close> others: all before the first it refuses.\<close>

fun accepted :: "(nat \<Rightarrow> bool) \<Rightarrow> nat \<Rightarrow> 'a list \<Rightarrow> 'a list" where
  "accepted alive n [] = []"
| "accepted alive n (x # xs) = (if alive n then x # accepted alive (Suc n) xs else [])"

lemma accepted_all: "(\<And>k. alive k) \<Longrightarrow> accepted alive n xs = xs"
  by (induction xs arbitrary: n) simp_all

lemma accepted_append: "accepted alive n (xs @ ys) =
    accepted alive n xs @ (if accepted alive n xs = xs then accepted alive (n + length xs) ys else [])"
  by (induction xs arbitrary: n) auto

definition files_in :: "(string \<times> bool) list \<Rightarrow> string list" where
  "files_in es = map fst (filter snd es)"

lemma set_files_in: "set (files_in es) = fst ` {e \<in> set es. snd e}"
  by (simp add: files_in_def)

lemma scan_entries_firsts:
  "scan_entries es known = (filter is_path_safe (firsts (set known) (files_in es)),
     known @ firsts (set known) (files_in es))"
  by (induction es known rule: scan_entries.induct) (auto simp: files_in_def split: prod.splits)

lemma send_files_accepted:
  "send_files alive name ps sent = (accepted alive (length sent) ps = ps,
     sent @ map (\<lambda>p. File_Added p name) (accepted alive (length sent) ps))"
  by (induction ps arbitrary: sent) simp_all

lemma watch_polls_eq:
  "watch_polls alive name polls known sent = sent @ map (\<lambda>p. File_Added p name)
     (accepted alive (length sent) (filter is_path_safe (firsts (set known) (files_in (listed polls)))))"
proof (induction polls arbitrary: known sent)
  case (Cons l ls)
  define es where "es = (case l of None \<Rightarrow> [] | Some es \<Rightarrow> es)"
  let ?F = "firsts (set known) (files_in es)"
  have scan: "scan_new_files l known = (filter is_path_safe ?F, known @ ?F)"
    by (cases l) (simp_all add: es_def scan_new_files_def scan_entries_firsts files_in_def)
  have known: "set (known @ ?F) = set known \<union> set (files_in es)" by (auto simp: set_firsts)
  have all: "files_in (listed (l # ls)) = files_in es @ files_in (listed ls)"
    by (cases l) (simp_all add: es_def files_in_def)
  show ?case
    unfolding all watch_polls.simps scan prod.case send_files_accepted
    by (cases "accepted alive (length sent) (filter is_path_safe ?F) = filter is_path_safe ?F")
      (simp_all add: Cons.IH known firsts_append accepted_append del: set_append)
qed (simp add: files_in_def)

text \<open>
  C34. A change of a file goes unnoticed, although every event of the sensor is recorded as one. What the
  sensor tells is exactly new files: it tells the paths that some poll lists as files, in the order in
  which they are first listed, each once, but for the paths that were there when the sensor started and
  those the privacy filter holds back; all of them as long as the receiver takes them, and those before
  the first it refuses otherwise. So a path that was there is never told, however often it is written.
\<close>

theorem file_updates_go_unnoticed:
  "map event_path (file_watch_run alive name first polls)
      = accepted alive 0 (filter is_path_safe (firsts (set (files_in (listed [first]))) (files_in (listed polls))))
   \<and> distinct (map event_path (file_watch_run alive name first polls))
   \<and> set (map event_path (file_watch_run alive name first polls))
      \<subseteq> fst ` {e \<in> set (listed polls). snd e} - fst ` {e \<in> set (listed [first]). snd e}
   \<and> (if (\<forall>n. alive n) then set (map event_path (file_watch_run alive name first polls))
        = {p \<in> fst ` {e \<in> set (listed polls). snd e} - fst ` {e \<in> set (listed [first]). snd e}. is_path_safe p}
      else True)"
proof -
  have start: "set (snd (scan_new_files first [])) = set (files_in (listed [first]))"
    by (cases first) (simp_all add: scan_new_files_def scan_entries_known set_files_in files_in_def)
  have run: "map event_path (file_watch_run alive name first polls)
      = accepted alive 0 (filter is_path_safe (firsts (set (files_in (listed [first]))) (files_in (listed polls))))"
    by (simp add: file_watch_run_def watch_polls_eq start o_def)
  have "distinct (map event_path (file_watch_run alive name first polls))"
    "set (map event_path (file_watch_run alive name first polls))
      \<subseteq> fst ` {e \<in> set (listed polls). snd e} - fst ` {e \<in> set (listed [first]). snd e}"
    using file_watch_ok [of first polls alive name] start by (auto simp: sent_ok_def set_files_in)
  then show ?thesis using run by (auto simp: accepted_all set_firsts set_files_in)
qed

end
