(* ===== verification/Dmn.thy ===== *)
theory Dmn
  imports Sensors Agent_Outcome
begin

text \<open>
  \<open>src/agent/dmn\<close>: spontaneous thought while the user is away. The scheduler gives quasi-random delays,
  the generator makes a reflection of what the store holds, the worker decides in each tick whether
  to dream, to reflect and to speak, and the runner ticks until it is cancelled.

  The clock is a sequence of readings (\<open>clock n\<close> is the answer to the \<open>n\<close>-th question); the worker
  counts how many it has taken. Instants and durations are nanoseconds. The texts of the current time,
  the model behind the generator, the hasher and the JSON encoder are arguments, one per tick.
\<close>

section \<open>The scheduler\<close>

record dmn_scheduler =
  sc_mean :: rat
  sc_min_gap :: rat
  sc_phase :: rat

definition phi :: rat where
  "phi = fl64 (1618033988749895 / 10 ^ 15)"

definition fract :: "rat \<Rightarrow> rat" where
  "fract x = (if x < 0 then - (- x - of_int \<lfloor>- x\<rfloor>) else x - of_int \<lfloor>x\<rfloor>)"

definition scheduler_new :: "rat \<Rightarrow> rat \<Rightarrow> dmn_scheduler" where
  "scheduler_new mean min_gap = \<lparr>sc_mean = mean, sc_min_gap = min_gap, sc_phase = 0\<rparr>"

definition scheduler_with_phase :: "rat \<Rightarrow> rat \<Rightarrow> rat \<Rightarrow> dmn_scheduler" where
  "scheduler_with_phase mean min_gap phase =
    \<lparr>sc_mean = mean, sc_min_gap = min_gap, sc_phase = \<bar>fract phase\<bar>\<rparr>"

text \<open>\<open>Duration::from_secs_f64\<close>: nanoseconds rounded to the nearest; \<open>None\<close> is a panic.\<close>

definition duration_of_secs :: "rat \<Rightarrow> nat option" where
  "duration_of_secs x =
    (if x < 0 then None
     else (let n = nat (round_half_even (x * 10 ^ 9)) in if n div 10 ^ 9 < 2 ^ 64 then Some n else None))"

definition secs_f64 :: "nat \<Rightarrow> rat" where
  "secs_f64 n = fl64 (fl64 (of_nat (n div 10 ^ 9)) + fl64 (fl64 (of_nat (n mod 10 ^ 9)) / 10 ^ 9))"

definition next_delay :: "dmn_scheduler \<Rightarrow> nat option \<times> dmn_scheduler" where
  "next_delay s =
    (let phase = fract (fl64 (sc_phase s + phi));
         span = fl64 (2 * max (fl64 (sc_mean s - sc_min_gap s)) 0);
         delay = fl64 (sc_min_gap s + fl64 (phase * span))
     in (duration_of_secs (max delay (sc_min_gap s)), s\<lparr>sc_phase := phase\<rparr>))"

section \<open>The generator\<close>

text \<open>\<open>ask\<close> is the model, when there is one.\<close>

definition ask_reflection :: "(string \<Rightarrow> string + string) option \<Rightarrow> string \<Rightarrow> string option" where
  "ask_reflection ask prompt =
    (case ask of None \<Rightarrow> None
     | Some f \<Rightarrow> (case f prompt of Inl err \<Rightarrow> None
       | Inr text' \<Rightarrow> if trim text' = [] then None else Some (trim text')))"

definition generate_reflection :: "memory_db option \<Rightarrow> (string \<Rightarrow> string + string) option \<Rightarrow> string \<times> rat" where
  "generate_reflection db ask =
    (case db of
       None \<Rightarrow> (m_no_store, fl64 (1 / 10))
     | Some db \<Rightarrow>
         (let recent = xs_find_similar [] 5 (db_experiences db)
          in case find (\<lambda>e. xp_type e = Failure) recent of
               Some e \<Rightarrow>
                 (let lesson = (case xp_lesson e of None \<Rightarrow> xp_outcome e | Some l \<Rightarrow> l)
                  in case ask_reflection ask (m_reflect_1 @ xp_task_context e @ m_reflect_2 @ xp_outcome e
                            @ m_reflect_3 @ lesson @ m_reflect_4) of
                       Some t \<Rightarrow> (t, fl64 (85 / 100))
                     | None \<Rightarrow> (m_reflect_rule_1 @ xp_task_context e @ m_reflect_rule_2 @ lesson @ m_reflect_rule_3,
                                fl64 (85 / 100)))
             | None \<Rightarrow>
                 (case find (\<lambda>e. starts_with (xp_task_context e) ''external_sensor:'') recent of
                    Some e \<Rightarrow>
                      (case ask_reflection ask (m_sense_1 @ xp_outcome e @ m_sense_2) of
                         Some t \<Rightarrow> (t, fl64 (75 / 100))
                       | None \<Rightarrow> (m_sense_rule_1 @ xp_outcome e @ m_sense_rule_2, fl64 (75 / 100)))
                  | None \<Rightarrow> (m_all_well, fl64 (40 / 100)))))"

section \<open>The worker\<close>

datatype dmn_outcome =
    Skipped_Busy
  | Skipped_Not_Due
  | Silent_Reflection string
  | Spoken_Reflection string string

record dmn_worker =
  dw_scheduler :: dmn_scheduler
  dw_speak_threshold :: rat
  dw_last_tick :: nat
  dw_current_delay :: nat
  dw_has_vault :: bool
  dw_idle_since :: "nat option"
  dw_dream_threshold :: "rat option"
  dw_last_dreamed :: "nat option"
  dw_auto_persist :: bool
  dw_reads :: nat

text \<open>What the worker writes to.\<close>

record mind =
  md_store :: "memory_db option"
  md_vault :: vault

record tick_env =
  te_utc :: string
  te_cutoff :: string
  te_stamp :: string
  te_vault_ok :: bool
  te_hash :: byte_hasher
  te_encode :: "json \<Rightarrow> string"
  te_ask :: "(string \<Rightarrow> string + string) option"

definition take_reading :: "(nat \<Rightarrow> nat) \<Rightarrow> dmn_worker \<Rightarrow> nat \<times> dmn_worker" where
  "take_reading clock w = (clock (dw_reads w), w\<lparr>dw_reads := dw_reads w + 1\<rparr>)"

text \<open>\<open>None\<close>: the delay panics.\<close>

definition worker_new :: "(nat \<Rightarrow> nat) \<Rightarrow> rat \<Rightarrow> rat \<Rightarrow> rat \<Rightarrow> dmn_worker option" where
  "worker_new clock mean min_gap speak =
    (case next_delay (scheduler_new mean min_gap) of
       (None, s) \<Rightarrow> None
     | (Some d, s) \<Rightarrow> Some
         \<lparr>dw_scheduler = s, dw_speak_threshold = speak, dw_last_tick = clock 0, dw_current_delay = d,
          dw_has_vault = False, dw_idle_since = None, dw_dream_threshold = None, dw_last_dreamed = None,
          dw_auto_persist = False, dw_reads = 1\<rparr>)"

definition with_vault :: "dmn_worker \<Rightarrow> dmn_worker" where
  "with_vault w = w\<lparr>dw_has_vault := True\<rparr>"

definition with_dream_threshold :: "rat \<Rightarrow> dmn_worker \<Rightarrow> dmn_worker" where
  "with_dream_threshold secs w = w\<lparr>dw_dream_threshold := Some secs\<rparr>"

definition with_auto_persist :: "bool \<Rightarrow> dmn_worker \<Rightarrow> dmn_worker" where
  "with_auto_persist b w = w\<lparr>dw_auto_persist := b\<rparr>"

definition record_insight :: "tick_env \<Rightarrow> string \<Rightarrow> string \<Rightarrow> string \<Rightarrow> string \<Rightarrow> memory_db \<Rightarrow> memory_db" where
  "record_insight t ctx action outcome lesson db =
    db\<lparr>db_experiences := snd (xs_record (te_utc t) (insight ctx action outcome lesson) (db_experiences db))\<rparr>"

definition trigger_deep_dream :: "tick_env \<Rightarrow> dmn_worker \<Rightarrow> memory_db \<Rightarrow> mind \<Rightarrow> mind" where
  "trigger_deep_dream t w db m =
    (if \<not> dw_auto_persist w then m
     else (let insights = dm_insights (generate_report (te_utc t) (te_cutoff t) (length (tb_rows (db_skills db))) (db_experiences db));
               db' = fold (\<lambda>i. record_insight t m_dream_context ''deep_dream_consolidation'' i m_dream_lesson) insights db;
               v = (if dw_has_vault w \<and> te_vault_ok t
                    then fold (\<lambda>i. vault_append (te_hash t) (te_stamp t)
                           \<lparr>stk_category = Insight_Stock, stk_content = m_dream_prefix @ i, stk_source = m_dream_source\<rparr>)
                         insights (vault_new (md_vault m))
                    else md_vault m)
           in m\<lparr>md_store := Some db', md_vault := v\<rparr>))"

text \<open>The check for a dream: the idle time is read, and, after a first dream, the time since it.\<close>

definition dream_due :: "(nat \<Rightarrow> nat) \<Rightarrow> dmn_worker \<Rightarrow> bool \<times> dmn_worker" where
  "dream_due clock w =
    (case (dw_dream_threshold w, dw_idle_since w) of
       (Some threshold, Some start) \<Rightarrow>
         (case take_reading clock w of (t1, w) \<Rightarrow>
           (case dw_last_dreamed w of
              None \<Rightarrow> (threshold \<le> secs_f64 (t1 - start), w)
            | Some l \<Rightarrow> (case take_reading clock w of (t2, w) \<Rightarrow> (threshold \<le> secs_f64 (t2 - l), w))))
     | _ \<Rightarrow> (False, w))"

definition maybe_dream :: "(nat \<Rightarrow> nat) \<Rightarrow> tick_env \<Rightarrow> dmn_worker \<Rightarrow> mind \<Rightarrow> dmn_worker \<times> mind" where
  "maybe_dream clock t w m =
    (case dream_due clock w of
       (False, w) \<Rightarrow> (w, m)
     | (True, w) \<Rightarrow>
         (case take_reading clock w of (now, w) \<Rightarrow>
           (w\<lparr>dw_last_dreamed := Some now\<rparr>,
            case md_store m of None \<Rightarrow> m | Some db \<Rightarrow> trigger_deep_dream t w db m)))"

text \<open>A spoken reflection also becomes a memory, linked to the one before it.\<close>

definition remember_reflection :: "tick_env \<Rightarrow> string \<Rightarrow> memory_db \<Rightarrow> memory_db" where
  "remember_reflection t insight' db =
    (case save_memory (te_encode t) (te_utc t) insight' ''insight'' [''dmn'', ''reflection'', ''insight''] db of
       (new_id, db) \<Rightarrow>
         (case find (\<lambda>r. mm_id r \<noteq> new_id) (rev (all_memories db)) of
            None \<Rightarrow> db
          | Some prev \<Rightarrow> kept db (link_memories new_id (mm_id prev) ''reflects_on'' db)))"

definition persist_reflection :: "tick_env \<Rightarrow> dmn_worker \<Rightarrow> string \<Rightarrow> rat \<Rightarrow> mind \<Rightarrow> mind" where
  "persist_reflection t w insight' significance m =
    (if \<not> dw_auto_persist w then m
     else (let loud = (dw_speak_threshold w \<le> significance);
               store = map_option (\<lambda>db.
                 (let db = record_insight t m_dmn ''internal_reflection'' insight'
                        (''significance='' @ show_hundredths significance) db
                  in if loud then remember_reflection t insight' db else db)) (md_store m);
               entry = \<lparr>stk_category = Insight_Stock, stk_content = insight', stk_source = m_dmn\<rparr>
           in if loud \<and> dw_has_vault w \<and> te_vault_ok t
              then m\<lparr>md_store := map_option (\<lambda>db. db\<lparr>db_graph := kept (db_graph db) (record_to_graph entry (db_graph db))\<rparr>) store,
                     md_vault := vault_append (te_hash t) (te_stamp t) entry (vault_new (md_vault m))\<rparr>
              else m\<lparr>md_store := store\<rparr>))"

definition dmn_tick ::
    "(nat \<Rightarrow> nat) \<Rightarrow> tick_env \<Rightarrow> bool \<Rightarrow> dmn_worker \<Rightarrow> mind \<Rightarrow> (dmn_outcome \<times> dmn_worker \<times> mind) option" where
  "dmn_tick clock t is_busy w m =
    (if is_busy then Some (Skipped_Busy, w\<lparr>dw_idle_since := None\<rparr>, m)
     else (let w = (if dw_idle_since w = None
                    then (case take_reading clock w of (now, w) \<Rightarrow> w\<lparr>dw_idle_since := Some now\<rparr>) else w)
       in case maybe_dream clock t w m of (w, m) \<Rightarrow>
         (case take_reading clock w of (now, w) \<Rightarrow>
            (if now - dw_last_tick w < dw_current_delay w then Some (Skipped_Not_Due, w, m)
             else (case take_reading clock w of (now, w) \<Rightarrow>
               (case next_delay (dw_scheduler w) of
                  (None, s) \<Rightarrow> None
                | (Some d, s) \<Rightarrow>
                    (let w = w\<lparr>dw_last_tick := now, dw_scheduler := s, dw_current_delay := d\<rparr>
                     in case generate_reflection (md_store m) (te_ask t) of (insight', significance) \<Rightarrow>
                       Some (if significance < dw_speak_threshold w then Silent_Reflection insight'
                             else Spoken_Reflection insight' (m_spoken @ insight'),
                             w, persist_reflection t w insight' significance m))))))))"

section \<open>The runner\<close>

text \<open>One tick for each flag and environment until the runner is cancelled or the thread panics: the
  messages spoken, the instants of the reflections, and what is left of worker and mind.\<close>

fun dmn_run ::
    "(nat \<Rightarrow> nat) \<Rightarrow> (bool \<times> tick_env) list \<Rightarrow> dmn_worker \<Rightarrow> mind
     \<Rightarrow> string list \<times> nat list \<times> dmn_worker \<times> mind" where
  "dmn_run clock [] w m = ([], [], w, m)"
| "dmn_run clock ((busy, t) # ts) w m =
    (case dmn_tick clock t busy w m of
       None \<Rightarrow> ([], [], w, m)
     | Some (out, w', m') \<Rightarrow>
         (case dmn_run clock ts w' m' of
            (said, instants, w'', m'') \<Rightarrow>
              ((case out of Spoken_Reflection i s \<Rightarrow> s # said | _ \<Rightarrow> said),
               (case out of Silent_Reflection i \<Rightarrow> dw_last_tick w' # instants
                | Spoken_Reflection i s \<Rightarrow> dw_last_tick w' # instants | _ \<Rightarrow> instants),
               w'', m'')))"

section \<open>Lemmas\<close>

definition reflected :: "dmn_outcome \<Rightarrow> bool" where
  "reflected out = (case out of Silent_Reflection i \<Rightarrow> True | Spoken_Reflection i s \<Rightarrow> True | _ \<Rightarrow> False)"

lemma next_delay_ge:
  assumes "next_delay s = (Some d, s')" and "duration_of_secs (sc_min_gap s) = Some gap"
  shows "gap \<le> d \<and> sc_min_gap s' = sc_min_gap s"
proof -
  obtain x where x: "duration_of_secs x = Some d" "sc_min_gap s \<le> x"
    using assms(1) by (auto simp: next_delay_def Let_def)
  have "round_half_even (sc_min_gap s * 10 ^ 9) \<le> round_half_even (x * 10 ^ 9)"
    using x(2) by (intro round_half_even_mono) simp
  then have "gap \<le> d" using x(1) assms(2)
    by (auto simp: duration_of_secs_def Let_def split: if_splits intro: nat_mono)
  then show ?thesis using assms(1) by (auto simp: next_delay_def Let_def)
qed

text \<open>What a look at the clock and a dream leave alone.\<close>

definition steady_fields :: "dmn_worker \<Rightarrow> dmn_scheduler \<times> nat \<times> nat \<times> bool \<times> rat \<times> bool" where
  "steady_fields w = (dw_scheduler w, dw_last_tick w, dw_current_delay w, dw_auto_persist w, dw_speak_threshold w, dw_has_vault w)"

lemma maybe_dream_keeps:
  "maybe_dream clock t w m = (w', m') \<Longrightarrow>
    dw_reads w \<le> dw_reads w' \<and> steady_fields w' = steady_fields w \<and> (if dw_auto_persist w then True else m' = m)"
  by (auto simp: maybe_dream_def dream_due_def take_reading_def steady_fields_def trigger_deep_dream_def Let_def
      split: option.splits if_splits bool.splits prod.splits)

lemma tick_idle_cases:
  assumes "dmn_tick clock t False w m = Some (out, w', m')"
  shows "\<exists>w1 m1. dw_reads w \<le> dw_reads w1 \<and> steady_fields w1 = steady_fields w
    \<and> (if dw_auto_persist w then True else m1 = m)
    \<and> (out = Skipped_Not_Due \<and> w' = w1\<lparr>dw_reads := dw_reads w1 + 1\<rparr> \<and> m' = m1
       \<or> (\<exists>d s. dw_current_delay w \<le> clock (dw_reads w1) - dw_last_tick w
           \<and> next_delay (dw_scheduler w) = (Some d, s) \<and> reflected out
           \<and> w' = w1\<lparr>dw_reads := dw_reads w1 + 2, dw_last_tick := clock (dw_reads w1 + 1), dw_scheduler := s,
                dw_current_delay := d\<rparr>
           \<and> (if dw_auto_persist w then True else m' = m)))"
proof -
  define w0 where "w0 = (if dw_idle_since w = None
     then w\<lparr>dw_reads := dw_reads w + 1, dw_idle_since := Some (clock (dw_reads w))\<rparr> else w)"
  have w0: "dw_reads w \<le> dw_reads w0" "steady_fields w0 = steady_fields w" "dw_auto_persist w0 = dw_auto_persist w"
    by (simp_all add: w0_def steady_fields_def)
  obtain w1 m1 where dream: "maybe_dream clock t w0 m = (w1, m1)" by fastforce
  note k = maybe_dream_keeps [OF dream]
  have tick: "dmn_tick clock t False w m = (case take_reading clock w1 of (now, w) \<Rightarrow>
            (if now - dw_last_tick w < dw_current_delay w then Some (Skipped_Not_Due, w, m1)
             else (case take_reading clock w of (now, w) \<Rightarrow>
               (case next_delay (dw_scheduler w) of
                  (None, s) \<Rightarrow> None
                | (Some d, s) \<Rightarrow>
                    (let w = w\<lparr>dw_last_tick := now, dw_scheduler := s, dw_current_delay := d\<rparr>
                     in case generate_reflection (md_store m1) (te_ask t) of (insight', significance) \<Rightarrow>
                       Some (if significance < dw_speak_threshold w then Silent_Reflection insight'
                             else Spoken_Reflection insight' (m_spoken @ insight'),
                             w, persist_reflection t w insight' significance m1))))))"
    using dream by (simp add: dmn_tick_def w0_def take_reading_def Let_def cong: if_cong)
  have f: "dw_scheduler w1 = dw_scheduler w" "dw_last_tick w1 = dw_last_tick w" "dw_current_delay w1 = dw_current_delay w"
    "dw_auto_persist w1 = dw_auto_persist w" using k w0(2) by (simp_all add: steady_fields_def)
  show ?thesis
  proof (intro exI [of _ w1] exI [of _ m1] conjI)
    show "dw_reads w \<le> dw_reads w1" "steady_fields w1 = steady_fields w" using k w0 by simp_all
    show "if dw_auto_persist w then True else m1 = m" using k w0(3) by simp
    then show "out = Skipped_Not_Due \<and> w' = w1\<lparr>dw_reads := dw_reads w1 + 1\<rparr> \<and> m' = m1
       \<or> (\<exists>d s. dw_current_delay w \<le> clock (dw_reads w1) - dw_last_tick w
           \<and> next_delay (dw_scheduler w) = (Some d, s) \<and> reflected out
           \<and> w' = w1\<lparr>dw_reads := dw_reads w1 + 2, dw_last_tick := clock (dw_reads w1 + 1), dw_scheduler := s,
                dw_current_delay := d\<rparr>
           \<and> (if dw_auto_persist w then True else m' = m))"
      using assms unfolding tick
      by (auto simp: take_reading_def f Let_def reflected_def persist_reflection_def eval_nat_numeral
          split: if_splits prod.splits option.splits)
  qed
qed

text \<open>The invariant of the timing.\<close>

definition timed :: "(nat \<Rightarrow> nat) \<Rightarrow> nat \<Rightarrow> dmn_worker \<Rightarrow> bool" where
  "timed clock gap w =
    (dw_last_tick w \<le> clock (dw_reads w) \<and> gap \<le> dw_current_delay w
     \<and> duration_of_secs (sc_min_gap (dw_scheduler w)) = Some gap)"

lemma tick_timed:
  assumes mono: "mono clock" and tick: "dmn_tick clock t busy w m = Some (out, w', m')" and timed: "timed clock gap w"
  shows "timed clock gap w' \<and> (if reflected out then dw_last_tick w + gap \<le> dw_last_tick w' else dw_last_tick w' = dw_last_tick w)"
proof (cases busy)
  case True
  then show ?thesis using tick timed by (auto simp: dmn_tick_def timed_def reflected_def)
next
  case False
  from tick False have "dmn_tick clock t False w m = Some (out, w', m')" by simp
  from tick_idle_cases [OF this] obtain w1 m1 where w1: "dw_reads w \<le> dw_reads w1" "steady_fields w1 = steady_fields w"
    and all: "out = Skipped_Not_Due \<and> w' = w1\<lparr>dw_reads := dw_reads w1 + 1\<rparr> \<and> m' = m1
       \<or> (\<exists>d s. dw_current_delay w \<le> clock (dw_reads w1) - dw_last_tick w
           \<and> next_delay (dw_scheduler w) = (Some d, s) \<and> reflected out
           \<and> w' = w1\<lparr>dw_reads := dw_reads w1 + 2, dw_last_tick := clock (dw_reads w1 + 1), dw_scheduler := s,
                dw_current_delay := d\<rparr>
           \<and> (if dw_auto_persist w then True else m' = m))"
    by (elim exE conjE) (rule that)
  from all have cases: "out = Skipped_Not_Due \<and> w' = w1\<lparr>dw_reads := dw_reads w1 + 1\<rparr>
       \<or> (\<exists>d s. dw_current_delay w \<le> clock (dw_reads w1) - dw_last_tick w
           \<and> next_delay (dw_scheduler w) = (Some d, s) \<and> reflected out
           \<and> w' = w1\<lparr>dw_reads := dw_reads w1 + 2, dw_last_tick := clock (dw_reads w1 + 1), dw_scheduler := s,
                dw_current_delay := d\<rparr>)"
    by (elim disjE exE conjE) simp_all
  have f: "dw_scheduler w1 = dw_scheduler w" "dw_last_tick w1 = dw_last_tick w" "dw_current_delay w1 = dw_current_delay w"
    using w1(2) by (simp_all add: steady_fields_def)
  have later: "dw_last_tick w \<le> clock (dw_reads w1 + k)" for k
    using timed monoD [OF mono, of "dw_reads w" "dw_reads w1 + k"] w1(1) by (simp add: timed_def)
  from cases show ?thesis
  proof
    assume "out = Skipped_Not_Due \<and> w' = w1\<lparr>dw_reads := dw_reads w1 + 1\<rparr>"
    then show ?thesis using later [of 1] timed f by (auto simp: timed_def reflected_def)
  next
    assume "\<exists>d s. dw_current_delay w \<le> clock (dw_reads w1) - dw_last_tick w
           \<and> next_delay (dw_scheduler w) = (Some d, s) \<and> reflected out
           \<and> w' = w1\<lparr>dw_reads := dw_reads w1 + 2, dw_last_tick := clock (dw_reads w1 + 1), dw_scheduler := s,
                dw_current_delay := d\<rparr>"
    then obtain d s where due: "dw_current_delay w \<le> clock (dw_reads w1) - dw_last_tick w"
      and d: "next_delay (dw_scheduler w) = (Some d, s)" "reflected out"
      and w': "w' = w1\<lparr>dw_reads := dw_reads w1 + 2, dw_last_tick := clock (dw_reads w1 + 1), dw_scheduler := s,
                dw_current_delay := d\<rparr>" by blast
    have "gap \<le> dw_current_delay w" "duration_of_secs (sc_min_gap (dw_scheduler w)) = Some gap"
      using timed by (simp_all add: timed_def)
    then have "gap \<le> d" "sc_min_gap s = sc_min_gap (dw_scheduler w)" "dw_last_tick w + gap \<le> clock (dw_reads w1)"
      using next_delay_ge [OF d(1)] due later [of 0] by simp_all
    moreover have "clock (dw_reads w1) \<le> clock (dw_reads w1 + 1)" "clock (dw_reads w1 + 1) \<le> clock (dw_reads w1 + 2)"
      using monoD [OF mono] by simp_all
    ultimately show ?thesis using d(2) \<open>duration_of_secs (sc_min_gap (dw_scheduler w)) = Some gap\<close>
      by (simp add: w' timed_def)
  qed
qed

lemma run_spaced:
  "mono clock \<Longrightarrow> timed clock gap w \<Longrightarrow>
    sorted_wrt (\<lambda>s t. s + gap \<le> t) (dw_last_tick w # fst (snd (dmn_run clock ts w m)))"
proof (induction clock ts w m rule: dmn_run.induct)
  case (2 clock busy t ts w m)
  show ?case
  proof (cases "dmn_tick clock t busy w m")
    case (Some r)
    obtain out w' m' where r: "r = (out, w', m')" by (metis surj_pair)
    note tick = tick_timed [OF 2(2) Some [unfolded r] 2(3)]
    have IH: "sorted_wrt (\<lambda>s t. s + gap \<le> t) (dw_last_tick w' # fst (snd (dmn_run clock ts w' m')))"
      using 2(1) Some r tick 2(2) by blast
    show ?thesis
    proof (cases "reflected out")
      case True
      then have "fst (snd (dmn_run clock ((busy, t) # ts) w m)) = dw_last_tick w' # fst (snd (dmn_run clock ts w' m'))"
        using Some r by (auto simp: reflected_def split: prod.splits dmn_outcome.splits)
      moreover have "dw_last_tick w + gap \<le> dw_last_tick w'" using tick True by simp
      ultimately show ?thesis using IH by fastforce
    next
      case False
      then have "fst (snd (dmn_run clock ((busy, t) # ts) w m)) = fst (snd (dmn_run clock ts w' m'))"
        using Some r by (auto simp: reflected_def split: prod.splits dmn_outcome.splits)
      then show ?thesis using IH tick False by simp
    qed
  qed simp
qed simp

section \<open>Properties\<close>

lemma one_second: "duration_of_secs 1 = Some (10 ^ 9)"
  using round_half_even_int [of "10 ^ 9"] by (simp add: duration_of_secs_def)

lemma three_seconds: "secs_f64 (3 * 10 ^ 9) = 3"
  using fl_of_nat [of 3 53] by (simp add: secs_f64_def)

text \<open>A tick with no model, nothing to hash and a vault that cannot be opened.\<close>

definition example_env :: tick_env where
  "example_env = \<lparr>te_utc = ''2026-01-01T00:00:00Z'', te_cutoff = ''2025-12-25T00:00:00Z'', te_stamp = ''2026-01-01 00:00'',
     te_vault_ok = False, te_hash = (\<lambda>b. 0), te_encode = (\<lambda>j. []), te_ask = None\<rparr>"

text \<open>
  C16. Thoughts are spaced. On a clock that never goes back, the instants at which a worker reflects,
  from the instant it was made on, lie at least the configured gap apart, whatever it is busy with,
  whatever the store holds and however often it is asked.
\<close>

theorem reflections_spaced:
  assumes "mono clock" and "worker_new clock mean min_gap speak = Some w"
    and "duration_of_secs min_gap = Some gap"
  shows "sorted_wrt (\<lambda>s t. s + gap \<le> t) (clock 0 # fst (snd (dmn_run clock ts w m)))"
proof -
  obtain d s where s: "next_delay (scheduler_new mean min_gap) = (Some d, s)"
    and w: "dw_scheduler w = s" "dw_last_tick w = clock 0" "dw_current_delay w = d" "dw_reads w = 1"
    using assms(2) by (auto simp: worker_new_def split: prod.splits option.splits)
  have "gap \<le> d \<and> sc_min_gap s = min_gap"
    using next_delay_ge [OF s] assms(3) by (simp add: scheduler_new_def)
  then have "timed clock gap w" using w assms(3) monoD [OF assms(1), of 0 1] by (simp add: timed_def)
  from run_spaced [OF assms(1) this] show ?thesis by (simp add: w)
qed

theorem reflections_spaced_witness:
  "sorted_wrt (\<lambda>s t. s + 10 ^ 9 \<le> t)
     (0 # fst (snd (dmn_run (\<lambda>n. n * 10 ^ 9) (replicate 5 (False, example_env) @ [(True, example_env)])
       (the (worker_new (\<lambda>n. n * 10 ^ 9) 1 1 (1 / 2))) \<lparr>md_store = None, md_vault = []\<rparr>)))"
proof -
  have gap: "duration_of_secs 1 = Some (10 ^ 9)" by (rule one_second)
  have "worker_new (\<lambda>n. n * 10 ^ 9) 1 1 (1 / 2) \<noteq> None"
    by (simp add: worker_new_def next_delay_def scheduler_new_def Let_def one_second)
  then obtain w where w: "worker_new (\<lambda>n. n * 10 ^ 9) 1 1 (1 / 2) = Some w" by blast
  have "mono (\<lambda>n::nat. n * 10 ^ 9)" by (intro monoI) simp
  from reflections_spaced [OF this w gap] show ?thesis by (simp only: w option.sel mult_0)
qed

lemma tick_unwritten: "dmn_tick clock t busy w m = Some (out, w', m') \<Longrightarrow> \<not> dw_auto_persist w \<Longrightarrow>
    m' = m \<and> \<not> dw_auto_persist w'"
proof (cases busy)
  case False
  assume "dmn_tick clock t busy w m = Some (out, w', m')" "\<not> dw_auto_persist w"
  then show ?thesis using tick_idle_cases [of clock t w m out w' m'] False
    by (auto simp: steady_fields_def)
qed (auto simp: dmn_tick_def)

lemma run_unwritten: "\<not> dw_auto_persist w \<Longrightarrow> snd (snd (snd (dmn_run clock ts w m))) = m"
proof (induction clock ts w m rule: dmn_run.induct)
  case (2 clock busy t ts w m)
  show ?case
  proof (cases "dmn_tick clock t busy w m")
    case (Some r)
    obtain out w' m' where r: "r = (out, w', m')" by (metis surj_pair)
    have "m' = m" "\<not> dw_auto_persist w'" using tick_unwritten [OF Some [unfolded r] 2(2)] by simp_all
    then show ?thesis using 2(1) Some r by (auto split: prod.splits)
  qed simp
qed simp

text \<open>
  C17. Thinking writes only when it may. A run of ticks of a worker that may not persist leaves the
  store and the vault as they are, whatever it dreams or reflects; and a tick while the agent is busy
  changes nothing but that the idle time starts anew.
\<close>

theorem dmn_writes_only_when_allowed:
  "(if dw_auto_persist w then True else snd (snd (snd (dmn_run clock ts w m))) = m)
   \<and> dmn_tick clock t True w m = Some (Skipped_Busy, w\<lparr>dw_idle_since := None\<rparr>, m)"
  by (simp add: run_unwritten dmn_tick_def)

text \<open>
  After its first dream the worker dreams without the user having been away. When the agent was
  busy just before (the idle time starts anew) and the last dream is longer ago than the threshold,
  the very first idle tick dreams, although the threshold is meant for the time of idling.
\<close>

theorem dreams_without_idling:
  assumes "dw_idle_since w = None" and "dw_last_dreamed w = Some l" and "dw_dream_threshold w = Some threshold"
    and "threshold \<le> secs_f64 (clock (dw_reads w + 2) - l)"
    and "dmn_tick clock t False w m = Some (out, w', m')"
  shows "dw_last_dreamed w' = Some (clock (dw_reads w + 3)) \<and> dw_idle_since w' = Some (clock (dw_reads w))"
  using assms
  by (auto simp: dmn_tick_def maybe_dream_def dream_due_def take_reading_def Let_def eval_nat_numeral
      split: if_splits option.splits prod.splits)

theorem dreams_without_idling_witness:
  "\<exists>out w' m'. dmn_tick (\<lambda>n. n * 10 ^ 9) example_env False
      \<lparr>dw_scheduler = scheduler_new 2 1, dw_speak_threshold = 1 / 2, dw_last_tick = 0, dw_current_delay = 10 ^ 11,
       dw_has_vault = False, dw_idle_since = None, dw_dream_threshold = Some 1, dw_last_dreamed = Some 0,
       dw_auto_persist = False, dw_reads = 1\<rparr> \<lparr>md_store = None, md_vault = []\<rparr> = Some (out, w', m')
    \<and> dw_last_dreamed w' = Some (4 * 10 ^ 9) \<and> dw_idle_since w' = Some (10 ^ 9)"
proof -
  let ?w = "\<lparr>dw_scheduler = scheduler_new 2 1, dw_speak_threshold = 1 / 2, dw_last_tick = 0, dw_current_delay = 10 ^ 11,
       dw_has_vault = False, dw_idle_since = None, dw_dream_threshold = Some 1, dw_last_dreamed = Some 0,
       dw_auto_persist = False, dw_reads = 1\<rparr>" and ?clock = "\<lambda>n::nat. n * 10 ^ 9"
  have secs: "1 \<le> secs_f64 (?clock (dw_reads ?w + 2) - 0)" using three_seconds by simp
  obtain out w' m' where tick: "dmn_tick ?clock example_env False ?w \<lparr>md_store = None, md_vault = []\<rparr> = Some (out, w', m')"
    using three_seconds by (simp add: dmn_tick_def maybe_dream_def dream_due_def take_reading_def)
  show ?thesis using dreams_without_idling [OF _ _ _ secs tick] tick by auto
qed

end
