(* ===== verification/Repl.thy ===== *)
theory Repl
  imports Run_Properties Fast_Path Dmn
begin

text \<open>
  \<open>src/agent/agent_loop/repl.rs\<close>: the interactive session. It is a recursion over the prompts: what has
  gathered in the inbox, what is read, and what the commands find in stores and files at that moment.
  All runs share one session and one world. Writing to the terminal does not fail here.
\<close>

section \<open>What a prompt meets\<close>

datatype read_result = Read_Error string | Eof | Line string

text \<open>\<open>cv_db\<close>: the store, when there is one. \<open>cv_insights\<close>: the text of the file when it can be read.
  \<open>cv_write\<close>: the error of writing to a path.\<close>

record command_view =
  cv_db :: "memory_db option"
  cv_audits :: nat
  cv_events :: "event list"
  cv_now :: string
  cv_cutoff :: string
  cv_data_dir :: "string option"
  cv_vault_exists :: bool
  cv_insights :: "string option"
  cv_render :: "string + string"
  cv_write :: "string \<Rightarrow> string option"

text \<open>\<open>tn_inbox\<close> is \<open>None\<close> without an inbox that can be locked.\<close>

record turn =
  tn_inbox :: "string list option"
  tn_line :: read_result
  tn_view :: command_view

record repl_io =
  io_has_flag :: bool
  io_dmn_notify :: "bool option"

datatype repl_end = Waiting | Closed | Failed string | Crashed

text \<open>\<open>rp_busy\<close> is the flag shared with the background worker. \<open>rp_answers\<close> records the fast answers with
  their instants, \<open>rp_files\<close> and \<open>rp_opened\<close> what \<open>/graph\<close> wrote and opened.\<close>

record 'w repl =
  rp_agent :: "'w agent"
  rp_fast :: fast_path
  rp_out :: string
  rp_busy :: bool
  rp_answers :: "(string \<times> nat) list"
  rp_files :: "(string \<times> string) list"
  rp_opened :: "string list"

definition show_text :: "string \<Rightarrow> 'w repl \<Rightarrow> 'w repl" where
  "show_text t s = s\<lparr>rp_out := rp_out s @ t\<rparr>"

definition set_busy :: "repl_io \<Rightarrow> bool \<Rightarrow> 'w repl \<Rightarrow> 'w repl" where
  "set_busy io b s = (if io_has_flag io then s\<lparr>rp_busy := b\<rparr> else s)"

definition on_agent :: "('w, 'a) step \<Rightarrow> 'w repl \<Rightarrow> 'a \<times> 'w repl" where
  "on_agent m s = (case run_state m (rp_agent s) of (x, a) \<Rightarrow> (x, s\<lparr>rp_agent := a\<rparr>))"

section \<open>Slash commands\<close>

definition numbered :: "(nat \<Rightarrow> 'a \<Rightarrow> string) \<Rightarrow> 'a list \<Rightarrow> string" where
  "numbered f xs = concat (map (\<lambda>(i, x). f (i + 1) x) (List.enumerate 0 xs))"

definition dmn_command :: "command_view \<Rightarrow> string" where
  "dmn_command v =
    m_cmd_dmn
    @ (case cv_db v of
         None \<Rightarrow> m_no_store_line
       | Some db \<Rightarrow>
           (case xs_find_similar m_dmn 5 (db_experiences db) of
              [] \<Rightarrow> m_no_reflections
            | es \<Rightarrow> numbered (\<lambda>i x. ''  '' @ show_nat i @ ''. '' @ xp_action x @ m_result_1 @ xp_outcome x @ '')'' @ nl) es))
    @ nl"

definition counted_lines :: "string \<Rightarrow> (string \<times> nat) list \<Rightarrow> string" where
  "counted_lines title xs =
    (if xs = [] then []
     else title @ concat (map (\<lambda>(t, c). ''    - '' @ t @ '': '' @ show_nat c @ m_times) (take 5 xs)))"

definition item_lines :: "string \<Rightarrow> string \<Rightarrow> string list \<Rightarrow> string" where
  "item_lines title mark xs = (if xs = [] then [] else title @ concat (map (\<lambda>x. mark @ x @ nl) xs))"

definition dream_command :: "command_view \<Rightarrow> string" where
  "dream_command v =
    m_cmd_dream
    @ (case cv_db v of
         None \<Rightarrow> m_no_store_line
       | Some db \<Rightarrow>
           (let r = generate_report (cv_now v) (cv_cutoff v) (length (tb_rows (db_skills db))) (db_experiences db)
            in m_rate_line @ show_tenths (fl64 (dm_success_rate r * 100)) @ ''%'' @ nl
               @ counted_lines m_usage_line (dm_tool_usage r)
               @ counted_lines m_failures_line (dm_failure_patterns r)
               @ item_lines m_insights_line m_insight_item (dm_insights r)
               @ item_lines m_skills_line m_skill_item (dm_skill_promotions r)))
    @ nl"

definition magi_command :: "command_view \<Rightarrow> string" where
  "magi_command v =
    (let halts = length (filter (\<lambda>x. ev_type x = ''magi_halt'') (cv_events v));
         warns = length (filter (\<lambda>x. ev_type x = ''magi_warn'') (cv_events v))
     in m_cmd_magi
        @ (if cv_db v = None then m_no_audit
           else m_audits @ show_nat (cv_audits v) @ m_cases @ m_blocked @ show_nat halts @ m_cases
                @ m_warned @ show_nat warns @ m_cases @ m_judges)
        @ nl)"

definition join_text :: "string \<Rightarrow> string \<Rightarrow> string" where
  "join_text d s = (if d = [] \<or> ends_with d ''/'' then d @ s else d @ ''/'' @ s)"

definition vault_command :: "command_view \<Rightarrow> string" where
  "vault_command v =
    m_cmd_vault
    @ (case (cv_data_dir v, cv_vault_exists v) of
         (Some d, True) \<Rightarrow>
           (let path = join_text (join_text d ''bonsai-agent'') ''vault''
            in case cv_insights v of
                 Some text' \<Rightarrow>
                   (let recent = filter (\<lambda>l. starts_with l ''- '') (str_lines text')
                    in m_vault_at @ path @ nl @ m_vault_recent @ show_nat (length recent) @ m_cases
                       @ concat (map (\<lambda>l. ''  '' @ l @ nl) (take 5 (rev recent))))
               | None \<Rightarrow> m_vault_at @ path @ m_vault_empty)
       | _ \<Rightarrow> m_vault_absent)
    @ nl"

definition is_open_word :: "string \<Rightarrow> bool" where
  "is_open_word p = (p = ''open'' \<or> p = ''--open'')"

definition graph_path :: "string \<Rightarrow> string" where
  "graph_path cmd =
    (case find (\<lambda>p. \<not> is_open_word p) (tl (split_whitespace cmd)) of None \<Rightarrow> ''memory_graph.html'' | Some p \<Rightarrow> p)"

text \<open>What is printed, what is written to which file, and which file is opened.\<close>

definition graph_command :: "command_view \<Rightarrow> string \<Rightarrow> string \<times> (string \<times> string) list \<times> string list" where
  "graph_command v cmd =
    (let path = graph_path cmd; opens = list_ex is_open_word (split_whitespace cmd)
     in if cv_db v = None then (m_cmd_graph @ m_no_store_line @ nl, [], [])
        else (case cv_render v of
                Inl err \<Rightarrow> (m_cmd_graph @ m_graph_failed @ err @ nl @ nl, [], [])
              | Inr html \<Rightarrow>
                  (case cv_write v path of
                     Some err \<Rightarrow> (m_cmd_graph @ m_graph_write_failed @ err @ nl @ nl, [], [])
                   | None \<Rightarrow>
                       (m_cmd_graph @ m_graph_written @ path @ nl
                          @ (if opens then m_graph_open @ path @ nl else []) @ nl,
                        [(path, html)], if opens then [path] else []))))"

definition handle_slash_command ::
    "command_view \<Rightarrow> string \<Rightarrow> string \<times> (string \<times> string) list \<times> string list" where
  "handle_slash_command v cmd =
    (if cmd = ''/help'' then (m_help, [], [])
     else if cmd = ''/dmn'' then (dmn_command v, [], [])
     else if cmd = ''/dream'' then (dream_command v, [], [])
     else if cmd = ''/magi'' then (magi_command v, [], [])
     else if cmd = ''/vault'' then (vault_command v, [], [])
     else if cmd = ''/graph'' \<or> starts_with cmd ''/graph '' then graph_command v cmd
     else (m_unknown_1 @ cmd @ m_unknown_2, [], []))"

section \<open>The loop\<close>

definition notifies :: "'w env \<Rightarrow> repl_io \<Rightarrow> bool" where
  "notifies e io =
    (case io_dmn_notify io of Some b \<Rightarrow> b
     | None \<Rightarrow> (case en_environ e ''BONSAI_DMN_NOTIFY'' of None \<Rightarrow> True | Some v \<Rightarrow> v \<noteq> ''0''))"

definition show_inbox :: "'w env \<Rightarrow> repl_io \<Rightarrow> string list option \<Rightarrow> 'w repl \<Rightarrow> 'w repl" where
  "show_inbox e io inbox s =
    (case inbox of None \<Rightarrow> s
     | Some msgs \<Rightarrow> if notifies e io then show_text (concat (map (\<lambda>m. m_inbox @ m @ nl) msgs)) s else s)"

definition answer_fast :: "string \<Rightarrow> string \<Rightarrow> nat \<Rightarrow> 'w repl \<Rightarrow> 'w repl" where
  "answer_fast input answer now s =
    show_text (answer @ nl @ nl)
      ((snd (on_agent (do { say (msg_user input); say (msg_assistant answer) }) s))
         \<lparr>rp_answers := rp_answers s @ [(answer, now)]\<rparr>)"

definition answer_command :: "command_view \<Rightarrow> string \<Rightarrow> 'w repl \<Rightarrow> 'w repl" where
  "answer_command v input s =
    (case handle_slash_command v input of
       (out, files, opened) \<Rightarrow>
         show_text out (s\<lparr>rp_files := rp_files s @ files, rp_opened := rp_opened s @ opened\<rparr>))"

text \<open>A panic leaves the flag as it is.\<close>

definition answer_by_model :: "'w env \<Rightarrow> repl_io \<Rightarrow> string \<Rightarrow> 'w repl \<Rightarrow> repl_end option \<times> 'w repl" where
  "answer_by_model e io input s =
    (case on_agent (do { say (msg_user input); run_agent_loop_with_session e }) (set_busy io True s) of
       (Inl Panicked, s) \<Rightarrow> (Some Crashed, s)
     | (Inl (Backend_Failed err), s) \<Rightarrow> (None, show_text (m_error_line @ err @ nl @ nl) (set_busy io False s))
     | (Inr res, s) \<Rightarrow>
         (None, show_text (if starts_with (lr_answer res) m_stopped then nl @ lr_answer res @ nl @ nl else nl)
            (set_busy io False s)))"

definition handle_input ::
    "'w env \<Rightarrow> repl_io \<Rightarrow> command_view \<Rightarrow> string \<Rightarrow> 'w repl \<Rightarrow> repl_end option \<times> 'w repl" where
  "handle_input e io v input s =
    (if input = [] then (None, s)
     else if input = ''exit'' \<or> input = ''quit'' then (Some Closed, s)
     else (case on_agent (outside (en_now e)) s of (now, s) \<Rightarrow>
       (case try_handle input now (rp_fast s) of
          (Some answer, f) \<Rightarrow> (None, answer_fast input answer now (s\<lparr>rp_fast := f\<rparr>))
        | (None, f) \<Rightarrow>
            (if starts_with input ''/'' then (None, answer_command v input (s\<lparr>rp_fast := f\<rparr>))
             else answer_by_model e io input (s\<lparr>rp_fast := f\<rparr>)))))"

definition repl_turn :: "'w env \<Rightarrow> repl_io \<Rightarrow> turn \<Rightarrow> 'w repl \<Rightarrow> repl_end option \<times> 'w repl" where
  "repl_turn e io t s =
    (case on_agent (outside (en_cancelled e)) s of
       (True, s) \<Rightarrow> (Some Closed, s)
     | (False, s) \<Rightarrow>
         (let s = show_text ''bonsai> '' (show_inbox e io (tn_inbox t) (set_busy io False s))
          in case tn_line t of
               Read_Error err \<Rightarrow> (Some (Failed err), s)
             | Eof \<Rightarrow> (Some Closed, s)
             | Line l \<Rightarrow> handle_input e io (tn_view t) (trim l) s))"

fun run_repl :: "'w env \<Rightarrow> repl_io \<Rightarrow> turn list \<Rightarrow> 'w repl \<Rightarrow> repl_end \<times> 'w repl" where
  "run_repl e io [] s = (Waiting, s)"
| "run_repl e io (t # ts) s =
    (case repl_turn e io t s of
       (Some r, s') \<Rightarrow> (r, s')
     | (None, s') \<Rightarrow> run_repl e io ts s')"

definition repl_start :: "'w agent \<Rightarrow> 'w repl" where
  "repl_start a = \<lparr>rp_agent = a, rp_fast = with_default_rules, rp_out = [], rp_busy = False, rp_answers = [],
     rp_files = [], rp_opened = []\<rparr>"

section \<open>Lemmas\<close>

text \<open>Inputs and lines that can reach the model.\<close>

definition wants_model :: "string \<Rightarrow> bool" where
  "wants_model input = (input \<noteq> [] \<and> input \<noteq> ''exit'' \<and> input \<noteq> ''quit'' \<and> \<not> starts_with input ''/'')"

definition reaches_model :: "turn \<Rightarrow> bool" where
  "reaches_model t = (case tn_line t of Line l \<Rightarrow> wants_model (trim l) | _ \<Rightarrow> False)"

definition asks_per_run :: "'w env \<Rightarrow> nat" where
  "asks_per_run e = ac_max_iterations (en_config e) * (1 + of_bool (cr_enabled (critic_of e)))"

text \<open>What one step of the session may do: calls in reply to the model, and at most so many questions to it.\<close>

definition keeps_within :: "'w env \<Rightarrow> nat \<Rightarrow> 'w agent \<Rightarrow> 'w agent \<Rightarrow> bool" where
  "keeps_within e n a b =
    (heard e a b \<and> length (ag_prompts b) \<le> length (ag_prompts a) + n)"

lemma keeps_within_same: "ag_trace b = ag_trace a \<Longrightarrow> keeps_within e n a b"
  by (simp add: keeps_within_def heard_def ag_prompts_def del: prompts_of_simps)

lemma keeps_within_trans: "keeps_within e m a b \<Longrightarrow> keeps_within e n b c \<Longrightarrow> keeps_within e (m + n) a c"
  unfolding keeps_within_def using heard.R_trans by fastforce

lemma agent_simps [simp]:
  "rp_agent (show_text t s) = rp_agent s" "rp_agent (set_busy io b s) = rp_agent s"
  "rp_agent (show_inbox e io i s) = rp_agent s" "rp_agent (answer_command v input s) = rp_agent s"
  "rp_fast (show_text t s) = rp_fast s" "rp_fast (set_busy io b s) = rp_fast s"
  "rp_fast (show_inbox e io i s) = rp_fast s" "rp_fast (answer_command v input s) = rp_fast s"
  "rp_answers (show_text t s) = rp_answers s" "rp_answers (set_busy io b s) = rp_answers s"
  "rp_answers (show_inbox e io i s) = rp_answers s" "rp_answers (answer_command v input s) = rp_answers s"
  "rp_busy (show_text t s) = rp_busy s" "rp_busy (show_inbox e io i s) = rp_busy s"
  "rp_busy (answer_command v input s) = rp_busy s" "rp_busy (set_busy io b s) = (if io_has_flag io then b else rp_busy s)"
  by (simp_all add: show_text_def set_busy_def show_inbox_def answer_command_def split: prod.split option.split)

lemma on_agent_simps [simp]:
  "fst (on_agent m s) = fst (run_state m (rp_agent s))"
  "rp_agent (snd (on_agent m s)) = snd (run_state m (rp_agent s))"
  "rp_fast (snd (on_agent m s)) = rp_fast s" "rp_answers (snd (on_agent m s)) = rp_answers s"
  "rp_busy (snd (on_agent m s)) = rp_busy s"
  by (simp_all add: on_agent_def split: prod.split)

lemma on_agent_outside: "on_agent (outside f) s = (x, t) \<Longrightarrow>
    ag_trace (rp_agent t) = ag_trace (rp_agent s)
    \<and> rp_fast t = rp_fast s \<and> rp_answers t = rp_answers s \<and> rp_busy t = rp_busy s"
  by (auto simp: on_agent_def split: prod.splits)

lemma run_within:
  "keeps_within e (asks_per_run e) a (snd (run_state (do { say m; run_agent_loop_with_session e }) a))"
proof -
  let ?a = "a\<lparr>ag_messages := ag_messages a @ [m]\<rparr>"
  have "heard e ?a (snd (run_state (run_agent_loop_with_session e) ?a))"
    using run_heard unfolding state_io_rel_def by (rule spec)
  then have "heard e a (snd (run_state (run_agent_loop_with_session e) ?a))" by (simp add: heard_def)
  then show ?thesis using run_ends [of e ?a] by (simp add: keeps_within_def asks_per_run_def)
qed

lemma model_within: "keeps_within e (asks_per_run e) (rp_agent s) (rp_agent (snd (answer_by_model e io input s)))"
proof -
  obtain r t where rt: "on_agent (do { say (msg_user input); run_agent_loop_with_session e }) (set_busy io True s) = (r, t)"
    by fastforce
  then have "rp_agent t = snd (run_state (do { say (msg_user input); run_agent_loop_with_session e }) (rp_agent s))"
    by (metis agent_simps(2) on_agent_simps(2) snd_conv)
  then show ?thesis using run_within [of e "rp_agent s" "msg_user input"] rt
    by (auto simp: answer_by_model_def split: sum.splits stop.splits)
qed

lemma say_twice: "run_state (do { say m; say n }) a = ((), a\<lparr>ag_messages := ag_messages a @ [m, n]\<rparr>)"
  by simp

lemma fast_simps:
  "ag_trace (rp_agent (answer_fast i a n s)) = ag_trace (rp_agent s)"
  "rp_fast (answer_fast i a n s) = rp_fast s" "rp_answers (answer_fast i a n s) = rp_answers s @ [(a, n)]"
  "rp_busy (answer_fast i a n s) = rp_busy s"
  by (simp_all add: answer_fast_def say_twice on_agent_def)

lemma model_keeps:
  "rp_fast (snd (answer_by_model e io input s)) = rp_fast s"
  "rp_answers (snd (answer_by_model e io input s)) = rp_answers s"
proof -
  obtain r t where rt: "on_agent (do { say (msg_user input); run_agent_loop_with_session e }) (set_busy io True s) = (r, t)"
    by fastforce
  then have "rp_fast t = rp_fast s" "rp_answers t = rp_answers s"
    by (metis agent_simps(6) on_agent_simps(3) snd_conv) (metis agent_simps(10) on_agent_simps(4) rt snd_conv)
  then show "rp_fast (snd (answer_by_model e io input s)) = rp_fast s"
    "rp_answers (snd (answer_by_model e io input s)) = rp_answers s"
    using rt by (auto simp: answer_by_model_def split: sum.splits stop.splits)
qed

lemma input_within:
  "keeps_within e (if wants_model input then asks_per_run e else 0) (rp_agent s) (rp_agent (snd (handle_input e io v input s)))"
proof (cases "input = [] \<or> input = ''exit'' \<or> input = ''quit''")
  case True
  then show ?thesis by (auto simp: handle_input_def wants_model_def keeps_within_same)
next
  case False
  obtain now t where t: "on_agent (outside (en_now e)) s = (now, t)" by fastforce
  note same = on_agent_outside [OF t]
  obtain out f where f: "try_handle input now (rp_fast t) = (out, f)" by fastforce
  show ?thesis
  proof (cases "out = None \<and> \<not> starts_with input ''/''")
    case True
    then have "handle_input e io v input s = answer_by_model e io input (t\<lparr>rp_fast := f\<rparr>)" "wants_model input"
      using False t f by (simp_all add: handle_input_def wants_model_def)
    moreover have "keeps_within e 0 (rp_agent s) (rp_agent t)" using same by (simp add: keeps_within_same)
    ultimately show ?thesis
      using keeps_within_trans [of e 0 "rp_agent s" "rp_agent t"] model_within [of e "t\<lparr>rp_fast := f\<rparr>" io input] by simp
  next
    case other: False
    then have "ag_trace (rp_agent (snd (handle_input e io v input s))) = ag_trace (rp_agent s)"
      using False t f same by (auto simp: handle_input_def fast_simps split: option.split)
    then show ?thesis by (rule keeps_within_same)
  qed
qed

lemma input_remembers:
  assumes "remembers (rp_fast s) (rp_answers s)"
  shows "remembers (rp_fast (snd (handle_input e io v input s))) (rp_answers (snd (handle_input e io v input s)))
    \<and> fp_rules (rp_fast (snd (handle_input e io v input s))) = fp_rules (rp_fast s)"
proof (cases "input = [] \<or> input = ''exit'' \<or> input = ''quit''")
  case True
  then show ?thesis using assms by (auto simp: handle_input_def)
next
  case False
  obtain now t where t: "on_agent (outside (en_now e)) s = (now, t)" by fastforce
  note same = on_agent_outside [OF t]
  obtain out f where f: "try_handle input now (rp_fast t) = (out, f)" by fastforce
  from try_handle_remembers [OF this, of "rp_answers s"] assms same
  have "remembers f (rp_answers s @ (case out of None \<Rightarrow> [] | Some a \<Rightarrow> [(a, now)]))" "fp_rules f = fp_rules (rp_fast s)"
    by simp_all
  then show ?thesis using False t f same
    by (auto simp: handle_input_def fast_simps model_keeps split: option.splits)
qed

lemma turn_shape:
  obtains (ends) r s' where "repl_turn e io t s = (Some r, s')"
      "ag_trace (rp_agent s') = ag_trace (rp_agent s)"
      "rp_fast s' = rp_fast s" "rp_answers s' = rp_answers s"
  | (input) l s' where "tn_line t = Line l" "repl_turn e io t s = handle_input e io (tn_view t) (trim l) s'"
      "ag_trace (rp_agent s') = ag_trace (rp_agent s)"
      "rp_fast s' = rp_fast s" "rp_answers s' = rp_answers s"
proof -
  obtain stop u where u: "on_agent (outside (en_cancelled e)) s = (stop, u)" by fastforce
  note same = on_agent_outside [OF u]
  show thesis
  proof (cases stop)
    case True
    then show thesis using ends [of Closed u] u same by (simp add: repl_turn_def)
  next
    case False
    let ?u = "show_text ''bonsai> '' (show_inbox e io (tn_inbox t) (set_busy io False u))"
    have same': "ag_trace (rp_agent ?u) = ag_trace (rp_agent s)"
      "rp_fast ?u = rp_fast s" "rp_answers ?u = rp_answers s" using same by simp_all
    show thesis
    proof (cases "tn_line t")
      case (Line l)
      then show thesis using input [of l ?u] u False same' by (simp add: repl_turn_def Let_def)
    qed (use ends [of _ ?u] u False same' in \<open>simp_all add: repl_turn_def Let_def\<close>)
  qed
qed

lemma turn_within:
  "keeps_within e (if reaches_model t then asks_per_run e else 0) (rp_agent s) (rp_agent (snd (repl_turn e io t s)))"
proof (cases rule: turn_shape [of e io t s])
  case (ends r s')
  then show ?thesis by (intro keeps_within_same) simp_all
next
  case (input l s')
  then have "keeps_within e 0 (rp_agent s) (rp_agent s')" by (simp add: keeps_within_same)
  from keeps_within_trans [OF this input_within [of e "trim l" s' io "tn_view t"]] show ?thesis
    using input by (simp add: reaches_model_def)
qed

lemma turn_remembers:
  assumes "remembers (rp_fast s) (rp_answers s)"
  shows "remembers (rp_fast (snd (repl_turn e io t s))) (rp_answers (snd (repl_turn e io t s)))
    \<and> fp_rules (rp_fast (snd (repl_turn e io t s))) = fp_rules (rp_fast s)"
proof (cases rule: turn_shape [of e io t s])
  case (ends r s')
  then show ?thesis using assms by simp
next
  case (input l s')
  then show ?thesis using input_remembers [of s' e io "tn_view t" "trim l"] assms by simp
qed

lemma session_within:
  "keeps_within e (length (filter reaches_model ts) * asks_per_run e) (rp_agent s) (rp_agent (snd (run_repl e io ts s)))"
proof (induction ts arbitrary: s)
  case (Cons t ts)
  obtain r u where r: "repl_turn e io t s = (r, u)" by fastforce
  have one: "keeps_within e (if reaches_model t then asks_per_run e else 0) (rp_agent s) (rp_agent u)"
    using turn_within [of e t s io] r by simp
  show ?case
  proof (cases r)
    case None
    then show ?thesis using keeps_within_trans [OF one Cons.IH [of u]] r by (cases "reaches_model t") simp_all
  next
    case (Some x)
    then show ?thesis using one r by (cases "reaches_model t") (auto simp: keeps_within_def)
  qed
qed (simp add: keeps_within_same)

lemma session_remembers:
  "remembers (rp_fast s) (rp_answers s) \<Longrightarrow>
    remembers (rp_fast (snd (run_repl e io ts s))) (rp_answers (snd (run_repl e io ts s)))
    \<and> fp_rules (rp_fast (snd (run_repl e io ts s))) = fp_rules (rp_fast s)"
proof (induction ts arbitrary: s)
  case (Cons t ts)
  obtain r u where r: "repl_turn e io t s = (r, u)" by fastforce
  have "remembers (rp_fast u) (rp_answers u) \<and> fp_rules (rp_fast u) = fp_rules (rp_fast s)"
    using turn_remembers [OF Cons.prems, of e io t] r by simp
  then show ?case using Cons.IH [of u] r by (cases r) simp_all
qed simp

lemma start_remembers: "remembers (rp_fast (repl_start a)) (rp_answers (repl_start a))"
  by (simp add: repl_start_def remembers_def default_rules_eq default_rules_def rule_answers_def m_fp_greeting_def)

section \<open>Properties\<close>

text \<open>
  C11. A whole interactive session, whatever is typed and whatever the model answers: in its history every
  tool call was asked for by the output the model gave last and passed every check, as in a single run; and the
  model is asked at most as often as a run may ask it for every line that is not blank, does not leave
  the session and is no command.
\<close>

theorem interactive_session_sanctioned:
  "\<exists>es. ag_trace (rp_agent (snd (run_repl e io ts s))) = ag_trace (rp_agent s) @ es
    \<and> in_reply e None es
    \<and> length (ag_prompts (rp_agent (snd (run_repl e io ts s))))
       \<le> length (ag_prompts (rp_agent s))
         + length (filter reaches_model ts)
           * (ac_max_iterations (en_config e) * (1 + of_bool (cr_enabled (critic_of e))))"
  using session_within [of e ts s io] unfolding keeps_within_def heard_def asks_per_run_def by blast

text \<open>
  C31. The fast path does not repeat itself. In an interactive session, whatever is typed and however
  the clock moves, the instants at which a rule answers without the model lie at least its cooldown
  apart: a second for \<open>ping\<close> and the version, three for a greeting.
\<close>

theorem fast_answers_keep_distance:
  "sorted_wrt (\<lambda>s t. s + 10 ^ 9 \<le> t)
      (map snd (filter (\<lambda>a. fst a = ''pong'') (rp_answers (snd (run_repl e io ts (repl_start a))))))
   \<and> sorted_wrt (\<lambda>s t. s + 3 * 10 ^ 9 \<le> t)
      (map snd (filter (\<lambda>a. fst a = m_fp_greeting) (rp_answers (snd (run_repl e io ts (repl_start a))))))
   \<and> sorted_wrt (\<lambda>s t. s + 10 ^ 9 \<le> t)
      (map snd (filter (\<lambda>a. fst a = ''bonsai-agent v0.1.0'') (rp_answers (snd (run_repl e io ts (repl_start a))))))"
proof -
  have "remembers (rp_fast (snd (run_repl e io ts (repl_start a)))) (rp_answers (snd (run_repl e io ts (repl_start a))))"
    "fp_rules (rp_fast (snd (run_repl e io ts (repl_start a)))) = default_rules"
    using session_remembers [OF start_remembers, of e io ts a] by (simp_all add: repl_start_def default_rules_eq)
  then show ?thesis by (simp add: remembers_def default_rules_def rule_answers_def)
qed

end
