(* ===== verification/Compaction_Facts.thy ===== *)
theory Compaction_Facts
  imports Compaction
begin

text \<open>
  What the compaction levels do: level 1 as a pointwise replacement that no budget, score or pair
  protection influences, level 2 and its growing note of conclusions, level 3 and the system
  messages it repeats, the cascade and its bound, and the split of the budget.
\<close>

section \<open>Level 1\<close>

lemma prune_message_simps [simp]:
  "msg_role (prune_message config m) = msg_role m"
  "msg_tool_call_id (prune_message config m) = msg_tool_call_id m"
  "msg_attachments (prune_message config m) = msg_attachments m"
  by (simp_all add: prune_message_def)

lemma prune_message_other: "msg_role m \<noteq> Tool \<Longrightarrow> prune_message config m = m"
  by (simp add: prune_message_def)

lemma length_fold_prune_at [simp]: "length (fold (prune_at config) is ms) = length ms"
  by (induction "is" arbitrary: ms) (simp_all add: prune_at_def)

lemma nth_prune_at:
  "j < length ms \<Longrightarrow> prune_at config i ms ! j = (if j = i then prune_message config (ms ! j) else ms ! j)"
  by (simp add: prune_at_def nth_list_update)

lemma length_prune_at [simp]: "length (prune_at config i ms) = length ms"
  by (simp add: prune_at_def)

lemma nth_fold_prune_at:
  assumes "distinct is" and "\<forall>i \<in> set is. i < length ms" and "j < length ms"
  shows "fold (prune_at config) is ms ! j = (if j \<in> set is then prune_message config (ms ! j) else ms ! j)"
  using assms
proof (induction "is" arbitrary: ms)
  case Nil
  then show ?case by simp
next
  case (Cons i "is")
  have "fold (prune_at config) is (prune_at config i ms) ! j
      = (if j \<in> set is then prune_message config (prune_at config i ms ! j) else prune_at config i ms ! j)"
    using Cons by (intro Cons.IH) auto
  with Cons.prems show ?case by (auto simp: nth_prune_at)
qed

lemma pairs_shape:
  assumes "(a, b) \<in> set (find_ai_tool_pairs ms)"
  shows "b = a + 1 \<and> b < length ms \<and> msg_role (ms ! a) = Assistant \<and> msg_role (ms ! b) = Tool"
  using assms by (auto simp: find_ai_tool_pairs_def)

text \<open>A pair is protected when its answer is kept; its call is then the message at the boundary,
  an assistant message, which is never pruned anyway.\<close>

lemma protected_below_boundary:
  assumes "i \<in> set (protected_indices ms boundary)" and "i < boundary"
  shows "msg_role (ms ! i) = Assistant"
  using assms pairs_shape by (fastforce simp: protected_indices_def split: if_splits)

lemma find_upt_Some: "List.find P [0..<n] = Some i \<Longrightarrow> i < n \<and> P i"
  by (auto simp: find_Some_iff)

lemma find_rev_upt_Some: "List.find P (rev [0..<n]) = Some i \<Longrightarrow> i < n \<and> P i"
  using find_Some_iff [of P "rev [0..<n]" i] nth_mem [of _ "rev [0..<n]"] by auto

lemma tool_is_candidate:
  assumes "i < boundary" and "boundary \<le> length ms" and "msg_role (ms ! i) = Tool"
  shows "i \<in> set (level1_candidates ms boundary)"
proof -
  have "i \<notin> set (protected_indices ms boundary)"
    using protected_below_boundary [of i ms boundary] assms by auto
  moreover have "Some i \<noteq> first_index (\<lambda>m. msg_role m = User) (take boundary ms)"
    using assms find_upt_Some [of _ "length (take boundary ms)" i] unfolding first_index_def by fastforce
  moreover have "Some i \<noteq> last_index (\<lambda>m. msg_role m = User) (take boundary ms)"
    using assms find_rev_upt_Some [of _ "length (take boundary ms)" i] unfolding last_index_def by fastforce
  ultimately show ?thesis using assms by (simp add: level1_candidates_def Let_def)
qed

lemma level1_candidates_bound: "i \<in> set (level1_candidates ms boundary) \<Longrightarrow> i < boundary"
  by (auto simp: level1_candidates_def Let_def)

lemma distinct_level1_order: "distinct (level1_order config ms ks (level1_candidates ms boundary))"
  by (simp add: level1_order_def level1_candidates_def Let_def)

lemma set_level1_order [simp]: "set (level1_order config ms ks is) = set is"
  by (simp add: level1_order_def)

lemma level1_boundary_le: "level1_boundary config ms \<le> length ms"
  by (simp add: level1_boundary_def)

lemma fold_prune_candidates:
  assumes "boundary \<le> length ms"
  shows "fold (prune_at config) (level1_order config ms ks (level1_candidates ms boundary)) ms
    = map (prune_message config) (take boundary ms) @ drop boundary ms"
proof (rule nth_equalityI)
  show "length (fold (prune_at config) (level1_order config ms ks (level1_candidates ms boundary)) ms)
      = length (map (prune_message config) (take boundary ms) @ drop boundary ms)"
    using assms by simp
next
  fix j
  assume "j < length (fold (prune_at config) (level1_order config ms ks (level1_candidates ms boundary)) ms)"
  then have j: "j < length ms" by simp
  have "fold (prune_at config) (level1_order config ms ks (level1_candidates ms boundary)) ms ! j
      = (if j \<in> set (level1_candidates ms boundary) then prune_message config (ms ! j) else ms ! j)"
  proof -
    have "\<forall>i \<in> set (level1_order config ms ks (level1_candidates ms boundary)). i < length ms"
      using assms by (auto dest: level1_candidates_bound)
    from nth_fold_prune_at [OF distinct_level1_order this j] show ?thesis by simp
  qed
  also have "\<dots> = (if j < boundary then prune_message config (ms ! j) else ms ! j)"
    using tool_is_candidate [of j boundary ms] level1_candidates_bound [of j ms boundary] assms
    by (cases "msg_role (ms ! j) = Tool") (auto simp: prune_message_other)
  also have "\<dots> = (map (prune_message config) (take boundary ms) @ drop boundary ms) ! j"
    using j assms by (simp add: nth_append)
  finally show "fold (prune_at config) (level1_order config ms ks (level1_candidates ms boundary)) ms ! j
      = (map (prune_message config) (take boundary ms) @ drop boundary ms) ! j" .
qed

lemma level1_pointwise:
  "compact_level1_with_budget config allocated ms =
    (if length ms \<le> placeholder_keep_recent config then ms
     else map (prune_message config) (take (level1_boundary config ms) ms)
          @ drop (level1_boundary config ms) ms)"
  by (simp add: compact_level1_with_budget_def Let_def fold_prune_candidates level1_boundary_le)

lemma keep_by_tokens_le: "keep_by_tokens protect acc ms \<le> length ms"
  by (induction ms arbitrary: acc) (auto simp: Let_def)

section \<open>Level 2\<close>

lemma summarize_message_simps [simp]:
  "msg_role (summarize_message n m) = msg_role m"
  "msg_tool_call_id (summarize_message n m) = msg_tool_call_id m"
  by (simp_all add: summarize_message_def)

lemma append_content_simps [simp]:
  "msg_role (append_content s m) = msg_role m"
  "msg_content (append_content s m) = msg_content m @ s"
  by (simp_all add: append_content_def)

lemma last_index_Some: "last_index P xs = Some i \<Longrightarrow> i < length xs \<and> P (xs ! i)"
  unfolding last_index_def by (rule find_rev_upt_Some)

lemma last_index_eqI:
  assumes "i < length xs" and "P (xs ! i)" and "\<And>j. i < j \<Longrightarrow> j < length xs \<Longrightarrow> \<not> P (xs ! j)"
  shows "last_index P xs = Some i"
proof -
  have none: "List.find (\<lambda>j. P (xs ! j)) (rev [Suc i..<length xs]) = None"
    using assms(3) by (auto simp: find_None_iff)
  have "rev [0..<length xs] = rev [Suc i..<length xs] @ i # rev [0..<i]"
    using assms(1) by (metis append.assoc append_Cons append_Nil le0 less_imp_le_nat rev.simps(2) rev_append
        upt_Suc_append upt_add_eq_append upt_conv_Cons le_add_diff_inverse)
  moreover have "List.find Q (us @ v # vs) = Some v" if "List.find Q us = None" and "Q v" for Q us v vs
    using that by (induction us) (auto split: if_splits)
  ultimately show ?thesis
    using none assms(2) unfolding last_index_def by simp
qed

lemma last_index_update:
  assumes "last_index P xs = Some i" and "P x"
  shows "last_index P (xs[i := x]) = Some i"
proof -
  have i: "i < length xs" using last_index_Some [OF assms(1)] by simp
  have "List.find (\<lambda>j. P (xs[i := x] ! j)) (rev [0..<length xs]) = Some i"
    if f: "List.find (\<lambda>j. P (xs ! j)) (rev [0..<length xs]) = Some i"
  proof -
    have "(\<lambda>j. P (xs[i := x] ! j)) = (\<lambda>j. P (xs ! j))"
    proof
      fix j
      show "P (xs[i := x] ! j) = P (xs ! j)"
        using i assms(2) last_index_Some [OF assms(1)] by (cases "j = i") auto
    qed
    with f show ?thesis by simp
  qed
  with assms(1) show ?thesis by (simp add: last_index_def)
qed

lemma tag_blocks_append: "prefix (tag_blocks op cl s) (tag_blocks op cl (s @ t))"
proof (induction op cl s rule: tag_blocks.induct)
  case (1 op cl s)
  show ?case
  proof (cases "str_find s op")
    case None
    then show ?thesis by (subst tag_blocks.simps) simp
  next
    case (Some i)
    let ?after = "drop (i + length op) s"
    have found: "str_find (s @ t) op = Some i" by (rule str_find_append [OF Some])
    have after: "drop (i + length op) (s @ t) = ?after @ t"
      using str_find_Some [OF Some] by simp
    show ?thesis
    proof (cases "str_find ?after cl")
      case None
      then show ?thesis using Some by (subst tag_blocks.simps) simp
    next
      case (Some e)
      have found2: "str_find (?after @ t) cl = Some e" by (rule str_find_append [OF Some])
      have after2: "drop (e + length cl) (?after @ t) = drop (e + length cl) ?after @ t"
        and block: "take e (?after @ t) = take e ?after"
        using str_find_Some [OF Some] by simp_all
      show ?thesis
      proof (cases "op = []")
        case True
        then show ?thesis
          using \<open>str_find s op = Some i\<close> Some by (subst tag_blocks.simps) simp
      next
        case False
        have l: "tag_blocks op cl s = take e ?after # tag_blocks op cl (drop (e + length cl) ?after)"
          using \<open>str_find s op = Some i\<close> Some False
          by (subst tag_blocks.simps) (simp only: option.case Let_def if_False)
        have r: "tag_blocks op cl (s @ t)
            = take e ?after # tag_blocks op cl (drop (e + length cl) ?after @ t)"
          using found found2 False
          by (subst tag_blocks.simps) (simp only: option.case Let_def if_False after after2 block)
        from "1" [OF \<open>str_find s op = Some i\<close> refl Some False] show ?thesis
          unfolding l r by simp
      qed
    qed
  qed
qed

lemma extract_thinking_nonempty:
  "extract_thinking_summary ms \<noteq> [] \<longleftrightarrow>
    (\<exists>m \<in> set ms. msg_role m = Assistant
      \<and> (\<exists>b \<in> set (tag_blocks ''<think>'' ''</think>'' (msg_content m)). block_summary b \<noteq> None))"
  by (auto simp: extract_thinking_summary_def List.map_filter_def filter_empty_conv)

text \<open>
  A settled conversation: the old assistant messages are within the limit or already marked, the
  last of them is at \<open>i\<close> and marked, and one of them still holds a finished \<open>think\<close> block.
\<close>

definition level2_settled :: "compaction_config \<Rightarrow> nat \<Rightarrow> message list \<Rightarrow> bool" where
  "level2_settled config i ms \<longleftrightarrow>
    (let old = take (length ms - placeholder_keep_recent config) ms
     in placeholder_keep_recent config < length ms
        \<and> last_index (\<lambda>m. msg_role m = Assistant) old = Some i
        \<and> str_contains (msg_content (old ! i)) ''...[summarized]''
        \<and> map (summarize_message (summary_max_chars config)) old = old
        \<and> extract_thinking_summary old \<noteq> [])"

lemma level2_max_default [simp]: "level2_summary_max config None ms = summary_max_chars config"
  by (simp add: level2_summary_max_def)

lemma summarize_marked: "str_contains (msg_content m) ''...[summarized]'' \<Longrightarrow> summarize_message n m = m"
  by (simp add: summarize_message_def)

lemma extract_thinking_update:
  assumes "extract_thinking_summary ms \<noteq> []" and "i < length ms"
  shows "extract_thinking_summary (ms[i := append_content s (ms ! i)]) \<noteq> []"
proof -
  obtain j b where j: "j < length ms" "msg_role (ms ! j) = Assistant"
    and b: "b \<in> set (tag_blocks ''<think>'' ''</think>'' (msg_content (ms ! j)))" "block_summary b \<noteq> None"
    using assms(1) unfolding extract_thinking_nonempty by (metis in_set_conv_nth)
  let ?ms = "ms[i := append_content s (ms ! i)]"
  have "?ms ! j \<in> set ?ms" using j by (metis length_list_update nth_mem)
  moreover have "msg_role (?ms ! j) = Assistant" using j assms(2) by (cases "j = i") auto
  moreover have "b \<in> set (tag_blocks ''<think>'' ''</think>'' (msg_content (?ms ! j)))"
    using b(1) assms(2) set_mono_prefix [OF tag_blocks_append [of "''<think>''" "''</think>''" "msg_content (ms ! j)" s]]
    by (cases "j = i") auto
  ultimately show ?thesis using b(2) unfolding extract_thinking_nonempty by blast
qed

lemma length_thinking_note: "22 \<le> length (thinking_note ts)"
  by (simp add: thinking_note_def nl_def)

lemma level2_settled_step:
  assumes "level2_settled config i ms"
  shows "level2_settled config i (compact_level2 config ms)"
    and "length (compact_level2 config ms) = length ms"
    and "\<exists>extra. 22 \<le> length extra
      \<and> compact_level2 config ms = ms[i := append_content extra (ms ! i)]"
proof -
  define b where "b = length ms - placeholder_keep_recent config"
  define old where "old = take b ms"
  define extra where "extra = thinking_note (extract_thinking_summary old)"
  have keep: "placeholder_keep_recent config < length ms"
    and last: "last_index (\<lambda>m. msg_role m = Assistant) old = Some i"
    and mark: "str_contains (msg_content (old ! i)) ''...[summarized]''"
    and fixed: "map (summarize_message (summary_max_chars config)) old = old"
    and think: "extract_thinking_summary old \<noteq> []"
    using assms by (simp_all add: level2_settled_def Let_def old_def b_def)
  have i: "i < length old" and role: "msg_role (old ! i) = Assistant"
    using last_index_Some [OF last] by auto
  then have ib: "i < b" and old_i: "old ! i = ms ! i" by (simp_all add: old_def)
  have "compact_level2 config ms = old[i := append_content extra (old ! i)] @ drop b ms"
    using keep last think fixed unfolding compact_level2_def compact_level2_with_budget_def
    by (simp add: Let_def old_def b_def extra_def)
  also have "\<dots> = (old @ drop b ms)[i := append_content extra (old ! i)]"
    using i by (simp add: list_update_append)
  finally have result: "compact_level2 config ms = ms[i := append_content extra (ms ! i)]"
    using old_i by (simp add: old_def)
  then show len: "length (compact_level2 config ms) = length ms" by simp
  show "\<exists>extra. 22 \<le> length extra \<and> compact_level2 config ms = ms[i := append_content extra (ms ! i)]"
    using result length_thinking_note unfolding extra_def by blast
  define old' where "old' = old[i := append_content extra (old ! i)]"
  have old': "take b (compact_level2 config ms) = old'"
    by (simp add: result old'_def old_def take_update_swap flip: old_i)
  have "last_index (\<lambda>m. msg_role m = Assistant) old' = Some i"
    unfolding old'_def by (rule last_index_update [OF last]) (simp add: role)
  moreover have mark': "str_contains (msg_content (old' ! i)) ''...[summarized]''"
    using str_contains_append [OF mark, of "[]" extra] i by (simp add: old'_def)
  moreover have "map (summarize_message (summary_max_chars config)) old' = old'"
  proof -
    have "summarize_message (summary_max_chars config) (append_content extra (old ! i)) = append_content extra (old ! i)"
      using mark' i by (intro summarize_marked) (simp add: old'_def)
    then show ?thesis unfolding old'_def by (simp add: map_update fixed)
  qed
  moreover have "extract_thinking_summary old' \<noteq> []"
    unfolding old'_def by (rule extract_thinking_update [OF think i])
  ultimately show "level2_settled config i (compact_level2 config ms)"
    using keep old' by (simp add: level2_settled_def Let_def len b_def)
qed

lemma level2_settled_iterate:
  assumes "level2_settled config i ms"
  shows "level2_settled config i ((compact_level2 config ^^ n) ms)
    \<and> length (msg_content (ms ! i)) + 22 * n \<le> length (msg_content ((compact_level2 config ^^ n) ms ! i))"
proof (induction n)
  case 0
  then show ?case using assms by simp
next
  case (Suc n)
  let ?m = "(compact_level2 config ^^ n) ms"
  obtain extra where extra: "22 \<le> length extra" "compact_level2 config ?m = ?m[i := append_content extra (?m ! i)]"
    using level2_settled_step(3) Suc by blast
  have "i < length ?m"
    using Suc last_index_Some by (fastforce simp: level2_settled_def Let_def)
  moreover have "level2_settled config i (compact_level2 config ?m)"
    using Suc level2_settled_step(1) by blast
  ultimately show ?case using Suc extra by simp
qed

section \<open>Level 3\<close>

lemma handoff_is_system: "build_handoff_summary ord config ms = Some h \<Longrightarrow> msg_role h = System"
  by (auto simp: build_handoff_summary_def Let_def split: if_splits)

lemma count_list_ge1: "x \<in> set xs \<Longrightarrow> 1 \<le> count_list xs x"
  by (induction xs) auto

lemma count_list_filter: "count_list (filter P xs) x = (if P x then count_list xs x else 0)"
  by (induction xs) auto

section \<open>The cascade\<close>

lemma prune_keeps_shape:
  "map msg_role (compact_level1_with_budget config a ms) = map msg_role ms"
  "length (compact_level1_with_budget config a ms) = length ms"
proof -
  have "map msg_role (map (prune_message config) (take n ms) @ drop n ms) = map msg_role ms" for n
    by (metis (no_types, lifting) append_take_drop_id comp_apply list.map_comp map_append map_cong prune_message_simps(1))
  then show r: "map msg_role (compact_level1_with_budget config a ms) = map msg_role ms"
    by (simp add: level1_pointwise)
  then show "length (compact_level1_with_budget config a ms) = length ms"
    by (metis length_map)
qed

lemma level2_keeps_shape:
  "map msg_role (compact_level2_with_budget config a ms) = map msg_role ms"
  "length (compact_level2_with_budget config a ms) = length ms"
proof -
  let ?b = "length ms - placeholder_keep_recent config"
  have old: "map msg_role (map (summarize_message n) (take b ms)) = map msg_role (take b ms)" for n b
    by (simp add: comp_def)
  have upd: "map msg_role (xs[i := append_content s (xs ! i)]) = map msg_role xs" for xs i s
    by (cases "i < length xs") (simp_all add: map_update list_update_same_conv list_update_beyond)
  show r: "map msg_role (compact_level2_with_budget config a ms) = map msg_role ms"
    unfolding compact_level2_with_budget_def Let_def
    by (simp add: upd old split: option.splits flip: take_map drop_map)
      (simp add: comp_def flip: take_map drop_map)
  then show "length (compact_level2_with_budget config a ms) = length ms"
    by (metis length_map)
qed

lemma level2_keeps_tail:
  "drop (length ms - placeholder_keep_recent config) (compact_level2_with_budget config a ms)
    = drop (length ms - placeholder_keep_recent config) ms"
  by (auto simp: compact_level2_with_budget_def Let_def split: option.splits)

lemma level1_keeps_tail:
  "drop (length ms - placeholder_keep_recent config) (compact_level1_with_budget config a ms)
    = drop (length ms - placeholder_keep_recent config) ms"
proof -
  have le: "level1_boundary config ms \<le> length ms - placeholder_keep_recent config"
    by (simp add: level1_boundary_def)
  then show ?thesis by (simp add: level1_pointwise level1_boundary_le)
qed

lemma level0_keeps_shape:
  "length (fst (compact_level0 H wr config ms)) = length ms"
  "map msg_role (fst (compact_level0 H wr config ms)) = map msg_role ms"
  by (simp_all add: compact_level0_def offload_def comp_def Let_def)

section \<open>The split of the budget\<close>

text \<open>A ratio of \<open>c\<close> twentieths, rounded upwards by \<open>f32\<close>, is applied without an error that shows.\<close>

lemma share_twentieths:
  assumes ratio: "br = of_nat c / 20" and c: "c \<le> 20" and n: "n \<le> 2 ^ 18"
    and r: "r = fl32 br" and up: "br \<le> r"
  shows "share n r = n * c div 20"
proof -
  let ?x = "(of_nat (n * c) :: rat) / 20"
  have n_rat: "(of_nat n :: rat) \<le> 2 ^ 18"
    using n by (metis of_nat_le_iff of_nat_numeral of_nat_power)
  have br: "0 \<le> br" "br \<le> 1" using ratio c by simp_all
  have r01: "0 \<le> r" "r \<le> 1"
    using fl_mono [of br 1 24] fl_nonneg [of br 24] br r by simp_all
  have n_exact: "fl32 (of_nat n) = of_nat n"
    using n by (intro fl_of_nat) simp_all
  define y where "y = of_nat n * r"
  have x: "?x = of_nat n * br" by (simp add: ratio)
  have xy: "?x \<le> y" unfolding x y_def using up by (simp add: mult_left_mono)
  have e1: "\<bar>r - br\<bar> \<le> 1 / 2 ^ 24"
    using fl_error [of 24 br] br r by simp
  have "y - ?x = of_nat n * (r - br)"
    unfolding x y_def by (simp add: right_diff_distrib)
  also have "\<dots> \<le> 2 ^ 18 * (1 / 2 ^ 24)"
    using e1 up n_rat by (intro mult_mono) simp_all
  finally have yx: "y \<le> ?x + 1 / 2 ^ 6" by (simp add: field_simps)
  have "y \<le> 2 ^ 18 * 1"
    unfolding y_def using n_rat r01 by (intro mult_mono) simp_all
  moreover have y0: "0 \<le> y" unfolding y_def using r01 by simp
  ultimately have "fl32 y \<le> y + 1 / 2 ^ 6"
    using fl_error [of 24 y] abs_ge_self [of "fl32 y - y"] by simp
  with yx have upper: "fl32 y \<le> ?x + 1 / 2 ^ 5" by simp
  define q where "q = n * c div 20"
  have q_le: "of_nat q \<le> ?x"
  proof -
    have "q * 20 \<le> n * c" unfolding q_def by (rule div_times_less_eq_dividend)
    then have "(of_nat (q * 20) :: rat) \<le> of_nat (n * c)" by (simp only: of_nat_le_iff)
    then show ?thesis by simp
  qed
  have q_gt: "?x \<le> of_nat q + 19 / 20"
  proof -
    have "n * c \<le> q * 20 + 19" unfolding q_def by presburger
    then have "(of_nat (n * c) :: rat) \<le> of_nat (q * 20 + 19)" by (simp only: of_nat_le_iff)
    then show ?thesis by simp
  qed
  have "q < 2 ^ 24"
  proof -
    have "q \<le> n * 20 div 20" unfolding q_def using c by (intro div_le_mono) simp
    then show ?thesis using n by simp
  qed
  then have "fl32 (of_nat q) = of_nat q" by (intro fl_of_nat) simp_all
  moreover have "fl32 (of_nat q) \<le> fl32 y" using q_le xy by (intro fl_mono) simp_all
  ultimately have lower: "of_nat q \<le> fl32 y" by simp
  have "\<lfloor>fl32 y\<rfloor> = int q"
    using lower upper q_gt by (intro floor_unique) simp_all
  then show ?thesis by (simp add: share_def n_exact trunc_usize_def q_def flip: y_def)
qed

lemma default_ratios_up:
  "3 / 10 \<le> fl32 (3 / 10)" "15 / 100 \<le> fl32 (15 / 100)" "1 / 4 \<le> fl32 (1 / 4)"
  by code_simp+

lemma default_shares:
  assumes "n \<le> 2 ^ 18"
  shows "share n (fl32 (3 / 10)) = n * 6 div 20"
    and "share n (fl32 (15 / 100)) = n * 3 div 20"
    and "share n (fl32 (1 / 4)) = n * 5 div 20"
  using assms default_ratios_up
  by (intro share_twentieths [OF _ _ _ refl]; simp)+

section \<open>Properties\<close>

text \<open>
  C37. Level 1 replaces every tool output of more than \<open>prune_minimum_chars\<close> bytes before the
  boundary by its placeholder and touches nothing else. The scores, the overflowing memory kinds
  and the protection of call and answer pairs decide only the order of the replacements, so the
  allocated budget has no influence on the result.
\<close>

theorem level1_prunes_old_tools:
  "compact_level1_with_budget config allocated ms =
    (if length ms \<le> placeholder_keep_recent config then ms
     else map (prune_message config) (take (level1_boundary config ms) ms)
          @ drop (level1_boundary config ms) ms)
   \<and> compact_level1_with_budget config allocated ms = compact_level1 config ms"
  by (simp add: level1_pointwise compact_level1_def)

text \<open>
  Level 2 is not idempotent: once the old part of a conversation is settled, each further call
  appends the preserved conclusions to the last old assistant message again, at least 22 bytes a
  time, without bound.
\<close>

theorem level2_keeps_growing:
  assumes "level2_settled config i ms"
  shows "length (msg_content (ms ! i)) + 22 * n \<le> length (msg_content ((compact_level2 config ^^ n) ms ! i))"
  using level2_settled_iterate [OF assms] by simp

theorem level2_keeps_growing_witness:
  "length (msg_content ([msg_assistant ''<think>a</think>b...[summarized]'', msg_user ''q''] ! 0)) + 22 * 1000
    \<le> length (msg_content ((compact_level2 (cc_default\<lparr>placeholder_keep_recent := 1\<rparr>) ^^ 1000)
         [msg_assistant ''<think>a</think>b...[summarized]'', msg_user ''q''] ! 0))"
proof (rule level2_keeps_growing)
  show "level2_settled (cc_default\<lparr>placeholder_keep_recent := 1\<rparr>) 0
      [msg_assistant ''<think>a</think>b...[summarized]'', msg_user ''q'']"
    by code_simp
qed

text \<open>
  Level 3 leaves at most the system messages, one handoff note and the newest messages. It
  keeps every system message and then the newest messages whatever their role, so a system message
  among the newest ones is in the conversation twice afterwards.
\<close>

theorem level3_repeats_recent_system:
  assumes "emergency_keep config + 1 < length ms"
    and "msg_role m = System" and "m \<in> set (last_n (emergency_keep config) ms)"
  shows "2 \<le> count_list (compact_level3 ord config ms) m
    \<and> length (compact_level3 ord config ms)
       \<le> length (filter (\<lambda>m. msg_role m = System) ms) + 1 + emergency_keep config"
proof -
  define hs where "hs = (case build_handoff_summary ord config ms of None \<Rightarrow> [] | Some h \<Rightarrow> [h])"
  have r: "compact_level3 ord config ms
      = filter (\<lambda>m. msg_role m = System) ms @ hs @ last_n (emergency_keep config) ms"
    using assms(1) by (simp add: compact_level3_def hs_def)
  have "length hs \<le> 1" by (simp add: hs_def split: option.splits)
  moreover have "1 \<le> count_list ms m" and "1 \<le> count_list (last_n (emergency_keep config) ms) m"
    using assms(3) set_last_n [of "emergency_keep config" ms] by (metis count_list_ge1 subsetD)+
  ultimately show ?thesis
    using assms(2) by (simp add: r count_list_filter length_last_n)
qed

theorem level3_repeats_recent_system_witness:
  "2 \<le> count_list (compact_level3 (\<lambda>m. m) (cc_default\<lparr>emergency_keep := 2\<rparr>)
        [msg_user ''q'', msg_assistant ''a'', msg_system ''s'', msg_user ''r'']) (msg_system ''s'')
   \<and> length (compact_level3 (\<lambda>m. m) (cc_default\<lparr>emergency_keep := 2\<rparr>)
        [msg_user ''q'', msg_assistant ''a'', msg_system ''s'', msg_user ''r''])
      \<le> length (filter (\<lambda>m. msg_role m = System)
          [msg_user ''q'', msg_assistant ''a'', msg_system ''s'', msg_user ''r'']) + 1
        + emergency_keep (cc_default\<lparr>emergency_keep := 2\<rparr>)"
  by (rule level3_repeats_recent_system) (simp_all add: cc_default_def last_n_def)

text \<open>
  C38. The cascade reports the level it reached. Below level 3 the conversation fits the budget,
  every message keeps its place and role, and the newest messages are those level 0 left.
\<close>

theorem cascade_below_level3:
  assumes "compact_if_needed ord H wr config ms = (ms', lv, off)" and "lv \<noteq> 3"
  shows "estimate_tokens ms' \<le> max_context_tokens config
    \<and> map msg_role ms' = map msg_role ms
    \<and> drop (length ms - placeholder_keep_recent config) ms'
       = drop (length ms - placeholder_keep_recent config) (fst (compact_level0 H wr config ms))
    \<and> (lv = 0 \<longrightarrow> ms' = fst (compact_level0 H wr config ms))"
proof -
  let ?a = "dynamic_budget_for_compaction config"
  obtain ms0 where l0: "compact_level0 H wr config ms = (ms0, off)"
    using assms(1) by (auto simp: compact_if_needed_def Let_def split: prod.splits if_splits)
  have len: "length ms0 = length ms" and roles0: "map msg_role ms0 = map msg_role ms"
    using level0_keeps_shape [of H wr config ms] l0 by simp_all
  define ms1 where "ms1 = (if estimate_tokens ms0 > max_context_tokens config * 3 div 4
     then compact_level1_with_budget config ?a ms0 else ms0)"
  define ms2 where "ms2 = (if estimate_tokens ms1 > max_context_tokens config * 9 div 10
     then compact_level2_with_budget config ?a ms1 else ms1)"
  have end3: "\<not> estimate_tokens ms2 > max_context_tokens config" and ms': "ms' = ms2"
    and lv0: "lv = 0 \<longrightarrow> ms2 = ms0"
    using assms l0 unfolding compact_if_needed_def Let_def ms2_def ms1_def
    by (auto split: if_splits)
  have len1: "length ms1 = length ms" and roles1: "map msg_role ms1 = map msg_role ms"
    using prune_keeps_shape [of config ?a ms0] len roles0 by (simp_all add: ms1_def)
  have roles2: "map msg_role ms2 = map msg_role ms"
    using level2_keeps_shape [of config ?a ms1] roles1 by (simp add: ms2_def)
  have tail1: "drop (length ms - placeholder_keep_recent config) ms1
      = drop (length ms - placeholder_keep_recent config) ms0"
    using level1_keeps_tail [of ms0 config ?a] len by (simp add: ms1_def)
  have tail2: "drop (length ms - placeholder_keep_recent config) ms2
      = drop (length ms - placeholder_keep_recent config) ms0"
    using level2_keeps_tail [of ms1 config ?a] len1 tail1 by (simp add: ms2_def)
  from end3 ms' lv0 roles2 tail2 l0 show ?thesis by simp
qed

theorem cascade_below_level3_witness:
  "estimate_tokens [msg_user ''q''] \<le> max_context_tokens cc_default
    \<and> [msg_user ''q''] = fst (compact_level0 (\<lambda>s. 0) (\<lambda>p c. True) cc_default [msg_user ''q''])"
proof -
  have "compact_if_needed (\<lambda>m. m) (\<lambda>s. 0) (\<lambda>p c. True) cc_default [msg_user ''q'']
      = ([msg_user ''q''], 0, [])"
    by (simp add: compact_if_needed_def compact_level0_def offload_def List.map_filter_def
        estimate_tokens_def estimate_message_tokens_def char_count_def div_ceil_def cc_default_def)
  from cascade_below_level3 [OF this] show ?thesis by simp
qed

text \<open>
  The default split of up to 2^18 tokens gives the four kinds 30, 30, 15 and 25 percent,
  rounded down, with the remainder on the buffer: although it is computed in 32-bit floats, it adds
  up exactly and no kind gets more than its share.
\<close>

theorem default_split_adds_up:
  assumes "n \<le> 2 ^ 18"
  shows "ab_buffer (allocate br_default n) + ab_summary (allocate br_default n)
      + ab_entities (allocate br_default n) + ab_kg (allocate br_default n) = n
    \<and> ab_summary (allocate br_default n) = n * 30 div 100
    \<and> ab_entities (allocate br_default n) = n * 15 div 100
    \<and> ab_kg (allocate br_default n) = n * 25 div 100
    \<and> n * 30 div 100 \<le> ab_buffer (allocate br_default n)"
proof -
  have parts: "n * 6 div 20 = n * 30 div 100" "n * 3 div 20 = n * 15 div 100" "n * 5 div 20 = n * 25 div 100"
    using div_mult_mult1 [of 5 "n * 6" 20] div_mult_mult1 [of 5 "n * 3" 20]
      div_mult_mult1 [of 5 "n * 5" 20] by (simp_all add: ac_simps)
  define a b c where "a = n * 30 div 100" and "b = n * 15 div 100" and "c = n * 25 div 100"
  have "a * 100 \<le> n * 30" and "b * 100 \<le> n * 15" and "c * 100 \<le> n * 25"
    unfolding a_def b_def c_def by (rule div_times_less_eq_dividend)+
  then have le: "a + a + b + c \<le> n" by linarith
  have "allocate br_default n = \<lparr>ab_total = n, ab_buffer = a + (n - (a + a + b + c)),
      ab_summary = a, ab_entities = b, ab_kg = c\<rparr>"
    using default_shares [OF assms] unfolding parts
    by (simp add: allocate_def br_default_def Let_def a_def b_def c_def)
  with le show ?thesis by (simp add: a_def b_def c_def)
qed

theorem default_split_adds_up_witness:
  "ab_buffer (allocate br_default 14000) + ab_summary (allocate br_default 14000)
      + ab_entities (allocate br_default 14000) + ab_kg (allocate br_default 14000) = 14000
    \<and> ab_summary (allocate br_default 14000) = 14000 * 30 div 100
    \<and> ab_entities (allocate br_default 14000) = 14000 * 15 div 100
    \<and> ab_kg (allocate br_default 14000) = 14000 * 25 div 100
    \<and> 14000 * 30 div 100 \<le> ab_buffer (allocate br_default 14000)"
  by (rule default_split_adds_up) simp

end
