(* ===== verification/Parse_Facts.thy ===== *)
theory Parse_Facts
  imports Parse
begin

text \<open>
  What the parser of the tagged form does: canonical output is read back as it was written, a call
  before the thinking is lost, cleaning the JSON of a call only drops commas, and the XML form can
  slice backwards.
\<close>

section \<open>Searching for tags\<close>

lemma drop_append_exact: "length u = n \<Longrightarrow> drop n (u @ s) = s"
  by simp

text \<open>A pattern that begins with \<open><\<close> is not found inside text without it.\<close>

lemma str_find_skip:
  assumes "c \<notin> set u"
  shows "str_find (u @ s) (c # p) = map_option (\<lambda>i. length u + i) (str_find s (c # p))"
  using assms by (induction u) (cases "str_find s (c # p)"; auto)+

lemma str_find_here: "prefix p s \<Longrightarrow> str_find s p = Some 0"
  by (cases s) auto

lemma str_find_none: "c \<notin> set s \<Longrightarrow> str_find s (c # p) = None"
  by (induction s) auto

lemma find_think_after: "CHR ''<'' \<notin> set u \<Longrightarrow>
  str_find (u @ ''<think>'' @ s) ''<think>'' = Some (length u)"
  using str_find_skip [of "CHR ''<''" u "''<think>'' @ s" "''think>''"] by simp

lemma find_unthink_after: "CHR ''<'' \<notin> set u \<Longrightarrow>
  str_find (u @ ''</think>'' @ s) ''</think>'' = Some (length u)"
  using str_find_skip [of "CHR ''<''" u "''</think>'' @ s" "''/think>''"] by simp

lemma find_call_end_after: "CHR ''<'' \<notin> set u \<Longrightarrow>
  str_find (u @ ''</tool_call>'' @ s) ''</tool_call>'' = Some (length u)"
  using str_find_skip [of "CHR ''<''" u "''</tool_call>'' @ s" "''/tool_call>''"] by simp

definition render_call :: "string \<Rightarrow> string" where
  "render_call j = ''<tool_call>'' @ j @ ''</tool_call>''"

definition render_calls :: "string list \<Rightarrow> string" where
  "render_calls js = concat (map render_call js)"

definition plain :: "string \<Rightarrow> bool" where
  "plain s = (CHR ''<'' \<notin> set s)"

lemma think_not_in_call:
  assumes "plain j"
  shows "str_find (render_call j @ s) ''<think>'' = map_option (\<lambda>i. length (render_call j) + i) (str_find s ''<think>'')"
proof -
  have "str_find (j @ ''</tool_call>'' @ s) ''<think>''
      = map_option (\<lambda>i. length j + i) (str_find (''</tool_call>'' @ s) ''<think>'')"
    using assms by (intro str_find_skip) (simp add: plain_def)
  then show ?thesis
    by (simp add: render_call_def option.map_comp comp_def)
qed

lemma think_not_in_calls:
  assumes "list_all plain js" and "plain t"
  shows "str_find (render_calls js @ t) ''<think>'' = None"
  using assms
proof (induction js)
  case Nil
  then show ?case by (simp add: render_calls_def str_find_none plain_def)
next
  case (Cons j js)
  then show ?case using think_not_in_call [of j "render_calls js @ t"] by (simp add: render_calls_def)
qed

lemma push_text_Nil [simp]: "push_text parts [] = parts"
  by (simp add: push_text_def trim_def trim_start_def trim_end_def)

lemma parse_one_call:
  assumes "plain j" and "str_find s ''<think>'' = None" and "dec (sanitize_tool_call_json j) = Inr call"
  shows "parse_loop dec (render_call j @ s) thinking calls parts = parse_loop dec s thinking (calls @ [call]) parts"
proof -
  let ?s = "render_call j @ s"
  have think: "str_find ?s ''<think>'' = None"
    using think_not_in_call [OF assms(1), of s] assms(2) by simp
  have start: "str_find ?s ''<tool_call>'' = Some 0"
    by (rule str_find_here) (simp add: render_call_def)
  have e: "str_find ?s ''</tool_call>'' = Some (length j + 11)"
    using find_call_end_after [of j s] assms(1)
    by (simp add: render_call_def plain_def)
  have content: "take (length j + 11 - 11) (drop 11 ?s) = j" by (simp add: render_call_def)
  have rest: "drop (length j + 23) ?s = s"
    using drop_append_exact [of "render_call j" "length j + 23" s] by (simp add: render_call_def)
  show ?thesis
    using think start e content rest assms(3)
    by (subst parse_loop.simps) (simp add: Let_def, simp add: render_call_def)
qed

lemma parse_calls:
  assumes "list_all plain js" and "plain t"
    and "list_all2 (\<lambda>j call. dec (sanitize_tool_call_json j) = Inr call) js new"
  shows "parse_loop dec (render_calls js @ t) thinking calls parts = parse_loop dec t thinking (calls @ new) parts"
  using assms
proof (induction js arbitrary: calls new)
  case Nil
  then show ?case by (simp add: render_calls_def)
next
  case (Cons j js)
  then obtain call new' where new: "new = call # new'"
    by (auto simp: list_all2_Cons1)
  have "parse_loop dec (render_call j @ render_calls js @ t) thinking calls parts
      = parse_loop dec (render_calls js @ t) thinking (calls @ [call]) parts"
    using Cons.prems new by (intro parse_one_call think_not_in_calls) simp_all
  also have "\<dots> = parse_loop dec t thinking ((calls @ [call]) @ new') parts"
    using Cons.prems new by (intro Cons.IH) simp_all
  finally show ?case by (simp add: render_calls_def new)
qed

lemma parse_plain:
  assumes "plain t"
  shows "parse_loop dec t thinking calls parts = Inr (finish thinking calls (push_text parts t))"
  using assms by (subst parse_loop.simps) (auto simp: plain_def str_find_none)

lemma parse_think:
  assumes "plain th"
  shows "parse_loop dec (''<think>'' @ th @ ''</think>'' @ s) thinking calls parts
    = parse_loop dec s (Some (trim th)) calls parts"
proof -
  let ?s = "''<think>'' @ th @ ''</think>'' @ s"
  have start: "str_find ?s ''<think>'' = Some 0" by (rule str_find_here) simp
  have e: "str_find ?s ''</think>'' = Some (length th + 7)"
    using find_unthink_after [of th s] assms by (simp add: plain_def)
  have content: "take (length th + 7 - 7) (drop 7 ?s) = th" by simp
  have rest: "drop (15 + length th) ?s = s"
    using drop_append_exact [of "''<think>'' @ th @ ''</think>''" "15 + length th" s] by simp
  show ?thesis
    using start e content rest by (subst parse_loop.simps) (simp add: Let_def)
qed

section \<open>Commas\<close>

lemma drop_commas_filter:
  "filter (\<lambda>c. c \<noteq> '','') (drop_commas in_string esc cs) = filter (\<lambda>c. c \<noteq> '','') cs"
  by (induction in_string esc cs rule: drop_commas.induct) auto

lemma drop_commas_in_order: "subseq (drop_commas in_string esc cs) cs"
  by (induction in_string esc cs rule: drop_commas.induct) auto

section \<open>Coercion\<close>

lemma coerce_value_idem: "coerce_value (coerce_value v) = coerce_value v"
  by (cases v) (auto simp: coerce_value_def split: option.splits float_value.splits)

section \<open>Properties\<close>

text \<open>
  C40. Canonical output is read back as it was written: one thinking block, then the calls, then
  text, none of the contents with a \<open><\<close>, give exactly that thinking, these calls in order and that
  text, trimmed.
\<close>

theorem canonical_output_roundtrip:
  assumes "plain th" and "plain t" and "list_all plain js"
    and "list_all2 (\<lambda>j call. dec (sanitize_tool_call_json j) = Inr call) js calls"
    and "nrm (''<think>'' @ th @ ''</think>'' @ render_calls js @ t)
           = ''<think>'' @ th @ ''</think>'' @ render_calls js @ t"
    and "\<not> is_xml_toolcall_fallback_enabled env"
  shows "parse_assistant_output nrm dec env (''<think>'' @ th @ ''</think>'' @ render_calls js @ t)
    = Inr \<lparr>po_thinking = Some (trim th), po_tool_calls = calls,
           po_text = (if trim t = [] then None else Some (trim t))\<rparr>"
proof -
  have "normalize_special_tags nrm (''<think>'' @ th @ ''</think>'' @ render_calls js @ t)
      = ''<think>'' @ th @ ''</think>'' @ render_calls js @ t"
    using assms(5) by (simp add: normalize_special_tags_def)
  then have "parse_assistant_output nrm dec env (''<think>'' @ th @ ''</think>'' @ render_calls js @ t)
      = parse_loop dec (''<think>'' @ th @ ''</think>'' @ render_calls js @ t) None [] []"
    using assms(6) by (simp add: parse_assistant_output_def del: append.simps)
  also have "\<dots> = parse_loop dec (render_calls js @ t) (Some (trim th)) [] []"
    by (rule parse_think [OF assms(1)])
  also have "\<dots> = parse_loop dec t (Some (trim th)) ([] @ calls) []"
    by (rule parse_calls [OF assms(3,2,4)])
  also have "\<dots> = Inr (finish (Some (trim th)) calls (push_text [] t))"
    by (simp add: parse_plain [OF assms(2)])
  finally show ?thesis by (simp add: finish_def push_text_def Let_def)
qed

theorem canonical_output_roundtrip_witness:
  "parse_assistant_output (\<lambda>s. s) (\<lambda>j. Inr \<lparr>tc_name = j, tc_arguments = JNull\<rparr>) (\<lambda>k. None)
     (''<think>'' @ ''a'' @ ''</think>'' @ render_calls [''1'', ''2''] @ ''done'')
   = Inr \<lparr>po_thinking = Some (trim ''a''),
          po_tool_calls = [\<lparr>tc_name = sanitize_tool_call_json ''1'', tc_arguments = JNull\<rparr>,
                           \<lparr>tc_name = sanitize_tool_call_json ''2'', tc_arguments = JNull\<rparr>],
          po_text = (if trim ''done'' = [] then None else Some (trim ''done''))\<rparr>"
  by (rule canonical_output_roundtrip)
    (simp_all add: plain_def is_xml_toolcall_fallback_enabled_def)

text \<open>
  C34. A call written before a thinking block is lost: the search for \<open><think>\<close> comes first, so the
  whole call becomes plain text of the answer and no call is returned, however well formed it is.
\<close>

theorem call_before_thinking_is_lost:
  assumes "plain j" and "plain th"
    and "nrm (render_call j @ ''<think>'' @ th @ ''</think>'') = render_call j @ ''<think>'' @ th @ ''</think>''"
  shows "parse_assistant_output nrm dec env (render_call j @ ''<think>'' @ th @ ''</think>'')
    = Inr \<lparr>po_thinking = Some (trim th), po_tool_calls = [],
           po_text = (if trim (render_call j) = [] then None else Some (trim (render_call j)))\<rparr>"
proof -
  let ?s = "render_call j @ ''<think>'' @ th @ ''</think>''"
  have "str_contains (render_call j) ''<tool_call>''"
    unfolding str_contains_iff render_call_def by (metis append_Nil)
  then have "str_contains ?s ''<tool_call>''"
    using str_contains_append [of "render_call j" "''<tool_call>''" "[]"] by simp
  moreover have "normalize_special_tags nrm ?s = ?s" using assms(3) by (simp add: normalize_special_tags_def)
  ultimately have "parse_assistant_output nrm dec env ?s = parse_loop dec ?s None [] []"
    by (simp add: parse_assistant_output_def del: append.simps)
  also have "\<dots> = parse_loop dec [] (Some (trim th)) [] (push_text [] (render_call j))"
  proof -
    have start: "str_find ?s ''<think>'' = Some (length (render_call j))"
      using think_not_in_call [OF assms(1), of "''<think>'' @ th @ ''</think>''"]
      by (simp add: str_find_here)
    have "str_find (''<think>'' @ th @ ''</think>'') ''</think>'' = Some (length th + 7)"
      using find_unthink_after [of th "[]"] assms(2) by (simp add: plain_def)
    moreover have "drop (length (render_call j)) ?s = ''<think>'' @ th @ ''</think>''" by simp
    moreover have "take (length th + 7 - 7) (drop (length (render_call j) + 7) ?s) = th"
      by (simp flip: drop_drop add: add.commute)
    moreover have "drop (length (render_call j) + (length th + 7) + 8) ?s = []" by simp
    moreover have "?s \<noteq> []" by simp
    ultimately show ?thesis using start
      by (subst parse_loop.simps) (simp del: append.simps drop_append add: Let_def)
  qed
  also have "\<dots> = Inr (finish (Some (trim th)) [] (push_text [] (render_call j)))"
    by (subst parse_loop.simps) simp
  finally show ?thesis by (simp add: finish_def push_text_def Let_def)
qed

theorem call_before_thinking_is_lost_witness:
  "parse_assistant_output (\<lambda>s. s) (\<lambda>j. Inr \<lparr>tc_name = j, tc_arguments = JNull\<rparr>) (\<lambda>k. None)
     (render_call ''1'' @ ''<think>'' @ ''a'' @ ''</think>'')
   = Inr \<lparr>po_thinking = Some (trim ''a''), po_tool_calls = [],
          po_text = (if trim (render_call ''1'') = [] then None else Some (trim (render_call ''1'')))\<rparr>"
  by (rule call_before_thinking_is_lost) (simp_all add: plain_def)

text \<open>
  Cleaning the JSON of a call, after the fences are gone, removes nothing but commas and keeps
  everything else in its order.
\<close>

theorem sanitize_only_drops_commas:
  "sanitize_tool_call_json raw = concat (drop_commas False False (chars (strip_fences raw)))
   \<and> subseq (drop_commas False False (chars (strip_fences raw))) (chars (strip_fences raw))
   \<and> filter (\<lambda>c. c \<noteq> '','') (drop_commas False False (chars (strip_fences raw)))
      = filter (\<lambda>c. c \<noteq> '','') (chars (strip_fences raw))"
  by (simp add: sanitize_tool_call_json_def drop_commas_in_order drop_commas_filter)

definition xml_unclosed_tag :: string where
  "xml_unclosed_tag = ''<function name='' @ [dquote] @ ''a'' @ [dquote] @ '' </function>''"

text \<open>
  With the XML fallback switched on, the parser panics on an opening tag that is not closed
  before its end tag: the body would begin after its end.
\<close>

theorem xml_fallback_panics:
  assumes "nrm xml_unclosed_tag = xml_unclosed_tag" and "is_xml_toolcall_fallback_enabled env"
  shows "parse_assistant_output nrm dec env xml_unclosed_tag = Inl Panic"
proof -
  have "contains_function_tag xml_unclosed_tag" and "\<not> str_contains xml_unclosed_tag ''<tool_call>''"
    and "str_contains xml_unclosed_tag ''<''"
    and "xml_loop xml_unclosed_tag None [] [] = Inl Panic"
    by code_simp+
  with assms show ?thesis
    by (simp add: parse_assistant_output_def normalize_special_tags_def parse_xml_function_output_def)
qed

theorem xml_fallback_panics_witness:
  "parse_assistant_output (\<lambda>s. s) (\<lambda>j. Inl ''no'') (\<lambda>k. Some ''1'') xml_unclosed_tag = Inl Panic"
  by (rule xml_fallback_panics) (simp_all add: is_xml_toolcall_fallback_enabled_def)

end
