(* ===== verification/Fallback.thy ===== *)
theory Fallback
  imports Conversation Messages
begin

text \<open>
  The fallback chain of \<open>src/runtime/model_router.rs\<close> and the backend of \<open>src/runtime/inference.rs\<close>
  that drives it. The chain's three atomic counters are a record; its operations are given twice:
  as functions, for one caller at a time, and as the sequences of atomic accesses they consist of
  (\<open>chain_step\<close>), which the threads of a process interleave.

  In \<open>fb_loop\<close> the world \<open>'w\<close> is what the backends and the cancellation flag read and change:
  \<open>poll\<close> reads the flag, \<open>call\<close> asks the backend registered under a key. Both are arguments.
\<close>

section \<open>Chain\<close>

datatype server_backend = LlamaServer | MlxLm | BitNet | Unsloth

record fallback_entry =
  fe_backend :: server_backend
  fe_model_id :: string
  fe_server_url :: string

record fallback_chain =
  fc_entries :: "fallback_entry list"
  fc_current_idx :: nat
  fc_failures :: nat
  fc_successes :: nat
  fc_max_failures :: nat
  fc_recover_after :: nat

definition fc_with_options :: "fallback_entry list \<Rightarrow> nat \<Rightarrow> nat \<Rightarrow> fallback_chain" where
  "fc_with_options es max_failures recover_after =
    \<lparr>fc_entries = es, fc_current_idx = 0, fc_failures = 0, fc_successes = 0,
     fc_max_failures = max max_failures 1, fc_recover_after = recover_after\<rparr>"

definition fc_new :: "fallback_entry list \<Rightarrow> fallback_chain" where
  "fc_new es = fc_with_options es 2 0"

definition fc_current :: "fallback_chain \<Rightarrow> fallback_entry option" where
  "fc_current c =
    (if fc_current_idx c < length (fc_entries c) then Some (fc_entries c ! fc_current_idx c) else None)"

definition fc_record_failure :: "fallback_chain \<Rightarrow> fallback_chain \<times> fallback_entry option" where
  "fc_record_failure c =
    (let n = fc_failures c + 1;
         c1 = c\<lparr>fc_failures := n, fc_successes := 0\<rparr>;
         next_idx = fc_current_idx c + 1
     in if n \<ge> fc_max_failures c \<and> next_idx < length (fc_entries c)
        then (c1\<lparr>fc_current_idx := next_idx, fc_failures := 0\<rparr>, Some (fc_entries c ! next_idx))
        else (c1, None))"

definition fc_record_success :: "fallback_chain \<Rightarrow> fallback_chain" where
  "fc_record_success c =
    (let c1 = c\<lparr>fc_failures := 0\<rparr>
     in if fc_current_idx c = 0 \<or> fc_recover_after c = 0 then c1
        else (let n = fc_successes c + 1
              in if n \<ge> fc_recover_after c then c1\<lparr>fc_current_idx := 0, fc_successes := 0\<rparr>
                 else c1\<lparr>fc_successes := n\<rparr>))"

definition fc_reset_to_primary :: "fallback_chain \<Rightarrow> fallback_chain" where
  "fc_reset_to_primary c = c\<lparr>fc_current_idx := 0, fc_failures := 0\<rparr>"

definition fc_is_exhausted :: "fallback_chain \<Rightarrow> bool" where
  "fc_is_exhausted c = (fc_current_idx c \<ge> length (fc_entries c) - 1)"

section \<open>Backend over the chain\<close>

definition debug_backend :: "server_backend \<Rightarrow> string" where
  "debug_backend b =
    (case b of LlamaServer \<Rightarrow> ''LlamaServer'' | MlxLm \<Rightarrow> ''MlxLm'' | BitNet \<Rightarrow> ''BitNet''
     | Unsloth \<Rightarrow> ''Unsloth'')"

definition key_for :: "fallback_entry \<Rightarrow> string" where
  "key_for e = debug_backend (fe_backend e) @ '':'' @ fe_model_id e"

type_synonym ('w, 'r) backend_call = "'w \<Rightarrow> string \<Rightarrow> 'w \<times> (string + 'r)"

fun fb_loop ::
    "('w \<Rightarrow> 'w \<times> bool) \<Rightarrow> string set \<Rightarrow> ('w, 'r) backend_call \<Rightarrow> nat \<Rightarrow> string option
     \<Rightarrow> fallback_chain \<Rightarrow> 'w \<Rightarrow> fallback_chain \<times> 'w \<times> (string + 'r)" where
  "fb_loop poll backends call 0 last_err c w =
    (c, w, Inl (case last_err of None \<Rightarrow> ''fallback chain exhausted'' | Some e \<Rightarrow> e))"
| "fb_loop poll backends call (Suc n) last_err c w =
    (let (w1, cancelled) = poll w
     in if cancelled then (c, w1, Inl m_infer_cancelled)
        else case fc_current c of
          None \<Rightarrow> (c, w1, Inl (case last_err of None \<Rightarrow> ''fallback chain exhausted'' | Some e \<Rightarrow> e))
        | Some entry \<Rightarrow>
            if key_for entry \<notin> backends
            then (c, w1, Inl (''fallback backend not registered: '' @ key_for entry))
            else (case call w1 (key_for entry) of
                (w2, Inr r) \<Rightarrow> (fc_record_success c, w2, Inr r)
              | (w2, Inl e) \<Rightarrow>
                  (let (w3, cancelled') = poll w2
                   in if cancelled' then (c, w3, Inl e)
                      else (let (c', switched) = fc_record_failure c
                            in if switched = None \<and> fc_is_exhausted c' then (c', w3, Inl e)
                               else fb_loop poll backends call n (Some e) c' w3))))"

definition fb_max_attempts :: "fallback_chain \<Rightarrow> nat" where
  "fb_max_attempts c = max (length (fc_entries c) * 2) 1"

text \<open>\<open>call\<close> is \<open>backend.generate(..)\<close> in \<open>generate\<close> and \<open>backend.generate_with_params(..)\<close> in
  \<open>generate_with_params\<close>; the two bodies are otherwise the same.\<close>

definition fb_generate ::
    "('w \<Rightarrow> 'w \<times> bool) \<Rightarrow> string set \<Rightarrow> ('w, 'r) backend_call \<Rightarrow> fallback_chain \<Rightarrow> 'w
     \<Rightarrow> fallback_chain \<times> 'w \<times> (string + 'r)" where
  "fb_generate poll backends call c w =
    (let (w1, cancelled) = poll w
     in if cancelled then (c, w1, Inl m_infer_cancelled)
        else fb_loop poll backends call (fb_max_attempts c) None c w1)"

section \<open>Atomic accesses\<close>

text \<open>Where a thread stands inside an operation, with the values it has read.\<close>

datatype chain_pc =
    Idle
  | Fail_Count                 \<comment> \<open>before \<open>consecutive_failures.fetch_add\<close>\<close>
  | Fail_Clear nat             \<comment> \<open>before clearing the success counter; the count read\<close>
  | Fail_Load nat              \<comment> \<open>before loading the index; the count read\<close>
  | Fail_Switch nat            \<comment> \<open>before storing the next index\<close>
  | Fail_Zero nat              \<comment> \<open>before clearing the failures\<close>
  | Succ_Zero
  | Succ_Load
  | Succ_Count
  | Succ_Back
  | Succ_Clear
  | Reset_Idx
  | Reset_Zero

fun chain_access :: "chain_pc \<Rightarrow> fallback_chain \<Rightarrow> fallback_chain \<times> chain_pc" where
  "chain_access Idle c = (c, Idle)"
| "chain_access Fail_Count c =
     (c\<lparr>fc_failures := fc_failures c + 1\<rparr>, Fail_Clear (fc_failures c + 1))"
| "chain_access (Fail_Clear n) c =
     (c\<lparr>fc_successes := 0\<rparr>, if n \<ge> fc_max_failures c then Fail_Load n else Idle)"
| "chain_access (Fail_Load n) c =
     (c, if fc_current_idx c + 1 < length (fc_entries c) then Fail_Switch (fc_current_idx c + 1) else Idle)"
| "chain_access (Fail_Switch i) c = (c\<lparr>fc_current_idx := i\<rparr>, Fail_Zero i)"
| "chain_access (Fail_Zero i) c = (c\<lparr>fc_failures := 0\<rparr>, Idle)"
| "chain_access Succ_Zero c = (c\<lparr>fc_failures := 0\<rparr>, Succ_Load)"
| "chain_access Succ_Load c =
     (c, if fc_current_idx c = 0 \<or> fc_recover_after c = 0 then Idle else Succ_Count)"
| "chain_access Succ_Count c =
     (c\<lparr>fc_successes := fc_successes c + 1\<rparr>,
      if fc_successes c + 1 \<ge> fc_recover_after c then Succ_Back else Idle)"
| "chain_access Succ_Back c = (c\<lparr>fc_current_idx := 0\<rparr>, Succ_Clear)"
| "chain_access Succ_Clear c = (c\<lparr>fc_successes := 0\<rparr>, Idle)"
| "chain_access Reset_Idx c = (c\<lparr>fc_current_idx := 0\<rparr>, Reset_Zero)"
| "chain_access Reset_Zero c = (c\<lparr>fc_failures := 0\<rparr>, Idle)"

text \<open>A thread that is idle may begin any operation; a thread inside one makes its next access.\<close>

inductive chain_step ::
    "fallback_chain \<times> chain_pc list \<Rightarrow> fallback_chain \<times> chain_pc list \<Rightarrow> bool" where
  begin_op: "i < length ps \<Longrightarrow> ps ! i = Idle \<Longrightarrow> op \<in> {Fail_Count, Succ_Zero, Reset_Idx}
    \<Longrightarrow> chain_step (c, ps) (c, ps[i := op])"
| access: "i < length ps \<Longrightarrow> ps ! i \<noteq> Idle \<Longrightarrow> chain_access (ps ! i) c = (c', p')
    \<Longrightarrow> chain_step (c, ps) (c', ps[i := p'])"

inductive_cases chain_stepE: "chain_step (c, ps) s"

definition chain_reachable ::
    "fallback_chain \<times> chain_pc list \<Rightarrow> fallback_chain \<times> chain_pc list \<Rightarrow> bool" where
  "chain_reachable = chain_step\<^sup>*\<^sup>*"

text \<open>Running one operation alone to its end.\<close>

fun run_alone :: "nat \<Rightarrow> chain_pc \<Rightarrow> fallback_chain \<Rightarrow> fallback_chain \<times> chain_pc" where
  "run_alone 0 p c = (c, p)"
| "run_alone (Suc n) p c = (if p = Idle then (c, p) else (let (c', p') = chain_access p c in run_alone n p' c'))"

section \<open>Facts\<close>

lemma run_alone_Suc_num:
  "run_alone (numeral k) p c =
    (if p = Idle then (c, p) else (let (c', p') = chain_access p c in run_alone (pred_numeral k) p' c'))"
  by (simp add: numeral_eq_Suc)

lemma run_alone_failure: "run_alone 5 Fail_Count c = (fst (fc_record_failure c), Idle)"
  by (simp add: run_alone_Suc_num fc_record_failure_def Let_def)

lemma run_alone_success: "run_alone 5 Succ_Zero c = (fc_record_success c, Idle)"
  by (simp add: run_alone_Suc_num fc_record_success_def Let_def)

lemma run_alone_reset: "run_alone 2 Reset_Idx c = (fc_reset_to_primary c, Idle)"
  by (simp add: run_alone_Suc_num fc_reset_to_primary_def Let_def numeral_2_eq_2)

fun pc_in_range :: "nat \<Rightarrow> chain_pc \<Rightarrow> bool" where
  "pc_in_range n (Fail_Switch i) = (i < n)"
| "pc_in_range n p = True"

definition chain_inv :: "nat \<Rightarrow> fallback_chain \<times> chain_pc list \<Rightarrow> bool" where
  "chain_inv n s \<longleftrightarrow> length (fc_entries (fst s)) = n \<and> fc_current_idx (fst s) < n
     \<and> list_all (pc_in_range n) (snd s)"

lemma chain_access_inv:
  assumes "chain_access p c = (c', p')" and "length (fc_entries c) = n" and "fc_current_idx c < n"
    and "pc_in_range n p"
  shows "fc_entries c' = fc_entries c \<and> fc_current_idx c' < n \<and> pc_in_range n p'"
  using assms by (cases p) auto

lemma list_all_update: "list_all P xs \<Longrightarrow> P x \<Longrightarrow> list_all P (xs[i := x])"
  by (induction xs arbitrary: i) (auto split: nat.split)

lemma chain_step_inv: "chain_step s s' \<Longrightarrow> chain_inv n s \<Longrightarrow> chain_inv n s'"
proof (induction rule: chain_step.induct)
  case (begin_op i ps op c)
  then show ?case by (auto simp: chain_inv_def intro!: list_all_update)
next
  case (access i ps c c' p')
  then have "pc_in_range n (ps ! i)" by (simp add: chain_inv_def list_all_length)
  with access chain_access_inv [of "ps ! i" c c' p' n] show ?case
    by (auto simp: chain_inv_def intro!: list_all_update)
qed

lemma chain_reachable_inv: "chain_reachable s s' \<Longrightarrow> chain_inv n s \<Longrightarrow> chain_inv n s'"
  unfolding chain_reachable_def by (induction rule: rtranclp_induct) (auto dest: chain_step_inv)

lemma chain_step_entries: "chain_step s s' \<Longrightarrow> fc_entries (fst s') = fc_entries (fst s)"
proof (induction rule: chain_step.induct)
  case (access i ps c c' p')
  then show ?case by (cases "ps ! i") auto
qed simp

lemma chain_reachable_entries: "chain_reachable s s' \<Longrightarrow> fc_entries (fst s') = fc_entries (fst s)"
  unfolding chain_reachable_def by (induction rule: rtranclp_induct) (auto dest: chain_step_entries)

lemma fc_current_Some: "fc_current_idx c < length (fc_entries c) \<Longrightarrow> fc_current c = Some (fc_entries c ! fc_current_idx c)"
  by (simp add: fc_current_def)

lemma fc_record_failure_entries [simp]: "fc_entries (fst (fc_record_failure c)) = fc_entries c"
  by (simp add: fc_record_failure_def Let_def)

lemma fb_loop_calls:
  assumes poll: "\<And>w. calls (fst (poll w)) = calls w"
    and call: "\<And>w k. calls (fst (call w k)) = Suc (calls w)"
  shows "calls (fst (snd (fb_loop poll backends call n e c w))) \<le> calls w + n"
proof (induction n arbitrary: e c w)
  case 0
  then show ?case by simp
next
  case (Suc n)
  obtain w1 b where p1: "poll w = (w1, b)" by fastforce
  have c1: "calls w1 = calls w" using poll [of w] p1 by simp
  show ?case
  proof (cases "b \<or> fc_current c = None \<or> key_for (the (fc_current c)) \<notin> backends")
    case True
    then show ?thesis using p1 c1 by (auto split: option.splits)
  next
    case False
    then obtain en where en: "fc_current c = Some en" "key_for en \<in> backends" "\<not> b" by auto
    obtain w2 r where q: "call w1 (key_for en) = (w2, r)" by fastforce
    have c2: "calls w2 = Suc (calls w)" using call [of w1 "key_for en"] q c1 by simp
    obtain w3 b' where p3: "poll w2 = (w3, b')" by fastforce
    have c3: "calls w3 = Suc (calls w)" using poll [of w2] p3 c2 by simp
    obtain c' sw where f: "fc_record_failure c = (c', sw)" by fastforce
    show ?thesis
      using p1 en q p3 f c2 c3 Suc.IH [of _ c' w3]
      by (cases r) (auto simp: Let_def)
  qed
qed

text \<open>A steady world: never cancelled, and a backend that fails keeps failing.\<close>

definition steady_call :: "(string \<Rightarrow> bool) \<Rightarrow> (unit, unit) backend_call" where
  "steady_call good w k = (w, if good k then Inr () else Inl ''down'')"

definition never :: "unit \<Rightarrow> unit \<times> bool" where
  "never w = (w, False)"

lemma fb_loop_finds_good:
  assumes "j < length (fc_entries c)" and "fc_current_idx c \<le> j"
    and "good (key_for (fc_entries c ! j))"
    and "\<And>i. i < length (fc_entries c) \<Longrightarrow> key_for (fc_entries c ! i) \<in> backends"
    and "fc_failures c < fc_max_failures c"
    and "(j - fc_current_idx c) * fc_max_failures c + 1 \<le> n + fc_failures c"
    and "0 < n"
  shows "snd (snd (fb_loop never backends (steady_call good) n e c ())) = Inr ()"
  using assms
proof (induction n arbitrary: e c)
  case 0
  then show ?case by simp
next
  case (Suc n)
  let ?i = "fc_current_idx c"
  let ?en = "fc_entries c ! ?i"
  have i: "?i < length (fc_entries c)" using Suc.prems by simp
  then have cur: "fc_current c = Some ?en" and reg: "key_for ?en \<in> backends"
    using Suc.prems(4) by (simp_all add: fc_current_Some)
  show ?case
  proof (cases "good (key_for ?en)")
    case True
    then show ?thesis using cur reg by (simp add: never_def steady_call_def)
  next
    case False
    then have ij: "?i < j" using Suc.prems(2,3) by (cases "?i = j") auto
    obtain c' sw where f: "fc_record_failure c = (c', sw)" by fastforce
    have not_last: "\<not> fc_is_exhausted c" using ij Suc.prems(1) by (simp add: fc_is_exhausted_def)
    have step: "snd (snd (fb_loop never backends (steady_call good) (Suc n) e c ()))
        = (if sw = None \<and> fc_is_exhausted c' then Inl ''down''
           else snd (snd (fb_loop never backends (steady_call good) n (Some ''down'') c' ())))"
      using cur reg False f by (simp add: never_def steady_call_def Let_def)
    show ?thesis
    proof (cases "fc_failures c + 1 \<ge> fc_max_failures c")
      case True
      then have c': "c' = c\<lparr>fc_failures := 0, fc_successes := 0, fc_current_idx := ?i + 1\<rparr>" and sw: "sw \<noteq> None"
        using f ij Suc.prems(1) by (auto simp: fc_record_failure_def Let_def)
      have fm: "fc_failures c + 1 = fc_max_failures c" using True Suc.prems(5) by simp
      have "(j - ?i) * fc_max_failures c = (j - (?i + 1)) * fc_max_failures c + fc_max_failures c"
        using ij by (metis Suc_diff_Suc add.commute mult_Suc Suc_eq_plus1)
      then have bound: "(j - (?i + 1)) * fc_max_failures c + 1 \<le> n"
        using Suc.prems(6) fm by simp
      then have "0 < n" by simp
      have "snd (snd (fb_loop never backends (steady_call good) n (Some ''down'') c' ())) = Inr ()"
        by (rule Suc.IH) (use Suc.prems ij bound \<open>0 < n\<close> fm in \<open>simp_all add: c'\<close>)
      with step sw show ?thesis by simp
    next
      case False
      then have c': "c' = c\<lparr>fc_failures := fc_failures c + 1, fc_successes := 0\<rparr>"
        using f by (auto simp: fc_record_failure_def Let_def)
      have ex: "\<not> fc_is_exhausted c'" using not_last by (simp add: c' fc_is_exhausted_def)
      have "fc_max_failures c \<le> (j - ?i) * fc_max_failures c" using ij by (simp add: Suc_le_eq)
      then have "0 < n" using Suc.prems(6) False by linarith
      have "snd (snd (fb_loop never backends (steady_call good) n (Some ''down'') c' ())) = Inr ()"
        by (rule Suc.IH) (use Suc.prems False \<open>0 < n\<close> in \<open>simp_all add: c'\<close>)
      with step ex show ?thesis by simp
    qed
  qed
qed

section \<open>Properties\<close>

text \<open>
  However the threads interleave their atomic accesses, a chain that has an entry always has a
  current one: no failure, success or reset, complete or half done, moves the index out of range.
\<close>

theorem chain_always_has_current:
  assumes "es \<noteq> []" and "chain_reachable (fc_with_options es m r, replicate k Idle) (c, ps)"
  shows "fc_entries c = es \<and> fc_current c \<noteq> None"
proof -
  have "chain_inv (length es) (fc_with_options es m r, replicate k Idle)"
    using assms(1) by (simp add: chain_inv_def fc_with_options_def list_all_length)
  then have "chain_inv (length es) (c, ps)" using chain_reachable_inv [OF assms(2)] by blast
  moreover have "fc_entries c = es"
    using chain_reachable_entries [OF assms(2)] by (simp add: fc_with_options_def)
  ultimately show ?thesis by (simp add: chain_inv_def fc_current_def)
qed

theorem chain_always_has_current_witness:
  "fc_entries (fc_with_options [\<lparr>fe_backend = BitNet, fe_model_id = ''m'', fe_server_url = ''u''\<rparr>] 2 0)
     = [\<lparr>fe_backend = BitNet, fe_model_id = ''m'', fe_server_url = ''u''\<rparr>]
   \<and> fc_current (fc_with_options [\<lparr>fe_backend = BitNet, fe_model_id = ''m'', fe_server_url = ''u''\<rparr>] 2 0) \<noteq> None"
proof (rule chain_always_has_current)
  show "chain_reachable (fc_with_options [\<lparr>fe_backend = BitNet, fe_model_id = ''m'', fe_server_url = ''u''\<rparr>] 2 0,
      replicate 1 Idle)
     (fc_with_options [\<lparr>fe_backend = BitNet, fe_model_id = ''m'', fe_server_url = ''u''\<rparr>] 2 0, [Fail_Count])"
    unfolding chain_reachable_def
    by (rule r_into_rtranclp) (use begin_op [of 0 "[Idle]" Fail_Count] in simp)
qed simp

text \<open>
  One thread alone that runs the atomic accesses of an operation to their end has the effect of
  the operation's function.
\<close>

theorem chain_operations_alone:
  "run_alone 5 Fail_Count c = (fst (fc_record_failure c), Idle)
   \<and> run_alone 5 Succ_Zero c = (fc_record_success c, Idle)
   \<and> run_alone 2 Reset_Idx c = (fc_reset_to_primary c, Idle)"
  by (simp add: run_alone_failure run_alone_success run_alone_reset)

text \<open>
  The accesses of two overlapping failures can skip an entry. After one failure of the primary
  of three entries, two more failures recorded one after the other leave the chain on the second
  entry; overlapping, they can leave it on the third, although the second was never asked.
\<close>

theorem overlapping_failures_skip_entry:
  "fc_current_idx (fst (fc_record_failure (fst (fc_record_failure (fst (fc_record_failure (fc_new [a, b, d])))))))
     = 1
   \<and> (\<exists>c' ps. chain_reachable (fst (fc_record_failure (fc_new [a, b, d])), [Fail_Count, Fail_Count]) (c', ps)
        \<and> ps = [Idle, Idle] \<and> fc_current_idx c' = 2)"
proof
  show "fc_current_idx (fst (fc_record_failure (fst (fc_record_failure (fst (fc_record_failure (fc_new [a, b, d]))))))) = 1"
    by (simp add: fc_record_failure_def fc_new_def fc_with_options_def)
  define c0 where "c0 = fst (fc_record_failure (fc_new [a, b, d]))"
  have c0: "c0 = \<lparr>fc_entries = [a, b, d], fc_current_idx = 0, fc_failures = 1, fc_successes = 0,
      fc_max_failures = 2, fc_recover_after = 0\<rparr>"
    by (simp add: c0_def fc_record_failure_def fc_new_def fc_with_options_def)
  have next0: "chain_step\<^sup>*\<^sup>* (c, [p, q]) s"
    if "p \<noteq> Idle" "chain_access p c = (c', p')" "chain_step\<^sup>*\<^sup>* (c', [p', q]) s" for c c' p p' q s
    using access [of 0 "[p, q]" c c' p'] that by (simp add: converse_rtranclp_into_rtranclp)
  have next1: "chain_step\<^sup>*\<^sup>* (c, [p, q]) s"
    if "q \<noteq> Idle" "chain_access q c = (c', q')" "chain_step\<^sup>*\<^sup>* (c', [p, q']) s" for c c' p q q' s
    using access [of 1 "[p, q]" c c' q'] that by (simp add: converse_rtranclp_into_rtranclp)
  have "chain_step\<^sup>*\<^sup>* (c0, [Fail_Count, Fail_Count])
      (c0\<lparr>fc_current_idx := 2, fc_failures := 0\<rparr>, [Idle, Idle])"
    unfolding c0
    apply (rule next0, simp, simp)
    apply (rule next1, simp, simp)
    apply (rule next0, simp, simp)
    apply (rule next0, simp, simp)
    apply (rule next0, simp, simp)
    apply (rule next0, simp, simp)
    apply (rule next1, simp, simp)
    apply (rule next1, simp, simp)
    apply (rule next1, simp, simp)
    apply (rule next1, simp, simp)
    apply (simp add: numeral_2_eq_2)
    done
  then show "\<exists>c' ps. chain_reachable (fst (fc_record_failure (fc_new [a, b, d])), [Fail_Count, Fail_Count]) (c', ps)
        \<and> ps = [Idle, Idle] \<and> fc_current_idx c' = 2"
    unfolding chain_reachable_def c0_def [symmetric] by fastforce
qed

text \<open>
  C39. With the default threshold of two failures, a fresh chain reaches every entry within one
  request: if every entry is registered, the flag stays unset and some entry's backend works, then
  \<open>generate\<close> returns its result.
\<close>

theorem generate_reaches_working_backend:
  assumes "en \<in> set es" and "good (key_for en)" and "key_for ` set es \<subseteq> backends"
  shows "snd (snd (fb_generate never backends (steady_call good) (fc_new es) ())) = Inr ()"
proof -
  obtain j where j: "j < length es" "es ! j = en" using assms(1) by (metis in_set_conv_nth)
  have reg: "key_for (es ! i) \<in> backends" if "i < length es" for i
    using assms(3) that by (meson image_subset_iff nth_mem)
  have "snd (snd (fb_loop never backends (steady_call good) (fb_max_attempts (fc_new es)) None (fc_new es) ())) = Inr ()"
    by (rule fb_loop_finds_good [of j])
      (use j assms(2) reg in \<open>auto simp: fc_new_def fc_with_options_def fb_max_attempts_def\<close>)
  then show ?thesis by (simp add: fb_generate_def never_def)
qed

theorem generate_reaches_working_backend_witness:
  "snd (snd (fb_generate never {''LlamaServer:a'', ''BitNet:b''} (steady_call (\<lambda>k. k = ''BitNet:b''))
     (fc_new [\<lparr>fe_backend = LlamaServer, fe_model_id = ''a'', fe_server_url = ''u''\<rparr>,
              \<lparr>fe_backend = BitNet, fe_model_id = ''b'', fe_server_url = ''v''\<rparr>]) ())) = Inr ()"
  by (rule generate_reaches_working_backend
      [where en = "\<lparr>fe_backend = BitNet, fe_model_id = ''b'', fe_server_url = ''v''\<rparr>"])
    (simp_all add: key_for_def debug_backend_def)

text \<open>
  One request asks backends at most twice as often as the chain has entries (once for an empty
  chain), whatever the backends answer and whenever the flag is set.
\<close>

theorem generate_attempts_bounded:
  assumes "\<And>w. calls (fst (poll w)) = calls w" and "\<And>w k. calls (fst (call w k)) = Suc (calls w)"
  shows "calls (fst (snd (fb_generate poll backends call c w))) \<le> calls w + max (2 * length (fc_entries c)) 1"
proof -
  obtain w1 b where p: "poll w = (w1, b)" by fastforce
  then have "calls w1 = calls w" using assms(1) [of w] by simp
  then show ?thesis
    using fb_loop_calls [of calls poll call backends "fb_max_attempts c" None c w1, OF assms] p
    by (simp add: fb_generate_def fb_max_attempts_def mult.commute)
qed

theorem generate_attempts_bounded_witness:
  "fst (snd (fb_generate (\<lambda>w. (w, False)) {''BitNet:b''} (\<lambda>w k. (Suc w, Inl ''down'' :: string + unit))
     (fc_new [\<lparr>fe_backend = BitNet, fe_model_id = ''b'', fe_server_url = ''v''\<rparr>]) 0))
   \<le> 0 + max (2 * length (fc_entries
        (fc_new [\<lparr>fe_backend = BitNet, fe_model_id = ''b'', fe_server_url = ''v''\<rparr>]))) 1"
  using generate_attempts_bounded [of "\<lambda>w. w" "\<lambda>w. (w, False)" "\<lambda>w k. (Suc w, Inl ''down'' :: string + unit)"
      "{''BitNet:b''}" "fc_new [\<lparr>fe_backend = BitNet, fe_model_id = ''b'', fe_server_url = ''v''\<rparr>]" 0]
  by simp

end
