(* ===== verification/File_Tools.thy ===== *)
theory File_Tools
  imports Tool_Registry Path_Guard Validate Messages Parse "HOL-Library.Monad_Syntax" "HOL-Library.Word"
begin

text \<open>
  \<open>src/tools/file.rs\<close> and \<open>src/tools/typed.rs\<close>: reading a file, writing it, editing it in one or in
  several places, and the strategies by which an edit is applied when its old text is not in the file
  as written. The file system and the \<open>git\<close> command are the record \<open>disk\<close>: what they answer depends on
  the state \<open>'w\<close> of the disk, and a write may fail. \<open>serde\<close>'s text of a decoding error is \<open>de_error\<close>.
\<close>

section \<open>Replacing text\<close>

text \<open>\<open>str::replacen\<close> with count 1, and \<open>str::matches(..).count()\<close>.\<close>

definition replace_first :: "string \<Rightarrow> string \<Rightarrow> string \<Rightarrow> string" where
  "replace_first s p r =
    (case str_find s p of None \<Rightarrow> s | Some i \<Rightarrow> take i s @ r @ drop (i + length p) s)"

lemma diff_add_less: "i + length p \<le> length s \<and> take (length p) (drop i s) = p
    \<Longrightarrow> p \<noteq> [] \<longrightarrow> length s - (i + length p) < length s"
  by (cases p) auto

function matches_from :: "string \<Rightarrow> string \<Rightarrow> nat" where
  "matches_from s p =
    (case str_find s p of None \<Rightarrow> 0
     | Some i \<Rightarrow> if p = [] then 0 else Suc (matches_from (drop (i + length p) s) p))"
  by pat_completeness auto

termination
  by (relation "measure (\<lambda>(s, p). length s)") (auto dest!: str_find_Some diff_add_less)

declare matches_from.simps [simp del]

definition matches_count :: "string \<Rightarrow> string \<Rightarrow> nat" where
  "matches_count s p = (if p = [] then char_count s + 1 else matches_from s p)"

definition unique_in :: "string \<Rightarrow> string \<Rightarrow> bool" where
  "unique_in s p = (str_contains s p \<and> matches_count s p = 1)"

text \<open>\<open>str::replace\<close> of a nonempty pattern.\<close>

function replace_all :: "string \<Rightarrow> string \<Rightarrow> string \<Rightarrow> string" where
  "replace_all s p r =
    (case str_find s p of None \<Rightarrow> s
     | Some i \<Rightarrow> if p = [] then s else take i s @ r @ replace_all (drop (i + length p) s) p r)"
  by pat_completeness auto

termination
  by (relation "measure (\<lambda>(s, p, r). length s)") (auto dest!: str_find_Some diff_add_less)

declare replace_all.simps [simp del]

definition normalize_whitespace :: "string \<Rightarrow> string" where
  "normalize_whitespace s = join '' '' (split_whitespace s)"

text \<open>Quotes, dashes, the ellipsis and the full-width forms U+FF01 to U+FF5E, by their bytes.\<close>

definition normalize_char :: "string \<Rightarrow> string" where
  "normalize_char g =
    (if g \<in> {utf8x ''E28098'', utf8x ''E28099''} then [squote]
     else if g \<in> {utf8x ''E2809C'', utf8x ''E2809D''} then [dquote]
     else if g \<in> {utf8x ''E28094'', utf8x ''E28093''} then ''-''
     else if g = utf8x ''E280A6'' then ''.''
     else (case g of
         [a, b, c] \<Rightarrow>
           if a = CHR 0xEF \<and> b = CHR 0xBC \<and> 0x81 \<le> (of_char c :: nat) \<and> (of_char c :: nat) \<le> 0xBF
             then [char_of (of_char c - 0x60 :: nat)]
           else if a = CHR 0xEF \<and> b = CHR 0xBD \<and> 0x80 \<le> (of_char c :: nat) \<and> (of_char c :: nat) \<le> 0x9E
             then [char_of (of_char c - 0x20 :: nat)]
           else g
       | _ \<Rightarrow> g))"

definition normalize_unicode :: "string \<Rightarrow> string" where
  "normalize_unicode s = concat (map normalize_char (chars s))"

definition replace_lines :: "string \<Rightarrow> string list \<Rightarrow> nat \<Rightarrow> nat \<Rightarrow> string \<Rightarrow> string" where
  "replace_lines content content_lines start n new_text =
    (let result = join nl (take start content_lines @ str_lines new_text @ drop (start + n) content_lines)
     in if ends_with content nl \<and> \<not> ends_with result nl then result @ nl else result)"

section \<open>The strategies\<close>

text \<open>The first place at which every line of the block agrees with the file under \<open>f\<close>.\<close>

definition block_at :: "(string \<Rightarrow> string) \<Rightarrow> string list \<Rightarrow> string list \<Rightarrow> nat \<Rightarrow> bool" where
  "block_at f content_lines old_lines i =
    (f (content_lines ! i) = f (old_lines ! 0) \<and> i + length old_lines \<le> length content_lines
     \<and> list_all (\<lambda>j. f (content_lines ! (i + j)) = f (old_lines ! j)) [0..<length old_lines])"

definition replace_found ::
    "(nat \<Rightarrow> bool) \<Rightarrow> string \<Rightarrow> string list \<Rightarrow> nat \<Rightarrow> string \<Rightarrow> string option" where
  "replace_found P content content_lines n new_text =
    map_option (\<lambda>i. replace_lines content content_lines i n new_text)
      (find P [0..<length content_lines])"

definition try_lines :: "(string \<Rightarrow> string) \<Rightarrow> string \<Rightarrow> string \<Rightarrow> string \<Rightarrow> string option" where
  "try_lines f content old_text new_text =
    (let cl = str_lines content; ol = str_lines old_text
     in if ol = [] then None else replace_found (block_at f cl ol) content cl (length ol) new_text)"

definition try_whitespace_normalized :: "string \<Rightarrow> string \<Rightarrow> string \<Rightarrow> string option" where
  "try_whitespace_normalized = try_lines normalize_whitespace"

definition try_trimmed :: "string \<Rightarrow> string \<Rightarrow> string \<Rightarrow> string option" where
  "try_trimmed content old_text new_text =
    (let trimmed = trim old_text
     in if trimmed \<noteq> old_text \<and> unique_in content trimmed
        then Some (replace_first content trimmed (trim new_text)) else None)"

definition try_indent_flexible :: "string \<Rightarrow> string \<Rightarrow> string \<Rightarrow> string option" where
  "try_indent_flexible = try_lines trim_start"

definition try_unicode_normalized :: "string \<Rightarrow> string \<Rightarrow> string \<Rightarrow> string option" where
  "try_unicode_normalized content old_text new_text =
    (let norm_old = normalize_unicode old_text; norm_content = normalize_unicode content
     in if norm_old = normalize_unicode new_text then None
        else if unique_in norm_content norm_old
        then try_lines normalize_unicode content old_text new_text else None)"

definition try_escape_normalized :: "string \<Rightarrow> string \<Rightarrow> string \<Rightarrow> string option" where
  "try_escape_normalized content old_text new_text =
    (let unescaped = replace_all (replace_all old_text [backslash, CHR ''n''] nl) [backslash, CHR ''t''] [CHR 0x09]
     in if unescaped \<noteq> old_text \<and> unique_in content unescaped
        then Some (replace_first content unescaped new_text) else None)"

text \<open>\<open>(n as f64 * 0.5).ceil() as usize\<close>, exact for the lengths of lists.\<close>

definition half_ceil :: "nat \<Rightarrow> nat" where
  "half_ceil n = nat \<lceil>of_nat n * (1 / 2 :: rat)\<rceil>"

definition try_block_anchor :: "string \<Rightarrow> string \<Rightarrow> string \<Rightarrow> string option" where
  "try_block_anchor content old_text new_text =
    (let cl = str_lines content; ol = str_lines old_text; n = length ol; norm = normalize_whitespace
     in if n < 3 then None
        else replace_found
          (\<lambda>i. norm (cl ! i) = norm (ol ! 0) \<and> i + n \<le> length cl
            \<and> norm (cl ! (i + n - 1)) = norm (ol ! (n - 1))
            \<and> half_ceil (n - 2)
                \<le> length (filter (\<lambda>j. norm (cl ! (i + j)) = norm (ol ! j)) [1..<n - 1]))
          content cl n new_text)"

definition try_boundary_trim :: "string \<Rightarrow> string \<Rightarrow> string \<Rightarrow> string option" where
  "try_boundary_trim content old_text new_text =
    (let ol = str_lines old_text; full = (\<lambda>i. trim (ol ! i) \<noteq> [])
     in case (find full [0..<length ol], find full (rev [0..<length ol])) of
          (Some start, Some last_ix) \<Rightarrow>
            if start = 0 \<and> last_ix = length ol - 1 then None
            else (let trimmed = join nl (take (last_ix + 1 - start) (drop start ol))
                  in if unique_in content trimmed
                     then Some (replace_first content trimmed (trim new_text)) else None)
        | _ \<Rightarrow> None)"

section \<open>Similar lines\<close>

text \<open>The distance of two lines with two rows that change places after every character.\<close>

definition dist_cell :: "'a \<Rightarrow> 'a list \<Rightarrow> nat list \<Rightarrow> nat \<Rightarrow> nat list \<Rightarrow> nat list" where
  "dist_cell x b prev j row =
    (let cost = (if x = b ! (j - 1) then 0 else 1)
     in row[j := min (min (prev ! j + 1) (row ! (j - 1) + 1)) (prev ! (j - 1) + cost)])"

definition dist_row :: "'a list \<Rightarrow> 'a list \<Rightarrow> nat \<Rightarrow> nat list \<times> nat list \<Rightarrow> nat list \<times> nat list" where
  "dist_row a b i rows =
    (case rows of (prev, row) \<Rightarrow>
       (fold (dist_cell (a ! (i - 1)) b prev) [1..<length b + 1] (row[0 := i]), prev))"

definition line_distance :: "string \<Rightarrow> string \<Rightarrow> nat" where
  "line_distance s t =
    (let a = chars s; b = chars t; m = length a; n = length b
     in if m = 0 then n else if n = 0 then m
        else fst (fold (dist_row a b) [1..<m + 1] ([0..<n + 1], replicate (n + 1) 0)) ! n)"

definition similar_line :: "string \<Rightarrow> string \<Rightarrow> bool" where
  "similar_line a b = (line_distance a b \<le> length b div 3 + 1)"

definition try_levenshtein_block :: "string \<Rightarrow> string \<Rightarrow> string \<Rightarrow> string option" where
  "try_levenshtein_block content old_text new_text =
    (let cl = str_lines content; ol = str_lines old_text; n = length ol
     in if n < 3 then None
        else replace_found
          (\<lambda>i. similar_line (trim (cl ! i)) (trim (ol ! 0)) \<and> i + n \<le> length cl
            \<and> similar_line (trim (cl ! (i + n - 1))) (trim (ol ! (n - 1)))
            \<and> half_ceil (n - 2)
                \<le> length (filter (\<lambda>j. similar_line (trim (cl ! (i + j))) (trim (ol ! j))) [1..<n - 1]))
          content cl n new_text)"

section \<open>Context\<close>

definition context_candidates :: "string list \<Rightarrow> string list \<Rightarrow> nat list" where
  "context_candidates cl ol =
    filter (\<lambda>i. trim (cl ! i) = trim (ol ! 0) \<and> i + length ol \<le> length cl) [0..<length cl]"

definition context_matched :: "string list \<Rightarrow> string list \<Rightarrow> nat \<Rightarrow> nat" where
  "context_matched cl ol start =
    length (filter (\<lambda>j. start + j < length cl \<and> trim (cl ! (start + j)) = trim (ol ! j)) [0..<length ol])"

text \<open>\<open>Iterator::max_by_key\<close>: of equal maxima the last.\<close>

fun max_by_key :: "('a \<Rightarrow> nat) \<Rightarrow> 'a list \<Rightarrow> 'a option" where
  "max_by_key f [] = None"
| "max_by_key f (x # xs) =
    Some (fold (\<lambda>y best. if f best \<le> f y then y else best) xs x)"

definition try_context_aware :: "string \<Rightarrow> string \<Rightarrow> string \<Rightarrow> string option" where
  "try_context_aware content old_text new_text =
    (let cl = str_lines content; ol = str_lines old_text; n = length ol;
         candidates = context_candidates cl ol; matched = context_matched cl ol;
         put = (\<lambda>start. replace_lines content cl start n new_text)
     in if n < 2 \<or> length candidates \<le> 1 then None
        else case find (\<lambda>start. \<not> matched start < half_ceil n \<and> matched start = n) candidates of
               Some start \<Rightarrow> Some (put start)
             | None \<Rightarrow> map_option put (max_by_key matched candidates))"

definition strategies :: "((string \<Rightarrow> string \<Rightarrow> string \<Rightarrow> string option) \<times> string) list" where
  "strategies =
    [(try_whitespace_normalized, m_fuzzy_space), (try_trimmed, m_fuzzy_trim),
     (try_indent_flexible, m_fuzzy_indent), (try_unicode_normalized, m_fuzzy_unicode),
     (try_escape_normalized, m_fuzzy_escape), (try_block_anchor, m_fuzzy_anchor),
     (try_boundary_trim, m_fuzzy_boundary), (try_levenshtein_block, m_fuzzy_levenshtein),
     (try_context_aware, m_fuzzy_context)]"

fun first_strategy ::
    "((string \<Rightarrow> string \<Rightarrow> string \<Rightarrow> string option) \<times> string) list
      \<Rightarrow> string \<Rightarrow> string \<Rightarrow> string \<Rightarrow> (string \<times> string) option" where
  "first_strategy [] content old_text new_text = None"
| "first_strategy ((f, msg) # fs) content old_text new_text =
    (case f content old_text new_text of Some r \<Rightarrow> Some (r, msg)
     | None \<Rightarrow> first_strategy fs content old_text new_text)"

definition fuzzy_find_replace :: "string \<Rightarrow> string \<Rightarrow> string \<Rightarrow> (string \<times> string) option" where
  "fuzzy_find_replace content old_text new_text =
    (if trim old_text = [] then None else first_strategy strategies content old_text new_text)"

text \<open>One edit: the text as written, else the strategies with their warning.\<close>

definition apply_edit :: "string \<Rightarrow> string \<Rightarrow> string \<Rightarrow> (string \<times> string option) option" where
  "apply_edit content old_text new_text =
    (if str_contains content old_text then Some (replace_first content old_text new_text, None)
     else map_option (\<lambda>(r, msg). (r, Some msg)) (fuzzy_find_replace content old_text new_text))"


section \<open>Reading, writing and editing files\<close>

record 'w disk =
  dk_os :: "'w \<Rightarrow> os_view"
  dk_exists :: "string \<Rightarrow> 'w \<Rightarrow> bool"
  dk_read :: "string \<Rightarrow> 'w \<Rightarrow> string + string"
  dk_write :: "string \<Rightarrow> string \<Rightarrow> 'w \<Rightarrow> string option \<times> 'w"
  dk_create_dir :: "component list \<Rightarrow> 'w \<Rightarrow> 'w"
  dk_git :: "component list option \<Rightarrow> string list \<Rightarrow> 'w \<Rightarrow> bool option \<times> 'w"

definition tool_ok :: "string \<Rightarrow> tool_result" where
  "tool_ok out = \<lparr>tr_output = out, tr_success = True, tr_cancelled = False\<rparr>"

definition tool_failed :: "string \<Rightarrow> tool_result" where
  "tool_failed out = \<lparr>tr_output = out, tr_success = False, tr_cancelled = False\<rparr>"

definition path_denied :: "'w disk \<Rightarrow> 'w \<Rightarrow> string \<Rightarrow> bool" where
  "path_denied d w path = is_denied (dk_os d w) default_deny_list path"

text \<open>\<open>Path::parent\<close>.\<close>

definition path_parent :: "component list \<Rightarrow> component list option" where
  "path_parent p = (if p = [] \<or> last p = RootDir then None else Some (butlast p))"

record file_read_args =
  fr_path :: string
  fr_offset :: "64 word option"
  fr_limit :: "64 word option"

definition pad4 :: "string \<Rightarrow> string" where
  "pad4 s = replicate (4 - length s) CHR '' '' @ s"

definition numbered_lines :: "nat \<Rightarrow> string list \<Rightarrow> string list" where
  "numbered_lines s ls = map (\<lambda>(i, l). pad4 (show_nat (s + i + 1)) @ ''| '' @ l) (enumerate 0 ls)"

text \<open>The end of the window is computed in 64 bits. A slice whose end is before its start panics,
  and so does the addition itself where overflow is checked; a panic is \<open>None\<close>.\<close>

definition file_window :: "'a list \<Rightarrow> 64 word \<Rightarrow> 64 word \<Rightarrow> (nat \<times> nat \<times> 'a list) option" where
  "file_window ls offset limit =
    (let n = length ls; s = min (unat offset) n; e = min (unat (of_nat s + limit)) n
     in if e < s then None else Some (s, e, take (e - s) (drop s ls)))"

definition file_read :: "'w disk \<Rightarrow> file_read_args \<Rightarrow> 'w \<Rightarrow> tool_result option" where
  "file_read d args w =
    (let path = fr_path args;
         offset = (case fr_offset args of None \<Rightarrow> 0 | Some n \<Rightarrow> n);
         limit = (case fr_limit args of None \<Rightarrow> 100 | Some n \<Rightarrow> n)
     in if path_denied d w path then Some (tool_failed (m_denied_access @ path))
        else case dk_read d path w of
          Inl err \<Rightarrow> Some (tool_failed (m_file_read_error @ err))
        | Inr fc \<Rightarrow>
            (let ls = str_lines fc
             in case file_window ls offset limit of None \<Rightarrow> None
                | Some (s, e, shown) \<Rightarrow>
                    Some (tool_ok (''['' @ path @ ''] ('' @ show_nat (length ls) @ m_file_lines_1
                      @ show_nat (s + 1) @ ''-'' @ show_nat e @ '')'' @ nl
                      @ join nl (numbered_lines s shown)))))"

definition git_snapshot :: "'w disk \<Rightarrow> string \<Rightarrow> 'w \<Rightarrow> bool \<times> 'w" where
  "git_snapshot d path w =
    (let p = path_components path
     in if \<not> dk_exists d path w then (False, w)
        else let dir = (case path_parent p of None \<Rightarrow> [CurDir] | Some q \<Rightarrow> q)
             in case dk_git d (Some dir) [''rev-parse'', ''--is-inside-work-tree''] w of
                  (Some True, w1) \<Rightarrow>
                    (let (_, w2) = dk_git d None [''add'', path] w1;
                         msg = ''bonsai: snapshot before edit '' @ (case file_name p of None \<Rightarrow> [] | Some n \<Rightarrow> n);
                         (_, w3) = dk_git d None [''commit'', ''-m'', msg, ''--allow-empty''] w2
                     in (True, w3))
                | (_, w1) \<Rightarrow> (False, w1))"

record file_write_args =
  fw_path :: string
  fw_content :: "string option"
  fw_old_text :: "string option"
  fw_new_text :: "string option"

definition write_result :: "string \<Rightarrow> string option \<times> 'w \<Rightarrow> tool_result \<times> 'w" where
  "write_result msg r =
    (case r of (None, w) \<Rightarrow> (tool_ok msg, w) | (Some err, w) \<Rightarrow> (tool_failed (m_file_write_error @ err), w))"

definition file_write :: "'w disk \<Rightarrow> file_write_args \<Rightarrow> 'w \<Rightarrow> tool_result \<times> 'w" where
  "file_write d args w =
    (let path = fw_path args
     in if path_denied d w path then (tool_failed (m_denied_access @ path), w)
        else let w1 = snd (git_snapshot d path w)
        in case (fw_content args, fw_old_text args, fw_new_text args) of
          (Some content, _, _) \<Rightarrow>
            (let w2 = (case path_parent (path_components path) of None \<Rightarrow> w1
                       | Some parent \<Rightarrow> dk_create_dir d parent w1)
             in write_result (m_file_written @ path) (dk_write d path content w2))
        | (None, Some old_text, Some new_text) \<Rightarrow>
            (case dk_read d path w1 of
               Inl err \<Rightarrow> (tool_failed (m_file_read_error @ err), w1)
             | Inr current \<Rightarrow>
                 (case apply_edit current old_text new_text of
                    None \<Rightarrow> (tool_failed (m_no_target @ path), w1)
                  | Some (updated, warning) \<Rightarrow>
                      write_result
                        (case warning of Some v \<Rightarrow> m_diff_applied_warn_1 @ v @ m_diff_applied_warn_2 @ path
                         | None \<Rightarrow> m_diff_applied @ path)
                        (dk_write d path updated w1)))
        | _ \<Rightarrow> (tool_failed m_content_or_edit, w1))"

record multi_edit_args =
  me_path :: string
  me_edits :: "(string \<times> string) list"

text \<open>The edits one after the other; on failure the index of the edit that found nothing.\<close>

fun apply_edits ::
    "nat \<Rightarrow> (string \<times> string) list \<Rightarrow> string \<Rightarrow> string list \<Rightarrow> nat + (string \<times> string list)" where
  "apply_edits i [] current warnings = Inr (current, warnings)"
| "apply_edits i ((old_text, new_text) # es) current warnings =
    (case apply_edit current old_text new_text of
       None \<Rightarrow> Inl i
     | Some (updated, None) \<Rightarrow> apply_edits (Suc i) es updated warnings
     | Some (updated, Some msg) \<Rightarrow>
         apply_edits (Suc i) es updated (warnings @ [''edit['' @ show_nat i @ '']: '' @ msg]))"

definition multi_edit :: "'w disk \<Rightarrow> multi_edit_args \<Rightarrow> 'w \<Rightarrow> tool_result \<times> 'w" where
  "multi_edit d args w =
    (let path = me_path args
     in if path_denied d w path then (tool_failed (m_denied_access @ path), w)
        else if me_edits args = [] then (tool_failed m_no_edits, w)
        else case dk_read d path w of
          Inl err \<Rightarrow> (tool_failed (m_file_read_error @ err), w)
        | Inr original \<Rightarrow>
            (let w1 = snd (git_snapshot d path w)
             in case apply_edits 0 (me_edits args) original [] of
                  Inl i \<Rightarrow>
                    (tool_failed (''edit['' @ show_nat i @ m_edit_missing_1 @ show_nat i
                                  @ m_edit_missing_2 @ path),
                     snd (dk_write d path original w1))
                | Inr (current, warnings) \<Rightarrow>
                    (case dk_write d path current w1 of
                       (None, w2) \<Rightarrow>
                         (tool_ok (show_nat (length (me_edits args)) @ m_edits_applied
                           @ (if warnings = [] then [] else '' ('' @ join ''; '' warnings @ '')'')
                           @ '': '' @ path), w2)
                     | (Some err, w2) \<Rightarrow>
                         (tool_failed (m_write_rolled_back @ err), snd (dk_write d path original w2)))))"

section \<open>Decoding the arguments\<close>

text \<open>What \<open>serde_json::from_value\<close> does for a derived struct: the fields are looked up by name in
  an object, or taken in order from an array of the right length. An absent or null optional field
  is \<open>None\<close>.\<close>

definition arg_fields :: "string list \<Rightarrow> json \<Rightarrow> (string \<Rightarrow> json option) option" where
  "arg_fields names v =
    (case v of JObj _ \<Rightarrow> Some (json_get v)
     | JArr xs \<Rightarrow> if length xs = length names then Some (map_of (zip names xs)) else None
     | _ \<Rightarrow> None)"

definition req_str :: "json option \<Rightarrow> string option" where
  "req_str v = (case v of Some (JStr s) \<Rightarrow> Some s | _ \<Rightarrow> None)"

definition opt_str :: "json option \<Rightarrow> string option option" where
  "opt_str v = (case v of None \<Rightarrow> Some None | Some JNull \<Rightarrow> Some None | Some (JStr s) \<Rightarrow> Some (Some s) | _ \<Rightarrow> None)"

definition opt_u64 :: "json option \<Rightarrow> 64 word option option" where
  "opt_u64 v =
    (case v of None \<Rightarrow> Some None | Some JNull \<Rightarrow> Some None
     | Some (JNum (PosInt n)) \<Rightarrow> Some (Some (of_nat n)) | _ \<Rightarrow> None)"

definition decode_file_read :: "json \<Rightarrow> file_read_args option" where
  "decode_file_read v =
    do { f \<leftarrow> arg_fields [''path'', ''offset'', ''limit''] v;
         p \<leftarrow> req_str (f ''path''); off \<leftarrow> opt_u64 (f ''offset''); l \<leftarrow> opt_u64 (f ''limit'');
         Some \<lparr>fr_path = p, fr_offset = off, fr_limit = l\<rparr> }"

definition decode_file_write :: "json \<Rightarrow> file_write_args option" where
  "decode_file_write v =
    do { f \<leftarrow> arg_fields [''path'', ''content'', ''old_text'', ''new_text''] v;
         p \<leftarrow> req_str (f ''path''); c \<leftarrow> opt_str (f ''content'');
         a \<leftarrow> opt_str (f ''old_text''); b \<leftarrow> opt_str (f ''new_text'');
         Some \<lparr>fw_path = p, fw_content = c, fw_old_text = a, fw_new_text = b\<rparr> }"

definition decode_edit_pair :: "json \<Rightarrow> (string \<times> string) option" where
  "decode_edit_pair v =
    do { f \<leftarrow> arg_fields [''old_text'', ''new_text''] v;
         a \<leftarrow> req_str (f ''old_text''); b \<leftarrow> req_str (f ''new_text''); Some (a, b) }"

definition decode_multi_edit :: "json \<Rightarrow> multi_edit_args option" where
  "decode_multi_edit v =
    do { f \<leftarrow> arg_fields [''path'', ''edits''] v;
         p \<leftarrow> req_str (f ''path'');
         es \<leftarrow> (case f ''edits'' of Some (JArr xs) \<Rightarrow> those (map decode_edit_pair xs) | _ \<Rightarrow> None);
         Some \<lparr>me_path = p, me_edits = es\<rparr> }"

text \<open>\<open>Tool::call\<close> of a typed tool: the arguments are coerced, decoded, and the tool is executed.\<close>

definition typed_call ::
    "(json \<Rightarrow> string) \<Rightarrow> (json \<Rightarrow> 'a option) \<Rightarrow> ('a \<Rightarrow> 'w \<Rightarrow> 'r \<times> 'w) \<Rightarrow> json \<Rightarrow> 'w \<Rightarrow> (string + 'r) \<times> 'w" where
  "typed_call de_error decode execute args w =
    (let v = coerce_tool_arguments args
     in case decode v of
          None \<Rightarrow> (Inl (m_param_error @ de_error v), w)
        | Some a \<Rightarrow> (case execute a w of (r, w') \<Rightarrow> (Inr r, w')))"

definition file_write_call :: "(json \<Rightarrow> string) \<Rightarrow> 'w disk \<Rightarrow> json \<Rightarrow> 'w \<Rightarrow> (string + tool_result) \<times> 'w" where
  "file_write_call de_error d = typed_call de_error decode_file_write (file_write d)"

definition multi_edit_call :: "(json \<Rightarrow> string) \<Rightarrow> 'w disk \<Rightarrow> json \<Rightarrow> 'w \<Rightarrow> (string + tool_result) \<times> 'w" where
  "multi_edit_call de_error d = typed_call de_error decode_multi_edit (multi_edit d)"

definition file_read_call ::
    "(json \<Rightarrow> string) \<Rightarrow> 'w disk \<Rightarrow> json \<Rightarrow> 'w \<Rightarrow> (string + tool_result option) \<times> 'w" where
  "file_read_call de_error d = typed_call de_error decode_file_read (\<lambda>a w. (file_read d a w, w))"

end
