(* ===== verification/File_Facts.thy ===== *)
theory File_Facts
  imports File_Tools
begin

text \<open>
  What the file tools do: the distance of lines, the window a read shows, what an edit replaces, the
  context strategy, several edits at once, and arguments that look like numbers.
\<close>

section \<open>The distance of lines\<close>

definition row_upto :: "'a list \<Rightarrow> 'a list \<Rightarrow> nat \<Rightarrow> nat \<Rightarrow> nat list \<Rightarrow> bool" where
  "row_upto a b i j row \<longleftrightarrow> length row = length b + 1 \<and> (\<forall>k \<le> j. row ! k = lev a b i k)"

lemma dist_cell_upto:
  assumes "row_upto a b i (length b) prev" "row_upto a b (Suc i) j row" "j < length b"
  shows "row_upto a b (Suc i) (Suc j) (dist_cell (a ! i) b prev (Suc j) row)"
  using assms by (auto simp: row_upto_def dist_cell_def nth_list_update le_Suc_eq)

lemma dist_cells_upto:
  assumes "row_upto a b i (length b) prev" "length row = length b + 1" "j \<le> length b"
  shows "row_upto a b (Suc i) j (fold (dist_cell (a ! i) b prev) [1..<j + 1] (row[0 := Suc i]))"
  using assms(3)
proof (induction j)
  case 0
  then show ?case using assms(2) by (auto simp: row_upto_def)
next
  case (Suc j)
  then show ?case using dist_cell_upto [OF assms(1) Suc.IH] by simp
qed

lemma dist_rows_upto:
  "(case fold (dist_row a b) [1..<i + 1] ([0..<length b + 1], replicate (length b + 1) 0) of
      (prev, row) \<Rightarrow> row_upto a b i (length b) prev \<and> length row = length b + 1)"
proof (induction i)
  case 0
  then show ?case by (auto simp: row_upto_def simp del: upt_Suc)
next
  case (Suc i)
  obtain prev row where r: "fold (dist_row a b) [1..<i + 1] ([0..<length b + 1], replicate (length b + 1) 0) = (prev, row)"
    by fastforce
  have "row_upto a b i (length b) prev" "length row = length b + 1" using Suc r by auto
  moreover have "fold (dist_row a b) [1..<Suc i + 1] ([0..<length b + 1], replicate (length b + 1) 0)
      = (fold (dist_cell (a ! i) b prev) [1..<length b + 1] (row[0 := Suc i]), prev)"
    using r by (simp add: dist_row_def)
  moreover have "row_upto a b (Suc i) (length b)
      (fold (dist_cell (a ! i) b prev) [1..<length b + 1] (row[0 := Suc i]))"
    using dist_cells_upto calculation(1,2) by blast
  ultimately show ?case by (simp only: prod.case) (simp add: row_upto_def)
qed

lemma line_distance_lev:
  "line_distance s t = lev (chars s) (chars t) (length (chars s)) (length (chars t))"
proof -
  have "lev a b i 0 = i" for a b :: "string list" and i by (cases i) auto
  then show ?thesis
    using dist_rows_upto [of "chars s" "chars t" "length (chars s)"]
    by (auto simp: line_distance_def Let_def row_upto_def split: prod.splits)
qed

text \<open>
  C20. The distance of two lines computed with two rows is the distance that the validation of tool
  names computes with a whole table, and both are the Levenshtein distance of the characters.
\<close>

theorem line_distance_agrees:
  "line_distance s t = edit_distance s t
   \<and> line_distance s t = lev (chars s) (chars t) (char_count s) (char_count t)"
  by (simp add: line_distance_lev edit_distance_lev char_count_def)

section \<open>The window of a read\<close>

lemma file_window_cases:
  "file_window ls offset limit =
    (let s = min (unat offset) (length ls)
     in if 2 ^ 64 \<le> s + unat limit then None
        else Some (s, min (s + unat limit) (length ls), take (unat limit) (drop (unat offset) ls)))"
proof -
  define s where "s = min (unat offset) (length ls)"
  have s: "s < 2 ^ 64" "s \<le> length ls" using unsigned_less [of offset, where 'a = nat] by (auto simp: s_def min_def)
  have l: "unat limit < 2 ^ 64" using unsigned_less [of limit, where 'a = nat] by simp
  have e: "unat (of_nat s + limit) = (s + unat limit) mod 2 ^ 64"
    using s by (simp add: unat_word_ariths unat_of_nat take_bit_eq_mod)
  have d: "drop s ls = drop (unat offset) ls" by (auto simp: s_def min_def)
  show ?thesis
  proof (cases "2 ^ 64 \<le> s + unat limit")
    case True
    then have "(s + unat limit) mod 2 ^ 64 = s + unat limit - 2 ^ 64"
      using s l by (simp add: mod_if)
    then have "min ((s + unat limit) mod 2 ^ 64) (length ls) < s" using True s l by linarith
    then show ?thesis using True unfolding file_window_def Let_def s_def [symmetric] e by simp
  next
    case False
    then have "min (s + unat limit) (length ls) - s = min (unat limit) (length ls - s)" by auto
    then show ?thesis using False s
      unfolding file_window_def Let_def s_def [symmetric] e d [symmetric] by (auto simp: min_def)
  qed
qed

text \<open>
  Reading a file that is not denied shows exactly the lines from the offset on, at most as many as
  the limit, with the number of lines and the bounds of the window, unless the end of the window does
  not fit into 64 bits: then the tool panics, although nothing beyond the end of the file is asked for.
\<close>

theorem file_read_shows_window:
  assumes "path_denied d w (fr_path args) = False" "dk_read d (fr_path args) w = Inr contents"
  shows "file_read d args w =
    (let ls = str_lines contents; n = length ls;
         offset = (case fr_offset args of None \<Rightarrow> 0 | Some k \<Rightarrow> unat k);
         limit = (case fr_limit args of None \<Rightarrow> 100 | Some k \<Rightarrow> unat k);
         s = min offset n
     in if 2 ^ 64 \<le> s + limit then None
        else Some (tool_ok (''['' @ fr_path args @ ''] ('' @ show_nat n @ m_file_lines_1
               @ show_nat (s + 1) @ ''-'' @ show_nat (min (s + limit) n) @ '')'' @ nl
               @ join nl (numbered_lines s (take limit (drop offset ls))))))"
proof -
  have "unat (case fr_offset args of None \<Rightarrow> 0 | Some n \<Rightarrow> n)
      = (case fr_offset args of None \<Rightarrow> 0 | Some k \<Rightarrow> unat k)" by (cases "fr_offset args") auto
  moreover have "unat (case fr_limit args of None \<Rightarrow> 100 | Some n \<Rightarrow> n)
      = (case fr_limit args of None \<Rightarrow> 100 | Some k \<Rightarrow> unat k)" by (cases "fr_limit args") auto
  ultimately show ?thesis
    using assms by (simp add: file_read_def file_window_cases Let_def)
qed

section \<open>What an edit replaces\<close>

lemma str_find_first: "str_find s p = Some i \<Longrightarrow> s = u @ p @ v \<Longrightarrow> i \<le> length u"
proof (induction s p arbitrary: i u rule: str_find.induct)
  case (1 p)
  then show ?case by (auto split: if_splits)
next
  case (2 c s p)
  show ?case
  proof (cases "prefix p (c # s)")
    case True
    then show ?thesis using "2.prems"(1) by simp
  next
    case False
    then obtain u' where u: "u = c # u'" "s = u' @ p @ v" using "2.prems" by (cases u) auto
    have "str_find (c # s) p = map_option Suc (str_find s p)" using False by simp
    then obtain j where "str_find s p = Some j" "i = Suc j" using "2.prems"(1) by auto
    then show ?thesis using "2.IH" [OF False _ u(2)] u(1) by simp
  qed
qed

text \<open>
  An edit is applied without a warning exactly when its old text is in the file as written; then
  the first occurrence, and nothing else, is replaced by the new text.
\<close>

theorem exact_edit_replaces_first:
  "apply_edit content old_text new_text = Some (r, None)
   \<longleftrightarrow> (\<exists>u v. content = u @ old_text @ v \<and> r = u @ new_text @ v
        \<and> list_all (\<lambda>k. \<not> prefix old_text (drop k content)) [0..<length u])"
proof -
  have early: "list_all (\<lambda>k. \<not> prefix p (drop k s)) [0..<i]" if "str_find s p = Some i" for s p i
  proof -
    have False if k: "k < i" "prefix p (drop k s)" for k
    proof -
      note found = \<open>str_find s p = Some i\<close>
      obtain v where "drop k s = p @ v" using k(2) by (auto simp: prefix_def)
      then have "s = take k s @ p @ v" by (metis append_take_drop_id)
      then have "i \<le> length (take k s)" by (rule str_find_first [OF found])
      then show False using k(1) by simp
    qed
    then show ?thesis by (auto simp: list_all_iff)
  qed
  show ?thesis
  proof
    assume l: "apply_edit content old_text new_text = Some (r, None)"
    then obtain i where i: "str_find content old_text = Some i"
      by (auto simp: apply_edit_def str_contains_def split: if_splits)
    have "content = take i content @ old_text @ drop (i + length old_text) content"
      using str_find_decomp [OF i] by auto
    moreover have "r = take i content @ new_text @ drop (i + length old_text) content"
      using l i by (auto simp: apply_edit_def str_contains_def replace_first_def)
    moreover have "length (take i content) = i" using str_find_Some [OF i] by simp
    ultimately show "\<exists>u v. content = u @ old_text @ v \<and> r = u @ new_text @ v
        \<and> list_all (\<lambda>k. \<not> prefix old_text (drop k content)) [0..<length u]"
      using early [OF i] by metis
  next
    assume "\<exists>u v. content = u @ old_text @ v \<and> r = u @ new_text @ v
        \<and> list_all (\<lambda>k. \<not> prefix old_text (drop k content)) [0..<length u]"
    then obtain u v where uv: "content = u @ old_text @ v" "r = u @ new_text @ v"
      "list_all (\<lambda>k. \<not> prefix old_text (drop k content)) [0..<length u]" by blast
    then obtain i where i: "str_find content old_text = Some i"
      using str_find_sublist by (metis option.exhaust)
    have "i \<le> length u" using str_find_first [OF i uv(1)] .
    moreover have "\<not> i < length u"
      using uv(3) str_find_Some [OF i] take_is_prefix [of "length old_text" "drop i content"]
      by (auto simp: list_all_iff)
    ultimately have "i = length u" by simp
    then show "apply_edit content old_text new_text = Some (r, None)"
      using i uv(1,2) by (simp add: apply_edit_def str_contains_def replace_first_def)
  qed
qed


section \<open>The context strategy\<close>

lemma max_by_key_Some: "xs \<noteq> [] \<Longrightarrow> \<exists>x. max_by_key f xs = Some x"
  by (cases xs) auto

lemma first_strategy_Some:
  "(f, msg) \<in> set fs \<Longrightarrow> f c old_text new_text \<noteq> None \<Longrightarrow> first_strategy fs c old_text new_text \<noteq> None"
  by (induction fs) (auto split: option.splits)

text \<open>
  An edit of at least two lines whose first line occurs in the file at two places with room for it
  is always applied, whatever the other lines of the file and of the old text are: the last strategy
  takes the best candidate without asking for the half of the lines that it asks of the others.
\<close>

theorem edit_by_first_line_never_refused:
  assumes "2 \<le> length (str_lines old_text)" "trim old_text \<noteq> []"
    and "2 \<le> length (context_candidates (str_lines content) (str_lines old_text))"
  shows "\<exists>r w. apply_edit content old_text new_text = Some (r, w)"
proof (cases "str_contains content old_text")
  case True
  then show ?thesis by (simp add: apply_edit_def)
next
  case False
  obtain x where "max_by_key (context_matched (str_lines content) (str_lines old_text))
      (context_candidates (str_lines content) (str_lines old_text)) = Some x"
    using assms(3) max_by_key_Some [of "context_candidates (str_lines content) (str_lines old_text)"]
    by fastforce
  then have "try_context_aware content old_text new_text \<noteq> None"
    using assms(1,3) by (simp add: try_context_aware_def Let_def split: option.split)
  moreover have "(try_context_aware, m_fuzzy_context) \<in> set strategies" by (simp add: strategies_def)
  ultimately have "first_strategy strategies content old_text new_text \<noteq> None"
    by (rule first_strategy_Some [rotated])
  then show ?thesis using False assms(2) by (auto simp: apply_edit_def fuzzy_find_replace_def)
qed

section \<open>Several edits\<close>

text \<open>The edits in sequence, without their warnings.\<close>

definition edit_all :: "(string \<times> string) list \<Rightarrow> string \<Rightarrow> string option" where
  "edit_all es s =
    fold (\<lambda>(a, b) r. Option.bind r (\<lambda>c. map_option fst (apply_edit c a b))) es (Some s)"

lemma edit_all_None:
  "fold (\<lambda>(a, b) r. Option.bind r (\<lambda>c. map_option fst (apply_edit c a b))) es None = None"
  by (induction es) auto

lemma edit_all_Cons:
  "edit_all ((a, b) # es) s = Option.bind (apply_edit s a b) (\<lambda>(c, _). edit_all es c)"
  by (cases "apply_edit s a b") (auto simp: edit_all_def edit_all_None)

lemma apply_edits_all:
  "edit_all es s = (case apply_edits i es s ws of Inl _ \<Rightarrow> None | Inr (t, _) \<Rightarrow> Some t)"
proof (induction i es s ws rule: apply_edits.induct)
  case (1 i s ws)
  then show ?case by (simp add: edit_all_def)
next
  case (2 i a b es s ws)
  then show ?case by (auto simp: edit_all_Cons split: option.splits)
qed

text \<open>
  What is asked of a disk: a file that was written without an error holds what was written, and \<open>git\<close>
  leaves the files of the work tree alone. A write may fail at any time, and a failed write may leave
  anything in the file.
\<close>

definition disk_ok :: "'w disk \<Rightarrow> string \<Rightarrow> bool" where
  "disk_ok d path \<longleftrightarrow>
    (\<forall>s w w'. dk_write d path s w = (None, w') \<longrightarrow> dk_read d path w' = Inr s)
    \<and> (\<forall>dir args w. dk_read d path (snd (dk_git d dir args w)) = dk_read d path w)"

lemma git_snapshot_reads:
  assumes "disk_ok d path"
  shows "dk_read d path (snd (git_snapshot d q w)) = dk_read d path w"
proof -
  have git: "dk_read d path w' = dk_read d path v" if "dk_git d dir as v = (b, w')" for dir as v b w'
    using assms that unfolding disk_ok_def by (metis snd_conv)
  obtain dir where dir: "dir = (case path_parent (path_components q) of None \<Rightarrow> [CurDir] | Some q \<Rightarrow> q)"
    by blast
  obtain b1 w1 where r1: "dk_git d (Some dir) [''rev-parse'', ''--is-inside-work-tree''] w = (b1, w1)"
    by fastforce
  obtain b2 w2 where r2: "dk_git d None [''add'', q] w1 = (b2, w2)" by fastforce
  obtain msg where m: "msg = ''bonsai: snapshot before edit ''
      @ (case file_name (path_components q) of None \<Rightarrow> [] | Some n \<Rightarrow> n)" by blast
  obtain b3 w3 where r3: "dk_git d None [''commit'', ''-m'', msg, ''--allow-empty''] w2 = (b3, w3)"
    by fastforce
  have "snd (git_snapshot d q w) \<in> {w, w1, w3}"
    by (cases b1; cases "the b1";
        simp add: git_snapshot_def Let_def dir [symmetric] m [symmetric] r1 r2 r3 del: append_Cons)
  then show ?thesis using git [OF r1] git [OF r2] git [OF r3] by auto
qed

text \<open>What a failed call may leave: the old contents, or what a failed attempt to write them back left, after
  the snapshot or after a failed write of the new contents.\<close>

definition rolled_back :: "'w disk \<Rightarrow> string \<Rightarrow> string \<Rightarrow> string option \<Rightarrow> 'w \<Rightarrow> 'w \<Rightarrow> bool" where
  "rolled_back d path original edited w1 w' \<longleftrightarrow>
    dk_read d path w' = Inr original
    \<or> (\<exists>v err. dk_write d path original v = (Some err, w')
        \<and> (v = w1 \<or> (\<exists>t err'. edited = Some t \<and> dk_write d path t w1 = (Some err', v))))"

lemma rolled_backI:
  assumes "disk_ok d path" and "v = w1 \<or> (\<exists>t err'. edited = Some t \<and> dk_write d path t w1 = (Some err', v))"
  shows "rolled_back d path original edited w1 (snd (dk_write d path original v))"
proof -
  obtain res w' where r: "dk_write d path original v = (res, w')" by fastforce
  then show ?thesis using assms by (cases res) (auto simp: disk_ok_def rolled_back_def)
qed

text \<open>
  C19. Several edits are all or nothing, as far as the disk allows. The tool reports success exactly when
  the path is allowed, there are edits, every edit finds what it replaces in the text the edits before it
  left, and writing succeeds; the file then holds the text after all of them. Otherwise the file keeps its
  old contents, or writing them back has failed as well, which the code ignores: then the file holds what
  that failed write left. No text between the first edit and the last is ever written.
\<close>

theorem multi_edit_all_or_nothing:
  assumes "disk_ok d (me_path args)" "dk_read d (me_path args) w = Inr original"
  shows "case multi_edit d args w of (r, w') \<Rightarrow>
    tr_success r = (\<not> path_denied d w (me_path args) \<and> me_edits args \<noteq> []
        \<and> (case edit_all (me_edits args) original of None \<Rightarrow> False
           | Some t \<Rightarrow> fst (dk_write d (me_path args) t (snd (git_snapshot d (me_path args) w))) = None))
    \<and> (if tr_success r then map_option Inr (edit_all (me_edits args) original) = Some (dk_read d (me_path args) w')
       else rolled_back d (me_path args) original (edit_all (me_edits args) original)
              (snd (git_snapshot d (me_path args) w)) w')"
proof (cases "path_denied d w (me_path args) \<or> me_edits args = []")
  case True
  then show ?thesis using assms(2) by (auto simp: multi_edit_def tool_failed_def Let_def rolled_back_def)
next
  case False
  define w1 where "w1 = snd (git_snapshot d (me_path args) w)"
  show ?thesis
  proof (cases "apply_edits 0 (me_edits args) original []")
    case (Inl i)
    then have "edit_all (me_edits args) original = None"
      using apply_edits_all [of "me_edits args" original 0 "[]"] by simp
    then show ?thesis using False assms(2) Inl rolled_backI [OF assms(1), of w1 w1]
      by (simp add: multi_edit_def tool_failed_def Let_def flip: w1_def)
  next
    case (Inr p)
    then obtain t ws where p: "apply_edits 0 (me_edits args) original [] = Inr (t, ws)" by (cases p) simp
    have t: "edit_all (me_edits args) original = Some t"
      using apply_edits_all [of "me_edits args" original 0 "[]"] p by simp
    obtain res w2 where r: "dk_write d (me_path args) t w1 = (res, w2)" by fastforce
    show ?thesis
    proof (cases res)
      case None
      then have "dk_read d (me_path args) w2 = Inr t" using assms(1) r by (auto simp: disk_ok_def)
      then show ?thesis using False assms(2) p t r None
        by (simp add: multi_edit_def tool_ok_def Let_def flip: w1_def)
    next
      case (Some err)
      then show ?thesis using False assms(2) p t r rolled_backI [OF assms(1), of w2 w1 "Some t"]
        by (simp add: multi_edit_def tool_failed_def Let_def flip: w1_def)
    qed
  qed
qed

section \<open>Arguments that look like numbers\<close>

lemma coerced_field:
  "json_get (coerce_tool_arguments (JObj m)) k = map_option coerce_value (json_get (JObj m) k)"
  by (induction m) (auto simp: coerce_tool_arguments_def)

text \<open>
  A file whose whole new contents read as a number or as a boolean cannot be written, and a text
  that does cannot be replaced: the coercion of the arguments turns the text into a number, the
  decoder then asks for a text, and the call fails without touching the disk.
\<close>

theorem numeric_text_not_written:
  assumes "k \<in> {''path'', ''content'', ''old_text'', ''new_text''}"
    and "json_get (JObj m) k = Some (JStr s)"
    and "s = ''true'' \<or> s = ''false'' \<or> parse_i64 s \<noteq> None"
  shows "file_write_call de_error d (JObj m) w
    = (Inl (m_param_error @ de_error (coerce_tool_arguments (JObj m))), w)"
proof -
  have "json_get (coerce_tool_arguments (JObj m)) k = Some (coerce_value (JStr s))"
    unfolding coerced_field assms(2) by simp
  moreover have "coerce_value (JStr s) \<noteq> JNull \<and> (\<forall>t. coerce_value (JStr s) \<noteq> JStr t)"
    using assms(3) by (auto simp: coerce_value_def)
  ultimately have "opt_str (json_get (coerce_tool_arguments (JObj m)) k) = None
      \<and> req_str (json_get (coerce_tool_arguments (JObj m)) k) = None"
    by (auto simp: opt_str_def req_str_def split: json.splits)
  moreover obtain fs where "coerce_tool_arguments (JObj m) = JObj fs" by (simp add: coerce_tool_arguments_def)
  ultimately have "decode_file_write (coerce_tool_arguments (JObj m)) = None"
    using assms(1) by (auto simp: decode_file_write_def arg_fields_def split: Option.bind_splits)
  then show ?thesis by (simp add: file_write_call_def typed_call_def)
qed

section \<open>Examples\<close>

text \<open>A disk with one file, whose contents are the state.\<close>

definition one_file :: "string disk" where
  "one_file =
    \<lparr>dk_os = (\<lambda>_. \<lparr>os_home = None, os_cwd = None, os_canonicalize = (\<lambda>_. None)\<rparr>),
     dk_exists = (\<lambda>_ _. True), dk_read = (\<lambda>_ w. Inr w), dk_write = (\<lambda>_ s _. (None, s)),
     dk_create_dir = (\<lambda>_ w. w), dk_git = (\<lambda>_ _ w. (None, w))\<rparr>"

lemma one_file_ok: "disk_ok one_file path"
  by (simp add: disk_ok_def one_file_def)

lemma one_file_open: "path_denied one_file w ''/w/a'' = False"
  by (simp add: path_denied_def one_file_def) code_simp

theorem file_read_shows_window_witness:
  "file_read one_file \<lparr>fr_path = ''/w/a'', fr_offset = Some 1, fr_limit = Some 18446744073709551615\<rparr> (''x'' @ nl @ ''y'') = None"
proof -
  have two: "length (str_lines (''x'' @ nl @ ''y'')) = 2" by code_simp
  have "dk_read one_file p w = Inr w" for p w by (simp add: one_file_def)
  then show ?thesis
    using file_read_shows_window [where d = one_file and w = "''x'' @ nl @ ''y''"
        and args = "\<lparr>fr_path = ''/w/a'', fr_offset = Some 1, fr_limit = Some 18446744073709551615\<rparr>"
        and contents = "''x'' @ nl @ ''y''"]
    by (simp add: one_file_open Let_def two del: append_Cons)
qed

theorem edit_by_first_line_never_refused_witness:
  "\<exists>r w. apply_edit (''do'' @ nl @ ''one'' @ nl @ ''do'' @ nl @ ''two'') (''do'' @ nl @ ''other'') [] = Some (r, w)"
  by (rule edit_by_first_line_never_refused; code_simp)

lemma first_line_example:
  "apply_edit (''do'' @ nl @ ''one'' @ nl @ ''do'' @ nl @ ''two'') (''do'' @ nl @ ''other'') ''new''
    = Some (''do'' @ nl @ ''one'' @ nl @ ''new'', Some m_fuzzy_context)"
  by code_simp

lemma one_file_rolled_back: "rolled_back one_file path original edited w1 w' \<longleftrightarrow> w' = original"
  by (auto simp: rolled_back_def one_file_def)

theorem multi_edit_all_or_nothing_witness:
  "dk_read one_file ''/w/a''
     (snd (multi_edit one_file \<lparr>me_path = ''/w/a'', me_edits = [(''a'', ''b''), (''zz'', ''c'')]\<rparr> ''abc''))
   = Inr ''abc''"
proof -
  have "tr_success (fst (multi_edit one_file
      \<lparr>me_path = ''/w/a'', me_edits = [(''a'', ''b''), (''zz'', ''c'')]\<rparr> ''abc'')) = False"
    by code_simp
  moreover have read: "dk_read one_file p w = Inr w" for p w by (simp add: one_file_def)
  ultimately show ?thesis
    using multi_edit_all_or_nothing [OF one_file_ok read, of
        "''abc''" "\<lparr>me_path = ''/w/a'', me_edits = [(''a'', ''b''), (''zz'', ''c'')]\<rparr>"]
    by (simp only: one_file_rolled_back split: prod.splits) (simp add: read)
qed

text \<open>A full disk: opening the file for writing empties it, and then the write fails. It does what is asked of a
  disk, the edit fails, and the old contents are gone although the answer says they were restored.\<close>

definition full_disk :: "string disk" where
  "full_disk = one_file\<lparr>dk_write := (\<lambda>_ _ _. (Some ''no space'', []))\<rparr>"

lemma full_disk_ok: "disk_ok full_disk path"
  by (simp add: disk_ok_def full_disk_def one_file_def)

lemma rollback_may_fail:
  "multi_edit full_disk \<lparr>me_path = ''/w/a'', me_edits = [(''a'', ''b'')]\<rparr> ''abc''
    = (tool_failed (m_write_rolled_back @ ''no space''), [])"
  by code_simp

theorem numeric_text_not_written_witness:
  "fst (file_write_call (\<lambda>_. []) one_file
      (JObj [(''content'', JStr ''42''), (''path'', JStr ''/w/a'')]) ''old'') = Inl m_param_error"
proof -
  have "parse_i64 ''42'' \<noteq> None" by code_simp
  then show ?thesis
    using numeric_text_not_written [of "''content''" "[(''content'', JStr ''42''), (''path'', JStr ''/w/a'')]"
        "''42''" "\<lambda>_. []" one_file "''old''"] by simp
qed

end
