(* ===== verification/Event_Facts.thy ===== *)
theory Event_Facts
  imports Event_Store
begin

text \<open>
  The contract of an event repository (the trait \<open>EventRepository\<close>), as a locale whose abstract state is
  the list of all events, and its two providers: the table and the repository in memory. What is
  proved of the contract holds of both.
\<close>

section \<open>Entries and the events they become\<close>

text \<open>An entry: the clock, the session, the type, the data and the step.\<close>

type_synonym entry = "string \<times> string \<times> event_type \<times> string \<times> nat option"

fun event_of :: "int \<Rightarrow> entry \<Rightarrow> event" where
  "event_of k (now, sid, t, d, i) =
    \<lparr>ev_id = k, ev_session = sid, ev_type = event_type_str t, ev_data = d, ev_step = i, ev_created = now\<rparr>"

fun events_from :: "int \<Rightarrow> entry list \<Rightarrow> event list" where
  "events_from k [] = []"
| "events_from k (e # es) = event_of k e # events_from (k + 1) es"

lemma events_from_simps [simp]:
  "length (events_from k es) = length es"
  "events_from k (es @ [e]) = events_from k es @ [event_of (k + int (length es)) e]"
  by (induction es arbitrary: k) (auto simp: algebra_simps)

text \<open>The sessions started by an event that satisfies \<open>P\<close>, in the order of their first such event.\<close>

definition started_in :: "(event \<Rightarrow> bool) \<Rightarrow> event list \<Rightarrow> string list" where
  "started_in P es = select_distinct (map ev_session (filter (\<lambda>e. is_event SessionStart e \<and> P e) es))"

section \<open>The contract\<close>

locale event_repository =
  fixes empty :: 's
    and put :: "string \<Rightarrow> string \<Rightarrow> event_type \<Rightarrow> string \<Rightarrow> nat option \<Rightarrow> 's \<Rightarrow> int \<times> 's"
    and events :: "'s \<Rightarrow> event list"
    and good :: "'s \<Rightarrow> bool"
    and replay :: "string \<Rightarrow> 's \<Rightarrow> event list"
    and started :: "(event \<Rightarrow> bool) \<Rightarrow> 's \<Rightarrow> string list"
    and max_id :: "'s \<Rightarrow> int"
  assumes empty_events: "events empty = []" "good empty"
    and put_events: "good s \<Longrightarrow> put now sid t d i s = (k, s') \<Longrightarrow>
      k = int (length (events s)) + 1 \<and> events s' = events s @ [event_of k (now, sid, t, d, i)] \<and> good s'"
    and replay_events: "good s \<Longrightarrow> replay sid s = filter (\<lambda>e. ev_session e = sid) (events s)"
    and started_events: "good s \<Longrightarrow> started P s = started_in P (events s)"
    and max_id_events: "good s \<Longrightarrow> max_id s = int (length (events s))"
begin

definition put_entry :: "entry \<Rightarrow> 's \<Rightarrow> 's" where
  "put_entry = (\<lambda>(now, sid, t, d, i) s. snd (put now sid t d i s))"

definition recorded :: "entry list \<Rightarrow> 's" where
  "recorded es = fold put_entry es empty"

lemma recorded_events: "events (recorded es) = events_from 1 es \<and> good (recorded es)"
proof (induction es rule: rev_induct)
  case Nil
  then show ?case by (simp add: recorded_def empty_events)
next
  case (snoc e es)
  obtain now sid t d i where e: "e = (now, sid, t, d, i)" by (cases e)
  obtain k s' where p: "put now sid t d i (recorded es) = (k, s')" by fastforce
  have "recorded (es @ [e]) = s'" using p by (simp add: recorded_def put_entry_def e)
  moreover have "k = 1 + int (length es)" "events s' = events_from 1 es @ [event_of k e]" "good s'"
    using put_events [OF _ p] snoc e by auto
  ultimately show ?case by simp
qed

lemma replay_recorded: "replay sid (recorded es) = filter (\<lambda>e. ev_session e = sid) (events_from 1 es)"
  using recorded_events [of es] replay_events by simp

lemma started_recorded: "started P (recorded es) = started_in P (events_from 1 es)"
  using recorded_events [of es] started_events by simp

lemma max_id_recorded: "max_id (recorded es) = int (length es)"
  using recorded_events [of es] max_id_events by simp

lemmas of_entries = replay_recorded started_recorded max_id_recorded

end

section \<open>The table\<close>

definition table_ok :: "event_table \<Rightarrow> bool" where
  "table_ok db \<longleftrightarrow> map ev_id (et_rows db) = map int [1..<length (et_rows db) + 1]
     \<and> et_sequence db = int (length (et_rows db))"

lemma table_sorted: "table_ok db \<Longrightarrow> order_by_id (filter P (et_rows db)) = filter P (et_rows db)"
proof -
  assume "table_ok db"
  moreover have "sorted (map int [1..<n + 1])" for n by (simp add: sorted_map del: upt_Suc)
  ultimately have "sorted (map ev_id (et_rows db))" unfolding table_ok_def by metis
  then have "sorted (map ev_id (filter P (et_rows db)))" by (rule sorted_filter)
  then show ?thesis by (simp add: order_by_id_def sort_key_id_if_sorted)
qed

lemma table_max: "table_ok db \<Longrightarrow> es_current_max_id db = int (length (et_rows db))"
proof -
  assume ok: "table_ok db"
  have "Max (set (map ev_id (et_rows db))) = int (length (et_rows db))" if "et_rows db \<noteq> []"
  proof (rule Max_eqI)
    show "int (length (et_rows db)) \<in> set (map ev_id (et_rows db))"
      using ok that unfolding table_ok_def by (cases "et_rows db") auto
    have "set (map ev_id (et_rows db)) = int ` {1..<length (et_rows db) + 1}"
      using ok unfolding table_ok_def by (metis set_map set_upt)
    then show "k \<le> int (length (et_rows db))" if "k \<in> set (map ev_id (et_rows db))" for k
      using that by auto
  qed simp
  then show ?thesis by (simp add: es_current_max_id_def)
qed

interpretation event_table: event_repository et_new es_append et_rows table_ok es_replay es_started es_current_max_id
proof
  show "et_rows et_new = []" "table_ok et_new" by (simp_all add: et_new_def table_ok_def)
next
  fix s s' :: event_table and now sid t d i k
  assume "table_ok s" "es_append now sid t d i s = (k, s')"
  then show "k = int (length (et_rows s)) + 1 \<and> et_rows s' = et_rows s @ [event_of k (now, sid, t, d, i)]
      \<and> table_ok s'"
    by (auto simp: es_append_def table_ok_def Let_def)
next
  fix s :: event_table and sid P
  assume ok: "table_ok s"
  show "es_replay sid s = filter (\<lambda>e. ev_session e = sid) (et_rows s)"
    using table_sorted [OF ok] by (simp add: es_replay_def)
  show "es_started P s = started_in P (et_rows s)"
    using table_sorted [OF ok] by (simp add: es_started_def started_in_def)
  show "es_current_max_id s = int (length (et_rows s))" by (rule table_max [OF ok])
qed

section \<open>The repository in memory\<close>

definition mock_ok :: "mock_repository \<Rightarrow> bool" where
  "mock_ok m \<longleftrightarrow> mk_next_id m = int (length (mk_events m)) + 1"

lemma select_distinct_snoc:
  "select_distinct (xs @ [x]) = (if x \<in> set xs then select_distinct xs else select_distinct xs @ [x])"
  by (simp add: select_distinct_def)

lemma set_select_distinct [simp]: "set (select_distinct xs) = set xs"
  by (simp add: select_distinct_def)

lemma mock_started: "mk_started P m = started_in P (mk_events m)"
proof -
  have "fold (\<lambda>e (result, seen).
        if is_event SessionStart e \<and> P e \<and> ev_session e \<notin> seen
        then (result @ [ev_session e], insert (ev_session e) seen) else (result, seen)) es ([], {})
      = (started_in P es, set (started_in P es))" for es
    by (induction es rule: rev_induct) (auto simp: started_in_def select_distinct_snoc select_distinct_def [of "[]"])
  then show ?thesis by (simp add: mk_started_def)
qed

interpretation event_mock: event_repository mk_new mk_append mk_events mock_ok mk_replay mk_started mk_current_max_id
  by unfold_locales
    (auto simp: mk_new_def mk_append_def mock_ok_def mk_replay_def mock_started mk_current_max_id_def Let_def)

section \<open>The two providers agree\<close>

definition table_of :: "entry list \<Rightarrow> event_table" where
  "table_of es = fold (\<lambda>(now, sid, t, d, i) db. snd (es_append now sid t d i db)) es et_new"

definition mock_of :: "entry list \<Rightarrow> mock_repository" where
  "mock_of es = fold (\<lambda>(now, sid, t, d, i) m. snd (mk_append now sid t d i m)) es mk_new"

lemma table_of_recorded: "table_of es = event_table.recorded es"
  by (simp add: table_of_def event_table.recorded_def event_table.put_entry_def)

lemma mock_of_recorded: "mock_of es = event_mock.recorded es"
  by (simp add: mock_of_def event_mock.recorded_def event_mock.put_entry_def)

lemmas provided = table_of_recorded mock_of_recorded event_table.of_entries event_mock.of_entries

text \<open>The counts of the types: whatever the orders in which the database lists its groups and the hash map its
  entries, the same pairs, with the counts in the same descending order.\<close>

lemma sort_key_same_keys:
  fixes f :: "'a \<Rightarrow> int"
  assumes "mset xs = mset ys"
  shows "map f (sort_key f xs) = map f (sort_key f ys)"
proof -
  have "sort (map f zs) = map f (sort_key f zs)" for zs
    by (rule properties_for_sort) simp_all
  moreover have "sort (map f xs) = sort (map f ys)" using assms by (metis mset_map sorted_list_of_multiset_mset)
  ultimately show ?thesis by metis
qed

lemma hm_count_pairs: "mset (hm_count ts) = mset (map (\<lambda>t. (t, count_list ts t)) (remdups ts))"
proof -
  have d: "distinct (map fst (hm_count ts))" using hm_wf_count unfolding hm_wf_def .
  then have "distinct (hm_count ts)" by (simp add: distinct_map)
  moreover have "distinct (map (\<lambda>t. (t, count_list ts t)) (remdups ts))"
    by (simp add: distinct_map inj_on_def)
  moreover have "set (hm_count ts) = set (map (\<lambda>t. (t, count_list ts t)) (remdups ts))"
    using hm_entry_count [of _ _ ts] by auto
  ultimately show ?thesis using set_eq_iff_mset_eq_distinct by blast
qed

lemma counts_agree:
  assumes "\<forall>xs. mset (ord xs) = mset xs" and "iter_order ord'" and "es_replay sid db = mk_replay sid m"
    and "table_ok db"
  shows "mset (es_count_by_type ord sid db) = mset (mk_count_by_type ord' sid m)
    \<and> map snd (es_count_by_type ord sid db) = map snd (mk_count_by_type ord' sid m)"
proof -
  let ?ts = "map ev_type (mk_replay sid m)" and ?f = "\<lambda>p :: string \<times> nat. - int (snd p)"
  let ?xs = "map (\<lambda>t. (t, count_list ?ts t)) (ord (remdups ?ts))" and ?ys = "ord' (hm_count ?ts)"
  have "filter (\<lambda>e. ev_session e = sid) (et_rows db) = mk_replay sid m"
    using table_sorted [OF assms(4)] assms(3) by (simp add: es_replay_def)
  then have eqs: "es_count_by_type ord sid db = sort_key ?f ?xs" "mk_count_by_type ord' sid m = sort_key ?f ?ys"
    by (simp_all add: es_count_by_type_def mk_count_by_type_def Let_def)
  have m: "mset ?xs = mset ?ys" using assms(1,2) by (simp add: iter_order_def hm_count_pairs)
  have "map snd (sort_key ?f ?xs) = map snd (sort_key ?f ?ys)"
    using arg_cong [OF sort_key_same_keys [OF m, of ?f], of "map (\<lambda>i. nat (- i))"] by (simp add: o_def)
  then show ?thesis using m by (simp add: eqs)
qed

text \<open>
  C21. The repository in memory that the tests use answers every query as the table does, whatever was
  recorded: the replay of a session, the sessions, the largest identifier, the number of events, the
  trajectories extracted since any event, and the rate of verified answers. The counts of the types of
  events are the same pairs, in the same order of the counts; only the order of types with the same
  count is left to the database and to the hash map, which list what they hold in some order.
\<close>

theorem store_and_mock_agree:
  "es_replay sid (table_of es) = mk_replay sid (mock_of es)
   \<and> es_list_sessions (table_of es) = mk_list_sessions (mock_of es)
   \<and> es_current_max_id (table_of es) = mk_current_max_id (mock_of es)
   \<and> es_total_count (table_of es) = mk_total_count (mock_of es)
   \<and> es_extract_successful_since time_of dec since rate n (table_of es)
       = mk_extract_successful_since time_of dec since rate n (mock_of es)
   \<and> es_extract_failed_since time_of dec since rate n (table_of es)
       = mk_extract_failed_since time_of dec since rate n (mock_of es)
   \<and> es_verification_success_rate dec task n (table_of es)
       = mk_verification_success_rate dec task n (mock_of es)
   \<and> ((\<forall>xs. mset (ord xs) = mset xs) \<and> iter_order ord'
      \<longrightarrow> mset (es_count_by_type ord sid (table_of es)) = mset (mk_count_by_type ord' sid (mock_of es))
        \<and> map snd (es_count_by_type ord sid (table_of es)) = map snd (mk_count_by_type ord' sid (mock_of es)))"
proof -
  have "es_total_count (table_of es) = mk_total_count (mock_of es)"
    using event_table.recorded_events [of es] event_mock.recorded_events [of es]
    by (simp add: provided es_total_count_def mk_total_count_def)
  moreover have "es_replay sid (table_of es) = mk_replay sid (mock_of es)" by (simp add: provided)
  moreover have "table_ok (table_of es)" using event_table.recorded_events [of es] by (simp add: table_of_recorded)
  ultimately show ?thesis using counts_agree [of ord ord' sid "table_of es" "mock_of es"]
    by (simp add: provided es_list_sessions_def mk_list_sessions_def es_extract_successful_since_def
        mk_extract_successful_since_def es_extract_failed_since_def mk_extract_failed_since_def
        es_extract_since_def mk_extract_since_def mk_session_starts_since_def es_build_trajectory_def [abs_def]
        es_verification_success_rate_def mk_verification_success_rate_def)
qed

text \<open>The database lists its groups by name backwards, the hash map its entries as they came.\<close>

theorem store_and_mock_agree_witness:
  "mset (es_count_by_type rev ''s'' (table_of [(''t'', ''s'', SessionStart, [], None), (''t'', ''s'', UserMessage, [], None)]))
     = mset (mk_count_by_type id ''s'' (mock_of [(''t'', ''s'', SessionStart, [], None), (''t'', ''s'', UserMessage, [], None)]))"
  using store_and_mock_agree [where ord = rev and ord' = id] by (simp add: iter_order_def)

end
