(* ===== verification/Run_Record.thy ===== *)
theory Run_Record
  imports Run_Properties Event_Facts "HOL-Library.Countable"
begin

text \<open>
  What the event store holds after a run of the agent loop, and the trajectory that
  \<open>build_trajectory_from_events\<close> makes of it.
\<close>

section \<open>The log of a run\<close>

definition prologue :: "'w env \<Rightarrow> string \<Rightarrow> store_op list" where
  "prologue e ctx =
    [Purge_Expired,
     Append_Event (en_session_id e) SessionStart (JObj [(''task_context'', JStr (take_chars 500 ctx))]) None,
     Append_Event (en_session_id e) UserMessage (content_event (take_chars 500 ctx)) None]"

lemma prepare_session_log:
  "en_has_store e \<Longrightarrow> run_state (prepare_session e ctx) s = (x, t) \<Longrightarrow> ag_log t = ag_log s @ prologue e ctx"
  by (auto simp: prepare_session_def prologue_def recall_def inject_memory_blocks_def inject_heuristics_def
      inject_contextual_memories_def inject_planning_step_def create_task_start_checkpoint_def
      loop_state_new_def emit_event_def say_all_run Let_def split: prod.splits if_splits)

lemma run_log:
  assumes "en_has_store e"
  obtains ps qs where
    "ag_log (snd (run_state (run_agent_loop_with_session e) s))
      = ag_log s @ prologue e (last_user_message (ag_messages s)) @ ps @ qs"
    "tool_log ps"
    "if isl (fst (run_state (run_agent_loop_with_session e) s)) then qs = [] else ends_log e qs"
proof -
  define ctx where "ctx = last_user_message (ag_messages s)"
  obtain x t where prep: "run_state (prepare_session e ctx) s = (x, t)" by (rule prod.exhaust)
  obtain start w where now: "en_now e (ag_world t) = (start, w)" by fastforce
  let ?r = "run_state (loop_from e ctx start (ac_max_iterations (en_config e)) 0) (t\<lparr>ag_world := w\<rparr>)"
  have run: "run_state (run_agent_loop_with_session e) s = ?r"
    using prep now by (simp add: run_agent_loop_with_session_def Let_def flip: ctx_def)
  have "guards (ag_chain (t\<lparr>ag_world := w\<rparr>)) = [guard_of e]"
    using prepare_session_run(5) [OF prep] by (simp add: guard_of_def)
  then have "closes e (\<not> isl (fst ?r)) (t\<lparr>ag_world := w\<rparr>) (snd ?r)" by (blast dest: loop_ends)
  then obtain ps qs where "ag_log (snd ?r) = ag_log t @ ps @ qs" "tool_log ps"
    "if \<not> isl (fst ?r) then ends_log e qs else qs = []"
    unfolding closes_def by auto
  then show thesis
    using that [of ps qs] prepare_session_log [OF assms prep] by (simp add: run ctx_def split: if_splits)
qed

section \<open>From the log to the events\<close>

text \<open>The entries that the log's events become: \<open>now\<close> gives the clock at each position of the log.\<close>

fun entries_of :: "(nat \<Rightarrow> string) \<Rightarrow> (json \<Rightarrow> string) \<Rightarrow> nat \<Rightarrow> store_op list \<Rightarrow> entry list" where
  "entries_of now enc n [] = []"
| "entries_of now enc n (p # ps) =
    (case p of Append_Event sid t d i \<Rightarrow> (now n, sid, t, enc d, i) # entries_of now enc (Suc n) ps
     | _ \<Rightarrow> entries_of now enc (Suc n) ps)"

text \<open>The calls that ended, with their names and whether they succeeded.\<close>

fun calls_logged :: "string \<Rightarrow> store_op list \<Rightarrow> (string \<times> bool) list" where
  "calls_logged sid [] = []"
| "calls_logged sid (p # ps) =
    (case p of
       Append_Event i ToolCallEnd d _ \<Rightarrow>
         (if i = sid then [(case json_get d ''tool'' of Some (JStr n) \<Rightarrow> n | _ \<Rightarrow> [],
                            json_get d ''success'' = Some (JBool True))] else [])
     | _ \<Rightarrow> []) @ calls_logged sid ps"

definition readable_data :: "(json \<Rightarrow> string) \<Rightarrow> (string \<Rightarrow> json option) \<Rightarrow> store_op \<Rightarrow> bool" where
  "readable_data enc dec p = (case p of Append_Event _ _ d _ \<Rightarrow> dec (enc d) = Some d | _ \<Rightarrow> True)"

definition session_events ::
    "(nat \<Rightarrow> string) \<Rightarrow> (json \<Rightarrow> string) \<Rightarrow> string \<Rightarrow> nat \<Rightarrow> int \<Rightarrow> store_op list \<Rightarrow> event list" where
  "session_events now enc sid n k ps =
    filter (\<lambda>e. ev_session e = sid) (events_from k (entries_of now enc n ps))"

lemma event_type_str_eq [simp]: "event_type_str t = event_type_str u \<longleftrightarrow> t = u"
  by (cases t; cases u; simp add: event_type_str_def)

lemma is_event_of [simp]: "is_event t (event_of k (now, sid, u, d, i)) \<longleftrightarrow> u = t"
  by (auto simp: is_event_def)

lemma event_of_fields [simp]:
  "ev_session (event_of k (now, sid, u, d, i)) = sid" "ev_data (event_of k (now, sid, u, d, i)) = d"
  by simp_all

declare event_of.simps [simp del]

lemma entries_append:
  "entries_of now enc n (ps @ qs) = entries_of now enc n ps @ entries_of now enc (n + length ps) qs"
  by (induction ps arbitrary: n) (auto split: store_op.split)

lemma events_from_append:
  "events_from k (xs @ ys) = events_from k xs @ events_from (k + int (length xs)) ys"
  by (induction xs arbitrary: k) (auto simp: algebra_simps)

lemma walk_append: "walk_events dec (xs @ ys) acc = walk_events dec ys (walk_events dec xs acc)"
  by (induction dec xs acc rule: walk_events.induct) auto

lemma calls_append: "calls_logged sid (ps @ qs) = calls_logged sid ps @ calls_logged sid qs"
  by (induction ps) auto

text \<open>What the walk finds in a log of paired calls.\<close>

lemma walk_tool_log:
  assumes "tool_log ps" "list_all (readable_data enc dec) ps"
  shows "walk_events dec (session_events now enc sid n k ps) (names, ended, ok)
    = (names @ map fst (calls_logged sid ps), ended + length (calls_logged sid ps),
       ok + length (filter snd (calls_logged sid ps)))
   \<and> length (filter (is_event ToolCallStart) (session_events now enc sid n k ps)) = length (calls_logged sid ps)
   \<and> list_ex (is_event SessionEnd) (session_events now enc sid n k ps) = False"
  using assms
proof (induction arbitrary: n k names ended ok rule: tool_log.induct)
  case none
  then show ?case by (simp add: session_events_def)
next
  case (other p ps)
  then show ?case
    by (cases p) (auto simp: session_events_def readable_data_def plain_def split: event_type.splits)
next
  case (call ps i name success)
  have "dec (enc (tool_event name None)) = Some (tool_event name None)"
    "dec (enc (tool_event name (Some success))) = Some (tool_event name (Some success))"
    using call.prems by (simp_all add: readable_data_def)
  then show ?case
    using call.IH call.prems
    by (cases success) (auto simp: session_events_def event_str_def event_succeeded_def tool_event_def)
qed

section \<open>The trajectory of a run\<close>

lemma session_events_append:
  "session_events now enc sid n k (ps @ qs) = session_events now enc sid n k ps
    @ session_events now enc sid (n + length ps) (k + int (length (entries_of now enc n ps))) qs"
  by (simp add: session_events_def entries_append events_from_append)


lemma session_events_nonempty_end:
  assumes "ends_log e qs" "en_has_store e"
  shows "list_ex (is_event SessionEnd) (session_events now enc (en_session_id e) n k qs)"
    "filter (is_event ToolCallStart) (session_events now enc (en_session_id e) n k qs) = []"
    "walk_events dec (session_events now enc (en_session_id e) n k qs) acc = acc"
    "calls_logged (en_session_id e) qs = []"
proof -
  obtain d i where "qs = [Append_Event (en_session_id e) SessionEnd d i]"
    using assms by (auto simp: ends_log_def length_Suc_conv split: store_op.splits)
  then show "list_ex (is_event SessionEnd) (session_events now enc (en_session_id e) n k qs)"
    "filter (is_event ToolCallStart) (session_events now enc (en_session_id e) n k qs) = []"
    "walk_events dec (session_events now enc (en_session_id e) n k qs) acc = acc"
    "calls_logged (en_session_id e) qs = []"
    by (cases acc; simp add: session_events_def)+
qed

text \<open>
  C18. The trajectory of a run, built from the events of its session in the store: a run that ends by
  an error has none; a run that returns a result has one, of the first 500 characters of the request,
  with every call that was started, in order, each of which was also ended, and the rate of those that
  succeeded. The JSON of the events is asked to be read back as it was written.
\<close>

theorem trajectory_of_run:
  assumes "en_has_store e" and "ag_log s = []"
    and "list_all (readable_data enc dec) (ag_log (snd (run_state (run_agent_loop_with_session e) s)))"
  shows "case run_state (run_agent_loop_with_session e) s of (r, t) \<Rightarrow>
    let calls = calls_logged (en_session_id e) (ag_log t);
        c = es_build_trajectory time_of dec (table_of (entries_of now enc 0 (ag_log t))) (en_session_id e)
    in if isl r then c = None
       else map_option (\<lambda>c. (tc_session_id c, tc_task_description c, tc_tool_sequence c,
                tc_total_steps c, tc_tool_success_rate c)) c
            = Some (en_session_id e, take_chars 500 (last_user_message (ag_messages s)), map fst calls,
                length calls, success_rate (length (filter snd calls)) (length calls))"
proof -
  let ?sid = "en_session_id e"
  obtain r t where rt: "run_state (run_agent_loop_with_session e) s = (r, t)" by fastforce
  obtain ps qs where log: "ag_log t = prologue e (last_user_message (ag_messages s)) @ ps @ qs"
    and ps: "tool_log ps" and qs: "if isl r then qs = [] else ends_log e qs"
    using run_log [OF assms(1), of s] assms(2) rt by (metis append_Nil fst_conv snd_conv)
  let ?pre = "prologue e (last_user_message (ag_messages s))"
  have len: "length ?pre = 3" "length (entries_of now enc 0 ?pre) = 2" by (simp_all add: prologue_def)
  define A where "A = session_events now enc ?sid 0 1 ?pre"
  define B where "B = session_events now enc ?sid 3 3 ps"
  define C where "C = session_events now enc ?sid (3 + length ps) (3 + int (length (entries_of now enc 3 ps))) qs"
  have es: "es_replay ?sid (table_of (entries_of now enc 0 (ag_log t))) = A @ B @ C"
    unfolding provided A_def B_def C_def log session_events_def [of now enc ?sid 0 1, symmetric]
    by (simp add: session_events_append len)
  have ok: "list_all (readable_data enc dec) ?pre" "list_all (readable_data enc dec) ps"
    using assms(3) by (simp_all add: rt log)
  have A: "A \<noteq> []" "list_ex (is_event SessionEnd) A = False" "filter (is_event ToolCallStart) A = []"
    "walk_events dec A ([], 0, 0) = ([], 0, 0)"
    "task_of_events dec (A @ xs) = take_chars 500 (last_user_message (ag_messages s))" for xs
    using ok(1) by (simp_all add: A_def session_events_def prologue_def task_of_events_def event_str_def
        readable_data_def content_event_def)
  note B = walk_tool_log [OF ps ok(2), of now ?sid 3 3 "[]" 0 0, folded B_def]
  have pre: "calls_logged ?sid (?pre @ ps @ qs) = calls_logged ?sid ps @ calls_logged ?sid qs"
    by (simp add: prologue_def calls_append)
  show ?thesis
  proof (cases "isl r")
    case True
    then have "C = []" using qs by (simp add: C_def session_events_def)
    then show ?thesis
      using True A B by (simp add: rt es_build_trajectory_def es build_trajectory_from_events_def)
  next
    case False
    then have fin: "ends_log e qs" using qs by simp
    note C = session_events_nonempty_end [OF fin assms(1), folded C_def]
    have "list_ex (is_event SessionEnd) C" "filter (is_event ToolCallStart) C = []"
      "\<And>acc. walk_events dec C acc = acc"
      unfolding C_def by (rule session_events_nonempty_end [OF fin assms(1)])+
    then show ?thesis
      using False A B C(4) pre
      by (simp add: rt es_build_trajectory_def es [unfolded log] build_trajectory_from_events_def
          walk_append log Let_def)
  qed
qed


section \<open>An example\<close>

instance json_number :: countable by countable_datatype

instance json :: countable by countable_datatype

text \<open>A run that answers at once, in a store that writes a value as its number.\<close>

definition answering_env :: "unit env" where
  "answering_env = idle_env\<lparr>en_has_store := True, en_generate := (\<lambda>_ _ _ w. (Inr ''all is well'', w))\<rparr>"

definition unary :: "json \<Rightarrow> string" where
  "unary j = replicate (to_nat j) CHR ''1''"

definition of_unary :: "string \<Rightarrow> json option" where
  "of_unary s = Some (from_nat (length s))"

lemma unary_readable: "readable_data unary of_unary p"
  by (simp add: readable_data_def unary_def of_unary_def split: store_op.split)

theorem trajectory_of_run_witness:
  "case run_state (run_agent_loop_with_session answering_env) (fresh_agent () [msg_user ''hello'']) of (r, t) \<Rightarrow>
    let calls = calls_logged ''s'' (ag_log t);
        c = es_build_trajectory (\<lambda>_. None) of_unary (table_of (entries_of (\<lambda>_. []) unary 0 (ag_log t))) ''s''
    in if isl r then c = None
       else map_option (\<lambda>c. (tc_session_id c, tc_task_description c, tc_tool_sequence c,
                tc_total_steps c, tc_tool_success_rate c)) c
            = Some (''s'', take_chars 500 (last_user_message [msg_user ''hello'']), map fst calls,
                length calls, success_rate (length (filter snd calls)) (length calls))"
proof -
  have e: "en_has_store answering_env" "en_session_id answering_env = ''s''"
    by (simp_all add: answering_env_def idle_env_def)
  have s: "ag_log (fresh_agent () [msg_user ''hello'']) = []"
    "ag_messages (fresh_agent () [msg_user ''hello'']) = [msg_user ''hello'']"
    by (simp_all add: fresh_agent_def)
  have "list_all (readable_data unary of_unary) ps" for ps by (simp add: list_all_iff unary_readable)
  from trajectory_of_run [OF e(1) s(1) this, where time_of = "\<lambda>_. None" and now = "\<lambda>_. []"]
  show ?thesis by (simp only: e s)
qed

end
