(* ===== verification/Supervisor.thy ===== *)
theory Supervisor
  imports Messages "HOL-Library.Word"
begin

text \<open>
  \<open>src/runtime/process_supervisor.rs\<close>, \<open>src/runtime/supervised_backend.rs\<close> and the watchdog thread of
  \<open>src/main.rs\<close>: the server of the model is started when a request finds it down, and stopped when no
  request came for a while. The operations are given for one thread at a time, over the operating
  system \<open>os_proc\<close>, and as the accesses to the shared fields that requests and watchdog interleave.
  Times are nanoseconds.
\<close>

section \<open>State and operating system\<close>

record supervisor =
  sv_health_url :: string
  sv_last_used :: nat
  sv_idle_timeout :: nat
  sv_spawn_program :: string
  sv_spawn_args :: "string list"
  sv_child :: "nat option"
  sv_in_flight :: "64 word"

text \<open>The clock, starting a process, whether it has ended (or cannot be asked), killing it and waiting
  for it, whether a URL answers, and a pause of half a second.\<close>

record 'w os_proc =
  op_now :: "'w \<Rightarrow> nat \<times> 'w"
  op_start :: "string \<Rightarrow> string list \<Rightarrow> 'w \<Rightarrow> (string + nat) \<times> 'w"
  op_ended :: "nat \<Rightarrow> 'w \<Rightarrow> bool \<times> 'w"
  op_kill :: "nat \<Rightarrow> 'w \<Rightarrow> 'w"
  op_get :: "string \<Rightarrow> 'w \<Rightarrow> bool \<times> 'w"
  op_sleep :: "'w \<Rightarrow> 'w"

definition build_spawn_args :: "string \<Rightarrow> nat \<Rightarrow> string list" where
  "build_spawn_args model_path port =
    [''launch'', ''--model-path'', model_path, ''--model-type'', ''lm'', ''--port'', show_nat port]"

definition sv_with_spawn :: "nat \<Rightarrow> string \<Rightarrow> nat \<Rightarrow> string \<Rightarrow> string \<Rightarrow> nat \<Rightarrow> supervisor" where
  "sv_with_spawn now health_url idle_secs program model_path port =
    \<lparr>sv_health_url = health_url, sv_last_used = now, sv_idle_timeout = idle_secs * 10 ^ 9,
     sv_spawn_program = program, sv_spawn_args = build_spawn_args model_path port,
     sv_child = None, sv_in_flight = 0\<rparr>"

definition sv_new :: "nat \<Rightarrow> string \<Rightarrow> nat \<Rightarrow> supervisor" where
  "sv_new now health_url idle_secs = sv_with_spawn now health_url idle_secs [] [] 0"

section \<open>Operations\<close>

definition sv_start :: "'w os_proc \<Rightarrow> supervisor \<Rightarrow> 'w \<Rightarrow> string option \<times> supervisor \<times> 'w" where
  "sv_start os sv w =
    (case op_start os (sv_spawn_program sv) (sv_spawn_args sv) w of
       (Inl err, w') \<Rightarrow> (Some (m_spawn_failed_1 @ sv_spawn_program sv @ ''): '' @ err), sv, w')
     | (Inr p, w') \<Rightarrow> (None, sv\<lparr>sv_child := Some p\<rparr>, w'))"

definition sv_spawn :: "'w os_proc \<Rightarrow> supervisor \<Rightarrow> 'w \<Rightarrow> string option \<times> supervisor \<times> 'w" where
  "sv_spawn os sv w =
    (if sv_spawn_program sv = [] then (None, sv, w)
     else case sv_child sv of
       None \<Rightarrow> sv_start os sv w
     | Some p \<Rightarrow> (case op_ended os p w of
         (False, w') \<Rightarrow> (None, sv, w')
       | (True, w') \<Rightarrow> sv_start os (sv\<lparr>sv_child := None\<rparr>) w'))"

definition sv_kill :: "'w os_proc \<Rightarrow> supervisor \<Rightarrow> 'w \<Rightarrow> supervisor \<times> 'w" where
  "sv_kill os sv w =
    (case sv_child sv of None \<Rightarrow> (sv, w) | Some p \<Rightarrow> (sv\<lparr>sv_child := None\<rparr>, op_kill os p w))"

definition record_request :: "'w os_proc \<Rightarrow> supervisor \<Rightarrow> 'w \<Rightarrow> supervisor \<times> 'w" where
  "record_request os sv w = (case op_now os w of (t, w') \<Rightarrow> (sv\<lparr>sv_last_used := t\<rparr>, w'))"

definition enter_in_flight :: "'w os_proc \<Rightarrow> supervisor \<Rightarrow> 'w \<Rightarrow> supervisor \<times> 'w" where
  "enter_in_flight os sv w = record_request os (sv\<lparr>sv_in_flight := sv_in_flight sv + 1\<rparr>) w"

definition end_in_flight :: "'w os_proc \<Rightarrow> supervisor \<Rightarrow> 'w \<Rightarrow> supervisor \<times> 'w" where
  "end_in_flight os sv w = record_request os (sv\<lparr>sv_in_flight := sv_in_flight sv - 1\<rparr>) w"

definition is_idle :: "'w os_proc \<Rightarrow> supervisor \<Rightarrow> 'w \<Rightarrow> bool \<times> 'w" where
  "is_idle os sv w =
    (if sv_idle_timeout sv = 0 \<or> sv_in_flight sv > 0 then (False, w)
     else case op_now os w of (t, w') \<Rightarrow> (t - sv_last_used sv \<ge> sv_idle_timeout sv, w'))"

definition kill_if_idle :: "'w os_proc \<Rightarrow> supervisor \<Rightarrow> 'w \<Rightarrow> bool \<times> supervisor \<times> 'w" where
  "kill_if_idle os sv w =
    (case is_idle os sv w of
       (True, w') \<Rightarrow> (case sv_kill os sv w' of (sv', w'') \<Rightarrow> (True, sv', w''))
     | (False, w') \<Rightarrow> (False, sv, w'))"

definition models_url_from_health :: "string \<Rightarrow> string" where
  "models_url_from_health url =
    trim_end_set {CHR ''/''} (case strip_suffix url ''/health'' of None \<Rightarrow> url | Some b \<Rightarrow> b) @ ''/v1/models''"

definition is_healthy :: "'w os_proc \<Rightarrow> supervisor \<Rightarrow> 'w \<Rightarrow> bool \<times> 'w" where
  "is_healthy os sv w =
    (case op_get os (sv_health_url sv) w of
       (True, w') \<Rightarrow> (True, w')
     | (False, w') \<Rightarrow> op_get os (models_url_from_health (sv_health_url sv)) w')"

fun await_health :: "'w os_proc \<Rightarrow> supervisor \<Rightarrow> nat \<Rightarrow> 'w \<Rightarrow> 'w" where
  "await_health os sv 0 w = w"
| "await_health os sv (Suc n) w =
    (case is_healthy os sv (op_sleep os w) of (True, w') \<Rightarrow> w' | (False, w') \<Rightarrow> await_health os sv n w')"

definition ensure_running :: "'w os_proc \<Rightarrow> supervisor \<Rightarrow> 'w \<Rightarrow> string option \<times> supervisor \<times> 'w" where
  "ensure_running os sv w =
    (if sv_idle_timeout sv = 0 then (None, sv, w)
     else case is_healthy os sv w of
       (True, w') \<Rightarrow> (None, sv, w')
     | (False, w') \<Rightarrow> (case sv_spawn os sv w' of
         (Some err, sv', w'') \<Rightarrow> (Some err, sv', w'')
       | (None, sv', w'') \<Rightarrow> (None, sv', await_health os sv' 60 w'')))"

text \<open>\<open>SupervisedBackend::generate\<close>: \<open>inner\<close> is the request to the server; the guard is dropped after it.\<close>

definition supervised_generate ::
    "'w os_proc \<Rightarrow> ('w \<Rightarrow> 'r \<times> 'w) \<Rightarrow> supervisor \<Rightarrow> 'w \<Rightarrow> 'r \<times> supervisor \<times> 'w" where
  "supervised_generate os inner sv w =
    (case ensure_running os sv w of
       (_, sv1, w1) \<Rightarrow> (case enter_in_flight os sv1 w1 of
       (sv2, w2) \<Rightarrow> (case inner w2 of
       (r, w3) \<Rightarrow> (case end_in_flight os sv2 w3 of
       (sv4, w4) \<Rightarrow> (r, sv4, w4)))))"

section \<open>Requests and watchdog interleaved\<close>

text \<open>
  Where a request is: outside; past \<open>ensure_running\<close>; counted but not stamped; in the inference; no
  longer counted but not stamped. Where the watchdog is: outside; having read that nothing is in
  flight; having found the server idle, with the kill to come.
\<close>

datatype request_pc = Outside | Ensured | Counted | Inferring | Uncounted

datatype watch_pc = Watching | Saw_None_In_Flight | Saw_Idle

definition is_counted :: "request_pc \<Rightarrow> bool" where
  "is_counted p = (p = Counted \<or> p = Inferring)"

type_synonym sup_config = "supervisor \<times> nat \<times> request_pc list \<times> watch_pc"

inductive sup_step :: "sup_config \<Rightarrow> sup_config \<Rightarrow> bool" where
  tick: "sup_step (sv, t, ps, v) (sv, Suc t, ps, v)"
| ensure: "i < length ps \<Longrightarrow> ps ! i = Outside
    \<Longrightarrow> c = sv_child sv \<or> sv_idle_timeout sv \<noteq> 0 \<and> sv_spawn_program sv \<noteq> []
    \<Longrightarrow> sup_step (sv, t, ps, v) (sv\<lparr>sv_child := c\<rparr>, t, ps[i := Ensured], v)"
| count: "i < length ps \<Longrightarrow> ps ! i = Ensured
    \<Longrightarrow> sup_step (sv, t, ps, v) (sv\<lparr>sv_in_flight := sv_in_flight sv + 1\<rparr>, t, ps[i := Counted], v)"
| stamp: "i < length ps \<Longrightarrow> ps ! i = Counted
    \<Longrightarrow> sup_step (sv, t, ps, v) (sv\<lparr>sv_last_used := t\<rparr>, t, ps[i := Inferring], v)"
| uncount: "i < length ps \<Longrightarrow> ps ! i = Inferring
    \<Longrightarrow> sup_step (sv, t, ps, v) (sv\<lparr>sv_in_flight := sv_in_flight sv - 1\<rparr>, t, ps[i := Uncounted], v)"
| leave: "i < length ps \<Longrightarrow> ps ! i = Uncounted
    \<Longrightarrow> sup_step (sv, t, ps, v) (sv\<lparr>sv_last_used := t\<rparr>, t, ps[i := Outside], v)"
| look: "sv_idle_timeout sv \<noteq> 0 \<Longrightarrow> sv_in_flight sv = 0
    \<Longrightarrow> sup_step (sv, t, ps, Watching) (sv, t, ps, Saw_None_In_Flight)"
| busy: "t - sv_last_used sv < sv_idle_timeout sv
    \<Longrightarrow> sup_step (sv, t, ps, Saw_None_In_Flight) (sv, t, ps, Watching)"
| idle: "t - sv_last_used sv \<ge> sv_idle_timeout sv
    \<Longrightarrow> sup_step (sv, t, ps, Saw_None_In_Flight) (sv, t, ps, Saw_Idle)"
| kill: "sup_step (sv, t, ps, Saw_Idle) (sv\<lparr>sv_child := None\<rparr>, t, ps, Watching)"

definition sup_reachable :: "sup_config \<Rightarrow> sup_config \<Rightarrow> bool" where
  "sup_reachable = sup_step\<^sup>*\<^sup>*"

section \<open>The count of requests\<close>

definition counted :: "request_pc list \<Rightarrow> nat" where
  "counted ps = (\<Sum>p\<leftarrow>ps. of_bool (is_counted p))"

lemma counted_update:
  "i < length ps \<Longrightarrow> counted (ps[i := p]) = counted ps + of_bool (is_counted p) - of_bool (is_counted (ps ! i))"
  by (simp add: counted_def map_update sum_list_update)

lemma counted_le: "counted ps \<le> length ps"
  by (induction ps) (auto simp: counted_def)

lemma counted_filter: "counted ps = length (filter is_counted ps)"
  by (induction ps) (auto simp: counted_def)

lemma counted_pos: "i < length ps \<Longrightarrow> is_counted (ps ! i) \<Longrightarrow> 0 < counted ps"
  by (auto simp: counted_filter filter_empty_conv intro: nth_mem)

definition sup_inv :: "nat \<Rightarrow> sup_config \<Rightarrow> bool" where
  "sup_inv n s = (case s of (sv, t, ps, v) \<Rightarrow> length ps = n \<and> unat (sv_in_flight sv) = counted ps)"

lemma sup_step_inv: "sup_step s s' \<Longrightarrow> n < 2 ^ 64 \<Longrightarrow> sup_inv n s \<Longrightarrow> sup_inv n s'"
proof (induction rule: sup_step.induct)
  case (count i ps sv t v)
  have "counted (ps[i := Counted]) = counted ps + 1"
    using count by (simp add: counted_update is_counted_def)
  moreover have "counted (ps[i := Counted]) \<le> length ps" using counted_le [of "ps[i := Counted]"] by simp
  ultimately show ?case using count by (simp add: sup_inv_def unat_word_ariths)
next
  case (uncount i ps sv t v)
  have "0 < counted ps" using uncount by (auto intro: counted_pos simp: is_counted_def)
  moreover have "counted (ps[i := Uncounted]) = counted ps - 1"
    using uncount by (simp add: counted_update is_counted_def)
  ultimately show ?case using uncount
    by (simp add: sup_inv_def unat_sub word_le_nat_alt)
qed (auto simp: sup_inv_def counted_update is_counted_def)

text \<open>
  C25. However requests and watchdog interleave, the counter holds the number of requests that were
  counted and not yet taken off: it neither loses an increment nor falls below zero, and it is zero
  when no request is under way.
\<close>

theorem in_flight_counts_requests:
  assumes "sup_reachable (sv_with_spawn now url secs program model port, t0, replicate n Outside, Watching)
      (sv, t, ps, v)" and "n < 2 ^ 64"
  shows "unat (sv_in_flight sv) = length (filter is_counted ps)"
proof -
  have "sup_inv n (sv, t, ps, v)"
    using assms(1) unfolding sup_reachable_def
  proof (induction rule: rtranclp_induct)
    case base
    have "counted (replicate n Outside) = 0" by (induction n) (auto simp: counted_def is_counted_def)
    then show ?case by (simp add: sup_inv_def sv_with_spawn_def)
  next
    case (step y z)
    then show ?case using sup_step_inv assms(2) by blast
  qed
  then show ?thesis by (simp add: sup_inv_def counted_filter)
qed

theorem in_flight_counts_requests_witness:
  "unat (sv_in_flight (sv_with_spawn 0 [] 1 [] [] 0)) = length (filter is_counted (replicate 2 Outside))"
  by (rule in_flight_counts_requests [of 0 "[]" 1 "[]" "[]" 0 0 2 _ 0 _ Watching])
    (simp_all add: sup_reachable_def)

section \<open>The watchdog\<close>

lemma kill_if_idle_cases:
  "case kill_if_idle os sv w of (killed, sv', w') \<Rightarrow>
     if killed then sv_in_flight sv = 0 \<and> sv_child sv' = None \<and> sv_idle_timeout sv \<noteq> 0
       \<and> sv_idle_timeout sv \<le> fst (op_now os w) - sv_last_used sv
     else sv' = sv"
  by (auto simp: kill_if_idle_def is_idle_def sv_kill_def word_gt_0 split: prod.splits bool.splits option.splits
      if_splits)

lemma sup_ticks: "sup_reachable (sv, t, ps, v) (sv, t + n, ps, v)"
proof (induction n)
  case (Suc n)
  then show ?case unfolding sup_reachable_def
    by (metis add_Suc_right rtranclp.rtrancl_into_rtrancl sup_step.tick)
qed (simp add: sup_reachable_def)

lemma sup_reach_step: "sup_reachable s s' \<Longrightarrow> sup_step s' s'' \<Longrightarrow> sup_reachable s s''"
  unfolding sup_reachable_def by simp

text \<open>
  The watchdog stops the server only after it found nothing in flight and the last request old
  enough; but its look at the counter, its look at the clock and the kill are separate, so with any
  idle time a request that comes in between starts the server, is counted and stamped, and is in the
  inference when the watchdog kills the server under it.
\<close>

theorem watchdog_kills_running_inference:
  assumes "0 < secs" and "program \<noteq> []"
  shows "\<exists>sv t. sup_reachable (sv_with_spawn now url secs program model port, now, [Outside], Watching) (sv, t, [Inferring], Saw_Idle)
      \<and> sv_in_flight sv = 1 \<and> sv_last_used sv = t \<and> sv_child sv = Some p
      \<and> sup_step (sv, t, [Inferring], Saw_Idle) (sv\<lparr>sv_child := None\<rparr>, t, [Inferring], Watching)"
proof -
  define s0 where "s0 = sv_with_spawn now url secs program model port"
  let ?t = "now + secs * 10 ^ 9"
  let ?s1 = "s0\<lparr>sv_child := Some p\<rparr>"
  let ?s2 = "?s1\<lparr>sv_in_flight := 1\<rparr>"
  have *: "sv_idle_timeout s0 = secs * 10 ^ 9" "sv_spawn_program s0 = program" "sv_in_flight s0 = 0"
    "sv_last_used s0 = now" by (simp_all add: s0_def sv_with_spawn_def)
  have "sup_reachable (s0, now, [Outside], Watching) (s0, ?t, [Outside], Watching)" by (rule sup_ticks)
  also have "sup_step (s0, ?t, [Outside], Watching) (s0, ?t, [Outside], Saw_None_In_Flight)"
    using assms(1) by (intro look) (simp_all add: *)
  note a = sup_reach_step [OF calculation this]
  have "sup_step (s0, ?t, [Outside], Saw_None_In_Flight) (s0, ?t, [Outside], Saw_Idle)"
    by (intro idle) (simp add: *)
  note b = sup_reach_step [OF a this]
  have "sup_step (s0, ?t, [Outside], Saw_Idle) (?s1, ?t, [Outside][0 := Ensured], Saw_Idle)"
    using assms(1,2) by (intro ensure) (simp_all add: *)
  note c = sup_reach_step [OF b this]
  have "sup_step (?s1, ?t, [Ensured], Saw_Idle)
      (?s1\<lparr>sv_in_flight := sv_in_flight ?s1 + 1\<rparr>, ?t, [Ensured][0 := Counted], Saw_Idle)"
    by (intro count) simp_all
  note d = sup_reach_step [OF c [simplified] this [simplified]]
  have "sup_step (?s2, ?t, [Counted], Saw_Idle) (?s2\<lparr>sv_last_used := ?t\<rparr>, ?t, [Counted][0 := Inferring], Saw_Idle)"
    by (intro stamp) simp_all
  note e = sup_reach_step [OF d [simplified *, simplified] this [simplified]]
  define s3 where "s3 = ?s2\<lparr>sv_last_used := ?t\<rparr>"
  have "sup_step (s3, ?t, [Inferring], Saw_Idle) (s3\<lparr>sv_child := None\<rparr>, ?t, [Inferring], Watching)"
    by (rule kill)
  moreover have "sv_in_flight s3 = 1" "sv_last_used s3 = ?t" "sv_child s3 = Some p" by (simp_all add: s3_def)
  moreover have "sup_reachable (s0, now, [Outside], Watching) (s3, ?t, [Inferring], Saw_Idle)"
    using e by (simp add: s3_def)
  ultimately show ?thesis unfolding s0_def by blast
qed

theorem watchdog_kills_running_inference_witness:
  "\<exists>sv t. sup_reachable (sv_with_spawn 0 [] 60 ''x'' [] 80, 0, [Outside], Watching) (sv, t, [Inferring], Saw_Idle)
      \<and> sv_in_flight sv = 1 \<and> sv_last_used sv = t \<and> sv_child sv = Some 7
      \<and> sup_step (sv, t, [Inferring], Saw_Idle) (sv\<lparr>sv_child := None\<rparr>, t, [Inferring], Watching)"
  by (rule watchdog_kills_running_inference) simp_all

end
