(* ===== verification/Model_Profile.thy ===== *)
theory Model_Profile
  imports Agent_State
begin

text \<open>
  \<open>src/domain/model_profile.rs\<close> and the inference parameters of \<open>src/config.rs\<close>: the table of known
  models, the names a model is found by, the order in which the sources of a model name are asked,
  and how the defaults of a profile fill what the configuration leaves open. The floats are the
  binary values nearest to the decimals written in the source.
\<close>

section \<open>Profiles\<close>

text \<open>The recommended parameters have the fields of \<open>InferenceParams\<close>, whose record they share;
  \<open>From\<close> and \<open>from_defaults\<close> copy them field by field.\<close>

record model_profile =
  mp_id :: string
  mp_display_name :: string
  mp_gguf_repo :: string
  mp_gguf_file :: string
  mp_mlx_repo :: string
  mp_native_context :: nat
  mp_default_context :: nat
  mp_inference :: inference_params
  mp_notes :: string

definition default_model_id :: string where
  "default_model_id = ''minicpm5-2b''"

definition known_profiles :: "model_profile list" where
  "known_profiles =
    [\<lparr>mp_id = ''minicpm5-2b'', mp_display_name = ''MiniCPM5-2B'',
      mp_gguf_repo = ''openbmb/MiniCPM5-2B-GGUF'', mp_gguf_file = ''MiniCPM5-2B-Q4_K_M.gguf'',
      mp_mlx_repo = ''openbmb/MiniCPM5-2B-MLX'', mp_native_context = 131072, mp_default_context = 16384,
      mp_inference = \<lparr>ip_temperature = fl64 (6 / 10), ip_top_p = fl64 (95 / 100), ip_top_k = 20,
        ip_min_p = fl64 (5 / 100), ip_max_tokens = 2048, ip_repeat_penalty = fl64 (105 / 100)\<rparr>,
      mp_notes = m_note_2b\<rparr>,
     \<lparr>mp_id = ''minicpm5-1b'', mp_display_name = ''MiniCPM5-1B'',
      mp_gguf_repo = ''openbmb/MiniCPM5-1B-GGUF'', mp_gguf_file = ''MiniCPM5-1B-Q4_K_M.gguf'',
      mp_mlx_repo = ''openbmb/MiniCPM5-1B-MLX'', mp_native_context = 131072, mp_default_context = 16384,
      mp_inference = \<lparr>ip_temperature = fl64 (6 / 10), ip_top_p = fl64 (95 / 100), ip_top_k = 20,
        ip_min_p = fl64 (5 / 100), ip_max_tokens = 2048, ip_repeat_penalty = fl64 (105 / 100)\<rparr>,
      mp_notes = m_note_1b\<rparr>,
     \<lparr>mp_id = ''bonsai-8b'', mp_display_name = ''Bonsai-8B'',
      mp_gguf_repo = ''prism-ml/Bonsai-8B-gguf'', mp_gguf_file = ''Bonsai-8B.gguf'',
      mp_mlx_repo = [], mp_native_context = 16384, mp_default_context = 16384,
      mp_inference = \<lparr>ip_temperature = fl64 (5 / 10), ip_top_p = fl64 (85 / 100), ip_top_k = 20,
        ip_min_p = fl64 (5 / 100), ip_max_tokens = 1024, ip_repeat_penalty = fl64 (115 / 100)\<rparr>,
      mp_notes = m_note_bonsai\<rparr>,
     \<lparr>mp_id = ''ternary-bonsai-8b'', mp_display_name = ''Ternary-Bonsai-8B'',
      mp_gguf_repo = ''prism-ml/Ternary-Bonsai-8B-GGUF'', mp_gguf_file = ''Ternary-Bonsai-8B.gguf'',
      mp_mlx_repo = ''prism-ml/Ternary-Bonsai-8B-mlx-2bit'', mp_native_context = 65536,
      mp_default_context = 65536,
      mp_inference = \<lparr>ip_temperature = fl64 (3 / 10), ip_top_p = fl64 (9 / 10), ip_top_k = 20,
        ip_min_p = fl64 (5 / 100), ip_max_tokens = 1024, ip_repeat_penalty = fl64 (11 / 10)\<rparr>,
      mp_notes = m_note_ternary\<rparr>]"

text \<open>\<open>None\<close> is the panic of \<open>expect\<close>.\<close>

definition default_profile :: "model_profile option" where
  "default_profile = find (\<lambda>p. mp_id p = default_model_id) known_profiles"

definition gguf_stem :: "string \<Rightarrow> string" where
  "gguf_stem f = (case strip_suffix f ''.gguf'' of None \<Rightarrow> f | Some s \<Rightarrow> s)"

definition profile_matches :: "string \<Rightarrow> model_profile \<Rightarrow> bool" where
  "profile_matches model_id p =
    (eq_ignore_ascii_case (mp_id p) model_id
     \<or> eq_ignore_ascii_case (mp_gguf_repo p) model_id
     \<or> mp_mlx_repo p \<noteq> [] \<and> eq_ignore_ascii_case (mp_mlx_repo p) model_id
     \<or> eq_ignore_ascii_case (gguf_stem (mp_gguf_file p)) (gguf_stem model_id))"

definition find_profile :: "string \<Rightarrow> model_profile option" where
  "find_profile model_id = find (profile_matches model_id) known_profiles"

definition non_blank :: "string option \<Rightarrow> string option" where
  "non_blank v = (case v of None \<Rightarrow> None | Some s \<Rightarrow> if trim s \<noteq> [] then Some (trim s) else None)"

definition resolve_model_id ::
    "string option \<Rightarrow> string option \<Rightarrow> string option \<Rightarrow> string option \<Rightarrow> bool \<Rightarrow> string \<Rightarrow> string" where
  "resolve_model_id cli bonsai bonsai_id unsloth is_unsloth config_id =
    (case non_blank cli of Some m \<Rightarrow> m
     | None \<Rightarrow> (case non_blank bonsai of Some m \<Rightarrow> m
     | None \<Rightarrow> (case non_blank bonsai_id of Some m \<Rightarrow> m
     | None \<Rightarrow> (case non_blank unsloth of Some m \<Rightarrow> m
     | None \<Rightarrow> if is_unsloth \<and> config_id = ''bonsai-8b'' then ''Aratako/Qwen3-8B-ERP-v0.1-GGUF''
               else config_id))))"

definition mlx_only_model_id :: "string \<Rightarrow> bool \<Rightarrow> string + string" where
  "mlx_only_model_id cur allow_unknown =
    (case find_profile cur of
       None \<Rightarrow> if allow_unknown then Inr cur else Inl (''model_id '' @ [squote] @ cur @ m_mlx_unknown)
     | Some p \<Rightarrow> if mp_mlx_repo p = [] then Inl (''profile '' @ [squote] @ mp_id p @ m_mlx_none)
                 else Inr (mp_mlx_repo p))"

section \<open>Inference parameters\<close>

definition inference_default :: inference_params where
  "inference_default = (case default_profile of Some p \<Rightarrow> mp_inference p | None \<Rightarrow> undefined)"

record inference_explicit =
  ie_temperature :: bool
  ie_top_p :: bool
  ie_top_k :: bool
  ie_min_p :: bool
  ie_max_tokens :: bool
  ie_repeat_penalty :: bool

definition apply_profile_defaults ::
    "inference_params \<Rightarrow> inference_explicit \<Rightarrow> inference_params \<Rightarrow> inference_params" where
  "apply_profile_defaults d ex p =
    \<lparr>ip_temperature = if ie_temperature ex then ip_temperature p else ip_temperature d,
     ip_top_p = if ie_top_p ex then ip_top_p p else ip_top_p d,
     ip_top_k = if ie_top_k ex then ip_top_k p else ip_top_k d,
     ip_min_p = if ie_min_p ex then ip_min_p p else ip_min_p d,
     ip_max_tokens = if ie_max_tokens ex then ip_max_tokens p else ip_max_tokens d,
     ip_repeat_penalty = if ie_repeat_penalty ex then ip_repeat_penalty p else ip_repeat_penalty d\<rparr>"

definition mlx_optimized :: inference_params where
  "mlx_optimized =
    \<lparr>ip_temperature = fl64 (3 / 10), ip_top_p = fl64 (9 / 10), ip_top_k = 20,
     ip_min_p = fl64 (5 / 100), ip_max_tokens = 1024, ip_repeat_penalty = fl64 (11 / 10)\<rparr>"

text \<open>The two overrides for experiments; \<open>parse_f64\<close> is the parser of floats of the standard
  library, restricted to finite values, and the environment is asked for the one variable.\<close>

definition lab_override :: "(string \<Rightarrow> rat option) \<Rightarrow> string option \<Rightarrow> rat option" where
  "lab_override parse_f64 v =
    (case Option.bind v parse_f64 of None \<Rightarrow> None | Some x \<Rightarrow> if 0 \<le> x \<and> x \<le> 2 then Some x else None)"

definition apply_lab_temp_override ::
    "(string \<Rightarrow> rat option) \<Rightarrow> string option \<Rightarrow> inference_params \<Rightarrow> rat option \<times> inference_params" where
  "apply_lab_temp_override parse_f64 v p =
    (case lab_override parse_f64 v of None \<Rightarrow> (None, p)
     | Some x \<Rightarrow> (Some (ip_temperature p), p\<lparr>ip_temperature := x\<rparr>))"

definition apply_lab_repeat_penalty_override ::
    "(string \<Rightarrow> rat option) \<Rightarrow> string option \<Rightarrow> inference_params \<Rightarrow> rat option \<times> inference_params" where
  "apply_lab_repeat_penalty_override parse_f64 v p =
    (case lab_override parse_f64 v of None \<Rightarrow> (None, p)
     | Some x \<Rightarrow> (Some (ip_repeat_penalty p), p\<lparr>ip_repeat_penalty := x\<rparr>))"

section \<open>Properties\<close>

text \<open>Each profile is the first that one of its own names matches.\<close>

definition found_by_names :: "model_profile \<Rightarrow> bool" where
  "found_by_names p = list_all (\<lambda>n. map_option mp_id (find_profile n) = Some (mp_id p))
    ([mp_id p, mp_display_name p, mp_gguf_repo p, mp_gguf_file p, gguf_stem (mp_gguf_file p)]
     @ (if mp_mlx_repo p = [] then [] else [mp_mlx_repo p]))"

lemmas name_defs = find_profile_def profile_matches_def eq_ignore_ascii_case_def gguf_stem_def
  strip_suffix_def ends_with_def

lemma mlx_optimized_is_ternary: "map_option mp_inference (find_profile ''ternary-bonsai-8b'') = Some mlx_optimized"
  by (simp add: name_defs known_profiles_def mlx_optimized_def)

lemma default_profile_exists: "default_profile = Some (hd known_profiles)"
  by (simp add: default_profile_def known_profiles_def default_model_id_def)

lemma profile_names:
  "found_by_names (known_profiles ! 0)" "found_by_names (known_profiles ! 1)"
  "found_by_names (known_profiles ! 2)" "found_by_names (known_profiles ! 3)"
  by (simp_all add: found_by_names_def name_defs known_profiles_def)

lemma known_profiles_list:
  "known_profiles = [known_profiles ! 0, known_profiles ! 1, known_profiles ! 2, known_profiles ! 3]"
  by (simp add: known_profiles_def)

lemma all_found_by_names: "p \<in> set known_profiles \<Longrightarrow> found_by_names p"
  using profile_names by (subst (asm) known_profiles_list) auto

lemma ids_distinct: "p \<in> set known_profiles \<Longrightarrow> q \<in> set known_profiles \<Longrightarrow> mp_id p = mp_id q \<Longrightarrow> p = q"
proof -
  have "distinct (map mp_id known_profiles)" by (simp add: known_profiles_def)
  then have "inj_on mp_id (set known_profiles)" by (simp add: distinct_map)
  then show "p \<in> set known_profiles \<Longrightarrow> q \<in> set known_profiles \<Longrightarrow> mp_id p = mp_id q \<Longrightarrow> p = q"
    by (rule inj_onD)
qed

lemma find_profile_member: "find_profile n = Some p \<Longrightarrow> p \<in> set known_profiles"
  unfolding find_profile_def by (auto simp: find_Some_iff)

text \<open>
  Switching to MLX never changes the model: the name it gives is found as the profile that the
  current name is found as, or it is the current name itself, unknown and allowed.
\<close>

theorem mlx_only_keeps_model:
  "case mlx_only_model_id cur allow of
     Inr name \<Rightarrow> find_profile name = find_profile cur \<and> (find_profile cur = None) = (allow \<and> name = cur \<and> find_profile name = None)
   | Inl msg \<Rightarrow> (case find_profile cur of None \<Rightarrow> allow = False | Some p \<Rightarrow> mp_mlx_repo p = [])"
proof (cases "find_profile cur")
  case (Some p)
  show ?thesis
  proof (cases "mp_mlx_repo p = []")
    case False
    have "found_by_names p" by (rule all_found_by_names [OF find_profile_member [OF Some]])
    then have "map_option mp_id (find_profile (mp_mlx_repo p)) = Some (mp_id p)"
      using False by (simp add: found_by_names_def)
    then obtain q where "find_profile (mp_mlx_repo p) = Some q" "mp_id q = mp_id p" by auto
    then have "find_profile (mp_mlx_repo p) = Some p"
      using ids_distinct [OF find_profile_member find_profile_member [OF Some]] by auto
    then show ?thesis using Some False by (simp add: mlx_only_model_id_def)
  qed (simp add: mlx_only_model_id_def Some)
qed (simp add: mlx_only_model_id_def)

text \<open>Filling the open fields twice is filling them once; fields set explicitly are kept.\<close>

lemma profile_defaults_idempotent:
  "apply_profile_defaults d ex (apply_profile_defaults d ex p) = apply_profile_defaults d ex p"
  by (simp add: apply_profile_defaults_def)

lemma resolve_nonempty:
  "config_id \<noteq> [] \<Longrightarrow> resolve_model_id cli bonsai bonsai_id unsloth is_unsloth config_id \<noteq> []"
  by (auto simp: resolve_model_id_def non_blank_def split: option.splits if_splits)

end
