(* ===== verification/Task_Store.thy ===== *)
theory Task_Store
  imports Sql
begin

text \<open>
  \<open>src/agent/task.rs\<close>: the table of tasks. An SQL statement is what it does to the rows, which are in
  the order they were inserted; the identifier is the primary key, and the parent of a task must be in
  the table (\<open>REFERENCES tasks(id)\<close>, foreign keys are on). The step log of a row is the list that its
  JSON text holds. Times are the texts the clock answers, and compared as texts. Of rows with the same
  time SQL leaves the order open; here it is the order of insertion.
\<close>

section \<open>Tasks\<close>

datatype task_state = Task_Pending | Task_In_Progress | Task_Waiting | Task_Completed | Task_Failed

definition task_state_str :: "task_state \<Rightarrow> string" where
  "task_state_str s =
    (case s of
       Task_Pending \<Rightarrow> ''pending''
     | Task_In_Progress \<Rightarrow> ''in_progress''
     | Task_Waiting \<Rightarrow> ''waiting''
     | Task_Completed \<Rightarrow> ''completed''
     | Task_Failed \<Rightarrow> ''failed'')"

definition task_state_of :: "string \<Rightarrow> task_state" where
  "task_state_of s =
    (if s = ''in_progress'' then Task_In_Progress
     else if s = ''waiting'' then Task_Waiting
     else if s = ''completed'' then Task_Completed
     else if s = ''failed'' then Task_Failed
     else Task_Pending)"

record step_record =
  sr_description :: string
  sr_outcome :: string
  sr_timestamp :: string

record task =
  tk_id :: string
  tk_goal :: string
  tk_state :: task_state
  tk_parent_id :: "string option"
  tk_step_current :: int
  tk_step_log :: "step_record list"
  tk_context :: "string option"
  tk_error_info :: "string option"
  tk_created_at :: string
  tk_updated_at :: string

text \<open>A row holds the state as text.\<close>

record task_row =
  tr_id :: string
  tr_goal :: string
  tr_state :: string
  tr_parent_id :: "string option"
  tr_step_current :: int
  tr_step_log :: "step_record list"
  tr_context :: "string option"
  tr_error_info :: "string option"
  tr_created_at :: string
  tr_updated_at :: string

definition task_of_row :: "task_row \<Rightarrow> task" where
  "task_of_row r =
    \<lparr>tk_id = tr_id r, tk_goal = tr_goal r, tk_state = task_state_of (tr_state r),
     tk_parent_id = tr_parent_id r, tk_step_current = tr_step_current r, tk_step_log = tr_step_log r,
     tk_context = tr_context r, tk_error_info = tr_error_info r, tk_created_at = tr_created_at r,
     tk_updated_at = tr_updated_at r\<rparr>"

section \<open>Operations\<close>

text \<open>\<open>None\<close>: the insertion is refused by the primary or the foreign key.\<close>

definition tm_create :: "string \<Rightarrow> string \<Rightarrow> string \<Rightarrow> string option \<Rightarrow> task_row list \<Rightarrow> task_row list option" where
  "tm_create id' now goal parent rows =
    (if id' \<in> set (map tr_id rows) then None
     else if (case parent of None \<Rightarrow> False | Some p \<Rightarrow> p \<noteq> id' \<and> p \<notin> set (map tr_id rows)) then None
     else Some (rows @ [\<lparr>tr_id = id', tr_goal = goal, tr_state = ''pending'', tr_parent_id = parent,
       tr_step_current = 0, tr_step_log = [], tr_context = None, tr_error_info = None,
       tr_created_at = now, tr_updated_at = now\<rparr>]))"

definition tm_get :: "string \<Rightarrow> task_row list \<Rightarrow> task option" where
  "tm_get i rows = map_option task_of_row (find (\<lambda>r. tr_id r = i) rows)"

definition tm_update :: "string \<Rightarrow> (task_row \<Rightarrow> task_row) \<Rightarrow> task_row list \<Rightarrow> task_row list" where
  "tm_update i f rows = map (\<lambda>r. if tr_id r = i then f r else r) rows"

definition tm_update_state :: "string \<Rightarrow> string \<Rightarrow> task_state \<Rightarrow> task_row list \<Rightarrow> task_row list" where
  "tm_update_state now i st =
    tm_update i (\<lambda>r. r\<lparr>tr_state := task_state_str st, tr_updated_at := now\<rparr>)"

definition tm_add_step ::
    "string \<Rightarrow> string \<Rightarrow> string \<Rightarrow> string \<Rightarrow> task_row list \<Rightarrow> string + task_row list" where
  "tm_add_step now i description outcome rows =
    (case tm_get i rows of
       None \<Rightarrow> Inl m_task_not_found
     | Some t \<Rightarrow>
         (let steps = tk_step_log t @
            [\<lparr>sr_description = description, sr_outcome = outcome, sr_timestamp = now\<rparr>]
          in Inr (tm_update i (\<lambda>r. r\<lparr>tr_step_log := steps, tr_step_current := int (length steps),
                    tr_updated_at := now\<rparr>) rows)))"

definition tm_save_context :: "string \<Rightarrow> string \<Rightarrow> string \<Rightarrow> task_row list \<Rightarrow> task_row list" where
  "tm_save_context now i context' = tm_update i (\<lambda>r. r\<lparr>tr_context := Some context', tr_updated_at := now\<rparr>)"

definition tm_set_error :: "string \<Rightarrow> string \<Rightarrow> string \<Rightarrow> task_row list \<Rightarrow> task_row list" where
  "tm_set_error now i err =
    tm_update i (\<lambda>r. r\<lparr>tr_error_info := Some err, tr_state := ''failed'', tr_updated_at := now\<rparr>)"

definition tm_list_incomplete :: "task_row list \<Rightarrow> task list" where
  "tm_list_incomplete rows = map task_of_row
    (order_by (\<lambda>r q. text_less (tr_updated_at q) (tr_updated_at r))
      (filter (\<lambda>r. tr_state r \<in> {''pending'', ''in_progress'', ''waiting''}) rows))"

definition tm_subtasks :: "string \<Rightarrow> task_row list \<Rightarrow> task list" where
  "tm_subtasks p rows = map task_of_row
    (order_by (\<lambda>r q. text_less (tr_created_at r) (tr_created_at q))
      (filter (\<lambda>r. tr_parent_id r = Some p) rows))"

section \<open>Lemmas\<close>

lemma task_state_roundtrip [simp]: "task_state_of (task_state_str s) = s"
  by (cases s) (simp_all add: task_state_str_def task_state_of_def)

lemma ids_update [simp]: "(\<And>r. tr_id (f r) = tr_id r) \<Longrightarrow> map tr_id (tm_update i f rows) = map tr_id rows"
  by (simp add: tm_update_def)

lemma tm_update_append: "tm_update i f (xs @ ys) = tm_update i f xs @ tm_update i f ys"
  by (simp add: tm_update_def)

lemma tm_update_absent: "i \<notin> set (map tr_id rows) \<Longrightarrow> tm_update i f rows = rows"
  by (induction rows) (auto simp: tm_update_def)

lemma tm_update_single: "tr_id r = i \<Longrightarrow> tm_update i f [r] = [f r]"
  by (simp add: tm_update_def)

lemma tm_get_append_new: "i \<notin> set (map tr_id rows) \<Longrightarrow> tr_id r = i \<Longrightarrow> tm_get i (rows @ [r]) = Some (task_of_row r)"
  by (induction rows) (auto simp: tm_get_def)

text \<open>
  A well-formed table: identifiers differ, every parent is in the table, every state is one that is
  written, and a row counts the steps of its log.
\<close>

definition tasks_wf :: "task_row list \<Rightarrow> bool" where
  "tasks_wf rows =
    (distinct (map tr_id rows)
     \<and> list_all (\<lambda>r. (case tr_parent_id r of None \<Rightarrow> True | Some p \<Rightarrow> p \<in> set (map tr_id rows))
         \<and> task_state_str (task_state_of (tr_state r)) = tr_state r
         \<and> tr_step_current r = int (length (tr_step_log r))) rows)"

datatype task_op =
    Create_Task string string string "string option"
  | Update_State string string task_state
  | Add_Step string string string string
  | Save_Context string string string
  | Set_Error string string string

text \<open>An operation as its caller sees it: one that fails leaves the table.\<close>

definition apply_task_op :: "task_op \<Rightarrow> task_row list \<Rightarrow> task_row list" where
  "apply_task_op p rows =
    (case p of
       Create_Task i now goal parent \<Rightarrow> (case tm_create i now goal parent rows of None \<Rightarrow> rows | Some rs \<Rightarrow> rs)
     | Update_State now i st \<Rightarrow> tm_update_state now i st rows
     | Add_Step now i d out \<Rightarrow> (case tm_add_step now i d out rows of Inl err \<Rightarrow> rows | Inr rs \<Rightarrow> rs)
     | Save_Context now i c \<Rightarrow> tm_save_context now i c rows
     | Set_Error now i err \<Rightarrow> tm_set_error now i err rows)"

lemma tasks_wf_update:
  assumes "tasks_wf rows"
    and "\<And>r. tr_id (f r) = tr_id r \<and> tr_parent_id (f r) = tr_parent_id r"
    and "\<And>r. r \<in> set rows \<Longrightarrow> tr_id r = i \<Longrightarrow> task_state_str (task_state_of (tr_state r)) = tr_state r
      \<Longrightarrow> tr_step_current r = int (length (tr_step_log r))
      \<Longrightarrow> task_state_str (task_state_of (tr_state (f r))) = tr_state (f r)
        \<and> tr_step_current (f r) = int (length (tr_step_log (f r)))"
  shows "tasks_wf (tm_update i f rows)"
proof -
  have ids: "map tr_id (tm_update i f rows) = map tr_id rows" using assms(2) by simp
  have "tr_parent_id (f r) = tr_parent_id r" for r using assms(2) by simp
  then show ?thesis using assms(1,3) unfolding tasks_wf_def ids
    by (auto simp: list_all_iff tm_update_def)
qed

lemma tasks_wf_op: "tasks_wf rows \<Longrightarrow> tasks_wf (apply_task_op p rows)"
proof (cases p)
  case (Create_Task i now goal parent)
  assume "tasks_wf rows"
  then show ?thesis using Create_Task
    by (auto simp: apply_task_op_def tm_create_def tasks_wf_def list_all_iff task_state_str_def task_state_of_def
        split: option.splits if_splits)
next
  case (Add_Step now i d out)
  assume "tasks_wf rows"
  then show ?thesis using Add_Step
    by (auto simp: apply_task_op_def tm_add_step_def Let_def intro!: tasks_wf_update split: option.splits)
next
  case (Set_Error now i err)
  assume "tasks_wf rows"
  then show ?thesis using Set_Error
    by (auto simp: apply_task_op_def tm_set_error_def task_state_of_def task_state_str_def intro!: tasks_wf_update)
qed (auto simp: apply_task_op_def tm_update_state_def tm_save_context_def intro!: tasks_wf_update)

text \<open>
  Whatever operations run on an empty table, in whatever order and whether they fail or not, it
  stays well-formed: identifiers differ, parents exist, every stored state reads back as itself, and
  the number of steps is the length of the step log.
\<close>

theorem task_table_well_formed: "tasks_wf (fold apply_task_op ops [])"
proof -
  have "tasks_wf rows \<Longrightarrow> tasks_wf (fold apply_task_op ops rows)" for rows
    by (induction ops arbitrary: rows) (auto intro: tasks_wf_op)
  then show ?thesis by (simp add: tasks_wf_def)
qed

end
