(* ===== verification/Subagent.thy ===== *)
theory Subagent
  imports Agent_Loop Model_Profile Task_Store
begin

text \<open>
  \<open>src/agent/subagent.rs\<close>: sub-tasks are run as agent loops of their own, one after the other or in
  parallel, each registered as a task. A runner is the state of the loop with the table of tasks.

  What the threads of a parallel run do to each other is the business of the world: each thread starts
  from a runner of its own, which may differ in what the world will answer and in the rows it sees, and
  leaves one behind. Log messages are left out.
\<close>

section \<open>Results\<close>

record sub_task_result =
  st_task_id :: string
  st_goal :: string
  st_answer :: string
  st_iterations_used :: nat
  st_success :: bool

record delegation_result =
  dr_results :: "sub_task_result list"
  dr_summary :: string

definition all_succeeded :: "delegation_result \<Rightarrow> bool" where
  "all_succeeded d = list_all st_success (dr_results d)"

definition delegation_success_rate :: "delegation_result \<Rightarrow> rat" where
  "delegation_success_rate d =
    (if dr_results d = [] then 0
     else fl64 (fl64 (of_nat (length (filter st_success (dr_results d))))
                / fl64 (of_nat (length (dr_results d)))))"

section \<open>Roles and configuration\<close>

datatype sub_agent_role = Role_General | Role_Explorer | Role_Builder | Role_Verifier

definition default_tools :: "sub_agent_role \<Rightarrow> string list option" where
  "default_tools r =
    (case r of
       Role_General \<Rightarrow> None
     | Role_Explorer \<Rightarrow> Some [''file_read'', ''repo_map'', ''recall'']
     | Role_Builder \<Rightarrow> Some [''file_read'', ''file_write'', ''multi_edit'']
     | Role_Verifier \<Rightarrow> Some [''file_read'', ''shell''])"

definition prompt_instruction :: "sub_agent_role \<Rightarrow> string" where
  "prompt_instruction r =
    (case r of
       Role_General \<Rightarrow> m_role_general
     | Role_Explorer \<Rightarrow> m_role_explorer
     | Role_Builder \<Rightarrow> m_role_builder
     | Role_Verifier \<Rightarrow> m_role_verifier)"

text \<open>The callback that confirms calls is kept beside the configuration, as in \<open>env\<close>.\<close>

record 'w sub_agent_config =
  sg_depth :: nat
  sg_max_iterations :: nat
  sg_allowed_tools :: "string list option"
  sg_n_ctx_budget :: "nat option"
  sg_role :: sub_agent_role
  sg_confirm :: "(string \<Rightarrow> string \<Rightarrow> 'w \<Rightarrow> bool \<times> 'w) option"
  sg_autonomy :: autonomy_level
  sg_is_daemon :: bool
  sg_daemon_policy :: daemon_policy
  sg_task_timeout :: "nat option"
  sg_tools_explicit :: bool

definition max_depth :: nat where
  "max_depth = 2"

definition from_parent :: "'w env \<Rightarrow> nat \<Rightarrow> 'w sub_agent_config" where
  "from_parent e depth =
    (let c = en_config e in
     \<lparr>sg_depth = depth, sg_max_iterations = max (ac_max_iterations c div 2) 3,
      sg_allowed_tools = ac_allowed_tools c, sg_n_ctx_budget = ac_n_ctx_budget c,
      sg_role = Role_General, sg_confirm = en_confirm e, sg_autonomy = ac_autonomy c,
      sg_is_daemon = ac_is_daemon c, sg_daemon_policy = ac_daemon_policy c,
      sg_task_timeout = ac_task_timeout c, sg_tools_explicit = False\<rparr>)"

definition with_tools :: "string list \<Rightarrow> 'w sub_agent_config \<Rightarrow> 'w sub_agent_config" where
  "with_tools ts g = g\<lparr>sg_allowed_tools := Some ts, sg_tools_explicit := True\<rparr>"

definition with_role :: "sub_agent_role \<Rightarrow> 'w sub_agent_config \<Rightarrow> 'w sub_agent_config" where
  "with_role role g =
    (if sg_tools_explicit g then g\<lparr>sg_role := role\<rparr>
     else g\<lparr>sg_role := role, sg_allowed_tools :=
       (case (sg_allowed_tools g, default_tools role) of
          (Some parent, Some own) \<Rightarrow> Some (filter (\<lambda>t. t \<in> set own) parent)
        | (None, Some own) \<Rightarrow> Some own
        | (parent, None) \<Rightarrow> parent)\<rparr>)"

definition can_delegate :: "'w sub_agent_config \<Rightarrow> bool" where
  "can_delegate g = (sg_depth g < max_depth)"

text \<open>\<open>AgentConfig::default()\<close> and what a sub-agent sets of it.\<close>

definition agent_config_default :: "string \<Rightarrow> agent_config" where
  "agent_config_default prompt =
    \<lparr>ac_max_iterations = 10, ac_max_retries = 3, ac_system_prompt = prompt, ac_advisor = ad_default,
     ac_auto_checkpoint = True, ac_max_tools_in_context = 8, ac_max_mcp_tools_in_context = 3,
     ac_allowed_tools = None, ac_base_inference = inference_default, ac_task_timeout = None,
     ac_n_ctx_budget = None, ac_autonomy = Supervised, ac_is_daemon = False,
     ac_daemon_policy = AutoOnly\<rparr>"

definition build_sub_config :: "'w sub_agent_config \<Rightarrow> string \<Rightarrow> agent_config" where
  "build_sub_config g goal =
    (agent_config_default (prompt_instruction (sg_role g) @ m_sub_task @ goal))
     \<lparr>ac_max_iterations := sg_max_iterations g, ac_auto_checkpoint := False,
      ac_n_ctx_budget := sg_n_ctx_budget g, ac_allowed_tools := sg_allowed_tools g,
      ac_autonomy := sg_autonomy g, ac_is_daemon := sg_is_daemon g,
      ac_daemon_policy := sg_daemon_policy g, ac_task_timeout := sg_task_timeout g\<rparr>"

section \<open>Runners\<close>

type_synonym 'w runner = "'w agent \<times> task_row list"

type_synonym ('w, 'a) delegated = "('w runner, 'a) state"

text \<open>A fresh identifier, the time in UTC, the local date, and the identifier of a new session.\<close>

record 'w delegate_env =
  de_uuid :: "'w \<Rightarrow> string \<times> 'w"
  de_utc_now :: "'w \<Rightarrow> string \<times> 'w"
  de_local_date :: "'w \<Rightarrow> string \<times> 'w"
  de_session_id :: "'w \<Rightarrow> string \<times> 'w"

definition in_agent :: "('w, 'a) step \<Rightarrow> ('w, 'a) delegated" where
  "in_agent m = State (\<lambda>(s, rows). case run_state m s of (x, s') \<Rightarrow> (x, (s', rows)))"

definition with_tasks :: "(task_row list \<Rightarrow> 'a \<times> task_row list) \<Rightarrow> ('w, 'a) delegated" where
  "with_tasks f = State (\<lambda>(s, rows). case f rows of (x, rows') \<Rightarrow> (x, (s, rows')))"

text \<open>The environment of a sub-agent: its own configuration and session, and neither the file of the
  parent's persona nor the parent's memory blocks.\<close>

definition own_knowledge :: "knowledge \<Rightarrow> knowledge" where
  "own_knowledge k =
    k\<lparr>kn_soul := (case kn_soul k of [] \<Rightarrow> [] | _ # cs \<Rightarrow> None # cs), kn_blocks := []\<rparr>"

definition sub_env :: "'w env \<Rightarrow> 'w sub_agent_config \<Rightarrow> string \<Rightarrow> string \<Rightarrow> 'w env" where
  "sub_env e g goal session =
    e\<lparr>en_session_id := session, en_config := build_sub_config g goal, en_confirm := sg_confirm g,
      en_recall := (\<lambda>ctx ops w. case en_recall e ctx ops w of (k, w') \<Rightarrow> (own_knowledge k, w'))\<rparr>"

section \<open>One sub-task\<close>

definition register_task ::
    "'w delegate_env \<Rightarrow> 'w env \<Rightarrow> string \<Rightarrow> string \<Rightarrow> ('w, string option) delegated" where
  "register_task d e parent goal =
    (if \<not> en_has_store e then State_Monad.return None
     else do {
       i \<leftarrow> in_agent (outside (de_uuid d));
       now \<leftarrow> in_agent (outside (de_utc_now d));
       created \<leftarrow> with_tasks (\<lambda>rows. case tm_create i now goal (Some parent) rows of
         None \<Rightarrow> (False, rows) | Some rows' \<Rightarrow> (True, rows'));
       (if \<not> created then State_Monad.return None
        else do {
          now \<leftarrow> in_agent (outside (de_utc_now d));
          with_tasks (\<lambda>rows. ((), tm_update_state now i Task_In_Progress rows));
          State_Monad.return (Some i) }) })"

definition close_task ::
    "'w delegate_env \<Rightarrow> string option \<Rightarrow> string \<Rightarrow> ('w, unit) delegated" where
  "close_task d tid answer =
    (case tid of
       None \<Rightarrow> State_Monad.return ()
     | Some i \<Rightarrow> do {
         now \<leftarrow> in_agent (outside (de_utc_now d));
         with_tasks (\<lambda>rows. ((), tm_update_state now i Task_Completed rows));
         now \<leftarrow> in_agent (outside (de_utc_now d));
         with_tasks (\<lambda>rows. ((), case tm_add_step now i m_done answer rows of
           Inl err \<Rightarrow> rows | Inr rows' \<Rightarrow> rows')) })"

definition fail_task :: "'w delegate_env \<Rightarrow> string option \<Rightarrow> string \<Rightarrow> ('w, unit) delegated" where
  "fail_task d tid err =
    (case tid of
       None \<Rightarrow> State_Monad.return ()
     | Some i \<Rightarrow> do {
         now \<leftarrow> in_agent (outside (de_utc_now d));
         with_tasks (\<lambda>rows. ((), tm_set_error now i err rows)) })"

definition task_name :: "string option \<Rightarrow> nat \<Rightarrow> string" where
  "task_name tid index = (case tid of None \<Rightarrow> ''sub-'' @ show_nat index | Some i \<Rightarrow> i)"

text \<open>\<open>None\<close>: the loop panicked, and the panic goes on to the caller.\<close>

definition execute_single_subtask ::
    "'w delegate_env \<Rightarrow> 'w env \<Rightarrow> string \<Rightarrow> nat \<Rightarrow> string \<Rightarrow> 'w sub_agent_config
     \<Rightarrow> ('w, sub_task_result option) delegated" where
  "execute_single_subtask d e parent index goal g = do {
     tid \<leftarrow> register_task d e parent goal;
     session \<leftarrow> in_agent (outside (de_session_id d));
     date \<leftarrow> in_agent (outside (de_local_date d));
     r \<leftarrow> in_agent (run_agent_loop (sub_env e g goal session) date goal);
     (case r of
        Inr res \<Rightarrow> do {
          close_task d tid (lr_answer res);
          in_agent (store e (Audit_Task_Complete (take_chars 100 goal) (lr_iterations_used res) 1 0));
          State_Monad.return (Some
            \<lparr>st_task_id = task_name tid index, st_goal = goal, st_answer = lr_answer res,
             st_iterations_used = lr_iterations_used res, st_success = True\<rparr>) }
      | Inl (Backend_Failed err) \<Rightarrow> do {
          fail_task d tid err;
          State_Monad.return (Some
            \<lparr>st_task_id = task_name tid index, st_goal = goal, st_answer = m_sub_error @ err,
             st_iterations_used = 0, st_success = False\<rparr>) }
      | Inl Panicked \<Rightarrow> State_Monad.return None) }"

section \<open>Several sub-tasks\<close>

definition dep_markers :: "string list" where
  "dep_markers =
    [m_dep_1, m_dep_2, m_dep_3, m_dep_4, m_dep_5, m_dep_6, m_dep_7, m_dep_8, m_dep_9, m_dep_10,
     m_dep_11, m_dep_12, ''previous'', ''above'', ''below'', ''then '', ''after '', ''subsequently'',
     ''finally'', ''first,'', ''last,'']"

definition check_independence :: "string list \<Rightarrow> bool" where
  "check_independence goals =
    (if length goals < 2 then False
     else \<not> list_ex (\<lambda>g. list_ex (\<lambda>m. str_contains g m) dep_markers) goals)"

definition should_parallelize :: "bool \<Rightarrow> bool \<Rightarrow> nat \<Rightarrow> bool \<Rightarrow> bool" where
  "should_parallelize indep store_clonable goal_count has_confirm =
    (indep \<and> store_clonable \<and> goal_count \<ge> 2 \<and> \<not> has_confirm)"

text \<open>From the goal with index \<open>i\<close> on.\<close>

fun execute_sequential ::
    "'w delegate_env \<Rightarrow> 'w env \<Rightarrow> string \<Rightarrow> 'w sub_agent_config \<Rightarrow> nat \<Rightarrow> string list
     \<Rightarrow> ('w, sub_task_result list option) delegated" where
  "execute_sequential d e parent g i [] = State_Monad.return (Some [])"
| "execute_sequential d e parent g i (goal # goals) = do {
     cancelled \<leftarrow> in_agent (outside (en_cancelled e));
     (if cancelled then State_Monad.return (Some [])
      else do {
        r \<leftarrow> execute_single_subtask d e parent i goal g;
        (case r of
           None \<Rightarrow> State_Monad.return None
         | Some x \<Rightarrow> do {
             rs \<leftarrow> execute_sequential d e parent g (Suc i) goals;
             State_Monad.return (map_option (\<lambda>xs. x # xs) rs) }) }) }"

text \<open>One thread; \<open>opened\<close> says whether it could open the store.\<close>

definition cancelled_result :: "nat \<Rightarrow> string \<Rightarrow> sub_task_result" where
  "cancelled_result i goal =
    \<lparr>st_task_id = ''sub-'' @ show_nat i, st_goal = goal, st_answer = m_cancelled_answer,
     st_iterations_used = 0, st_success = False\<rparr>"

definition panic_result :: sub_task_result where
  "panic_result =
    \<lparr>st_task_id = ''panic'', st_goal = ''panic'', st_answer = m_thread_panicked,
     st_iterations_used = 0, st_success = False\<rparr>"

definition subtask_thread ::
    "'w delegate_env \<Rightarrow> 'w env \<Rightarrow> string \<Rightarrow> 'w sub_agent_config \<Rightarrow> bool \<Rightarrow> nat \<Rightarrow> string
     \<Rightarrow> ('w, sub_task_result) delegated" where
  "subtask_thread d e parent g opened i goal = do {
     cancelled \<leftarrow> in_agent (outside (en_cancelled e));
     (if cancelled then State_Monad.return (cancelled_result i goal)
      else do {
        r \<leftarrow> execute_single_subtask d (e\<lparr>en_has_store := en_has_store e \<and> opened\<rparr>) parent i goal g;
        State_Monad.return (case r of None \<Rightarrow> panic_result | Some x \<Rightarrow> x) }) }"

text \<open>\<open>starts i\<close>: whether thread \<open>i\<close> opens the store, and the runner it starts from.\<close>

definition execute_parallel ::
    "'w delegate_env \<Rightarrow> 'w env \<Rightarrow> string \<Rightarrow> 'w sub_agent_config \<Rightarrow> (nat \<Rightarrow> bool \<times> 'w runner) \<Rightarrow> string list
     \<Rightarrow> (sub_task_result \<times> 'w runner) list" where
  "execute_parallel d e parent g starts goals =
    map (\<lambda>(i, goal). case starts i of
      (opened, r) \<Rightarrow> run_state (subtask_thread d e parent g opened i goal) r) (enumerate 0 goals)"

fun summary_lines :: "nat \<Rightarrow> sub_task_result list \<Rightarrow> string" where
  "summary_lines i [] = []"
| "summary_lines i (r # rs) =
    show_nat (i + 1) @ ''. ['' @ (if st_success r then ''OK'' else ''NG'') @ ''] '' @ st_goal r @ '' (''
      @ show_nat (st_iterations_used r) @ m_summary_steps
      @ ''   -> '' @ take_chars 100 (st_answer r) @ nl @ nl @ summary_lines (i + 1) rs"

definition build_summary :: "sub_task_result list \<Rightarrow> string" where
  "build_summary rs =
    m_summary_1 @ show_nat (length (filter st_success rs)) @ ''/'' @ show_nat (length rs) @ m_summary_2
      @ summary_lines 0 rs"

definition format_delegation_for_context :: "delegation_result \<Rightarrow> string" where
  "format_delegation_for_context d =
    ''<context type='' @ [dquote] @ ''subtask-results'' @ [dquote] @ ''>'' @ nl @ dr_summary d @ nl @ ''</context>''"

text \<open>
  The dispatcher: the result, \<open>None\<close> when it panics, and the runners that are left, one of the
  sequential run or one per thread. \<open>has_path\<close> says whether the store lies in a file.
\<close>

definition execute_subtasks ::
    "'w delegate_env \<Rightarrow> 'w env \<Rightarrow> bool \<Rightarrow> string \<Rightarrow> 'w sub_agent_config \<Rightarrow> (nat \<Rightarrow> bool \<times> 'w runner)
     \<Rightarrow> string list \<Rightarrow> 'w runner \<Rightarrow> delegation_result option \<times> 'w runner list" where
  "execute_subtasks d e has_path parent g starts goals r =
    (if \<not> can_delegate g
     then (Some \<lparr>dr_results = [], dr_summary = m_depth_1 @ show_nat max_depth @ m_depth_2\<rparr>, [r])
     else if goals = [] then (Some \<lparr>dr_results = [], dr_summary = m_no_subtasks\<rparr>, [r])
     else if should_parallelize (check_independence goals) (en_has_store e \<longrightarrow> has_path) (length goals)
               (sg_confirm g \<noteq> None)
     then (let rs = execute_parallel d e parent g starts goals
           in (Some \<lparr>dr_results = map fst rs, dr_summary = build_summary (map fst rs)\<rparr>, map snd rs))
     else (case run_state (execute_sequential d e parent g 0 goals) r of
        (None, r') \<Rightarrow> (None, [r'])
      | (Some rs, r') \<Rightarrow> (Some \<lparr>dr_results = rs, dr_summary = build_summary rs\<rparr>, [r'])))"

end
