(* ===== verification/Subagent_Facts.thy ===== *)
theory Subagent_Facts
  imports Subagent Run_Properties
begin

text \<open>
  Properties of delegation: what sub-agents may call, what becomes of the goals and of the rows of their
  tasks, and what counts as success.
\<close>

section \<open>Calls of sub-agents\<close>

lemma in_agent_run [simp]:
  "run_state (in_agent m) r = (case run_state m (fst r) of (x, s') \<Rightarrow> (x, (s', snd r)))"
  by (simp add: in_agent_def split: prod.split)

lemma with_tasks_run [simp]:
  "run_state (with_tasks f) r = (case f (snd r) of (x, rows) \<Rightarrow> (x, (fst r, rows)))"
  by (simp add: with_tasks_def split: prod.split)

definition role_allows :: "sub_agent_role \<Rightarrow> string \<Rightarrow> bool" where
  "role_allows r name = (case default_tools r of None \<Rightarrow> True | Some ts \<Rightarrow> name \<in> set ts)"

lemma role_allowed_iff:
  "is_tool_allowed (sg_allowed_tools (with_role role (from_parent e depth))) name
    \<longleftrightarrow> is_tool_allowed (ac_allowed_tools (en_config e)) name \<and> role_allows role name"
  by (cases "ac_allowed_tools (en_config e)"; cases "default_tools role")
    (auto simp: with_role_def from_parent_def Let_def is_tool_allowed_def role_allows_def list_ex_iff)

lemma role_config:
  "ac_allowed_tools (build_sub_config (with_role role (from_parent e depth)) goal)
     = sg_allowed_tools (with_role role (from_parent e depth))"
  "ac_autonomy (build_sub_config (with_role role (from_parent e depth)) goal) = ac_autonomy (en_config e)"
  "ac_is_daemon (build_sub_config (with_role role (from_parent e depth)) goal) = ac_is_daemon (en_config e)"
  "ac_daemon_policy (build_sub_config (with_role role (from_parent e depth)) goal) = ac_daemon_policy (en_config e)"
  "sg_confirm (with_role role (from_parent e depth)) = en_confirm e"
  by (simp_all add: build_sub_config_def agent_config_default_def with_role_def from_parent_def Let_def)

lemma sub_env_same:
  "parse_output (sub_env e g goal session) = parse_output e"
  "validate_call (sub_env e g goal session) = validate_call e"
  "safety_outcome (sub_env e g goal session) = safety_outcome e"
  "validated_of (sub_env e g goal session) = validated_of e"
  "en_tools (sub_env e g goal session) = en_tools e"
  by (simp_all add: fun_eq_iff sub_env_def parse_output_def validate_call_def safety_outcome_def
      validated_of_def panel_of_def)

lemma permitted_same:
  assumes "ac_autonomy (en_config e') = ac_autonomy (en_config e)"
    and "ac_is_daemon (en_config e') = ac_is_daemon (en_config e)"
    and "ac_daemon_policy (en_config e') = ac_daemon_policy (en_config e)" and "en_confirm e' = en_confirm e"
  shows "permitted e' = permitted e"
  by (simp add: fun_eq_iff permitted_def assms cong: permission_decision.case_cong autonomy_level.case_cong)

text \<open>A call a sub-agent is permitted is one that its parent is permitted, of a tool of the role.\<close>

lemma child_of_parent:
  assumes "asked_for (sub_env e (with_role role (from_parent e depth)) goal session) out ta"
  shows "asked_for e out ta \<and> role_allows role (ti_name (fst ta))"
proof -
  let ?g = "with_role role (from_parent e depth)"
  from assms obtain parsed c where
    c: "parse_output e out = Inr parsed" "c \<in> set (po_tool_calls parsed)"
      "cleared (sub_env e ?g goal session) c (fst ta)" "snd ta = coerce_tool_arguments (tc_arguments c)"
      "permitted (sub_env e ?g goal session) (validated_of e c (fst ta))"
    by (auto simp: asked_for_def sub_env_same)
  have conf: "en_config (sub_env e ?g goal session) = build_sub_config ?g goal"
    "en_confirm (sub_env e ?g goal session) = en_confirm e"
    by (simp_all add: sub_env_def role_config)
  have p: "permitted e (validated_of e c (fst ta))"
    using c(5) permitted_same [of "sub_env e ?g goal session" e] by (simp add: conf role_config)
  have cl: "cleared e c (fst ta)" "role_allows role (tc_name c)"
    using c(3) by (auto simp: cleared_def conf role_config role_allowed_iff sub_env_same)
  have "ti_name (fst ta) = tc_name c"
    using cl(1) by (auto simp: cleared_def registry_get_def find_Some_iff)
  then show ?thesis using c(1,2,4) p cl unfolding asked_for_def by auto
qed

lemma in_reply_other:
  assumes "\<And>out ta. asked_for e' out ta \<Longrightarrow> asked_for e out ta \<and> Q ta"
  shows "in_reply e' latest es \<Longrightarrow> in_reply e latest es \<and> list_all Q (calls_of es)"
proof (induction es arbitrary: latest)
  case (Cons x es)
  then show ?case
    by (cases "(e', latest, x # es)" rule: in_reply.cases) (auto dest: assms split: option.splits)
qed simp

text \<open>The history of a runner grows by what its parent could have asked for, with the tools of a role.\<close>

definition obeys :: "'w env \<Rightarrow> sub_agent_role \<Rightarrow> 'w runner \<Rightarrow> 'w runner \<Rightarrow> bool" where
  "obeys e role r r' \<longleftrightarrow> (\<exists>es. ag_trace (fst r') = ag_trace (fst r) @ es \<and> in_reply e None es
     \<and> list_all (\<lambda>ta. role_allows role (ti_name (fst ta))) (calls_of es))"

interpretation obeys: step_relation "obeys e role" for e :: "'w env" and role
proof
  show "obeys e role r r" for r :: "'w runner" by (simp add: obeys_def)
  fix r s t :: "'w runner" assume "obeys e role r s" "obeys e role s t"
  then obtain xs ys where
    "ag_trace (fst s) = ag_trace (fst r) @ xs" "in_reply e None xs"
    "list_all (\<lambda>ta. role_allows role (ti_name (fst ta))) (calls_of xs)"
    "ag_trace (fst t) = ag_trace (fst s) @ ys" "in_reply e None ys"
    "list_all (\<lambda>ta. role_allows role (ti_name (fst ta))) (calls_of ys)" unfolding obeys_def by blast
  then show "obeys e role r t" unfolding obeys_def by (intro exI [of _ "xs @ ys"]) (simp add: in_reply_append)
qed

lemma obeys_same: "ag_trace (fst r') = ag_trace (fst r) \<Longrightarrow> obeys e role r r'"
  by (simp add: obeys_def)

lemma runner_primitives:
  "state_io_rel (obeys e role) (in_agent (outside f))"
  "state_io_rel (obeys e role) (in_agent (store e' p))"
  "state_io_rel (obeys e role) (with_tasks h)"
  by (auto simp: state_io_rel_def store_def intro!: obeys_same split: prod.split)

lemma sub_agent_obeys:
  "state_io_rel (obeys e role)
    (in_agent (run_agent_loop (sub_env e (with_role role (from_parent e depth)) goal session) date input))"
proof -
  let ?e = "sub_env e (with_role role (from_parent e depth)) goal session"
  have "obeys e role r (snd (run_state (in_agent (run_agent_loop ?e date input)) r))" for r
  proof -
    let ?s = "(fst r)\<lparr>ag_messages := new_session_with_system (en_config ?e) date @ [msg_user input]\<rparr>"
    have "heard ?e ?s (snd (run_state (run_agent_loop_with_session ?e) ?s))"
      using run_heard unfolding state_io_rel_def by (rule spec)
    then obtain es where es: "in_reply ?e None es"
      "ag_trace (snd (run_state (run_agent_loop_with_session ?e) ?s)) = ag_trace (fst r) @ es"
      by (auto simp: heard_def)
    have "in_reply e None es \<and> list_all (\<lambda>ta. role_allows role (ti_name (fst ta))) (calls_of es)"
      by (rule in_reply_other [OF child_of_parent es(1)])
    then show ?thesis using es(2) by (auto simp: obeys_def run_agent_loop_def split: prod.split)
  qed
  then show ?thesis by (simp add: state_io_rel_def)
qed

lemmas runner_keeps = obeys.keeps runner_primitives sub_agent_obeys

lemma subtask_obeys:
  "state_io_rel (obeys e role) (execute_single_subtask d e parent i goal (with_role role (from_parent e depth)))"
  unfolding execute_single_subtask_def register_task_def close_task_def fail_task_def
  by (auto intro!: runner_keeps split: sum.split stop.split option.split)

lemma asked_other_store: "asked_for (e\<lparr>en_has_store := b\<rparr>) = asked_for e"
proof -
  have "permitted (e\<lparr>en_has_store := b\<rparr>) = permitted e" by (rule permitted_same) simp_all
  then show ?thesis
    by (simp add: fun_eq_iff asked_for_def cleared_def parse_output_def validate_call_def
        safety_outcome_def validated_of_def panel_of_def)
qed

lemma obeys_other_store: "obeys (e\<lparr>en_has_store := b\<rparr>) role = obeys e role"
proof -
  have "in_reply (e\<lparr>en_has_store := b\<rparr>) None es = in_reply e None es" for es
    using in_reply_other [of "e\<lparr>en_has_store := b\<rparr>" e "\<lambda>_. True" None es]
      in_reply_other [of e "e\<lparr>en_has_store := b\<rparr>" "\<lambda>_. True" None es]
    by (auto simp: asked_other_store)
  then show ?thesis by (simp add: fun_eq_iff obeys_def)
qed

lemma thread_obeys:
  "state_io_rel (obeys e role) (subtask_thread d e parent (with_role role (from_parent e depth)) opened i goal)"
proof -
  let ?e = "e\<lparr>en_has_store := en_has_store e \<and> opened\<rparr>"
  have "from_parent ?e depth = from_parent e depth" by (simp add: from_parent_def Let_def)
  then have "state_io_rel (obeys e role)
      (execute_single_subtask d ?e parent i goal (with_role role (from_parent e depth)))"
    using subtask_obeys [of ?e role d parent i goal depth] by (simp add: obeys_other_store)
  then show ?thesis unfolding subtask_thread_def by (intro runner_keeps)
qed

lemma sequential_obeys:
  "state_io_rel (obeys e role) (execute_sequential d e parent (with_role role (from_parent e depth)) i goals)"
  by (induction goals arbitrary: i) (auto intro!: runner_keeps subtask_obeys split: option.split)

lemma list_all_single: "list_all P [x] = P x"
  by simp

lemma runners_left:
  "snd (execute_subtasks d e has_path parent g starts goals r) =
    (if \<not> can_delegate g \<or> goals = [] then [r]
     else if should_parallelize (check_independence goals) (en_has_store e \<longrightarrow> has_path) (length goals)
               (sg_confirm g \<noteq> None)
     then map snd (execute_parallel d e parent g starts goals)
     else [snd (run_state (execute_sequential d e parent g 0 goals) r)])"
  by (simp add: execute_subtasks_def Let_def split: prod.split option.split)

text \<open>
  C8. Delegation never widens what may be done: whatever role is given to sub-agents made from a parent,
  sequentially or in parallel, every tool call in the history of a sub-agent was asked for by the output
  the model gave last, and is one the parent itself would be permitted: on the parent's allowlist, valid,
  not halted by the panel; and it is of a tool of the role. At the depth limit nothing is run.
\<close>

theorem subagents_stay_within_parent:
  "list_all (\<lambda>r'. \<exists>r0 es. (r0 = r \<or> (\<exists>i. r0 = snd (starts i)))
      \<and> ag_trace (fst r') = ag_trace (fst r0) @ es \<and> in_reply e None es
      \<and> list_all (\<lambda>ta. role_allows role (ti_name (fst ta))) (calls_of es)
      \<and> (depth < 2 \<or> r' = r))
    (snd (execute_subtasks d e has_path parent (with_role role (from_parent e depth)) starts goals r))"
proof -
  let ?g = "with_role role (from_parent e depth)"
  have depth: "depth < 2" if "can_delegate ?g"
    using that by (simp add: can_delegate_def max_depth_def with_role_def from_parent_def Let_def)
  let ?P = "\<lambda>r'. \<exists>r0. (r0 = r \<or> (\<exists>i. r0 = snd (starts i))) \<and> obeys e role r0 r' \<and> (depth < 2 \<or> r' = r)"
  have "list_all ?P (snd (execute_subtasks d e has_path parent ?g starts goals r))"
  proof (cases "can_delegate ?g \<and> goals \<noteq> []")
    case False
    then have "snd (execute_subtasks d e has_path parent ?g starts goals r) = [r]"
      by (auto simp: runners_left)
    then show ?thesis using obeys.R_refl [of e role r] by (simp only: list_all_single) blast
  next
    case True
    have one: "?P r'" if "(x, r') \<in> set (execute_parallel d e parent ?g starts goals)" for x r'
    proof -
      from that obtain i goal where "(x, r') = run_state (subtask_thread d e parent ?g (fst (starts i)) i goal) (snd (starts i))"
        by (auto simp: execute_parallel_def split: prod.splits) (metis fst_conv snd_conv)
      then have "obeys e role (snd (starts i)) r'"
        using thread_obeys unfolding state_io_rel_def by (metis snd_conv)
      then show ?thesis using depth True by blast
    qed
    have "obeys e role r (snd (run_state (execute_sequential d e parent ?g 0 goals) r))"
      using sequential_obeys unfolding state_io_rel_def by (rule spec)
    then have "list_all ?P [snd (run_state (execute_sequential d e parent ?g 0 goals) r)]"
      unfolding list_all_single using depth True by blast
    moreover have "list_all ?P (map snd (execute_parallel d e parent ?g starts goals))"
      unfolding list_all_iff using one by fastforce
    moreover have "snd (execute_subtasks d e has_path parent ?g starts goals r)
          = map snd (execute_parallel d e parent ?g starts goals)
        \<or> snd (execute_subtasks d e has_path parent ?g starts goals r)
          = [snd (run_state (execute_sequential d e parent ?g 0 goals) r)]"
      using True by (auto simp: runners_left)
    ultimately show ?thesis by presburger
  qed
  then show ?thesis unfolding obeys_def by (rule list.pred_mono_strong) blast
qed

section \<open>What becomes of a sub-task\<close>

text \<open>The row of a finished sub-task: completed with the answer as its only step, or failed.\<close>

definition row_of :: "string \<Rightarrow> task_row \<Rightarrow> sub_task_result \<Rightarrow> bool" where
  "row_of parent n x =
    (tr_id n = st_task_id x \<and> tr_goal n = st_goal x \<and> tr_parent_id n = Some parent
     \<and> (if st_success x
        then tr_state n = ''completed'' \<and> map sr_outcome (tr_step_log n) = [st_answer x] \<and> tr_error_info n = None
        else tr_state n = ''failed'' \<and> tr_step_log n = []
          \<and> map_option (\<lambda>err. m_sub_error @ err) (tr_error_info n) = Some (st_answer x)))"

definition new_row :: "string \<Rightarrow> string \<Rightarrow> string \<Rightarrow> string \<Rightarrow> string \<Rightarrow> task_row" where
  "new_row i created now goal parent =
    \<lparr>tr_id = i, tr_goal = goal, tr_state = ''in_progress'', tr_parent_id = Some parent,
     tr_step_current = 0, tr_step_log = [], tr_context = None, tr_error_info = None,
     tr_created_at = created, tr_updated_at = now\<rparr>"

lemma register_task_run:
  assumes "run_state (register_task d e parent goal) r = (tid, r')"
  shows "case tid of None \<Rightarrow> snd r' = snd r
    | Some i \<Rightarrow> i \<notin> set (map tr_id (snd r)) \<and> (\<exists>created now. snd r' = snd r @ [new_row i created now goal parent])"
proof (cases "en_has_store e")
  case True
  obtain i w where u: "de_uuid d (ag_world (fst r)) = (i, w)" by (rule prod.exhaust)
  obtain t1 w1 where t1: "de_utc_now d w = (t1, w1)" by (rule prod.exhaust)
  obtain t2 w2 where t2: "de_utc_now d w1 = (t2, w2)" by (rule prod.exhaust)
  show ?thesis
  proof (cases "tm_create i t1 goal (Some parent) (snd r)")
    case None
    then show ?thesis using assms True by (auto simp: register_task_def u t1)
  next
    case (Some rows)
    then have new: "i \<notin> set (map tr_id (snd r))"
      "rows = snd r @ [(new_row i t1 t1 goal parent)\<lparr>tr_state := ''pending''\<rparr>]"
      by (auto simp: tm_create_def new_row_def split: if_splits)
    have "tm_update_state t2 i Task_In_Progress rows = snd r @ [new_row i t1 t2 goal parent]"
      using new(1) by (simp add: new(2) tm_update_state_def tm_update_append tm_update_absent tm_update_single
          new_row_def task_state_str_def)
    then have "tid = Some i" "snd r' = snd r @ [new_row i t1 t2 goal parent]"
      using assms True Some by (auto simp: register_task_def u t1 t2)
    then show ?thesis using new(1) by auto
  qed
qed (use assms in \<open>auto simp: register_task_def\<close>)

lemma close_task_run:
  assumes "run_state (close_task d tid answer) r = (x, r')"
    and "case tid of None \<Rightarrow> snd r = rows | Some i \<Rightarrow> i \<notin> set (map tr_id rows)
      \<and> (\<exists>created now. snd r = rows @ [new_row i created now goal parent])"
  shows "case tid of None \<Rightarrow> snd r' = rows
    | Some i \<Rightarrow> (\<exists>n. snd r' = rows @ [n] \<and> tr_id n = i \<and> tr_goal n = goal \<and> tr_parent_id n = Some parent
        \<and> tr_state n = ''completed'' \<and> map sr_outcome (tr_step_log n) = [answer] \<and> tr_error_info n = None)"
proof (cases tid)
  case (Some i)
  obtain t1 w1 where t1: "de_utc_now d (ag_world (fst r)) = (t1, w1)" by (rule prod.exhaust)
  obtain t2 w2 where t2: "de_utc_now d w1 = (t2, w2)" by (rule prod.exhaust)
  obtain created now where r: "i \<notin> set (map tr_id rows)" "snd r = rows @ [new_row i created now goal parent]"
    using assms(2) Some by auto
  let ?n = "(new_row i created now goal parent)\<lparr>tr_state := ''completed'', tr_updated_at := t1\<rparr>"
  let ?m = "?n\<lparr>tr_step_log := [\<lparr>sr_description = m_done, sr_outcome = answer, sr_timestamp = t2\<rparr>],
    tr_step_current := 1, tr_updated_at := t2\<rparr>"
  have id: "tr_id (new_row i created now goal parent) = i" by (simp add: new_row_def)
  have a: "tm_update_state t1 i Task_Completed (snd r) = rows @ [?n]"
    unfolding r(2) tm_update_state_def tm_update_append tm_update_absent [OF r(1)] tm_update_single [OF id]
    by (simp add: task_state_str_def)
  have "tm_get i (rows @ [?n]) = Some (task_of_row ?n)"
    by (rule tm_get_append_new [OF r(1)]) (simp add: new_row_def)
  moreover have "tm_update i f (rows @ [?n]) = rows @ [f ?n]" for f
    unfolding tm_update_append tm_update_absent [OF r(1)] by (simp add: tm_update_single new_row_def)
  ultimately have b: "tm_add_step t2 i m_done answer (rows @ [?n]) = Inr (rows @ [?m])"
    by (simp add: tm_add_step_def task_of_row_def new_row_def)
  have "snd r' = rows @ [?m]" using assms(1) by (auto simp: close_task_def Some t1 t2 a b)
  then show ?thesis by (simp add: Some new_row_def)
qed (use assms in \<open>simp add: close_task_def\<close>)

lemma fail_task_run:
  assumes "run_state (fail_task d tid err) r = (x, r')"
    and "case tid of None \<Rightarrow> snd r = rows | Some i \<Rightarrow> i \<notin> set (map tr_id rows)
      \<and> (\<exists>created now. snd r = rows @ [new_row i created now goal parent])"
  shows "case tid of None \<Rightarrow> snd r' = rows
    | Some i \<Rightarrow> (\<exists>n. snd r' = rows @ [n] \<and> tr_id n = i \<and> tr_goal n = goal \<and> tr_parent_id n = Some parent
        \<and> tr_state n = ''failed'' \<and> tr_step_log n = [] \<and> tr_error_info n = Some err)"
proof (cases tid)
  case (Some i)
  obtain t1 w1 where t1: "de_utc_now d (ag_world (fst r)) = (t1, w1)" by (rule prod.exhaust)
  obtain created now where r: "i \<notin> set (map tr_id rows)" "snd r = rows @ [new_row i created now goal parent]"
    using assms(2) Some by auto
  let ?n = "(new_row i created now goal parent)\<lparr>tr_error_info := Some err, tr_state := ''failed'',
    tr_updated_at := t1\<rparr>"
  have "tm_set_error t1 i err (snd r) = rows @ [?n]"
    unfolding r(2) tm_set_error_def tm_update_append tm_update_absent [OF r(1)]
    by (simp add: tm_update_single new_row_def)
  then have "snd r' = rows @ [?n]" using assms(1) by (auto simp: fail_task_def Some t1)
  then show ?thesis by (simp add: Some new_row_def)
qed (use assms in \<open>simp add: fail_task_def\<close>)

lemma subtask_row:
  assumes "run_state (execute_single_subtask d e parent i goal g) r = (Some x, r')"
  shows "st_goal x = goal \<and> (snd r' = snd r \<or> (\<exists>n. snd r' = snd r @ [n] \<and> row_of parent n x))"
proof -
  obtain tid r1 where reg: "run_state (register_task d e parent goal) r = (tid, r1)" by (rule prod.exhaust)
  note row = register_task_run [OF reg]
  obtain session w where s: "de_session_id d (ag_world (fst r1)) = (session, w)" by (rule prod.exhaust)
  obtain date w' where dt: "de_local_date d w = (date, w')" by (rule prod.exhaust)
  obtain out s2 where run: "run_state (run_agent_loop (sub_env e g goal session) date goal)
      ((fst r1)\<lparr>ag_world := w'\<rparr>) = (out, s2)" by (rule prod.exhaust)
  have row2: "case tid of None \<Rightarrow> snd (s2, snd r1) = snd r
    | Some i \<Rightarrow> i \<notin> set (map tr_id (snd r))
      \<and> (\<exists>created now. snd (s2, snd r1) = snd r @ [new_row i created now goal parent])"
    using row by (simp split: option.split_asm option.split)
  show ?thesis
  proof (cases out)
    case (Inr res)
    obtain y r3 where c: "run_state (close_task d tid (lr_answer res)) (s2, snd r1) = (y, r3)" by (rule prod.exhaust)
    have "x = \<lparr>st_task_id = task_name tid i, st_goal = goal, st_answer = lr_answer res,
        st_iterations_used = lr_iterations_used res, st_success = True\<rparr>" "snd r' = snd r3"
      using assms by (auto simp: execute_single_subtask_def reg s dt run Inr c split: prod.splits if_splits)
    then show ?thesis using close_task_run [OF c row2]
      by (auto simp: row_of_def task_name_def split: option.splits)
  next
    case (Inl err)
    then obtain msg where err: "err = Backend_Failed msg"
      using assms by (auto simp: execute_single_subtask_def reg s dt run split: stop.splits)
    obtain y r3 where c: "run_state (fail_task d tid msg) (s2, snd r1) = (y, r3)" by (rule prod.exhaust)
    have "x = \<lparr>st_task_id = task_name tid i, st_goal = goal, st_answer = m_sub_error @ msg,
        st_iterations_used = 0, st_success = False\<rparr>" "snd r' = snd r3"
      using assms by (auto simp: execute_single_subtask_def reg s dt run Inl err c)
    then show ?thesis using fail_task_run [OF c row2]
      by (auto simp: row_of_def task_name_def split: option.splits)
  qed
qed

text \<open>
  C9. A sequential delegation answers its goals in order, stopping early only when it is cancelled, and
  leaves no task open: the old rows are kept as they are, and every row it adds is that of a result,
  completed with the answer as its one step or failed with the error.
\<close>

theorem delegation_closes_its_tasks:
  "case run_state (execute_sequential d e parent g i goals) r of
     (None, _) \<Rightarrow> True
   | (Some xs, r') \<Rightarrow> map st_goal xs = take (length xs) goals
       \<and> (\<exists>ns. snd r' = snd r @ ns \<and> list_all (\<lambda>n. list_ex (row_of parent n) xs) ns \<and> length ns \<le> length xs)"
proof (induction goals arbitrary: i r)
  case (Cons goal goals)
  obtain cancelled w where c: "en_cancelled e (ag_world (fst r)) = (cancelled, w)" by (rule prod.exhaust)
  let ?r = "((fst r)\<lparr>ag_world := w\<rparr>, snd r)"
  show ?case
  proof (cases cancelled)
    case False
    obtain x r1 where one: "run_state (execute_single_subtask d e parent i goal g) ?r = (x, r1)" by (rule prod.exhaust)
    obtain rest r2 where more: "run_state (execute_sequential d e parent g (Suc i) goals) r1 = (rest, r2)" by (rule prod.exhaust)
    show ?thesis
    proof (cases x)
      case None
      then show ?thesis using False by (simp add: c one)
    next
      case (Some y)
      have IH: "case (rest, r2) of (None, _) \<Rightarrow> True
        | (Some xs, r') \<Rightarrow> map st_goal xs = take (length xs) goals
          \<and> (\<exists>ns. snd r' = snd r1 @ ns \<and> list_all (\<lambda>n. list_ex (row_of parent n) xs) ns \<and> length ns \<le> length xs)"
        using Cons.IH [of r1 "Suc i"] unfolding more .
      show ?thesis
      proof (cases rest)
        case rest: (Some xs)
        obtain ns where ns: "snd r2 = snd r1 @ ns" "list_all (\<lambda>n. list_ex (row_of parent n) xs) ns"
          "length ns \<le> length xs" "map st_goal xs = take (length xs) goals"
          using IH rest by auto
        obtain ms where ms: "snd r1 = snd r @ ms" "list_all (\<lambda>n. row_of parent n y) ms" "length ms \<le> 1"
          "st_goal y = goal"
          using subtask_row [OF one [unfolded Some]] by fastforce
        have "list_all (\<lambda>n. list_ex (row_of parent n) (y # xs)) (ms @ ns)"
          using ns(2) ms(2) by (auto simp: list_all_iff)
        then have "\<exists>ns. snd r2 = snd r @ ns \<and> list_all (\<lambda>n. list_ex (row_of parent n) (y # xs)) ns
            \<and> length ns \<le> Suc (length xs)"
          using ns(1,3) ms(1,3) by (intro exI [of _ "ms @ ns"]) simp
        then show ?thesis using False ms(4) ns(4) by (simp add: c one more Some rest)
      qed (use False in \<open>simp add: c one more Some\<close>)
    qed
  qed (simp add: c)
qed simp

section \<open>What counts as success\<close>

definition gave_up :: "stop + agent_loop_result \<Rightarrow> bool" where
  "gave_up r = (case r of Inl _ \<Rightarrow> True
     | Inr res \<Rightarrow> starts_with (lr_answer res) m_aborted \<or> starts_with (lr_answer res) m_timeout_1)"

lemma iterate_gives_up:
  assumes "never_usable e" and "run_state (iterate e ctx i) s = (Inr (Some res), u)"
  shows "starts_with (lr_answer res) m_aborted"
proof -
  obtain t0 w where now: "en_now e (ag_world s) = (t0, w)" by (rule prod.exhaust)
  obtain out t where step: "run_state (execute_step e i) (s\<lparr>ag_world := w\<rparr>) = (out, t)" by (rule prod.exhaust)
  obtain t1 w' where now': "en_now e (ag_world t) = (t1, w')" by (rule prod.exhaust)
  have "gives_up out \<or> i < ac_max_retries (en_config e) \<and> out = Inr (Continue [] False)"
    using pred_stateD [OF execute_step_unusable [OF assms(1)] step] .
  then show ?thesis
  proof (cases out)
    case (Inl err)
    then show ?thesis using assms(2) by (simp add: iterate_def now step now')
  next
    case (Inr o')
    obtain v u' where v: "run_state (handle_outcome e ctx (Suc i) i (millis t0 t1) o') (t\<lparr>ag_world := w'\<rparr>) = (v, u')"
      by (rule prod.exhaust)
    have "v = Some res"
      using assms(2) by (simp add: iterate_def now step now' Inr v split: option.splits prod.splits)
    then have "result_of (Suc i) o' (Some res)" using pred_stateD [OF handle_outcome_pred v] by simp
    moreover assume "gives_up out \<or> i < ac_max_retries (en_config e) \<and> out = Inr (Continue [] False)"
    ultimately show ?thesis using Inr
      by (auto simp: result_of_def gives_up_def split: step_outcome.splits)
  qed
qed

lemma loop_gives_up:
  assumes "never_usable e" and "guards (ag_chain s) = [c]"
  shows "gave_up (fst (run_state (loop_from e ctx start left i) s))"
  using assms(2)
proof (induction left arbitrary: i s)
  case 0
  have "starts_with (max_steps_answer e) m_aborted"
    by (simp add: max_steps_answer_def starts_with_def)
  then show ?case unfolding loop_from_0 by (simp add: gave_up_def ends_early_run)
next
  case (Suc left)
  from Suc.prems show ?case
  proof (cases rule: round_cases [of s c e ctx start left i])
    case (ended reason abort answer t)
    then show ?thesis by (simp add: gave_up_def ends_early_run del: loop_from.simps)
  next
    case (ran r t u)
    have "guards (ag_chain u) = [c]"
      using iterate_asks [OF ran(3), of e ctx i] ran by (simp add: iterates_def)
    then have "gave_up (fst (run_state (loop_from e ctx start left (Suc i)) u))" by (rule Suc.IH)
    moreover have "starts_with (lr_answer res) m_aborted" if "r = Inr (Some res)" for res
      using iterate_gives_up [OF assms(1)] ran(2) that by blast
    ultimately show ?thesis unfolding ran(1)
      by (auto simp: gave_up_def simp del: loop_from.simps split: sum.split option.split)
  qed
qed

lemma run_gives_up: "never_usable e \<Longrightarrow> gave_up (fst (run_state (run_agent_loop e date input) s))"
proof -
  assume "never_usable e"
  have "gave_up (fst (run_state (run_agent_loop_with_session e) s))" for s
  proof (rule run_prepared [of e s])
    fix ctx start t
    assume run: "run_state (run_agent_loop_with_session e) s
        = run_state (loop_from e ctx start (ac_max_iterations (en_config e)) 0) t"
      and t: "guards (ag_chain t) = [guard_of e]"
    show ?thesis unfolding run by (rule loop_gives_up [OF \<open>never_usable e\<close> t])
  qed
  then show ?thesis by (simp add: run_agent_loop_def)
qed

lemma never_usable_sub_env: "never_usable e \<Longrightarrow> never_usable (sub_env e g goal session)"
proof -
  have "unusable (sub_env e g goal session) = unusable e"
    by (simp add: fun_eq_iff unusable_def sub_env_same)
  moreover have "en_generate (sub_env e g goal session) = en_generate e" by (simp add: sub_env_def)
  ultimately show "never_usable e \<Longrightarrow> never_usable (sub_env e g goal session)"
    unfolding never_usable_def by metis
qed

lemma starts_with_first: "take 1 s \<noteq> take 1 p \<Longrightarrow> s \<noteq> [] \<Longrightarrow> p \<noteq> [] \<Longrightarrow> starts_with (s @ t) p = False"
  by (cases s; cases p) (auto simp: starts_with_def)

lemma error_is_no_abort:
  "starts_with (m_sub_error @ err) m_aborted = False" "starts_with (m_sub_error @ err) m_timeout_1 = False"
proof -
  have "take 1 m_sub_error \<noteq> take 1 m_aborted" "take 1 m_sub_error \<noteq> take 1 m_timeout_1"
    "m_sub_error \<noteq> []" "m_aborted \<noteq> []" "m_timeout_1 \<noteq> []" by code_simp+
  then show "starts_with (m_sub_error @ err) m_aborted = False" "starts_with (m_sub_error @ err) m_timeout_1 = False"
    by (simp_all only: starts_with_first not_False_eq_True simp_thms)
qed

text \<open>
  C10. Success only means that the loop returned: with a model that never writes anything usable, every
  sub-task that is answered by giving up, as aborted or timed out, is a success and its task completed;
  only an error of the model itself is not.
\<close>

theorem giving_up_counts_as_success:
  assumes "\<forall>ms schemas params w. case fst (en_generate e ms schemas params w) of
       Inl _ \<Rightarrow> True | Inr out \<Rightarrow> (case parse_output e out of Inl (ParseErr _) \<Rightarrow> True | _ \<Rightarrow> False)"
  shows "case fst (run_state (execute_single_subtask d e parent i goal g) r) of
      None \<Rightarrow> True
    | Some x \<Rightarrow> st_success x = (starts_with (st_answer x) m_aborted \<or> starts_with (st_answer x) m_timeout_1)"
proof -
  have e: "never_usable e" using assms unfolding never_usable_def unusable_def .
  obtain tid r1 where reg: "run_state (register_task d e parent goal) r = (tid, r1)" by (rule prod.exhaust)
  obtain session w where s: "de_session_id d (ag_world (fst r1)) = (session, w)" by (rule prod.exhaust)
  obtain date w' where dt: "de_local_date d w = (date, w')" by (rule prod.exhaust)
  obtain out s2 where run: "run_state (run_agent_loop (sub_env e g goal session) date goal)
      ((fst r1)\<lparr>ag_world := w'\<rparr>) = (out, s2)" by (rule prod.exhaust)
  have out: "gave_up out" using run_gives_up [OF never_usable_sub_env [OF e]] run by (metis fst_conv)
  show ?thesis
  proof (cases out)
    case (Inr res)
    obtain y r3 where c: "run_state (close_task d tid (lr_answer res)) (s2, snd r1) = (y, r3)" by (rule prod.exhaust)
    show ?thesis using out by (simp add: execute_single_subtask_def reg s dt run Inr c gave_up_def split: prod.split)
  next
    case (Inl err)
    show ?thesis
    proof (cases err)
      case (Backend_Failed msg)
      obtain y r3 where c: "run_state (fail_task d tid msg) (s2, snd r1) = (y, r3)" by (rule prod.exhaust)
      show ?thesis
        by (simp add: execute_single_subtask_def reg s dt run Inl Backend_Failed c error_is_no_abort)
    qed (simp add: execute_single_subtask_def reg s dt run Inl)
  qed
qed

definition fixed_delegate :: "unit delegate_env" where
  "fixed_delegate =
    \<lparr>de_uuid = (\<lambda>w. (''id'', w)), de_utc_now = (\<lambda>w. (''now'', w)), de_local_date = (\<lambda>w. (''today'', w)),
     de_session_id = (\<lambda>w. (''sub'', w))\<rparr>"

theorem giving_up_counts_as_success_witness:
  "case fst (run_state (execute_single_subtask fixed_delegate broken_env ''top'' 0 ''list the files''
      (from_parent broken_env 0)) (fresh_agent () [], [])) of
      None \<Rightarrow> True
    | Some x \<Rightarrow> st_success x = (starts_with (st_answer x) m_aborted \<or> starts_with (st_answer x) m_timeout_1)"
proof -
  have "\<forall>ms schemas params w. case fst (en_generate broken_env ms schemas params w) of
       Inl _ \<Rightarrow> True | Inr out \<Rightarrow> (case parse_output broken_env out of Inl (ParseErr _) \<Rightarrow> True | _ \<Rightarrow> False)"
    using broken_output by (simp add: broken_env_def)
  from giving_up_counts_as_success [OF this] show ?thesis .
qed

end
