(* ===== verification/Spill_Store.thy ===== *)
theory Spill_Store
  imports Tool_Exec
begin

text \<open>
  \<open>src/agent/tool_spill.rs\<close>: tool outputs that are too long for the session are written to files of a
  directory per process, of bounded number and size. The directory is the list of its files in the
  order the system lists them, \<open>None\<close> when it does not exist; times are numbers, sizes the lengths of the
  contents. Creating the directory and the file may fail, and so may removing a file or a directory;
  which ones, and which processes are alive, are arguments.
\<close>

section \<open>Settings and names\<close>

definition spill_is_enabled :: "environment \<Rightarrow> bool" where
  "spill_is_enabled E =
    (case E ''BONSAI_TOOL_SPILL'' of
       None \<Rightarrow> True
     | Some v \<Rightarrow> \<not> (v = ''0'' \<or> eq_ignore_ascii_case v ''false'' \<or> eq_ignore_ascii_case v ''no''))"

definition max_files_from_env :: "environment \<Rightarrow> nat" where
  "max_files_from_env E =
    (case Option.bind (E ''BONSAI_TOOL_SPILL_MAX_FILES'') parse_usize of
       None \<Rightarrow> 64
     | Some n \<Rightarrow> if 1 \<le> n \<and> n \<le> 4096 then n else 64)"

definition max_total_bytes_from_env :: "environment \<Rightarrow> nat" where
  "max_total_bytes_from_env E =
    (case Option.bind (E ''BONSAI_TOOL_SPILL_MAX_BYTES'') parse_usize of
       None \<Rightarrow> 64 * 1024 * 1024
     | Some n \<Rightarrow> if 1024 * 1024 \<le> n \<and> n \<le> 4 * 1024 * 1024 * 1024 then n else 64 * 1024 * 1024)"

definition spill_dir_prefix :: string where
  "spill_dir_prefix = ''spill-''"

definition spill_dir_name :: "nat \<Rightarrow> string" where
  "spill_dir_name pid = spill_dir_prefix @ show_nat pid"

definition spill_root :: "string \<Rightarrow> string" where
  "spill_root tmp = tmp @ ''/bonsai-agent''"

definition spill_dir_path :: "string \<Rightarrow> nat \<Rightarrow> string" where
  "spill_dir_path tmp pid = spill_root tmp @ ''/'' @ spill_dir_name pid"

definition spill_file_name :: "64 word \<Rightarrow> string" where
  "spill_file_name h = ''overflow-'' @ show_hex (unat h) @ ''.txt''"

text \<open>\<open>parse::<u32>\<close> is the parse of a \<open>usize\<close> with the smaller bound.\<close>

definition parse_spill_dir_pid :: "string \<Rightarrow> nat option" where
  "parse_spill_dir_pid name =
    (case Option.bind (strip_prefix name spill_dir_prefix) parse_usize of
       None \<Rightarrow> None
     | Some pid \<Rightarrow> if pid \<ge> 2 ^ 32 \<or> pid = 0 \<or> pid > 2 ^ 31 - 1 then None else Some pid)"

section \<open>Eviction\<close>

record spill_file =
  sp_name :: string
  sp_modified :: nat
  sp_content :: string

abbreviation sp_size :: "spill_file \<Rightarrow> nat" where
  "sp_size f \<equiv> length (sp_content f)"

text \<open>The names to evict, given how many files and bytes are kept already.\<close>

fun evict_from :: "nat \<Rightarrow> nat \<Rightarrow> nat \<Rightarrow> nat \<Rightarrow> spill_file list \<Rightarrow> string list" where
  "evict_from max_files max_bytes kept bytes [] = []"
| "evict_from max_files max_bytes kept bytes (f # fs) =
    (if kept < max_files \<and> min (2 ^ 64 - 1) (bytes + sp_size f) \<le> max_bytes
     then evict_from max_files max_bytes (kept + 1) (bytes + sp_size f) fs
     else sp_name f # evict_from max_files max_bytes kept bytes fs)"

definition select_evictions :: "spill_file list \<Rightarrow> nat \<Rightarrow> nat \<Rightarrow> string option \<Rightarrow> string list" where
  "select_evictions files max_files max_bytes keep =
    evict_from max_files max_bytes (of_bool (keep \<noteq> None))
      (sum_list (map sp_size (filter (\<lambda>f. keep = Some (sp_name f)) files)))
      (sort_key (\<lambda>f. - int (sp_modified f)) (filter (\<lambda>f. keep \<noteq> Some (sp_name f)) files))"

section \<open>The store\<close>

record spill_store =
  ss_dir :: string
  ss_enabled :: bool
  ss_max_files :: nat
  ss_max_total_bytes :: nat

definition process_default :: "environment \<Rightarrow> string \<Rightarrow> nat \<Rightarrow> spill_store" where
  "process_default E tmp pid =
    \<lparr>ss_dir = spill_dir_path tmp pid, ss_enabled = spill_is_enabled E,
     ss_max_files = max_files_from_env E, ss_max_total_bytes = max_total_bytes_from_env E\<rparr>"

text \<open>The number of files chosen for removal, and the directory after it.\<close>

definition enforce_limits ::
    "(string \<Rightarrow> bool) \<Rightarrow> spill_store \<Rightarrow> string option \<Rightarrow> spill_file list option \<Rightarrow> nat \<times> spill_file list option" where
  "enforce_limits removable st keep dir =
    (case dir of
       None \<Rightarrow> (0, None)
     | Some files \<Rightarrow>
         (let gone = select_evictions files (ss_max_files st) (ss_max_total_bytes st) keep
          in (length gone, Some (filter (\<lambda>f. \<not> (sp_name f \<in> set gone \<and> removable (sp_name f))) files))))"

text \<open>Writing truncates a file of the name, or adds one.\<close>

definition write_file :: "string \<Rightarrow> nat \<Rightarrow> string \<Rightarrow> spill_file list \<Rightarrow> spill_file list" where
  "write_file name now content files =
    (if list_ex (\<lambda>f. sp_name f = name) files
     then map (\<lambda>f. if sp_name f = name then f\<lparr>sp_modified := now, sp_content := content\<rparr> else f) files
     else files @ [\<lparr>sp_name = name, sp_modified = now, sp_content = content\<rparr>])"

definition spill_write ::
    "bool \<Rightarrow> bool \<Rightarrow> (string \<Rightarrow> bool) \<Rightarrow> nat \<Rightarrow> spill_store \<Rightarrow> 64 word \<Rightarrow> string \<Rightarrow> spill_file list option
     \<Rightarrow> string option \<times> spill_file list option" where
  "spill_write mkdir_ok write_ok removable now st h content dir =
    (if \<not> ss_enabled st then (None, dir)
     else if \<not> mkdir_ok then (None, dir)
     else (let files = (case dir of None \<Rightarrow> [] | Some fs \<Rightarrow> fs); name = spill_file_name h
           in if \<not> write_ok then (None, Some files)
              else (Some (ss_dir st @ ''/'' @ name),
                    snd (enforce_limits removable st (Some name) (Some (write_file name now content files))))))"

section \<open>Stale directories\<close>

text \<open>An entry of the root: its name if it is UTF-8, and whether it is a directory, if that is known.\<close>

record root_entry =
  re_name :: "string option"
  re_is_dir :: "bool option"

definition is_stale :: "nat \<Rightarrow> (nat \<Rightarrow> bool) \<Rightarrow> root_entry \<Rightarrow> bool" where
  "is_stale self_pid alive x =
    (re_is_dir x = Some True
     \<and> (case Option.bind (re_name x) parse_spill_dir_pid of
          None \<Rightarrow> False
        | Some pid \<Rightarrow> \<not> (pid = self_pid \<or> alive pid)))"

definition cleanup_stale_dirs ::
    "(root_entry \<Rightarrow> bool) \<Rightarrow> nat \<Rightarrow> (nat \<Rightarrow> bool) \<Rightarrow> root_entry list option \<Rightarrow> nat \<times> root_entry list option" where
  "cleanup_stale_dirs removable self_pid alive found =
    (case found of
       None \<Rightarrow> (0, None)
     | Some xs \<Rightarrow>
         (length (filter (\<lambda>x. is_stale self_pid alive x \<and> removable x) xs),
          Some (filter (\<lambda>x. \<not> (is_stale self_pid alive x \<and> removable x)) xs)))"

text \<open>The directory the guard removes at the end, if spilling is enabled.\<close>

definition install_process_spill ::
    "environment \<Rightarrow> string \<Rightarrow> nat \<Rightarrow> (root_entry \<Rightarrow> bool) \<Rightarrow> (nat \<Rightarrow> bool) \<Rightarrow> root_entry list option
     \<Rightarrow> string option \<times> root_entry list option" where
  "install_process_spill E tmp self_pid removable alive found =
    (if spill_is_enabled E then Some (spill_dir_path tmp self_pid) else None,
     snd (cleanup_stale_dirs removable self_pid alive found))"

section \<open>Names\<close>

text \<open>
  The name of a directory gives its process back, for every identifier a process can have, and for
  no other: zero and identifiers that are negative as 32-bit numbers are never taken for a process.
\<close>

theorem spill_dir_names_roundtrip:
  "parse_spill_dir_pid (spill_dir_name pid) = (if 0 < pid \<and> pid < 2 ^ 31 then Some pid else None)"
  by (simp add: parse_spill_dir_pid_def spill_dir_name_def strip_prefix_def starts_with_def
      parse_usize_show_nat)

section \<open>Limits\<close>

lemma evict_from_subset: "set (evict_from m b k t fs) \<subseteq> sp_name ` set fs"
  by (induction m b k t fs rule: evict_from.induct) auto

lemma evict_from_bounds:
  assumes "distinct (map sp_name fs)" and "b < 2 ^ 64 - 1"
  shows "k + length (filter (\<lambda>f. sp_name f \<notin> set (evict_from m b k t fs)) fs) \<le> max m k
    \<and> t + sum_list (map sp_size (filter (\<lambda>f. sp_name f \<notin> set (evict_from m b k t fs)) fs)) \<le> max b t"
  using assms(1)
proof (induction fs arbitrary: k t)
  case (Cons f fs)
  let ?left = "\<lambda>k t. filter (\<lambda>f. sp_name f \<notin> set (evict_from m b k t fs)) fs"
  have d: "distinct (map sp_name fs)" "sp_name f \<notin> sp_name ` set fs" using Cons.prems by auto
  show ?case
  proof (cases "k < m \<and> min (2 ^ 64 - 1) (t + sp_size f) \<le> b")
    case True
    have "sp_name f \<notin> set (evict_from m b (k + 1) (t + sp_size f) fs)"
      using evict_from_subset d(2) by blast
    moreover have "evict_from m b k t (f # fs) = evict_from m b (k + 1) (t + sp_size f) fs" using True by auto
    ultimately have "filter (\<lambda>g. sp_name g \<notin> set (evict_from m b k t (f # fs))) (f # fs)
        = f # ?left (k + 1) (t + sp_size f)" by (simp del: evict_from.simps)
    moreover have "t + sp_size f \<le> b" using True assms(2) by linarith
    ultimately show ?thesis using Cons.IH [OF d(1), of "k + 1" "t + sp_size f"] True by simp
  next
    case False
    then have "evict_from m b k t (f # fs) = sp_name f # evict_from m b k t fs" by auto
    moreover have "filter (\<lambda>g. sp_name g \<notin> insert (sp_name f) (set (evict_from m b k t fs))) fs = ?left k t"
      using d(2) by (intro filter_cong refl) (metis image_eqI insert_iff)
    ultimately have "filter (\<lambda>g. sp_name g \<notin> set (evict_from m b k t (f # fs))) (f # fs) = ?left k t" by simp
    then show ?thesis using Cons.IH [OF d(1), of k t] by simp
  qed
qed simp

lemma filter_name_single:
  assumes "distinct (map sp_name fs)" and "f \<in> set fs"
  shows "filter (\<lambda>g. sp_name g = sp_name f) fs = [f]"
  using assms
proof (induction fs)
  case (Cons g fs)
  show ?case
  proof (cases "g = f")
    case True
    then have "filter (\<lambda>g. sp_name g = sp_name f) fs = []" using Cons.prems(1)
      by (simp add: filter_empty_conv) (metis image_eqI)
    then show ?thesis using True by simp
  next
    case False
    then have "f \<in> set fs" "sp_name g \<noteq> sp_name f" using Cons.prems by auto
    then show ?thesis using Cons by simp
  qed
qed simp

lemma write_file_written:
  assumes "distinct (map sp_name fs)"
  shows "distinct (map sp_name (write_file name now content fs))"
    and "\<lparr>sp_name = name, sp_modified = now, sp_content = content\<rparr> \<in> set (write_file name now content fs)"
proof -
  let ?u = "\<lambda>f. if sp_name f = name then f\<lparr>sp_modified := now, sp_content := content\<rparr> else f"
  have "map sp_name (map ?u fs) = map sp_name fs" by simp
  then have "distinct (map sp_name (map ?u fs))" using assms by (simp only:)
  then show "distinct (map sp_name (write_file name now content fs))"
    using assms unfolding write_file_def by (auto simp: list_ex_iff simp del: map_map)
  show "\<lparr>sp_name = name, sp_modified = now, sp_content = content\<rparr> \<in> set (write_file name now content fs)"
  proof (cases "list_ex (\<lambda>f. sp_name f = name) fs")
    case True
    then obtain f where "f \<in> set fs" "sp_name f = name" by (auto simp: list_ex_iff)
    then have "?u f \<in> set (map ?u fs)" "?u f = \<lparr>sp_name = name, sp_modified = now, sp_content = content\<rparr>" by auto
    then show ?thesis using True by (simp add: write_file_def)
  qed (simp add: write_file_def)
qed

lemma mset_one_more:
  fixes g :: "'a \<Rightarrow> nat"
  assumes "mset xs = {#x#} + mset ys"
  shows "length xs = 1 + length ys" and "sum_list (map g xs) = g x + sum_list (map g ys)"
proof -
  show "length xs = 1 + length ys" using arg_cong [OF assms, of size] by simp
  have "sum_mset (image_mset g (mset xs)) = sum_mset (image_mset g (mset (x # ys)))" using assms by simp
  then show "sum_list (map g xs) = g x + sum_list (map g ys)"
    unfolding mset_map [symmetric] sum_mset_sum_list by simp
qed

lemma eviction_keeps:
  assumes "distinct (map sp_name fs)" and "f \<in> set fs" and "b < 2 ^ 64 - 1" and "1 \<le> m"
  defines "gone \<equiv> select_evictions fs m b (Some (sp_name f))"
  shows "sp_name f \<notin> set gone"
    and "length (filter (\<lambda>g. sp_name g \<notin> set gone) fs) \<le> m"
    and "sum_list (map sp_size (filter (\<lambda>g. sp_name g \<notin> set gone) fs)) \<le> max b (sp_size f)"
proof -
  let ?others = "filter (\<lambda>g. sp_name g \<noteq> sp_name f) fs"
  let ?sorted = "sort_key (\<lambda>f. - int (sp_modified f)) ?others"
  have gone: "gone = evict_from m b 1 (sp_size f) ?sorted"
    using filter_name_single [OF assms(1,2)] unfolding gone_def select_evictions_def
    by (simp add: eq_commute [of "sp_name f"] conj_commute)
  have "distinct (map sp_name ?sorted)"
    using assms(1) by (metis distinct_map_filter mset_map mset_sort mset_eq_imp_distinct_iff)
  note bounds = evict_from_bounds [OF this assms(3), of 1 m "sp_size f"]
  show f: "sp_name f \<notin> set gone"
    using evict_from_subset [of m b 1 "sp_size f" ?sorted] by (auto simp: gone)
  have "filter (\<lambda>g. sp_name g \<notin> set gone \<and> sp_name g = sp_name f) fs = [f]"
    using filter_name_single [OF assms(1,2)] f by (metis (mono_tags, lifting) filter_cong)
  then have "mset (filter (\<lambda>g. sp_name g \<notin> set gone) fs)
      = {#f#} + mset (filter (\<lambda>g. sp_name g \<notin> set gone) ?sorted)"
  proof -
    have "mset (filter (\<lambda>g. sp_name g \<notin> set gone) fs)
        = mset (filter (\<lambda>g. sp_name g = sp_name f) (filter (\<lambda>g. sp_name g \<notin> set gone) fs))
          + mset (filter (\<lambda>g. \<not> sp_name g = sp_name f) (filter (\<lambda>g. sp_name g \<notin> set gone) fs))"
      unfolding mset_filter by (rule multiset_partition)
    moreover have "mset (filter (\<lambda>g. sp_name g = sp_name f) (filter (\<lambda>g. sp_name g \<notin> set gone) fs)) = {#f#}"
      using \<open>filter (\<lambda>g. sp_name g \<notin> set gone \<and> sp_name g = sp_name f) fs = [f]\<close>
      by (simp add: conj_commute flip: mset_filter)
    moreover have "mset (filter (\<lambda>g. \<not> sp_name g = sp_name f) (filter (\<lambda>g. sp_name g \<notin> set gone) fs))
        = mset (filter (\<lambda>g. sp_name g \<notin> set gone) ?sorted)"
      by (simp add: filter_filter_mset conj_commute)
    ultimately show ?thesis by (simp only:)
  qed
  from mset_one_more(1) [OF this] mset_one_more(2) [OF this, of sp_size] show "length (filter (\<lambda>g. sp_name g \<notin> set gone) fs) \<le> m"
    and "sum_list (map sp_size (filter (\<lambda>g. sp_name g \<notin> set gone) fs)) \<le> max b (sp_size f)"
    using bounds assms(4) by (simp_all only: gone) linarith+
qed

text \<open>
  C23. Writing an output keeps the directory within its limits: afterwards it holds the output whole under
  the name it returns, at most the allowed number of files, and at most the allowed number of bytes, or
  only as many as the output itself if that alone is more.
\<close>

theorem spill_within_limits:
  assumes "distinct (map sp_name (case dir of None \<Rightarrow> [] | Some fs \<Rightarrow> fs))"
    and "1 \<le> ss_max_files st" and "ss_max_total_bytes st < 2 ^ 64 - 1" and "ss_enabled st"
  shows "case spill_write True True (\<lambda>_. True) now st h content dir of (path, dir') \<Rightarrow>
      path = Some (ss_dir st @ ''/'' @ spill_file_name h)
      \<and> (case dir' of None \<Rightarrow> False | Some fs \<Rightarrow>
          list_ex (\<lambda>f. sp_name f = spill_file_name h \<and> sp_content f = content) fs
          \<and> length fs \<le> ss_max_files st
          \<and> sum_list (map sp_size fs) \<le> max (ss_max_total_bytes st) (length content))"
proof -
  let ?fs = "write_file (spill_file_name h) now content (case dir of None \<Rightarrow> [] | Some fs \<Rightarrow> fs)"
  let ?f = "\<lparr>sp_name = spill_file_name h, sp_modified = now, sp_content = content\<rparr>"
  note written = write_file_written [OF assms(1), of "spill_file_name h" now content]
  note keeps = eviction_keeps [OF written assms(3,2)]
  show ?thesis using written(2) keeps assms(4)
    by (auto simp: spill_write_def enforce_limits_def Let_def list_ex_iff intro!: bexI [of _ ?f])
qed

theorem spill_within_limits_witness:
  "let st = \<lparr>ss_dir = ''/tmp'', ss_enabled = True, ss_max_files = 1, ss_max_total_bytes = 10\<rparr> in
    case spill_write True True (\<lambda>_. True) 3 st 7 ''abc''
        (Some [\<lparr>sp_name = ''old'', sp_modified = 1, sp_content = ''x''\<rparr>]) of
      (path, dir') \<Rightarrow> path = Some (ss_dir st @ ''/'' @ spill_file_name 7)
      \<and> (case dir' of None \<Rightarrow> False | Some fs \<Rightarrow>
          list_ex (\<lambda>f. sp_name f = spill_file_name 7 \<and> sp_content f = ''abc'') fs
          \<and> length fs \<le> ss_max_files st
          \<and> sum_list (map sp_size fs) \<le> max (ss_max_total_bytes st) (length ''abc''))"
  unfolding Let_def by (rule spill_within_limits) simp_all

section \<open>Outputs that share a file\<close>

lemma chars_ascii:
  assumes "list_all (\<lambda>c. \<not> is_cont c) p" and "s = [] \<or> \<not> is_cont (hd s)"
  shows "chars (p @ s) = map (\<lambda>c. [c]) p @ chars s"
  using assms(1)
proof (induction p)
  case (Cons c p)
  have "takeWhile is_cont (p @ s) = [] \<and> dropWhile is_cont (p @ s) = p @ s"
    using Cons.prems assms(2) by (cases p; cases s) auto
  then show ?case using Cons by simp
qed simp

lemma chars_ascii_prefix:
  assumes "list_all (\<lambda>c. \<not> is_cont c) (p @ [c])"
  shows "chars ((p @ [c]) @ s) = map (\<lambda>c. [c]) p @ chars (c # s)"
  using chars_ascii [of p "c # s"] assms by simp

lemma end_within_singles: "end_within m (map (\<lambda>c. [c]) p @ gs) = (if length p \<le> m then p @ end_within (m - length p) gs else take m p)"
  by (induction p arbitrary: m) (auto simp: take_Cons' Suc_diff_le split: nat_diff_split)

lemma begin_before_singles:
  "min m (i + length p) - i \<le> length (begin_before i m (map (\<lambda>c. [c]) p @ gs))"
proof (induction p arbitrary: i)
  case (Cons c p)
  show ?case using Cons.IH [of "Suc i"] by (cases "i < m") (simp_all add: min_def split: if_splits)
qed simp

lemma spilled_hash_shared:
  assumes "list_all (\<lambda>c. \<not> is_cont c) p" and "200 < length p"
  shows "spill_hash H (begin_before 0 spill_limit (chars (p @ x))) (p @ x)
    = H (usize_bytes (length p + length x) @ take 200 p @ [str_end])"
proof -
  obtain q c where p: "p = q @ [c]" using assms(2) by (cases p rule: rev_cases) auto
  have ch: "chars (p @ x) = map (\<lambda>c. [c]) q @ chars (c # x)"
    using chars_ascii_prefix [of q c x] assms(1) p by simp
  have "200 \<le> length (begin_before 0 spill_limit (chars (p @ x)))"
    using begin_before_singles [of spill_limit 0 q "chars (c # x)"] assms(2)
    unfolding ch by (simp add: p spill_limit_def del: chars.simps)
  moreover have "end_within 200 (chars (p @ x)) = take 200 p"
  proof -
    have "end_within 0 (chars (c # x)) = []" by simp
    then show ?thesis using end_within_singles [of 200 q "chars (c # x)"] assms(2)
      unfolding ch by (auto simp: p simp del: chars.simps)
  qed
  ultimately show ?thesis by (simp add: spill_hash_def)
qed

lemma spill_write_kept:
  assumes "distinct (map sp_name (case dir of None \<Rightarrow> [] | Some fs \<Rightarrow> fs))"
    and "1 \<le> ss_max_files st" and "ss_max_total_bytes st < 2 ^ 64 - 1" and "ss_enabled st"
  obtains fs where "spill_write True True (\<lambda>_. True) now st h content dir
      = (Some (ss_dir st @ ''/'' @ spill_file_name h), Some fs)"
    "distinct (map sp_name fs)"
    "map sp_content (filter (\<lambda>f. sp_name f = spill_file_name h) fs) = [content]"
proof -
  let ?fs = "write_file (spill_file_name h) now content (case dir of None \<Rightarrow> [] | Some fs \<Rightarrow> fs)"
  let ?f = "\<lparr>sp_name = spill_file_name h, sp_modified = now, sp_content = content\<rparr>"
  let ?gone = "select_evictions ?fs (ss_max_files st) (ss_max_total_bytes st) (Some (spill_file_name h))"
  note written = write_file_written [OF assms(1), of "spill_file_name h" now content]
  have keep: "spill_file_name h \<notin> set ?gone" using eviction_keeps(1) [OF written assms(3,2)] by simp
  have "filter (\<lambda>g. sp_name g = spill_file_name h) ?fs = [?f]" using filter_name_single [OF written] by simp
  moreover have "filter (\<lambda>g. sp_name g = spill_file_name h) (filter (\<lambda>g. sp_name g \<notin> set ?gone) ?fs)
      = filter (\<lambda>g. sp_name g = spill_file_name h) ?fs"
    unfolding filter_filter using keep by (intro filter_cong) auto
  ultimately have one: "filter (\<lambda>g. sp_name g = spill_file_name h) (filter (\<lambda>g. sp_name g \<notin> set ?gone) ?fs) = [?f]"
    by (simp only:)
  show thesis
    by (rule that [of "filter (\<lambda>g. sp_name g \<notin> set ?gone) ?fs"])
      (use one written(1) assms(4) in \<open>simp_all add: spill_write_def enforce_limits_def Let_def distinct_map_filter\<close>)
qed

text \<open>
  C22. The name of a file is a hash of the length of the output and of the first 200 bytes of what is
  shown, so two outputs of the same length that begin alike share one file: once the second is saved,
  the file that the first was said to be saved in holds the second.
\<close>

theorem later_output_replaces_saved_one:
  fixes H :: byte_hasher
  assumes "list_all (\<lambda>c. \<not> is_cont c) p" and "200 < length p" and "length x = length y"
    and "distinct (map sp_name fs)" and "1 \<le> ss_max_files st" and "ss_max_total_bytes st < 2 ^ 64 - 1"
    and "ss_enabled st"
  shows "(let saved = (\<lambda>out. spill_hash H (begin_before 0 spill_limit (chars out)) out) in
    case spill_write True True (\<lambda>_. True) now st (saved (p @ x)) (p @ x) (Some fs) of
      (path, dir1) \<Rightarrow> (case spill_write True True (\<lambda>_. True) later st (saved (p @ y)) (p @ y) dir1 of
      (path', dir2) \<Rightarrow> path = Some (ss_dir st @ ''/'' @ spill_file_name (saved (p @ x))) \<and> path' = path
        \<and> (case dir2 of None \<Rightarrow> False | Some fs' \<Rightarrow>
            map sp_content (filter (\<lambda>f. sp_name f = spill_file_name (saved (p @ x))) fs') = [p @ y])))"
proof -
  define h where "h = H (usize_bytes (length p + length x) @ take 200 p @ [str_end])"
  note hash = spilled_hash_shared [OF assms(1,2)]
  have "distinct (map sp_name (case Some fs of None \<Rightarrow> [] | Some fs \<Rightarrow> fs))" using assms(4) by simp
  then obtain fs1 where
    one: "spill_write True True (\<lambda>_. True) now st h (p @ x) (Some fs)
      = (Some (ss_dir st @ ''/'' @ spill_file_name h), Some fs1)" "distinct (map sp_name fs1)"
    by (rule spill_write_kept [OF _ assms(5-7)])
  have "distinct (map sp_name (case Some fs1 of None \<Rightarrow> [] | Some fs \<Rightarrow> fs))" using one(2) by simp
  then obtain fs2 where
    two: "spill_write True True (\<lambda>_. True) later st h (p @ y) (Some fs1)
        = (Some (ss_dir st @ ''/'' @ spill_file_name h), Some fs2)"
      "map sp_content (filter (\<lambda>f. sp_name f = spill_file_name h) fs2) = [p @ y]"
    by (rule spill_write_kept [OF _ assms(5-7)])
  have "spill_hash H (begin_before 0 spill_limit (chars (p @ x))) (p @ x) = h"
    "spill_hash H (begin_before 0 spill_limit (chars (p @ y))) (p @ y) = h"
    unfolding hash h_def assms(3) by (rule refl)+
  then show ?thesis by (simp only: Let_def one(1) two prod.case option.case simp_thms)
qed

theorem later_output_replaces_saved_one_witness:
  "(let saved = (\<lambda>out. spill_hash (\<lambda>_. 0) (begin_before 0 spill_limit (chars out)) out);
      p = replicate 201 CHR ''a''; st = \<lparr>ss_dir = ''/tmp'', ss_enabled = True, ss_max_files = 64, ss_max_total_bytes = 1000\<rparr> in
    case spill_write True True (\<lambda>_. True) 1 st (saved (p @ ''b'')) (p @ ''b'') (Some []) of
      (path, dir1) \<Rightarrow> (case spill_write True True (\<lambda>_. True) 2 st (saved (p @ ''c'')) (p @ ''c'') dir1 of
      (path', dir2) \<Rightarrow> path = Some (ss_dir st @ ''/'' @ spill_file_name (saved (p @ ''b''))) \<and> path' = path
        \<and> (case dir2 of None \<Rightarrow> False | Some fs' \<Rightarrow>
            map sp_content (filter (\<lambda>f. sp_name f = spill_file_name (saved (p @ ''b''))) fs') = [p @ ''c''])))"
proof -
  have p: "list_all (\<lambda>c. \<not> is_cont c) (replicate 201 CHR ''a'')" "200 < length (replicate 201 CHR ''a'')"
    by (auto simp only: list_all_iff set_replicate_conv_if length_replicate is_cont.simps split: if_splits)
  let ?st = "\<lparr>ss_dir = ''/tmp'', ss_enabled = True, ss_max_files = 64, ss_max_total_bytes = 1000\<rparr>"
  have "1 \<le> ss_max_files ?st" "ss_max_total_bytes ?st < 2 ^ 64 - 1" "ss_enabled ?st"
    "length ''b'' = length ''c''" "distinct (map sp_name [])" by simp_all
  note later_output_replaces_saved_one [OF p this(4,5) this(1,2,3), where H = "\<lambda>_. 0" and now = 1 and later = 2]
  then show ?thesis unfolding Let_def .
qed

end
