(* ===== verification/Inference_Cache.thy ===== *)
theory Inference_Cache
  imports Tool_Exec
begin

text \<open>
  \<open>src/runtime/cache.rs\<close>: the cache of model answers, with its least used entry evicted when it is full,
  and the backend that asks it before it asks the model. \<open>H\<close> is the hasher over the bytes that are fed
  to it, \<open>bits\<close> gives the bits of a float, and \<open>ord\<close> ranks the keys in the order of iteration.
  The lock cannot be poisoned here, as nothing that holds it panics.
\<close>

section \<open>The cache\<close>

record cache_entry =
  ce_response :: string
  ce_access_count :: nat

record inference_cache =
  ic_cache :: "(64 word, cache_entry) hashmap"
  ic_max_entries :: nat

definition ic_new :: "nat \<Rightarrow> inference_cache" where
  "ic_new n = \<lparr>ic_cache = [], ic_max_entries = n\<rparr>"

definition ic_default :: inference_cache where
  "ic_default = ic_new 100"

definition compute_key :: "byte_hasher \<Rightarrow> string \<Rightarrow> string \<Rightarrow> 64 word" where
  "compute_key H model_id prompt_hash = H (model_id @ [str_end] @ prompt_hash @ [str_end])"

definition ic_get :: "64 word \<Rightarrow> inference_cache \<Rightarrow> string option \<times> inference_cache" where
  "ic_get k c =
    (case hm_get (ic_cache c) k of
       None \<Rightarrow> (None, c)
     | Some x \<Rightarrow> (Some (ce_response x),
         c\<lparr>ic_cache := hm_insert k (x\<lparr>ce_access_count := ce_access_count x + 1\<rparr>) (ic_cache c)\<rparr>))"

text \<open>A hash map is iterated in the order of some ranks of its keys, which may depend on the map.\<close>

type_synonym hash_rank = "(64 word, cache_entry) hashmap \<Rightarrow> 64 word \<Rightarrow> nat"

definition in_order :: "hash_rank \<Rightarrow> (64 word, cache_entry) hashmap \<Rightarrow> (64 word, cache_entry) hashmap" where
  "in_order ord m = sort_key (\<lambda>x. ord m (fst x)) m"

text \<open>\<open>min_by_key\<close> takes the first of the smallest.\<close>

fun least_used :: "(64 word \<times> cache_entry) list \<Rightarrow> 64 word option" where
  "least_used [] = None"
| "least_used [x] = Some (fst x)"
| "least_used (x # y # xs) =
    least_used ((if ce_access_count (snd y) < ce_access_count (snd x) then y else x) # xs)"

definition evict_least_used ::
    "hash_rank \<Rightarrow> inference_cache \<Rightarrow> inference_cache" where
  "evict_least_used ord c =
    (case least_used (in_order ord (ic_cache c)) of
       None \<Rightarrow> c
     | Some k \<Rightarrow> c\<lparr>ic_cache := hm_remove k (ic_cache c)\<rparr>)"

definition ic_put ::
    "hash_rank \<Rightarrow> 64 word \<Rightarrow> string \<Rightarrow> inference_cache \<Rightarrow> inference_cache" where
  "ic_put ord k response c =
    (let c' = (if ic_max_entries c \<le> length (ic_cache c) \<and> hm_get (ic_cache c) k = None
               then evict_least_used ord c else c)
     in c'\<lparr>ic_cache := hm_insert k \<lparr>ce_response = response, ce_access_count = 0\<rparr> (ic_cache c')\<rparr>)"

definition ic_len :: "inference_cache \<Rightarrow> nat" where
  "ic_len c = length (ic_cache c)"

definition ic_is_empty :: "inference_cache \<Rightarrow> bool" where
  "ic_is_empty c = (ic_cache c = [])"

definition ic_clear :: "inference_cache \<Rightarrow> inference_cache" where
  "ic_clear c = c\<lparr>ic_cache := []\<rparr>"

section \<open>The backend\<close>

record generate_result =
  gn_text :: string
  gn_prompt_tokens :: nat
  gn_completion_tokens :: nat
  gn_model_id :: string

definition debug_role :: "role \<Rightarrow> string" where
  "debug_role r =
    (case r of System \<Rightarrow> ''System'' | User \<Rightarrow> ''User'' | Assistant \<Rightarrow> ''Assistant'' | Tool \<Rightarrow> ''Tool'')"

definition compute_prompt_hash :: "byte_hasher \<Rightarrow> message list \<Rightarrow> tool_schema list \<Rightarrow> string" where
  "compute_prompt_hash H ms tools =
    show_hex (unat (H (concat (map (\<lambda>m. debug_role (msg_role m) @ [str_end] @ msg_content m @ [str_end]) ms)
      @ concat (map (\<lambda>t. sc_name t @ [str_end]) tools))))"

definition u32_bytes :: "nat \<Rightarrow> string" where
  "u32_bytes n = map (\<lambda>i. char_of (n div 256 ^ i)) [0..<4]"

definition compute_prompt_hash_with_params ::
    "byte_hasher \<Rightarrow> (rat \<Rightarrow> 64 word) \<Rightarrow> message list \<Rightarrow> tool_schema list \<Rightarrow> inference_params \<Rightarrow> string" where
  "compute_prompt_hash_with_params H bits ms tools p =
    show_hex (unat (H (compute_prompt_hash H ms tools @ [str_end]
      @ usize_bytes (unat (bits (ip_temperature p))) @ usize_bytes (unat (bits (ip_top_p p)))
      @ u32_bytes (ip_top_k p) @ usize_bytes (unat (bits (ip_min_p p)))
      @ u32_bytes (ip_max_tokens p) @ usize_bytes (unat (bits (ip_repeat_penalty p))))))"

text \<open>Both methods of the backend, which differ in the key and in what they ask of the model.\<close>

definition cached_reply ::
    "hash_rank \<Rightarrow> string \<Rightarrow> 64 word
     \<Rightarrow> ('w \<Rightarrow> (string + generate_result) \<times> 'w) \<Rightarrow> inference_cache \<Rightarrow> 'w
     \<Rightarrow> (string + generate_result) \<times> inference_cache \<times> 'w" where
  "cached_reply ord model_id k inner c w =
    (case ic_get k c of
       (Some cached, c') \<Rightarrow>
         (Inr \<lparr>gn_text = cached, gn_prompt_tokens = 0, gn_completion_tokens = 0, gn_model_id = model_id\<rparr>, c', w)
     | (None, c') \<Rightarrow>
         (case inner w of
            (Inl err, w') \<Rightarrow> (Inl err, c', w')
          | (Inr r, w') \<Rightarrow> (Inr r, ic_put ord k (gn_text r) c', w')))"

definition cached_generate ::
    "hash_rank \<Rightarrow> byte_hasher \<Rightarrow> string
     \<Rightarrow> (message list \<Rightarrow> tool_schema list \<Rightarrow> 'w \<Rightarrow> (string + generate_result) \<times> 'w)
     \<Rightarrow> message list \<Rightarrow> tool_schema list \<Rightarrow> inference_cache \<Rightarrow> 'w
     \<Rightarrow> (string + generate_result) \<times> inference_cache \<times> 'w" where
  "cached_generate ord H model_id inner ms tools c w =
    cached_reply ord model_id (compute_key H model_id (compute_prompt_hash H ms tools)) (inner ms tools) c w"

definition cached_generate_with_params ::
    "hash_rank \<Rightarrow> byte_hasher \<Rightarrow> (rat \<Rightarrow> 64 word) \<Rightarrow> string
     \<Rightarrow> (message list \<Rightarrow> tool_schema list \<Rightarrow> inference_params \<Rightarrow> 'w \<Rightarrow> (string + generate_result) \<times> 'w)
     \<Rightarrow> message list \<Rightarrow> tool_schema list \<Rightarrow> inference_params \<Rightarrow> inference_cache \<Rightarrow> 'w
     \<Rightarrow> (string + generate_result) \<times> inference_cache \<times> 'w" where
  "cached_generate_with_params ord H bits model_id inner ms tools p c w =
    cached_reply ord model_id (compute_key H model_id (compute_prompt_hash_with_params H bits ms tools p))
      (inner ms tools p) c w"

section \<open>A cache that may drop entries\<close>

text \<open>What a client may rely on: a lookup answers only what was put last for the key.\<close>

datatype ('k, 'v) lossy_op = Lossy_Put 'k 'v | Lossy_Touch 'k

definition last_put :: "('k, 'v) lossy_op list \<Rightarrow> 'k \<Rightarrow> 'v option" where
  "last_put ops k = fold (\<lambda>p m. case p of Lossy_Put k' v \<Rightarrow> (if k' = k then Some v else m) | Lossy_Touch k' \<Rightarrow> m) ops None"

locale lossy_cache =
  fixes peek :: "'c \<Rightarrow> 'k \<Rightarrow> 'v option"
    and put :: "'k \<Rightarrow> 'v \<Rightarrow> 'c \<Rightarrow> 'c"
    and touch :: "'k \<Rightarrow> 'c \<Rightarrow> 'c"
    and entries :: "'c \<Rightarrow> nat"
    and bound :: nat
    and ok :: "'c \<Rightarrow> bool"
  assumes peek_put_same: "peek (put k v c) k = Some v"
    and peek_put_other: "k' \<noteq> k \<Longrightarrow> peek (put k v c) k' = Some v' \<Longrightarrow> peek c k' = Some v'"
    and peek_touch: "peek (touch k c) k' = peek c k'"
    and bounded_put: "ok c \<Longrightarrow> ok (put k v c) \<and> entries (put k v c) \<le> bound"
    and bounded_touch: "ok c \<Longrightarrow> ok (touch k c) \<and> entries (touch k c) = entries c"
begin

definition lossy_run :: "('k, 'v) lossy_op list \<Rightarrow> 'c \<Rightarrow> 'c" where
  "lossy_run ops c = fold (\<lambda>p c. case p of Lossy_Put k v \<Rightarrow> put k v c | Lossy_Touch k \<Rightarrow> touch k c) ops c"

lemma peek_run:
  assumes "\<And>k. peek c k = None" and "peek (lossy_run ops c) k = Some v"
  shows "last_put ops k = Some v"
  using assms(2)
proof (induction ops arbitrary: v rule: rev_induct)
  case (snoc p ops)
  show ?case
  proof (cases p)
    case (Lossy_Put k' v')
    show ?thesis
    proof (cases "k' = k")
      case True
      then show ?thesis using snoc.prems Lossy_Put by (simp add: lossy_run_def last_put_def peek_put_same)
    next
      case False
      have "peek (lossy_run ops c) k = Some v"
        using peek_put_other [of k k' v' "lossy_run ops c" v] snoc.prems Lossy_Put False
        by (auto simp: lossy_run_def)
      then show ?thesis using snoc.IH False Lossy_Put by (simp add: last_put_def)
    qed
  next
    case (Lossy_Touch k')
    then show ?thesis using snoc by (simp add: lossy_run_def last_put_def peek_touch)
  qed
qed (simp add: lossy_run_def assms(1))

lemma bounded_run:
  assumes "ok c" and "entries c \<le> bound"
  shows "ok (lossy_run ops c) \<and> entries (lossy_run ops c) \<le> bound"
  using assms(1,2)
  by (induction ops rule: rev_induct)
    (auto simp: lossy_run_def bounded_put bounded_touch split: lossy_op.split)

end

section \<open>The inference cache is one\<close>

lemma least_used_in: "least_used xs = Some k \<Longrightarrow> k \<in> fst ` set xs"
  by (induction xs rule: least_used.induct) (auto split: if_splits)

lemma least_used_exists: "xs \<noteq> [] \<Longrightarrow> least_used xs \<noteq> None"
  by (induction xs rule: least_used.induct) auto

lemma length_hm_remove:
  "hm_wf m \<Longrightarrow> k \<in> fst ` set m \<Longrightarrow> length (hm_remove k m) = length m - 1"
proof (induction m)
  case (Cons x m)
  show ?case
  proof (cases "fst x = k")
    case True
    then have "k \<notin> fst ` set m" using Cons.prems(1) by (simp add: hm_wf_def)
    then have "hm_remove k m = m" by (rule delete_id)
    then show ?thesis using True by simp
  next
    case False
    then have "k \<in> fst ` set m" using Cons.prems(2) by auto
    then have "length (hm_remove k m) = length m - 1" "m \<noteq> []"
      using Cons by (auto simp: hm_wf_def)
    then show ?thesis using False by (cases m) (simp_all split: prod.split)
  qed
qed simp

lemma length_hm_insert: "length (hm_insert k v m) = (if hm_get m k = None then Suc (length m) else length m)"
  by (induction m) auto

definition cache_ok :: "nat \<Rightarrow> inference_cache \<Rightarrow> bool" where
  "cache_ok n c = (hm_wf (ic_cache c) \<and> ic_max_entries c = n)"

definition ic_peek :: "inference_cache \<Rightarrow> 64 word \<Rightarrow> string option" where
  "ic_peek c k = map_option ce_response (hm_get (ic_cache c) k)"

definition ic_touch :: "64 word \<Rightarrow> inference_cache \<Rightarrow> inference_cache" where
  "ic_touch k c = snd (ic_get k c)"

lemma evict_peek: "ic_peek (evict_least_used ord c) k = Some v \<Longrightarrow> ic_peek c k = Some v"
  by (auto simp: evict_least_used_def ic_peek_def hm_simps split: option.splits if_splits)

lemma in_order_Nil: "in_order ord m = [] \<longleftrightarrow> m = []"
  by (metis in_order_def length_0_conv length_sort)

lemma evict_ok:
  assumes "cache_ok n c"
  shows "cache_ok n (evict_least_used ord c)"
    and "ic_cache c \<noteq> [] \<Longrightarrow> ic_len (evict_least_used ord c) = ic_len c - 1"
proof -
  show "cache_ok n (evict_least_used ord c)"
    using assms by (simp add: cache_ok_def evict_least_used_def split: option.split)
  assume "ic_cache c \<noteq> []"
  then obtain k where k: "least_used (in_order ord (ic_cache c)) = Some k"
    using least_used_exists [of "in_order ord (ic_cache c)"] in_order_Nil by blast
  then have "k \<in> fst ` set (ic_cache c)" using least_used_in [OF k] by (simp add: in_order_def)
  then show "ic_len (evict_least_used ord c) = ic_len c - 1"
    using k assms by (simp add: evict_least_used_def ic_len_def cache_ok_def length_hm_remove)
qed

lemma ic_put_ok:
  assumes "cache_ok n c" and "ic_len c \<le> max 1 n"
  shows "cache_ok n (ic_put ord k v c) \<and> ic_len (ic_put ord k v c) \<le> max 1 n"
proof -
  define full where "full = (n \<le> ic_len c \<and> hm_get (ic_cache c) k = None)"
  define c' where "c' = (if full then evict_least_used ord c else c)"
  have put: "ic_put ord k v c = c'\<lparr>ic_cache := hm_insert k \<lparr>ce_response = v, ce_access_count = 0\<rparr> (ic_cache c')\<rparr>"
    using assms(1) by (simp add: ic_put_def c'_def full_def Let_def ic_len_def cache_ok_def)
  have "cache_ok n c'" using evict_ok(1) assms(1) by (simp add: c'_def)
  moreover have "ic_len c' < max 1 n \<or> hm_get (ic_cache c') k \<noteq> None \<and> ic_len c' \<le> max 1 n"
  proof (cases full)
    case True
    show ?thesis
    proof (cases "ic_cache c = []")
      case True
      then have "evict_least_used ord c = c" by (simp add: evict_least_used_def in_order_def)
      then show ?thesis using True by (simp add: c'_def ic_len_def)
    next
      case False
      then have "ic_len c' = ic_len c - 1" using evict_ok(2) [OF assms(1)] True by (simp add: c'_def)
      moreover have "0 < ic_len c" using False by (simp add: ic_len_def)
      ultimately show ?thesis using assms(2) by linarith
    qed
  next
    case False
    then show ?thesis using assms(2) by (auto simp: c'_def full_def)
  qed
  ultimately show ?thesis
    by (auto simp: put cache_ok_def ic_len_def length_hm_insert)
qed

interpretation inference: lossy_cache ic_peek "ic_put ord" ic_touch ic_len "max 1 n"
  "\<lambda>c. cache_ok n c \<and> ic_len c \<le> max 1 n" for ord n
proof
  show "ic_peek (ic_put ord k v c) k = Some v" for k v c
    by (simp add: ic_peek_def ic_put_def Let_def hm_simps)
  show "k' \<noteq> k \<Longrightarrow> ic_peek (ic_put ord k v c) k' = Some v' \<Longrightarrow> ic_peek c k' = Some v'" for k k' v v' c
    using evict_peek [of ord c k' v']
    by (auto simp: ic_peek_def ic_put_def Let_def hm_simps split: if_splits)
  show "ic_peek (ic_touch k c) k' = ic_peek c k'" for k k' c
    by (simp add: ic_peek_def ic_touch_def ic_get_def hm_simps split: option.split)
  show "cache_ok n c \<and> ic_len c \<le> max 1 n
      \<Longrightarrow> (cache_ok n (ic_put ord k v c) \<and> ic_len (ic_put ord k v c) \<le> max 1 n)
        \<and> ic_len (ic_put ord k v c) \<le> max 1 n" for k v c
    using ic_put_ok by blast
  show "cache_ok n c \<and> ic_len c \<le> max 1 n
      \<Longrightarrow> (cache_ok n (ic_touch k c) \<and> ic_len (ic_touch k c) \<le> max 1 n) \<and> ic_len (ic_touch k c) = ic_len c"
    for k c
    by (auto simp: cache_ok_def ic_touch_def ic_get_def ic_len_def length_hm_insert split: option.split)
qed

section \<open>A run of requests\<close>

text \<open>A request is its key with what the model would answer; the hist says whether the model was asked.\<close>

type_synonym 'w cache_request = "64 word \<times> ('w \<Rightarrow> (string + generate_result) \<times> 'w)"

type_synonym serve_log = "(64 word \<times> bool \<times> (string + generate_result)) list"

definition serve_one ::
    "hash_rank \<Rightarrow> string \<Rightarrow> 'w cache_request \<Rightarrow> serve_log \<times> inference_cache \<times> 'w
     \<Rightarrow> serve_log \<times> inference_cache \<times> 'w" where
  "serve_one ord model_id q s =
    (case (q, s) of ((k, inner), (hist, c, w)) \<Rightarrow>
      (case cached_reply ord model_id k inner c w of
         (r, c', w') \<Rightarrow> (hist @ [(k, hm_get (ic_cache c) k = None, r)], c', w')))"

definition serve_all ::
    "hash_rank \<Rightarrow> string \<Rightarrow> 'w cache_request list \<Rightarrow> nat \<Rightarrow> 'w \<Rightarrow> serve_log \<times> inference_cache \<times> 'w" where
  "serve_all ord model_id qs n w = fold (serve_one ord model_id) qs ([], ic_new n, w)"

definition op_of :: "64 word \<times> bool \<times> (string + generate_result) \<Rightarrow> (64 word, string) lossy_op" where
  "op_of x = (case x of (k, True, Inr r) \<Rightarrow> Lossy_Put k (gn_text r) | (k, _, _) \<Rightarrow> Lossy_Touch k)"

text \<open>An answer that did not come from the model is the text it answered last for the key.\<close>

definition repeats_model :: "serve_log \<Rightarrow> nat \<Rightarrow> bool" where
  "repeats_model hist i =
    (case hist ! i of
       (k, False, Inr r) \<Rightarrow> last_put (map op_of (take i hist)) k = Some (gn_text r)
     | (k, False, Inl err) \<Rightarrow> False
     | _ \<Rightarrow> True)"

lemma serve_all_cache:
  "case serve_all ord model_id qs n w of (hist, c, w') \<Rightarrow>
    c = inference.lossy_run ord (map op_of hist) (ic_new n)
    \<and> list_all (repeats_model hist) [0..<length hist]"
proof (induction qs rule: rev_induct)
  case Nil
  show ?case by (simp add: serve_all_def inference.lossy_run_def)
next
  case (snoc q qs)
  obtain hist c w1 where before: "serve_all ord model_id qs n w = (hist, c, w1)" by (metis prod_cases3)
  obtain k inner where q: "q = (k, inner)" by fastforce
  have c: "c = inference.lossy_run ord (map op_of hist) (ic_new n)"
    and ok: "list_all (repeats_model hist) [0..<length hist]" using snoc.IH before by auto
  have after: "serve_all ord model_id (qs @ [q]) n w = serve_one ord model_id q (hist, c, w1)"
    using before by (simp add: serve_all_def)
  have keep: "repeats_model (hist @ [x]) i = repeats_model hist i" if "i < length hist" for x i
  proof -
    have "(hist @ [x]) ! i = hist ! i" "take i (hist @ [x]) = take i hist" using that by (simp_all add: nth_append)
    then show ?thesis by (simp only: repeats_model_def)
  qed
  have grow: "list_all (repeats_model (hist @ [x])) [0..<length (hist @ [x])] = repeats_model (hist @ [x]) (length hist)" for x
    using ok keep by (auto simp: list_all_iff)
  have run: "inference.lossy_run ord (map op_of (hist @ [x])) (ic_new n)
      = (case op_of x of Lossy_Put k v \<Rightarrow> ic_put ord k v c | Lossy_Touch k \<Rightarrow> ic_touch k c)" for x
    unfolding c by (simp add: inference.lossy_run_def split: lossy_op.split)
  have last: "repeats_model (hist @ [x]) (length hist) = (case x of
      (k, False, Inr r) \<Rightarrow> last_put (map op_of hist) k = Some (gn_text r)
    | (k, False, Inl err) \<Rightarrow> False | _ \<Rightarrow> True)" for x
  proof -
    have "(hist @ [x]) ! length hist = x" "take (length hist) (hist @ [x]) = hist" by simp_all
    then show ?thesis by (simp only: repeats_model_def)
  qed
  have step: "?case"
    if one: "serve_one ord model_id q (hist, c, w1) = (hist @ [x], c2, w2)"
      and c2: "c2 = (case op_of x of Lossy_Put k v \<Rightarrow> ic_put ord k v c | Lossy_Touch k \<Rightarrow> ic_touch k c)"
      and new: "repeats_model (hist @ [x]) (length hist)" for x c2 w2
  proof -
    have "list_all (repeats_model (hist @ [x])) [0..<length (hist @ [x])]" unfolding grow by (rule new)
    then show ?thesis unfolding after one c2 by (simp only: run prod.case simp_thms)
  qed
  show ?case
  proof (cases "hm_get (ic_cache c) k")
    case None
    obtain r w2 where r: "inner w1 = (r, w2)" by fastforce
    have touch: "ic_touch k c = c" by (simp add: ic_touch_def ic_get_def None)
    show ?thesis
    proof (cases r)
      case (Inl err)
      show ?thesis
        by (rule step [of "(k, True, Inl err)" c w2])
          (simp_all add: serve_one_def q cached_reply_def ic_get_def None r Inl op_of_def touch last)
    next
      case (Inr x)
      show ?thesis
        by (rule step [of "(k, True, Inr x)" "ic_put ord k (gn_text x) c" w2])
          (simp_all add: serve_one_def q cached_reply_def ic_get_def None r Inr op_of_def last)
    qed
  next
    case (Some x)
    let ?r = "\<lparr>gn_text = ce_response x, gn_prompt_tokens = 0, gn_completion_tokens = 0, gn_model_id = model_id\<rparr>"
    have "ic_peek c k = Some (ce_response x)" by (simp add: ic_peek_def Some)
    then have "last_put (map op_of hist) k = Some (ce_response x)"
      unfolding c by (rule inference.peek_run [rotated]) (simp add: ic_peek_def ic_new_def)
    then show ?thesis
      by (intro step [of "(k, False, Inr ?r)" "ic_touch k c" w1])
        (simp_all add: serve_one_def q cached_reply_def ic_get_def Some op_of_def ic_touch_def last)
  qed
qed

text \<open>
  C24. Over any run of requests, the cache never grows beyond its size (or one entry), every answer it
  gives without asking the model is the text the model gave last for the same key, and it never
  answers an error on its own.
\<close>

theorem cached_answers_repeat_the_model:
  "case serve_all ord model_id qs n w of (hist, c, w') \<Rightarrow>
    ic_len c \<le> max 1 n \<and> list_all (repeats_model hist) [0..<length hist]"
proof -
  obtain hist c w' where s: "serve_all ord model_id qs n w = (hist, c, w')" by (metis prod_cases3)
  have "c = inference.lossy_run ord (map op_of hist) (ic_new n)" "list_all (repeats_model hist) [0..<length hist]"
    using serve_all_cache [where qs = qs and w = w and ord = ord and model_id = model_id and n = n] by (simp_all add: s)
  moreover have "ic_len (inference.lossy_run ord (map op_of hist) (ic_new n)) \<le> max 1 n"
    using inference.bounded_run [of n "ic_new n" ord "map op_of hist"]
    by (simp add: cache_ok_def ic_new_def ic_len_def)
  ultimately show ?thesis by (simp add: s)
qed

end
