(* ===== verification/Spec2Isabelle.thy ===== *)
theory Spec2Isabelle
  imports Repl Compaction_Facts Parse_Facts Fallback File_Facts Run_Record Supervisor Subagent_Facts Spill_Store Inference_Cache
begin

text \<open>
  \<^bold>\<open>Bonsai-agent.\<close> The program (Rust, \<open>src/\<close>) is an agent: it puts a request to a local language
  model, parses the model's output into an answer or tool calls, checks and executes the calls,
  tells the model the results, and repeats until the model answers, the program gives up, or a
  budget is spent. This development models that loop and the parts it is made of.

  \<^bold>\<open>Parts and theories, in the order of the program.\<close>
  \<^item> \<open>Prelude\<close>, \<open>Std_Path\<close>, \<open>Soft_Float\<close>, \<open>Messages\<close>, \<open>Interfaces\<close>: Rust's strings as UTF-8
    bytes, hash maps as association lists, bounded histories; paths; floats; the texts; the locales.
  \<^item> \<open>Conversation\<close> (\<open>domain/conversation.rs\<close>): messages, calls, sessions, JSON values.
  \<^item> \<open>Error_Recovery\<close>, \<open>Structured_Feedback\<close> (\<open>agent/error_recovery.rs\<close>): failure modes and the
    recovery chosen for them, the trial summary, the circuit breaker, the detectors of loops, of
    alternating edits and of files that get stuck.
  \<^item> \<open>Compaction\<close> with \<open>Compaction_Facts\<close>, \<open>Working_Memory\<close> (\<open>agent/compaction.rs\<close>,
    \<open>agent/working_memory.rs\<close>): what is done when the conversation outgrows its budget.
  \<^item> \<open>Parse\<close> with \<open>Parse_Facts\<close> (\<open>agent/parse.rs\<close>, \<open>agent/xml_toolcall.rs\<close>): the output parser.
  \<^item> \<open>Safety\<close>, \<open>Path_Guard\<close>, \<open>Validate\<close> (\<open>safety/\<close>, \<open>tools/permission.rs\<close>,
    \<open>tools/whitelist.rs\<close>, \<open>agent/validate.rs\<close>): permissions, autonomy, denied paths, URLs, and the
    validation of a call before it runs.
  \<^item> \<open>Tool_Registry\<close> (\<open>tools/mod.rs\<close>): the registry, the choice of tools shown to the model and the
    cache of results.
  \<^item> \<open>Magi\<close> (\<open>agent/magi\<close>, \<open>memory/consistency.rs\<close>): the panel of judges.
  \<^item> \<open>Model_Router\<close>, \<open>Fallback\<close> (\<open>runtime/model_router.rs\<close>, \<open>runtime/inference.rs\<close>): the advisor,
    the critic's configuration, the chain of backends under interleaved threads, and the backend
    that drives it.
  \<^item> \<open>Agent_State\<close>, \<open>Agent_Support\<close> (\<open>agent/agent_loop/state.rs\<close>, \<open>config.rs\<close>, \<open>support.rs\<close>): the
    state of the loop, its budgets and detectors, and the record of what happened.
  \<^item> \<open>Context_Inject\<close>, \<open>Middleware\<close> (\<open>agent/context_inject.rs\<close>, \<open>agent/middleware.rs\<close>): the system
    messages a session starts with, and the hooks before and after a step.
  \<^item> \<open>Tool_Exec\<close> with \<open>Tool_Exec_Facts\<close> (\<open>agent/tool_exec.rs\<close>): executing the calls of a step.
  \<^item> \<open>Agent_Step\<close>, \<open>Agent_Outcome\<close>, \<open>Agent_Loop\<close> (\<open>agent_loop/step.rs\<close>, \<open>outcome.rs\<close>,
    \<open>advisor_inject.rs\<close>, \<open>core.rs\<close>): one step, what follows from its outcome, and the loop; with
    \<open>Step_Facts\<close>, \<open>Loop_Facts\<close> and \<open>Run_Properties\<close>.
  \<^item> \<open>Fast_Path\<close>, \<open>Repl\<close> with \<open>Repl_Messages\<close> (\<open>agent/fast_path.rs\<close>, \<open>agent_loop/repl.rs\<close>): the
    interactive session: a run of the loop for every line that neither the fast path nor a command answers.
  \<^item> \<open>File_Tools\<close> with \<open>File_Facts\<close> (\<open>tools/file.rs\<close>, \<open>typed.rs\<close>): reading, writing and editing files.
  \<^item> \<open>Event_Store\<close> with \<open>Event_Facts\<close>, \<open>Run_Record\<close> (\<open>domain/event.rs\<close>, \<open>agent/event_store.rs\<close>,
    \<open>memory/mocks\<close>): the table of events, its in-memory twin, and what a run leaves in it.
  \<^item> \<open>Task_Store\<close>, \<open>Subagent\<close> with \<open>Subagent_Facts\<close> (\<open>agent/task.rs\<close>, \<open>subagent.rs\<close>): tasks, and loops
    that run on behalf of a loop.
  \<^item> \<open>Spill_Store\<close>, \<open>Inference_Cache\<close>, \<open>Supervisor\<close>, \<open>Model_Profile\<close> (\<open>agent/tool_spill.rs\<close>,
    \<open>runtime/cache.rs\<close>, \<open>process_supervisor.rs\<close>, \<open>supervised_backend.rs\<close>, \<open>domain/model_profile.rs\<close>,
    \<open>config.rs\<close>): saved outputs, cached answers, the server process and its watchdog, models.
  \<^item> \<open>Sql\<close>: the part of SQLite the stores use: order, limits, \<open>LIKE\<close>, groups, tables with identifiers.
  \<^item> \<open>Knowledge_Graph\<close> with \<open>Graph_Facts\<close>, \<open>Experience_Store\<close>, \<open>Skill_Store\<close>, \<open>Memory_Store\<close> with
    \<open>Memory_Facts\<close> (\<open>memory/graph.rs\<close>, \<open>experience.rs\<close>, \<open>dreams.rs\<close>, \<open>skill.rs\<close>, \<open>store.rs\<close>,
    \<open>db/schema.rs\<close>): what the agent remembers, and the one database that holds it.
  \<^item> \<open>Vault\<close> (\<open>knowledge/vault.rs\<close>, \<open>extractor.rs\<close>): the files of collected knowledge.
  \<^item> \<open>Sensors\<close> (\<open>agent/sensors\<close>), \<open>Dmn\<close> (\<open>agent/dmn\<close>): what is perceived, and the thoughts in the
    background, both written into the memory store.

  \<^bold>\<open>How they interact.\<close> \<open>run_agent_loop_with_session\<close> prepares the session (the user's message and
  the injected context) and enters \<open>loop_from\<close>. An iteration runs the middlewares before the step
  (compaction), caps the messages, executes the step (the model is asked with \<open>Tool_Registry\<close>'s
  choice; \<open>Parse\<close> reads its output; \<open>Magi\<close> judges answers; \<open>Validate\<close>, the loop detector and the
  panel vet calls; \<open>Tool_Exec\<close> executes them under \<open>Safety\<close>'s policy), and hands the outcome to
  \<open>Agent_Outcome\<close>, which records it, runs the middlewares after the step, and asks advisor and
  critic. A sub-agent is the same loop under an environment narrowed to its role. The interactive
  session runs the loop again and again over one state. Sensors and background worker run beside it;
  they share the memory store and, by the flag of the session, know when it is busy.

  \<^bold>\<open>State.\<close> The record \<open>agent\<close> holds \<open>LoopState\<close> field by field, the messages of the session, the
  log of operations on the memory store and the state \<open>'w\<close> of the outside world. A history
  (\<open>ag_trace\<close>), which the code does not keep, records in order every question to the model with who asked
  it and what it answered, every call of a tool, and every consultation of the advisor; the properties
  of runs speak of it. The loop is a program in \<open>State_Monad\<close> over it. The record \<open>env\<close> is everything the loop is called with or asks
  for: the model, the tools, the clock, the cancellation flag, the user's confirmation, the external
  advisor, the store's queries, the regular expressions of the \<open>regex\<close> crate, the JSON decoder, the
  hash function. Each answer is a function of the world and may change it, so nothing is assumed of
  it. An error or a panic is the left side of a sum. Machine integers that the code compares or
  counts with and that are bounded by the length of a list are natural numbers; hashes, atomic
  counters and addresses are words.

  \<^bold>\<open>What is shown.\<close>
  \<^item> \<open>Run_Properties\<close>: for every world, model and configuration, a run calls only tools that exist,
    that passed every check and that the policy permits, and each in reply to the output the model gave
    last; every prompt of a step fits the budget and
    the cap; the run ends; the end of a session is recorded once unless the backend failed; an answer
    was approved by the panel, and by the critic or its budget; the consultations of the
    advisor and the answers of the critic in the history stay in their budgets; an unusable model is dropped after at most four questions. Where the code does
    something it does not mean to, the property says what it does (\<open>late_parse_error_aborts\<close>,
    \<open>critic_objection_costs_the_answer\<close>).
  \<^item> \<open>Tool_Exec_Facts\<close>: under every schedule of a parallel batch, calls are answered in order and
    only permitted tools run; which results the cache can answer.
  \<^item> \<open>Error_Recovery\<close>: the detectors refine predicates on the whole history of events.
  \<^item> \<open>Compaction_Facts\<close>, \<open>Working_Memory\<close>: what each level and the cap keep and lose.
  \<^item> \<open>Parse_Facts\<close>: canonical output is read back; the inputs on which the parser fails.
  \<^item> \<open>Fallback\<close>: invariants of the chain under every interleaving, and when the backend succeeds.
  \<^item> \<open>Repl\<close>: what holds of one run, for whole sessions; the fast answers keep their distance.
  \<^item> \<open>File_Facts\<close>, \<open>Event_Facts\<close>, \<open>Run_Record\<close>: several edits all or nothing as far as writing the old
    contents back succeeds, the two distances agree, the two event stores agree, and the trajectory read back from the events of a run.
  \<^item> \<open>Subagent_Facts\<close>, \<open>Task_Store\<close>: sub-agents stay within what the parent may do and close their tasks.
  \<^item> \<open>Spill_Store\<close>, \<open>Inference_Cache\<close>, \<open>Supervisor\<close>: limits, eviction and counting, the last under every
    interleaving with the watchdog.
  \<^item> \<open>Graph_Facts\<close>, \<open>Memory_Facts\<close>, \<open>Skill_Store\<close>: after any sequence of operations identifiers are distinct and
    the links, messages and edges of the database lead to rows (a vector may outlive its memory), a session loads as it was saved, and the search in the graph finds
    exactly the nodes within its depth; skills whose names collide are promoted forever.
  \<^item> \<open>Sensors\<close>, \<open>Dmn\<close>: secrets stay out of events, logs and memories under every schedule of the sensor
    threads; thoughts keep their distance and write only when they may.
  \<^item> \<open>Path_Guard\<close>, \<open>Safety\<close>, \<open>Validate\<close>, \<open>Tool_Registry\<close>, \<open>Magi\<close>, \<open>Context_Inject\<close>: what the guards
    accept, selection, cache (by tool and arguments) and panel against their specifications, and the removal of what was
    injected.

  \<^bold>\<open>Interfaces.\<close> \<open>Interfaces\<close> states the contracts several parts share as locales: failures counted
  per key (\<open>failure_counter\<close>: the circuit breaker and the stuck guard), histories of bounded length
  (\<open>bounded_history\<close>), caches that may forget (\<open>forgetting_cache\<close>, \<open>lossy_cache\<close>: the results of tools and
  of the model), the queries on events (\<open>event_repository\<close>: the table and its twin), and relations kept
  by programs of the state monad (\<open>step_relation\<close>: the facts on steps and runs). Each is interpreted on
  the program's own operations by its provider.

  \<^bold>\<open>Bounds.\<close> No fuel is chosen by the model. The loop recurses on the iterations that are left
  (\<open>max_iterations\<close>), which is the bound of the code; every inner loop is structural or has a
  measure: the search in the graph twice the nodes not yet visited plus the length of its queue. An
  iteration asks the model at most twice: for the step and for the critic. The loops that run until they
  are cancelled (sensors, background worker, interactive session) recurse on the list of what they
  observe, so what is shown holds after every number of rounds.

  \<^bold>\<open>Not modelled.\<close> Output to the terminal other than that of the interactive session, and the log
  stream. Regular expressions, the JSON decoder, the URL parser, embeddings, HTTP, processes, the
  full-text index and the file format of SQLite, which are arguments; errors of the database other than
  violated references. The harness of benchmarks and experiments, which drives the modelled loop over
  fixed tasks and compares scores; the heuristics with their decay and review, fact checking, ingestion
  and the hybrid search, which rest on models and embedders; concept pages and the lint of the vault,
  which are texts of the model and checks of their form; the tools other than those for files, the HTTP
  clients, the command line, the configuration file and the servers, which are input and output.
\<close>

end
